(* ===== verification/Prelude.thy ===== *)
theory Prelude
  imports Complex_Main "HOL-Library.Multiset"
begin

text \<open>
  Shared vocabulary of the development: the number types the JavaScript server uses,
  the JavaScript idioms that recur in the route handlers (\<open>x || d\<close>, \<open>Math.max(0, e)\<close>,
  NeDB's update of the first matching document, \<open>String(n).padStart(w, '0')\<close>), and the
  generic list and arithmetic lemmas the component theories share.  The collection
  \<open>pos_simps\<close> gathers the equations the component proofs unfold together.
\<close>

named_theorems pos_simps "equations of the point-of-sale model unfolded by the component proofs"

section \<open>Value types\<close>

text \<open>
  Document identifiers of the NeDB collections (\<open>_id\<close>) are modelled as natural numbers;
  amounts of money (prices, totals, payments, credit amounts) as rationals, which is the
  exact value a JavaScript number denotes when no rounding takes place; stock quantities
  and loyalty points as integers (they come from \<open>parseInt\<close> or integer arithmetic, and
  the code can drive them below zero, so they are not \<open>nat\<close>); timestamps
  (\<open>new Date()\<close>) as natural numbers.
\<close>

type_synonym docid = nat
type_synonym money = rat
type_synonym qty = int
type_synonym time = nat

text \<open>Times are milliseconds since the epoch (\<open>Date.now()\<close>); a day is \<open>1000 * 60 * 60 * 24\<close> of them.\<close>

definition day_ms :: nat where
  "day_ms = 86400000"

section \<open>JavaScript idioms\<close>

text \<open>\<open>x || d\<close> on a number: \<open>d\<close> when \<open>x\<close> is falsy (0; an absent field reads as 0 here).\<close>

definition js_or :: "'a::zero \<Rightarrow> 'a \<Rightarrow> 'a" where
  "js_or x d = (if x = 0 then d else x)"

text \<open>\<open>parseFloat(x) || d\<close> and \<open>parseInt(x) || d\<close>: \<open>None\<close> is an absent or unparsable
  value (\<open>NaN\<close>), which is falsy like 0.\<close>

definition js_num :: "'a::zero option \<Rightarrow> 'a \<Rightarrow> 'a" where
  "js_num x d = (case x of None \<Rightarrow> d | Some v \<Rightarrow> js_or v d)"

text \<open>\<open>x || ''\<close> on an optional string: absent or empty gives the default.\<close>

definition str_or :: "string option \<Rightarrow> string \<Rightarrow> string" where
  "str_or x dflt = (case x of None \<Rightarrow> dflt | Some s \<Rightarrow> if s = [] then dflt else s)"

text \<open>\<open>x.toFixed(n)\<close> read back as a number: rounded to \<open>n\<close> decimals.\<close>

definition to_fixed :: "nat \<Rightarrow> money \<Rightarrow> money" where
  "to_fixed n x = of_int (round (x * 10 ^ n)) / 10 ^ n"

lemma js_or_simps [simp, pos_simps]:
  "js_or 0 d = d"
  "x \<noteq> 0 \<Longrightarrow> js_or x d = x"
  by (simp_all add: js_or_def)

lemma js_or_nonzero: "d \<noteq> 0 \<Longrightarrow> js_or x d \<noteq> 0"
  by (simp add: js_or_def)

text \<open>
  NeDB's \<open>update(query, modifier)\<close> without \<open>{multi: true}\<close> modifies the first document
  that matches the query and leaves the others alone.
\<close>

fun update_first :: "('a \<Rightarrow> bool) \<Rightarrow> ('a \<Rightarrow> 'a) \<Rightarrow> 'a list \<Rightarrow> 'a list" where
  "update_first P f [] = []"
| "update_first P f (x # xs) = (if P x then f x # xs else x # update_first P f xs)"

text \<open>NeDB's \<open>remove(query)\<close> without \<open>{multi: true}\<close> removes the first match.\<close>

fun remove_first :: "('a \<Rightarrow> bool) \<Rightarrow> 'a list \<Rightarrow> 'a list" where
  "remove_first P [] = []"
| "remove_first P (x # xs) = (if P x then xs else x # remove_first P xs)"

lemma length_update_first [simp]: "length (update_first P f xs) = length xs"
  by (induction xs) auto

lemma update_first_no_match [simp]: "\<forall>x\<in>set xs. \<not> P x \<Longrightarrow> update_first P f xs = xs"
  by (induction xs) auto

lemma map_update_first_frame:
  "(\<And>x. g (f x) = g x) \<Longrightarrow> map g (update_first P f xs) = map g xs"
  by (induction xs) auto

lemma update_first_append:
  "update_first P f (xs @ ys) =
     (if \<exists>x\<in>set xs. P x then update_first P f xs @ ys else xs @ update_first P f ys)"
  by (induction xs) auto

lemma find_update_first:
  "(\<And>x. P (f x) = P x) \<Longrightarrow> find P (update_first P f xs) = map_option f (find P xs)"
  by (induction xs) auto

lemma find_append_None [simp]: "find P xs = None \<Longrightarrow> find P (xs @ ys) = find P ys"
  by (induction xs) (auto split: if_splits)

lemma map_filter_cong_set:
  "(\<And>x. x \<in> set xs \<Longrightarrow> f x = g x) \<Longrightarrow> List.map_filter f xs = List.map_filter g xs"
  by (induction xs) (simp_all add: map_filter_simps split: option.splits)

lemma map_filter_append_list: "List.map_filter f (xs @ ys) = List.map_filter f xs @ List.map_filter f ys"
  by (induction xs) (simp_all add: map_filter_simps split: option.splits)

lemma key_map_filter_subset:
  assumes "\<And>x y. f x = Some y \<Longrightarrow> k y = k x"
  shows "k ` set (List.map_filter f xs) \<subseteq> k ` set xs"
  using assms by (induction xs) (force simp: map_filter_simps split: option.splits)+

text \<open>A \<open>map\<close>-then-\<open>filter(Boolean)\<close> that keeps each key keeps the keys distinct.\<close>

lemma distinct_map_filter_key:
  assumes "\<And>x y. f x = Some y \<Longrightarrow> k y = k x"
  shows "distinct (map k xs) \<Longrightarrow> distinct (map k (List.map_filter f xs))"
proof (induction xs)
  case Nil
  then show ?case by (simp add: map_filter_simps)
next
  case (Cons x xs)
  have "k ` set (List.map_filter f xs) \<subseteq> k ` set xs" by (rule key_map_filter_subset [OF assms])
  with Cons assms show ?case by (auto simp: map_filter_simps split: option.splits)
qed

lemma list_all_map_filter:
  assumes "\<And>x y. P x \<Longrightarrow> f x = Some y \<Longrightarrow> P y"
  shows "list_all P xs \<Longrightarrow> list_all P (List.map_filter f xs)"
  using assms by (induction xs) (auto simp: map_filter_simps split: option.splits)

text \<open>\<open>xs.filter((_, idx) => ...)\<close> keeps a sub-list.\<close>

lemma list_all_filter_enumerate:
  "list_all P xs \<Longrightarrow> list_all P (map snd (filter Q (enumerate n xs)))"
proof -
  assume a: "list_all P xs"
  have "set (map snd (filter Q (enumerate n xs))) \<subseteq> snd ` set (enumerate n xs)" by force
  also have "\<dots> = set xs" by (simp only: set_map [symmetric] map_snd_enumerate)
  finally have "set (map snd (filter Q (enumerate n xs))) \<subseteq> set xs" .
  then show ?thesis using a by (auto simp: list_all_iff)
qed

lemma update_first_preserves:
  "\<forall>x\<in>set xs. I x \<Longrightarrow> (\<And>x. I x \<Longrightarrow> P x \<Longrightarrow> I (f x)) \<Longrightarrow> \<forall>x\<in>set (update_first P f xs). I x"
  by (induction xs) auto

text \<open>\<open>Array.prototype.reduce((s, x) => s + g(x), 0)\<close> is a left fold; it sums the list.\<close>

lemma foldl_add_sum_list:
  "foldl (\<lambda>s x. s + g x) a xs = a + sum_list (map g xs)"
  by (induction xs arbitrary: a) (simp_all add: add.assoc)

text \<open>Sorting permutes a list, so a sum over it is unchanged.\<close>

lemma sum_list_map_sort_key: "sum_list (map (f :: _ \<Rightarrow> _::comm_monoid_add) (sort_key k xs)) = sum_list (map f xs)"
proof -
  have "mset (map f (sort_key k xs)) = mset (map f xs)" by simp
  then show ?thesis by (metis sum_mset_sum_list)
qed

text \<open>\<open>arr.sort((a, b) => new Date(b.createdAt) - new Date(a.createdAt))\<close>: a stable sort,
  newest first, equal times in their stored order.\<close>

definition newest_by :: "('a \<Rightarrow> time) \<Rightarrow> 'a list \<Rightarrow> 'a list" where
  "newest_by k xs = rev (sort_key k (rev xs))"

section \<open>Array slices\<close>

text \<open>\<open>Array.prototype.slice(a, b)\<close> with integer bounds: a negative bound counts from the
  end, and both are clamped to the array.\<close>

definition js_index :: "int \<Rightarrow> nat \<Rightarrow> nat" where
  "js_index i len = (if i < 0 then nat (max 0 (int len + i)) else min (nat i) len)"

definition js_slice :: "'a list \<Rightarrow> int \<Rightarrow> int \<Rightarrow> 'a list" where
  "js_slice xs a b = take (js_index b (length xs) - js_index a (length xs)) (drop (js_index a (length xs)) xs)"

text \<open>\<open>s.slice(-n)\<close> on a string: its last \<open>n\<close> characters.\<close>

definition slice_last :: "nat \<Rightarrow> 'a list \<Rightarrow> 'a list" where
  "slice_last n s = drop (length s - n) s"

lemma js_slice_nonneg:
  "0 \<le> a \<Longrightarrow> 0 \<le> b \<Longrightarrow> js_slice xs a b = take (nat b - nat a) (drop (nat a) xs)"
proof -
  assume "0 \<le> a" "0 \<le> b"
  then show ?thesis
    by (auto simp: js_slice_def js_index_def min_def take_all drop_all)
qed

section \<open>Decimal strings\<close>

text \<open>\<open>String(n)\<close> for a natural number: its decimal digits, most significant first.\<close>

fun dec_string :: "nat \<Rightarrow> string" where
  "dec_string n =
     (if n < 10 then [char_of (48 + n)] else dec_string (n div 10) @ [char_of (48 + n mod 10)])"

declare dec_string.simps [simp del]

text \<open>\<open>s.padStart(w, c)\<close>: \<open>c\<close> repeated in front until the string has length \<open>w\<close>.\<close>

definition pad_start :: "nat \<Rightarrow> char \<Rightarrow> string \<Rightarrow> string" where
  "pad_start w c s = replicate (w - length s) c @ s"

text \<open>The value of a string of decimal digits (what \<open>parseInt\<close> reads from one).\<close>

definition digit_value :: "char \<Rightarrow> nat" where
  "digit_value c = of_char c - 48"

definition dec_value :: "string \<Rightarrow> nat" where
  "dec_value s = foldl (\<lambda>acc c. 10 * acc + digit_value c) 0 s"

definition is_digit :: "char \<Rightarrow> bool" where
  "is_digit c \<longleftrightarrow> 48 \<le> (of_char c :: nat) \<and> (of_char c :: nat) \<le> 57"

lemma digit_char_value [simp]: "(d::nat) < 10 \<Longrightarrow> digit_value (char_of (48 + d)) = d"
  by (simp add: digit_value_def of_char_of)

lemma digit_char_is_digit [simp]: "(d::nat) < 10 \<Longrightarrow> is_digit (char_of (48 + d))"
  by (simp add: is_digit_def of_char_of)

lemma dec_value_append:
  "dec_value (xs @ ys) = foldl (\<lambda>acc c. 10 * acc + digit_value c) (dec_value xs) ys"
  by (simp add: dec_value_def)

lemma dec_value_snoc [simp]:
  "dec_value (xs @ [c]) = 10 * dec_value xs + digit_value c"
  by (simp add: dec_value_append)

lemma dec_value_zero_prefix [simp]:
  "dec_value (replicate k (CHR ''0'') @ s) = dec_value s"
proof (induction k)
  case 0
  then show ?case by simp
next
  case (Suc k)
  have "foldl (\<lambda>acc c. 10 * acc + digit_value c) 0 (replicate k (CHR ''0'') @ s)
      = dec_value (replicate k (CHR ''0'') @ s)"
    by (simp add: dec_value_def)
  then show ?case
    using Suc by (simp add: dec_value_def digit_value_def)
qed

lemma dec_string_value: "dec_value (dec_string n) = n"
proof (induction n rule: dec_string.induct)
  case (1 n)
  show ?case
  proof (cases "n < 10")
    case True
    then show ?thesis
      by (simp add: dec_string.simps [of n] dec_value_def)
  next
    case False
    with "1.IH" show ?thesis
      by (simp add: dec_string.simps [of n])
  qed
qed

lemma dec_string_digits: "\<forall>c\<in>set (dec_string n). is_digit c"
proof (induction n rule: dec_string.induct)
  case (1 n)
  then show ?case
    by (cases "n < 10") (auto simp: dec_string.simps [of n])
qed

lemma slice_last_snoc: "slice_last (Suc k) (xs @ [c]) = slice_last k xs @ [c]"
  by (simp add: slice_last_def)

lemma dec_string_snoc: "10 \<le> n \<Longrightarrow> dec_string n = dec_string (n div 10) @ [char_of (48 + n mod 10)]"
  by (subst dec_string.simps) simp

lemma digits_split:
  fixes n m :: nat
  assumes "n mod (10 * q) = m mod (10 * q)"
  shows "n div 10 mod q = m div 10 mod q \<and> n mod 10 = m mod 10"
proof -
  have "n div 10 mod q = n mod (10 * q) div 10" "m div 10 mod q = m mod (10 * q) div 10"
    by (simp_all add: mod_mult2_eq)
  moreover have "n mod 10 = n mod (10 * q) mod 10" "m mod 10 = m mod (10 * q) mod 10"
    by (simp_all add: mod_mult_self2_is_0 mod_mod_cancel)
  ultimately show ?thesis using assms by simp
qed

text \<open>\<open>String(n).slice(-k)\<close> of a number with at least \<open>k\<close> digits depends only on
  \<open>n mod 10^k\<close>.\<close>

lemma dec_string_last_digits:
  "10 ^ k \<le> n \<Longrightarrow> 10 ^ k \<le> m \<Longrightarrow> n mod 10 ^ k = m mod 10 ^ k \<Longrightarrow>
   slice_last k (dec_string n) = slice_last k (dec_string m)"
proof (induction k arbitrary: n m)
  case 0
  then show ?case by (simp add: slice_last_def)
next
  case (Suc k)
  have "(10::nat) \<le> 10 ^ Suc k" by simp
  then have ge: "10 \<le> n" "10 \<le> m" using Suc.prems(1,2) by linarith+
  have lo: "10 ^ k \<le> n div 10" "10 ^ k \<le> m div 10"
    using Suc.prems(1,2) by (simp_all add: less_eq_div_iff_mult_less_eq mult.commute)
  have sp: "n div 10 mod 10 ^ k = m div 10 mod 10 ^ k \<and> n mod 10 = m mod 10"
    using digits_split [of n "10 ^ k" m] Suc.prems(3) by simp
  have "slice_last k (dec_string (n div 10)) = slice_last k (dec_string (m div 10))"
    using Suc.IH [OF lo] sp by blast
  then show ?case
    unfolding dec_string_snoc [OF ge(1)] dec_string_snoc [OF ge(2)] slice_last_snoc using sp by simp
qed

lemma dec_string_nonempty [simp]: "dec_string n \<noteq> []"
  by (subst dec_string.simps) simp

lemma length_dec_string_le: "n < 10 ^ k \<Longrightarrow> 0 < k \<Longrightarrow> length (dec_string n) \<le> k"
proof (induction n arbitrary: k rule: dec_string.induct)
  case (1 n)
  show ?case
  proof (cases "n < 10")
    case True
    with "1.prems" show ?thesis by (simp add: dec_string.simps [of n])
  next
    case False
    obtain k' where k: "k = Suc k'" using "1.prems"(2) by (cases k) auto
    have "n div 10 < 10 ^ k'"
      using "1.prems"(1) k by (simp add: less_mult_imp_div_less mult.commute)
    moreover have "0 < k'"
      using False "1.prems"(1) k by (cases k') auto
    ultimately have "length (dec_string (n div 10)) \<le> k'"
      using "1.IH" False by blast
    with False k show ?thesis by (simp add: dec_string.simps [of n])
  qed
qed

text \<open>The digit characters, for evaluating \<open>dec_string\<close> on concrete numbers.\<close>

lemma digit_chars:
  "char_of (48::nat) = CHR ''0''" "char_of (49::nat) = CHR ''1''" "char_of (50::nat) = CHR ''2''"
  "char_of (51::nat) = CHR ''3''" "char_of (52::nat) = CHR ''4''" "char_of (53::nat) = CHR ''5''"
  "char_of (54::nat) = CHR ''6''" "char_of (55::nat) = CHR ''7''" "char_of (56::nat) = CHR ''8''"
  "char_of (57::nat) = CHR ''9''"
  by (simp_all add: char_of_def bit_simps)

end
