(* ===== verification/Store.thy ===== *)
theory Store
  imports Prelude
begin

text \<open>
  The document store of \<^verbatim>\<open>src/server/database/index.js\<close>: one NeDB collection per
  entity.  Each document shape is the object literal the route handlers insert; its
  fields that the transaction workflow reads or writes are the fields of a record here.
  Collections that are looked up by \<open>_id\<close> only (products, variants, customers) are
  maps from identifiers; collections whose order, count or duplicates matter (sales,
  credits, returns, payments, the inventory log, shifts, purchase orders) are lists in
  insertion order.  A fresh \<open>_id\<close> is drawn from a counter, the time of \<open>new Date()\<close>
  is the store's clock.
\<close>

section \<open>Enumerations\<close>

text \<open>Payment methods of the POS screen (\<^verbatim>\<open>PAYMENT_METHODS\<close>).\<close>

datatype pay_method = Cash | Card | Transfer | Wallet | CreditMethod | Nfc

datatype discount_type = Fixed | Percent

text \<open>\<open>status\<close> of a sale: \<open>'paid'\<close>, \<open>'credit'\<close>, \<open>'refunded'\<close>.\<close>

datatype sale_status = Paid | Credit | Refunded

text \<open>\<open>sale.status\<close> as the server stores it.\<close>

definition sale_status_str :: "sale_status \<Rightarrow> string" where
  "sale_status_str st = (case st of Paid \<Rightarrow> ''paid'' | Credit \<Rightarrow> ''credit'' | Refunded \<Rightarrow> ''refunded'')"

text \<open>\<open>status\<close> of a credit: \<open>'pending'\<close>, \<open>'partial'\<close>, \<open>'paid'\<close>.\<close>

datatype credit_status = CrPending | CrPartial | CrPaid

text \<open>\<open>operation\<close> tag of an inventory-log entry.\<close>

datatype inv_op = OpAdd | OpSubtract | OpSet | OpInventoryCount | OpPurchaseReceive
  | OpSupplierReturn | OpStocktake | OpTransfer

datatype shift_status = ShiftActive | ShiftClosed

datatype po_status = PoPending | PoReceived | PoPartial | PoCancelled

text \<open>
  The errors the handlers answer with before or instead of writing: 404 (a referenced
  document is absent) and the 400 validations.  A thrown store error (500) is not
  modelled: the store operations here do not fail.
\<close>

datatype error = NotFound | InsufficientPoints | ActiveShiftExists | EmptyItems | DuplicateBarcode
  | MissingField | AlreadyOpen | DuplicateName | InUse

section \<open>Documents\<close>

text \<open>A product (\<^verbatim>\<open>products.js\<close>, \<open>POST /\<close>).\<close>

record product =
  p_name :: string
  p_barcode :: string
  p_sku :: string
  p_categoryId :: "docid option"
  p_supplierId :: "docid option"
  p_price :: money
  p_cost :: money
  p_quantity :: qty
  p_minStock :: qty
  p_taxRate :: money
  p_expiryDate :: "time option"
  p_hasVariants :: bool
  p_isBundle :: bool
  p_wholesalePrice :: money
  p_wholesaleMinQty :: qty

text \<open>A variant of a product.\<close>

record variant =
  v_productId :: docid
  v_barcode :: string
  v_price :: money
  v_cost :: money
  v_quantity :: qty

text \<open>A row of the bundle table: \<open>quantity\<close> units of \<open>productId\<close> per unit of \<open>bundleId\<close>.\<close>

record bundle_item =
  bi_bundleId :: docid
  bi_productId :: docid
  bi_quantity :: qty

text \<open>A customer document; a text field the request left out is \<open>None\<close> (\<open>undefined\<close>).\<close>

record customer =
  c_name :: "string option"
  c_phone :: "string option"
  c_email :: "string option"
  c_address :: "string option"
  c_notes :: "string option"
  c_category :: "string option"
  c_creditLimit :: money
  c_totalPurchases :: money
  c_loyaltyPoints :: int
  c_redeemedPoints :: int
  c_lastPurchase :: "time option"
  c_createdAt :: time
  c_updatedAt :: "time option"
  c_lastSmsSent :: "time option"

text \<open>The \<open>{key: 'store'}\<close> settings document; a missing field reads as 0 (falsy).\<close>

record settings =
  enableLoyalty :: bool
  loyaltyPointsPerUnit :: money
  loyaltyPointValue :: money
  returnPeriodDays :: nat
  lowStockAlert :: qty
  expiryAlertDays :: nat
  storeName :: "string option"
  taxRate :: money
  currency :: "string option"
  receiptFooter :: "string option"
  st_updatedAt :: "time option"

text \<open>A cart line as the POS builds it (\<open>addToCart\<close>); sales store these lines as sold.\<close>

record cart_item =
  ci_productId :: docid
  ci_variantId :: "docid option"
  ci_price :: money
  ci_cost :: money
  ci_quantity :: qty

record payment =
  pay_method :: pay_method
  pay_amount :: money

record sale =
  s_id :: docid
  s_invoiceNumber :: string
  s_items :: "cart_item list"
  s_customerId :: "docid option"
  s_subtotal :: money
  s_discount :: money
  s_discountType :: discount_type
  s_tax :: money
  s_total :: money
  s_payments :: "payment list"
  s_totalPaid :: money
  s_change :: money
  s_remaining :: money
  s_status :: sale_status
  s_hasReturns :: bool
  s_userId :: docid
  s_createdAt :: time

record credit =
  cr_id :: docid
  cr_saleId :: docid
  cr_invoiceNumber :: string
  cr_customerId :: docid
  cr_amount :: money
  cr_paidAmount :: money
  cr_status :: credit_status
  cr_createdAt :: time

text \<open>A line of a return request: \<open>{productId, quantity, variantId?}\<close>.\<close>

record return_item =
  ri_productId :: docid
  ri_quantity :: qty
  ri_variantId :: "docid option"

record return_rec =
  rt_saleId :: docid
  rt_invoiceNumber :: string
  rt_items :: "return_item list"
  rt_total :: money
  rt_createdAt :: time

text \<open>A payment received from a customer against credit.\<close>

record payment_rec =
  pr_customerId :: docid
  pr_amount :: money
  pr_method :: pay_method
  pr_creditId :: "docid option"
  pr_createdAt :: time

text \<open>An inventory-log entry.\<close>

record inv_entry =
  ie_productId :: docid
  ie_variantId :: "docid option"
  ie_previousQuantity :: qty
  ie_newQuantity :: qty
  ie_change :: qty
  ie_operation :: inv_op
  ie_createdAt :: time

record shift =
  sh_id :: docid
  sh_userId :: docid
  sh_openingCash :: money
  sh_closingCash :: money
  sh_expectedCash :: money
  sh_difference :: money
  sh_totalSales :: money
  sh_salesCount :: nat
  sh_totalReturns :: money
  sh_returnsCount :: nat
  sh_totalCash :: money
  sh_status :: shift_status
  sh_startedAt :: time
  sh_endedAt :: "time option"

text \<open>A purchase order; \<open>paid\<close> and \<open>paidAmount\<close> are read by the supplier statement
  but written by no route.\<close>

record purchase =
  po_id :: docid
  po_poNumber :: string
  po_supplierId :: "docid option"
  po_total :: money
  po_status :: po_status
  po_paid :: bool
  po_paidAmount :: money
  po_createdAt :: time
  po_receivedAt :: "time option"

record purchase_item =
  pi_id :: docid
  pi_purchaseId :: docid
  pi_productId :: docid
  pi_quantity :: qty
  pi_receivedQty :: qty
  pi_cost :: money
  pi_total :: money
  pi_createdAt :: time

section \<open>The store\<close>

text \<open>A held (parked) cart, \<open>db.heldSales\<close>; \<open>customerName\<close> \<open>None\<close> stands for the
  default name the server substitutes.\<close>

text \<open>A warehouse; the text and flag fields are \<open>None\<close> when an update left them out.\<close>

record warehouse =
  w_id :: docid
  w_name :: "string option"
  w_address :: "string option"
  w_phone :: "string option"
  w_type :: "string option"
  w_isDefault :: "bool option"
  w_isActive :: "bool option"
  w_createdAt :: time
  w_updatedAt :: "time option"

text \<open>A transfer document: \<open>{transferNumber, type: 'transfer', fromWarehouseId, toWarehouseId, items}\<close>.\<close>

record transfer_doc =
  tr_id :: docid
  tr_number :: string
  tr_from :: docid
  tr_to :: docid
  tr_items :: "(docid \<times> qty) list"
  tr_createdAt :: time

text \<open>An employee of the HR module (\<^verbatim>\<open>hr.js\<close>); employees are not users.\<close>

record employee =
  e_id :: docid
  e_employeeNumber :: string
  e_name :: string
  e_position :: string
  e_salary :: money
  e_commissionRate :: money
  e_isActive :: bool
  e_createdAt :: time
  e_updatedAt :: time

record attendance =
  at_id :: docid
  at_employeeId :: docid
  at_checkIn :: time
  at_checkOut :: "time option"
  at_date :: time
  at_hoursWorked :: money

record salary =
  sl_id :: docid
  sl_employeeId :: docid
  sl_month :: int
  sl_year :: int
  sl_baseSalary :: money
  sl_commission :: money
  sl_totalSalary :: money
  sl_daysWorked :: nat
  sl_totalHours :: money
  sl_salesCount :: nat
  sl_salesTotal :: money
  sl_calculatedAt :: time

text \<open>An expense; \<open>date\<close> is the \<open>YYYY-MM-DD\<close> string the client sends, compared as a string.\<close>

record expense =
  xp_id :: docid
  xp_title :: "string option"
  xp_amount :: money
  xp_category :: "string option"
  xp_date :: "string option"
  xp_notes :: "string option"
  xp_userId :: "docid option"
  xp_createdAt :: time
  xp_updatedAt :: "time option"

text \<open>A product category; \<open>order\<close> is \<open>None\<close> once an update left it out.\<close>

record category =
  cat_id :: docid
  cat_name :: "string option"
  cat_order :: "int option"
  cat_createdAt :: time
  cat_updatedAt :: "time option"

record supplier =
  sup_id :: docid
  sup_name :: "string option"
  sup_company :: "string option"
  sup_phone :: "string option"
  sup_email :: "string option"
  sup_address :: "string option"
  sup_notes :: "string option"
  sup_totalOrders :: nat
  sup_createdAt :: time
  sup_updatedAt :: "time option"

text \<open>A contract (\<^verbatim>\<open>contracts.js\<close>); the free-text fields are \<open>None\<close> once an update
  sent \<open>null\<close> for them.\<close>

record contract =
  ct_id :: docid
  ct_contractNumber :: string
  ct_companyName :: "string option"
  ct_contactPerson :: "string option"
  ct_type :: "string option"
  ct_startDate :: "string option"
  ct_endDate :: "string option"
  ct_discountRate :: money
  ct_linkedEmployees :: "docid list"
  ct_status :: "string option"
  ct_createdAt :: time
  ct_updatedAt :: time

record held_sale =
  h_id :: docid
  h_holdNumber :: string
  h_items :: "cart_item list"
  h_customerId :: "docid option"
  h_customerName :: "string option"
  h_createdAt :: time

record db =
  products :: "docid \<rightharpoonup> product"
  product_ids :: "docid list"
  variants :: "docid \<rightharpoonup> variant"
  variant_ids :: "docid list"
  bundles :: "bundle_item list"
  customers :: "docid \<rightharpoonup> customer"
  customer_ids :: "docid list"
  settings :: "settings option"
  sales :: "sale list"
  credits :: "credit list"
  returns :: "return_rec list"
  payments :: "payment_rec list"
  inventory :: "inv_entry list"
  shifts :: "shift list"
  purchases :: "purchase list"
  purchaseItems :: "purchase_item list"
  heldSales :: "held_sale list"
  warehouses :: "warehouse list"
  transfers :: "transfer_doc list"
  employees :: "employee list"
  attendances :: "attendance list"
  salaries :: "salary list"
  expenses :: "expense list"
  categories :: "category list"
  suppliers :: "supplier list"
  contracts :: "contract list"
  next_id :: docid
  clock :: time

text \<open>An empty store, as the server finds it on first start before seeding.\<close>

definition empty_db :: db where
  "empty_db = \<lparr>products = Map.empty, product_ids = [], variants = Map.empty, variant_ids = [], bundles = [],
     customers = Map.empty, customer_ids = [], settings = None, sales = [], credits = [], returns = [],
     payments = [], inventory = [], shifts = [], purchases = [], purchaseItems = [], heldSales = [], warehouses = [], transfers = [], employees = [], attendances = [], salaries = [], expenses = [], categories = [], suppliers = [], contracts = [],
     next_id = 0, clock = 0\<rparr>"

section \<open>Store primitives\<close>

text \<open>\<open>insert\<close> hands out a fresh \<open>_id\<close>.\<close>

definition fresh_id :: "db \<Rightarrow> docid \<times> db" where
  "fresh_id d = (next_id d, d\<lparr>next_id := Suc (next_id d)\<rparr>)"

text \<open>\<open>$set: {quantity: q}\<close> on a product or a variant that exists.\<close>

definition set_product_qty :: "docid \<Rightarrow> qty \<Rightarrow> db \<Rightarrow> db" where
  "set_product_qty pid q d =
     (case products d pid of
        None \<Rightarrow> d
      | Some p \<Rightarrow> d\<lparr>products := (products d)(pid \<mapsto> p\<lparr>p_quantity := q\<rparr>)\<rparr>)"

definition set_variant_qty :: "docid \<Rightarrow> qty \<Rightarrow> db \<Rightarrow> db" where
  "set_variant_qty vid q d =
     (case variants d vid of
        None \<Rightarrow> d
      | Some v \<Rightarrow> d\<lparr>variants := (variants d)(vid \<mapsto> v\<lparr>v_quantity := q\<rparr>)\<rparr>)"

text \<open>\<open>findOne({_id})\<close> on a list collection.\<close>

definition find_sale :: "docid \<Rightarrow> db \<Rightarrow> sale option" where
  "find_sale sid d = find (\<lambda>s. s_id s = sid) (sales d)"

definition find_credit :: "docid \<Rightarrow> db \<Rightarrow> credit option" where
  "find_credit cid d = find (\<lambda>c. cr_id c = cid) (credits d)"

section \<open>Stock invariant\<close>

text \<open>
  The spec's data-model invariant: every product and variant quantity is at least 0.
\<close>

definition stock_nonneg :: "db \<Rightarrow> bool" where
  "stock_nonneg d \<longleftrightarrow>
     (\<forall>p\<in>ran (products d). 0 \<le> p_quantity p) \<and> (\<forall>v\<in>ran (variants d). 0 \<le> v_quantity v)"

lemma ran_upd_subset: "ran (m(k \<mapsto> v)) \<subseteq> insert v (ran m)"
  by (auto simp: ran_def)

lemma stock_nonneg_set_product_qty [intro]:
  "stock_nonneg d \<Longrightarrow> 0 \<le> q \<Longrightarrow> stock_nonneg (set_product_qty pid q d)"
  using ran_upd_subset
  by (fastforce simp: stock_nonneg_def set_product_qty_def split: option.splits)

lemma stock_nonneg_set_variant_qty [intro]:
  "stock_nonneg d \<Longrightarrow> 0 \<le> q \<Longrightarrow> stock_nonneg (set_variant_qty vid q d)"
  using ran_upd_subset
  by (fastforce simp: stock_nonneg_def set_variant_qty_def split: option.splits)

lemma stock_nonneg_products:
  "stock_nonneg d \<Longrightarrow> products d pid = Some p \<Longrightarrow> 0 \<le> p_quantity p"
  by (auto simp: stock_nonneg_def ran_def)

lemma stock_nonneg_variants:
  "stock_nonneg d \<Longrightarrow> variants d vid = Some v \<Longrightarrow> 0 \<le> v_quantity v"
  by (auto simp: stock_nonneg_def ran_def)

lemma set_product_qty_lookup [simp]:
  "products (set_product_qty pid q d) x =
     (if x = pid then map_option (\<lambda>p. p\<lparr>p_quantity := q\<rparr>) (products d pid) else products d x)"
  by (simp add: set_product_qty_def split: option.splits)

lemma set_product_qty_frame [simp]:
  "variants (set_product_qty pid q d) = variants d"
  "customers (set_product_qty pid q d) = customers d"
  "bundles (set_product_qty pid q d) = bundles d"
  "sales (set_product_qty pid q d) = sales d"
  "credits (set_product_qty pid q d) = credits d"
  "returns (set_product_qty pid q d) = returns d"
  "inventory (set_product_qty pid q d) = inventory d"
  "settings (set_product_qty pid q d) = settings d"
  "next_id (set_product_qty pid q d) = next_id d"
  "clock (set_product_qty pid q d) = clock d"
  "payments (set_product_qty pid q d) = payments d"
  "shifts (set_product_qty pid q d) = shifts d"
  "heldSales (set_product_qty pid q d) = heldSales d"
  "purchases (set_product_qty pid q d) = purchases d"
  "purchaseItems (set_product_qty pid q d) = purchaseItems d"
  by (simp_all add: set_product_qty_def split: option.splits)

lemma set_variant_qty_lookup [simp]:
  "variants (set_variant_qty vid q d) x =
     (if x = vid then map_option (\<lambda>v. v\<lparr>v_quantity := q\<rparr>) (variants d vid) else variants d x)"
  by (simp add: set_variant_qty_def split: option.splits)

lemma set_variant_qty_frame [simp]:
  "products (set_variant_qty vid q d) = products d"
  "customers (set_variant_qty vid q d) = customers d"
  "bundles (set_variant_qty vid q d) = bundles d"
  "sales (set_variant_qty vid q d) = sales d"
  "credits (set_variant_qty vid q d) = credits d"
  "returns (set_variant_qty vid q d) = returns d"
  "inventory (set_variant_qty vid q d) = inventory d"
  "settings (set_variant_qty vid q d) = settings d"
  "next_id (set_variant_qty vid q d) = next_id d"
  "clock (set_variant_qty vid q d) = clock d"
  "payments (set_variant_qty vid q d) = payments d"
  "shifts (set_variant_qty vid q d) = shifts d"
  "heldSales (set_variant_qty vid q d) = heldSales d"
  "purchases (set_variant_qty vid q d) = purchases d"
  "purchaseItems (set_variant_qty vid q d) = purchaseItems d"
  by (simp_all add: set_variant_qty_def split: option.splits)

end
