(* ===== verification/Pricing.thy ===== *)
theory Pricing
  imports Store
begin

text \<open>
  Pricing/Totals and Payment Reconciliation.  The POS screen
  (\<^verbatim>\<open>src/src/pages/POS/index.jsx\<close>, block CALCULATIONS) derives the subtotal, the
  discount amount, the total, the amount paid, the change and the amount remaining from
  the cart, the discount input and the payment rows.  The checkout handler
  (\<^verbatim>\<open>src/server/routes/sales.js\<close>, \<open>POST /\<close>) recomputes the amount paid, the change
  and the remaining amount from the payments it receives, and classifies the sale as
  \<open>paid\<close> or \<open>credit\<close>.  Both are pure functions.
\<close>

section \<open>POS totals\<close>

text \<open>\<open>cart.reduce((sum, item) => sum + item.price * item.quantity, 0)\<close>\<close>

definition cart_subtotal :: "cart_item list \<Rightarrow> money" where
  "cart_subtotal cart = foldl (\<lambda>sum item. sum + ci_price item * of_int (ci_quantity item)) 0 cart"

text \<open>\<open>discountType === 'percent' ? subtotal * (discount / 100) : discount\<close>\<close>

definition discount_amount :: "discount_type \<Rightarrow> money \<Rightarrow> money \<Rightarrow> money" where
  "discount_amount ty discount subtotal =
     (if ty = Percent then subtotal * (discount / 100) else discount)"

text \<open>\<open>Math.max(0, subtotal - discountAmount)\<close>\<close>

definition cart_total :: "money \<Rightarrow> money \<Rightarrow> money" where
  "cart_total subtotal discountAmt = max 0 (subtotal - discountAmt)"

text \<open>\<open>payments.reduce((sum, p) => sum + p.amount, 0)\<close> of the server on numeric amounts
  (string amounts are \<open>ClientPOS.server_total_paid\<close>, which agrees with this sum on numbers).\<close>

definition total_paid :: "payment list \<Rightarrow> money" where
  "total_paid ps = foldl (\<lambda>sum p. sum + pay_amount p) 0 ps"

definition change_due :: "money \<Rightarrow> money \<Rightarrow> money" where
  "change_due paid tot = max 0 (paid - tot)"

definition remaining_due :: "money \<Rightarrow> money \<Rightarrow> money" where
  "remaining_due paid tot = max 0 (tot - paid)"

text \<open>\<open>status: remaining > 0 ? 'credit' : 'paid'\<close>\<close>

definition status_of_remaining :: "money \<Rightarrow> sale_status" where
  "status_of_remaining rem = (if 0 < rem then Credit else Paid)"

text \<open>The three figures the screen shows and sends: subtotal, discount amount, total.\<close>

definition pos_totals :: "cart_item list \<Rightarrow> discount_type \<Rightarrow> money \<Rightarrow> money \<times> money \<times> money" where
  "pos_totals cart ty discount =
     (let subtotal = cart_subtotal cart;
          discountAmt = discount_amount ty discount subtotal
      in (subtotal, discountAmt, cart_total subtotal discountAmt))"

lemmas pricing_defs [pos_simps] =
  cart_subtotal_def discount_amount_def cart_total_def total_paid_def change_due_def
  remaining_due_def status_of_remaining_def pos_totals_def

section \<open>Lemmas\<close>

lemma cart_subtotal_sum:
  "cart_subtotal cart = (\<Sum>item\<leftarrow>cart. ci_price item * of_int (ci_quantity item))"
  by (simp add: cart_subtotal_def foldl_add_sum_list)

lemma total_paid_sum: "total_paid ps = (\<Sum>p\<leftarrow>ps. pay_amount p)"
  by (simp add: total_paid_def foldl_add_sum_list)

lemma total_paid_append [simp]: "total_paid (ps @ qs) = total_paid ps + total_paid qs"
  by (simp add: total_paid_sum)

lemma total_paid_nonneg: "\<forall>p\<in>set ps. 0 \<le> pay_amount p \<Longrightarrow> 0 \<le> total_paid ps"
  by (auto simp: total_paid_sum intro!: sum_list_nonneg)

lemma cart_subtotal_nonneg:
  "\<forall>i\<in>set cart. 0 \<le> ci_price i \<and> 0 \<le> ci_quantity i \<Longrightarrow> 0 \<le> cart_subtotal cart"
  by (auto simp: cart_subtotal_sum intro!: sum_list_nonneg)

lemma cart_total_nonneg [simp]: "0 \<le> cart_total s a"
  by (simp add: cart_total_def)

lemma change_remaining_nonneg [simp]: "0 \<le> change_due p t" "0 \<le> remaining_due p t"
  by (simp_all add: change_due_def remaining_due_def)

lemma change_minus_remaining: "change_due p t - remaining_due p t = p - t"
  by (simp add: change_due_def remaining_due_def)

lemma change_or_remaining_zero: "change_due p t = 0 \<or> remaining_due p t = 0"
  by (simp add: change_due_def remaining_due_def max_def)

lemma remaining_pos_iff: "0 < remaining_due p t \<longleftrightarrow> p < t"
  by (simp add: remaining_due_def max_def)

lemma status_of_remaining_due:
  "status_of_remaining (remaining_due p t) = (if p < t then Credit else Paid)"
  by (simp add: status_of_remaining_def remaining_pos_iff)

end
