(* ===== verification/Examples.thy ===== *)
theory Examples
  imports Store
begin

text \<open>
  Concrete documents and stores on which the witnesses of the properties evaluate the
  handlers: a plain product with 5 units, two components and a bundle of
  \<open>{component A \<times> 3, component B \<times> 1}\<close> (the specification's bundle example), a
  customer, loyalty-enabled store settings, two open credits of 100 (older) and 50
  (newer) for the customer, and a paid sale of two lines.
\<close>

definition ex_tea :: product where
  "ex_tea = \<lparr>p_name = ''Tea'', p_barcode = ''1001'', p_sku = [], p_categoryId = None, p_supplierId = None, p_price = 100, p_cost = 60, p_quantity = 5, p_minStock = 5,
     p_taxRate = 0, p_expiryDate = None, p_hasVariants = False, p_isBundle = False, p_wholesalePrice = 0,
     p_wholesaleMinQty = 10\<rparr>"

definition ex_compA :: product where
  "ex_compA = \<lparr>p_name = ''Cup'', p_barcode = ''1002'', p_sku = [], p_categoryId = None, p_supplierId = None, p_price = 30, p_cost = 10, p_quantity = 10, p_minStock = 5,
     p_taxRate = 0, p_expiryDate = None, p_hasVariants = False, p_isBundle = False, p_wholesalePrice = 0,
     p_wholesaleMinQty = 10\<rparr>"

definition ex_compB :: product where
  "ex_compB = \<lparr>p_name = ''Saucer'', p_barcode = ''1003'', p_sku = [], p_categoryId = None, p_supplierId = None, p_price = 20, p_cost = 5, p_quantity = 5, p_minStock = 5,
     p_taxRate = 0, p_expiryDate = None, p_hasVariants = False, p_isBundle = False, p_wholesalePrice = 0,
     p_wholesaleMinQty = 10\<rparr>"

definition ex_bundle :: product where
  "ex_bundle = \<lparr>p_name = ''Tea set'', p_barcode = ''1004'', p_sku = [], p_categoryId = None, p_supplierId = None, p_price = 100, p_cost = 35, p_quantity = 0, p_minStock = 0,
     p_taxRate = 0, p_expiryDate = None, p_hasVariants = False, p_isBundle = True, p_wholesalePrice = 0,
     p_wholesaleMinQty = 10\<rparr>"

definition ex_bundle_rows :: "bundle_item list" where
  "ex_bundle_rows =
     [\<lparr>bi_bundleId = 4, bi_productId = 2, bi_quantity = 3\<rparr>,
      \<lparr>bi_bundleId = 4, bi_productId = 3, bi_quantity = 1\<rparr>]"

definition ex_customer :: customer where
  "ex_customer = \<lparr>c_name = Some ''Ali'', c_phone = Some ''0100'', c_email = Some [], c_address = Some [],
     c_notes = Some [], c_category = Some ''regular'', c_creditLimit = 0, c_totalPurchases = 0,
     c_loyaltyPoints = 0, c_redeemedPoints = 0, c_lastPurchase = None, c_createdAt = 0,
     c_updatedAt = None, c_lastSmsSent = None\<rparr>"

definition ex_settings :: settings where
  "ex_settings = \<lparr>enableLoyalty = True, loyaltyPointsPerUnit = 1, loyaltyPointValue = 1 / 10,
     returnPeriodDays = 14, lowStockAlert = 5, expiryAlertDays = 30,
     storeName = Some ''Shop'', taxRate = 0, currency = None, receiptFooter = None, st_updatedAt = None\<rparr>"

definition ex_credit :: "docid \<Rightarrow> money \<Rightarrow> time \<Rightarrow> credit" where
  "ex_credit i amt t = \<lparr>cr_id = i, cr_saleId = i, cr_invoiceNumber = ''INV'', cr_customerId = 7,
     cr_amount = amt, cr_paidAmount = 0, cr_status = CrPending, cr_createdAt = t\<rparr>"

definition ex_line :: "docid \<Rightarrow> money \<Rightarrow> qty \<Rightarrow> cart_item" where
  "ex_line pid price n = \<lparr>ci_productId = pid, ci_variantId = None, ci_price = price, ci_cost = 0,
     ci_quantity = n\<rparr>"

definition ex_sale :: sale where
  "ex_sale = \<lparr>s_id = 20, s_invoiceNumber = ''INV-20260101-0001'',
     s_items = [ex_line 1 100 2, ex_line 2 30 1], s_customerId = Some 7, s_subtotal = 230,
     s_discount = 0, s_discountType = Fixed, s_tax = 0, s_total = 230,
     s_payments = [\<lparr>pay_method = Cash, pay_amount = 230\<rparr>], s_totalPaid = 230, s_change = 0,
     s_remaining = 0, s_status = Paid, s_hasReturns = False, s_userId = 0, s_createdAt = 0\<rparr>"

definition ex_store :: db where
  "ex_store = empty_db\<lparr>products := [1 \<mapsto> ex_tea, 2 \<mapsto> ex_compA, 3 \<mapsto> ex_compB, 4 \<mapsto> ex_bundle],
     product_ids := [1, 2, 3, 4],
     bundles := ex_bundle_rows, customers := [7 \<mapsto> ex_customer], customer_ids := [7], settings := Some ex_settings,
     sales := [ex_sale], credits := [ex_credit 10 100 1, ex_credit 11 50 2], next_id := 30\<rparr>"

lemmas ex_defs =
  ex_tea_def ex_compA_def ex_compB_def ex_bundle_def ex_bundle_rows_def ex_customer_def
  ex_settings_def ex_credit_def ex_line_def ex_sale_def ex_store_def empty_db_def

lemma stock_nonneg_ex_store: "stock_nonneg ex_store"
  by (simp add: stock_nonneg_def ex_defs)

end
