(* ===== verification/Stock.thy ===== *)
theory Stock
  imports Store Examples
begin

text \<open>
  The Stock Adjuster.  Checkout (\<^verbatim>\<open>sales.js\<close>, \<open>POST /\<close>, loop "Update stock")
  decrements, for each cart line, the variant, the components of a bundle, or the
  product itself, clamping at 0 and skipping a reference that is absent.  The manual
  stock route (\<^verbatim>\<open>products.js\<close>, \<open>PATCH /:id/stock\<close>) adds, subtracts or sets a
  quantity, clamps at 0 and appends an inventory-log entry.  The supplier-return route
  (\<^verbatim>\<open>purchases.js\<close>, \<open>POST /:id/return\<close>) decrements with the same clamp and logs.
\<close>

section \<open>Checkout stock update\<close>

text \<open>One bundle row: \<open>quantity: Math.max(0, bundleProduct.quantity - (bi.quantity * item.quantity))\<close>.\<close>

definition sell_component :: "qty \<Rightarrow> db \<Rightarrow> bundle_item \<Rightarrow> db" where
  "sell_component n d bi =
     (case products d (bi_productId bi) of
        None \<Rightarrow> d
      | Some bp \<Rightarrow> set_product_qty (bi_productId bi) (max 0 (p_quantity bp - bi_quantity bi * n)) d)"

text \<open>\<open>db.bundles.find({bundleId: product._id})\<close>, then one update per row, in order.\<close>

definition bundle_rows :: "docid \<Rightarrow> db \<Rightarrow> bundle_item list" where
  "bundle_rows pid d = filter (\<lambda>bi. bi_bundleId bi = pid) (bundles d)"

definition sell_bundle :: "docid \<Rightarrow> qty \<Rightarrow> db \<Rightarrow> db" where
  "sell_bundle pid n d = foldl (sell_component n) d (bundle_rows pid d)"

text \<open>The body of \<open>for (const item of items)\<close>.\<close>

definition sell_item :: "db \<Rightarrow> cart_item \<Rightarrow> db" where
  "sell_item d item =
     (case ci_variantId item of
        Some vid \<Rightarrow>
          (case variants d vid of
             None \<Rightarrow> d
           | Some v \<Rightarrow> set_variant_qty vid (max 0 (v_quantity v - ci_quantity item)) d)
      | None \<Rightarrow>
          (case products d (ci_productId item) of
             None \<Rightarrow> d
           | Some p \<Rightarrow>
               if p_isBundle p then sell_bundle (ci_productId item) (ci_quantity item) d
               else set_product_qty (ci_productId item) (max 0 (p_quantity p - ci_quantity item)) d))"

definition sell_items :: "db \<Rightarrow> cart_item list \<Rightarrow> db" where
  "sell_items d items = foldl sell_item d items"

section \<open>Manual stock adjustment\<close>

text \<open>\<open>if (operation === 'add') ... else if (operation === 'subtract') ... else newQty = quantity\<close>\<close>

definition adjust_target :: "inv_op \<Rightarrow> qty \<Rightarrow> qty \<Rightarrow> qty" where
  "adjust_target op cur n =
     (if op = OpAdd then cur + n else if op = OpSubtract then cur - n else n)"

definition log_entry :: "docid \<Rightarrow> docid option \<Rightarrow> qty \<Rightarrow> qty \<Rightarrow> qty \<Rightarrow> inv_op \<Rightarrow> db \<Rightarrow> db" where
  "log_entry pid vopt prev new chg op d =
     d\<lparr>inventory := inventory d @
        [\<lparr>ie_productId = pid, ie_variantId = vopt, ie_previousQuantity = prev,
          ie_newQuantity = new, ie_change = chg, ie_operation = op, ie_createdAt = clock d\<rparr>]\<rparr>"

text \<open>\<open>PATCH /:id/stock\<close>: the answer is the new quantity, or 404.\<close>

definition adjust_stock :: "docid \<Rightarrow> qty \<Rightarrow> inv_op \<Rightarrow> docid option \<Rightarrow> db \<Rightarrow> error + (qty \<times> db)" where
  "adjust_stock pid n op vopt d =
     (case vopt of
        Some vid \<Rightarrow>
          (case variants d vid of
             None \<Rightarrow> Inl NotFound
           | Some v \<Rightarrow>
               (let newQty = adjust_target op (v_quantity v) n;
                    d1 = set_variant_qty vid (max 0 newQty) d
                in Inr (max 0 newQty,
                        log_entry (v_productId v) (Some vid) (v_quantity v) (max 0 newQty)
                          (newQty - v_quantity v) op d1)))
      | None \<Rightarrow>
          (case products d pid of
             None \<Rightarrow> Inl NotFound
           | Some p \<Rightarrow>
               (let newQty = adjust_target op (p_quantity p) n;
                    d1 = set_product_qty pid (max 0 newQty) d
                in Inr (max 0 newQty,
                        log_entry pid None (p_quantity p) (max 0 newQty)
                          (newQty - p_quantity p) op d1))))"

section \<open>Return to supplier\<close>

text \<open>\<open>POST /purchases/:id/return\<close>, one line \<open>{productId, quantity}\<close>.\<close>

definition supplier_return_item :: "db \<Rightarrow> docid \<times> qty \<Rightarrow> db" where
  "supplier_return_item d item =
     (case products d (fst item) of
        None \<Rightarrow> d
      | Some p \<Rightarrow>
          (let newQty = max 0 (p_quantity p - snd item)
           in log_entry (fst item) None (p_quantity p) newQty (- snd item) OpSupplierReturn
                (set_product_qty (fst item) newQty d)))"

definition supplier_return :: "(docid \<times> qty) list \<Rightarrow> db \<Rightarrow> db" where
  "supplier_return items d = foldl supplier_return_item d items"

lemmas stock_defs [pos_simps] =
  sell_component_def bundle_rows_def sell_bundle_def sell_item_def sell_items_def
  adjust_target_def log_entry_def adjust_stock_def supplier_return_item_def supplier_return_def

section \<open>Frame lemmas\<close>

lemma log_entry_frame [simp]:
  "products (log_entry pid vopt prev new chg op d) = products d"
  "variants (log_entry pid vopt prev new chg op d) = variants d"
  "bundles (log_entry pid vopt prev new chg op d) = bundles d"
  "customers (log_entry pid vopt prev new chg op d) = customers d"
  "sales (log_entry pid vopt prev new chg op d) = sales d"
  "credits (log_entry pid vopt prev new chg op d) = credits d"
  "next_id (log_entry pid vopt prev new chg op d) = next_id d"
  "clock (log_entry pid vopt prev new chg op d) = clock d"
  by (simp_all add: log_entry_def)

lemma stock_nonneg_log_entry [simp]:
  "stock_nonneg (log_entry pid vopt prev new chg op d) = stock_nonneg d"
  by (simp add: stock_nonneg_def)

lemma sell_component_frame [simp]:
  "variants (sell_component n d bi) = variants d"
  "bundles (sell_component n d bi) = bundles d"
  "customers (sell_component n d bi) = customers d"
  "sales (sell_component n d bi) = sales d"
  "credits (sell_component n d bi) = credits d"
  "returns (sell_component n d bi) = returns d"
  "heldSales (sell_component n d bi) = heldSales d"
  "inventory (sell_component n d bi) = inventory d"
  "next_id (sell_component n d bi) = next_id d"
  "clock (sell_component n d bi) = clock d"
  "settings (sell_component n d bi) = settings d"
  by (simp_all add: sell_component_def split: option.splits)

lemma foldl_sell_component_frame [simp]:
  "variants (foldl (sell_component n) d rs) = variants d"
  "bundles (foldl (sell_component n) d rs) = bundles d"
  "customers (foldl (sell_component n) d rs) = customers d"
  "sales (foldl (sell_component n) d rs) = sales d"
  "credits (foldl (sell_component n) d rs) = credits d"
  "returns (foldl (sell_component n) d rs) = returns d"
  "heldSales (foldl (sell_component n) d rs) = heldSales d"
  "inventory (foldl (sell_component n) d rs) = inventory d"
  "next_id (foldl (sell_component n) d rs) = next_id d"
  "clock (foldl (sell_component n) d rs) = clock d"
  "settings (foldl (sell_component n) d rs) = settings d"
  by (induction rs arbitrary: d) simp_all

lemma sell_item_frame [simp]:
  "bundles (sell_item d item) = bundles d"
  "customers (sell_item d item) = customers d"
  "sales (sell_item d item) = sales d"
  "credits (sell_item d item) = credits d"
  "returns (sell_item d item) = returns d"
  "heldSales (sell_item d item) = heldSales d"
  "inventory (sell_item d item) = inventory d"
  "next_id (sell_item d item) = next_id d"
  "clock (sell_item d item) = clock d"
  "settings (sell_item d item) = settings d"
  by (simp_all add: sell_item_def sell_bundle_def split: option.splits)

lemma sell_items_frame [simp]:
  "bundles (sell_items d items) = bundles d"
  "customers (sell_items d items) = customers d"
  "sales (sell_items d items) = sales d"
  "credits (sell_items d items) = credits d"
  "returns (sell_items d items) = returns d"
  "heldSales (sell_items d items) = heldSales d"
  "inventory (sell_items d items) = inventory d"
  "next_id (sell_items d items) = next_id d"
  "clock (sell_items d items) = clock d"
  "settings (sell_items d items) = settings d"
  by (induction items arbitrary: d) (simp_all add: sell_items_def)

section \<open>Stock stays non-negative\<close>

lemma sell_component_nonneg: "stock_nonneg d \<Longrightarrow> stock_nonneg (sell_component n d bi)"
  by (auto simp: sell_component_def split: option.splits)

lemma foldl_sell_component_nonneg:
  "stock_nonneg d \<Longrightarrow> stock_nonneg (foldl (sell_component n) d rs)"
  by (induction rs arbitrary: d) (simp_all add: sell_component_nonneg)

lemma sell_item_nonneg: "stock_nonneg d \<Longrightarrow> stock_nonneg (sell_item d item)"
  by (auto simp: sell_item_def sell_bundle_def foldl_sell_component_nonneg
           split: option.splits)

lemma sell_items_nonneg_gen: "stock_nonneg d \<Longrightarrow> stock_nonneg (foldl sell_item d items)"
  by (induction items arbitrary: d) (simp_all add: sell_item_nonneg)

section \<open>Bundle expansion\<close>

text \<open>
  A product that no row of the fold names keeps its quantity; a product named by exactly
  one row is decremented once, by the row's quantity times the line quantity.
\<close>

lemma foldl_sell_component_other:
  "\<forall>bi\<in>set rs. bi_productId bi \<noteq> c \<Longrightarrow> products (foldl (sell_component n) d rs) c = products d c"
  by (induction rs arbitrary: d) (auto simp: sell_component_def split: option.splits)

lemma foldl_sell_component_one:
  assumes "filter (\<lambda>bi. bi_productId bi = c) rs = [r]"
    and "products d c = Some p"
  shows "products (foldl (sell_component n) d rs) c =
           Some (p\<lparr>p_quantity := max 0 (p_quantity p - bi_quantity r * n)\<rparr>)"
  using assms
proof (induction rs arbitrary: d)
  case Nil
  then show ?case by simp
next
  case (Cons b rs)
  show ?case
  proof (cases "bi_productId b = c")
    case True
    with Cons.prems(1) have "b = r" and "\<forall>bi\<in>set rs. bi_productId bi \<noteq> c"
      by (auto simp: filter_empty_conv)
    then have "products (foldl (sell_component n) (sell_component n d b) rs) c
        = products (sell_component n d b) c"
      by (simp add: foldl_sell_component_other)
    moreover have "products (sell_component n d b) c =
        Some (p\<lparr>p_quantity := max 0 (p_quantity p - bi_quantity r * n)\<rparr>)"
      using True \<open>b = r\<close> Cons.prems(2) by (simp add: sell_component_def)
    ultimately show ?thesis by simp
  next
    case False
    with Cons.prems have "filter (\<lambda>bi. bi_productId bi = c) rs = [r]"
      and "products (sell_component n d b) c = Some p"
      by (auto simp: sell_component_def split: option.splits)
    with False Cons.IH show ?thesis by simp
  qed
qed

section \<open>Properties of the stock adjuster\<close>

text \<open>
  C8: Bundle expansion.  Selling \<open>n\<close> units of a bundle decrements each component named
  by one row \<open>{bundleId, productId, quantity = k}\<close> by \<open>k * n\<close>, clamped at 0,
  independently of the other components.
\<close>

theorem sell_bundle_component:
  assumes "ci_variantId item = None" "products d (ci_productId item) = Some bp" "p_isBundle bp"
    and "filter (\<lambda>bi. bi_productId bi = c) (bundle_rows (ci_productId item) d) = [r]"
    and "products d c = Some p"
  shows "products (sell_item d item) c =
           Some (p\<lparr>p_quantity := max 0 (p_quantity p - bi_quantity r * ci_quantity item)\<rparr>)"
  using assms foldl_sell_component_one [OF assms(4,5)]
  by (simp add: sell_item_def sell_bundle_def)

theorem sell_bundle_component_witness:
  "products (sell_item ex_store (ex_line 4 100 2)) 2 = Some (ex_compA\<lparr>p_quantity := 4\<rparr>) \<and>
   products (sell_item ex_store (ex_line 4 100 2)) 3 = Some (ex_compB\<lparr>p_quantity := 3\<rparr>)"
proof -
  have v: "ci_variantId (ex_line 4 100 2) = None" and b: "products ex_store (ci_productId (ex_line 4 100 2)) = Some ex_bundle"
    and ib: "p_isBundle ex_bundle"
    by (simp_all add: ex_defs)
  have rA: "filter (\<lambda>bi. bi_productId bi = 2) (bundle_rows (ci_productId (ex_line 4 100 2)) ex_store) =
      [\<lparr>bi_bundleId = 4, bi_productId = 2, bi_quantity = 3\<rparr>]"
    and rB: "filter (\<lambda>bi. bi_productId bi = 3) (bundle_rows (ci_productId (ex_line 4 100 2)) ex_store) =
      [\<lparr>bi_bundleId = 4, bi_productId = 3, bi_quantity = 1\<rparr>]"
    by (simp_all add: bundle_rows_def ex_defs)
  have pA: "products ex_store 2 = Some ex_compA" and pB: "products ex_store 3 = Some ex_compB"
    by (simp_all add: ex_defs)
  show ?thesis
    using sell_bundle_component [OF v b ib rA pA] sell_bundle_component [OF v b ib rB pB]
    by (simp add: ex_defs)
qed

text \<open>
  Plain lines.  A variant line decrements the variant and a line of a plain product
  decrements the product, each by the line quantity and clamped at 0 (silently, however
  short the stock); a line whose variant or product is absent changes nothing.
\<close>

theorem sell_item_plain:
  "sell_item d item =
     (case ci_variantId item of
        Some vid \<Rightarrow>
          (case variants d vid of
             None \<Rightarrow> d
           | Some v \<Rightarrow> d\<lparr>variants := (variants d)(vid \<mapsto> v\<lparr>v_quantity := max 0 (v_quantity v - ci_quantity item)\<rparr>)\<rparr>)
      | None \<Rightarrow>
          (case products d (ci_productId item) of
             None \<Rightarrow> d
           | Some p \<Rightarrow>
               if p_isBundle p then sell_bundle (ci_productId item) (ci_quantity item) d
               else d\<lparr>products := (products d)(ci_productId item \<mapsto>
                      p\<lparr>p_quantity := max 0 (p_quantity p - ci_quantity item)\<rparr>)\<rparr>))"
  by (simp add: sell_item_def set_product_qty_def set_variant_qty_def split: option.splits)

text \<open>
  C9: The manual stock route keeps every quantity non-negative: add, subtract and set
  all clamp the new quantity at 0.
\<close>

theorem adjust_stock_nonneg:
  "stock_nonneg d \<Longrightarrow> adjust_stock pid n op vopt d = Inr (q, d') \<Longrightarrow> stock_nonneg d' \<and> 0 \<le> q"
  by (auto simp: adjust_stock_def Let_def split: option.splits
      intro!: stock_nonneg_set_product_qty stock_nonneg_set_variant_qty)

theorem adjust_stock_nonneg_witness:
  "stock_nonneg (snd (projr (adjust_stock 1 8 OpSubtract None ex_store))) \<and>
   fst (projr (adjust_stock 1 8 OpSubtract None ex_store)) = 0"
proof -
  have "adjust_stock 1 8 OpSubtract None ex_store =
      Inr (0, snd (projr (adjust_stock 1 8 OpSubtract None ex_store)))"
    by (simp add: adjust_stock_def adjust_target_def Let_def ex_defs)
  from adjust_stock_nonneg [OF stock_nonneg_ex_store this]
  have "stock_nonneg (snd (projr (adjust_stock 1 8 OpSubtract None ex_store)))" by simp
  moreover have "fst (projr (adjust_stock 1 8 OpSubtract None ex_store)) = 0"
    by (simp add: adjust_stock_def adjust_target_def Let_def ex_defs)
  ultimately show ?thesis by simp
qed

text \<open>
  C10: The stock route's log entry records the requested change, not the applied one:
  the entry's \<open>change\<close> is the unclamped target minus the old quantity while its
  \<open>newQuantity\<close> is the clamped one, so the two disagree exactly when the target is
  negative (quantity 5, subtract 8: the product goes to 0 and the log says -8).
\<close>

theorem adjust_stock_logged_change:
  assumes "products d pid = Some p"
  shows "\<exists>d1. adjust_stock pid n op None d =
     Inr (max 0 (adjust_target op (p_quantity p) n),
          d1\<lparr>inventory := inventory d @
            [\<lparr>ie_productId = pid, ie_variantId = None, ie_previousQuantity = p_quantity p,
              ie_newQuantity = max 0 (adjust_target op (p_quantity p) n),
              ie_change = adjust_target op (p_quantity p) n - p_quantity p, ie_operation = op,
              ie_createdAt = clock d\<rparr>]\<rparr>) \<and>
     products d1 pid = Some (p\<lparr>p_quantity := max 0 (adjust_target op (p_quantity p) n)\<rparr>)"
  using assms by (auto simp: adjust_stock_def log_entry_def Let_def)

theorem adjust_stock_logged_change_witness:
  "inventory (snd (projr (adjust_stock 1 8 OpSubtract None ex_store))) =
     [\<lparr>ie_productId = 1, ie_variantId = None, ie_previousQuantity = 5, ie_newQuantity = 0,
       ie_change = -8, ie_operation = OpSubtract, ie_createdAt = 0\<rparr>]"
proof -
  have "products ex_store 1 = Some ex_tea" by (simp add: ex_defs)
  from adjust_stock_logged_change [OF this, of 8 OpSubtract] show ?thesis
    by (auto simp: adjust_target_def ex_defs)
qed

end
