(* ===== verification/Checkout.thy ===== *)
theory Checkout
  imports Pricing Stock Examples
begin

text \<open>
  The checkout handler, \<^verbatim>\<open>src/server/routes/sales.js\<close> \<open>router.post('/')\<close>, in the
  order the code runs it: reconcile the payments, number the invoice from the count of
  all sales, update the stock (\<open>Stock.sell_items\<close>), insert the sale, post a credit
  when the sale is not fully paid and a customer is attached (Ledger Poster), and
  update the customer's totals and loyalty points (Loyalty Accrual).  The handler
  trusts the subtotal, discount, tax and total the client sends.
\<close>

section \<open>The request\<close>

record checkout_req =
  rq_items :: "cart_item list"
  rq_customerId :: "docid option"
  rq_subtotal :: money
  rq_discount :: money
  rq_discountType :: discount_type
  rq_tax :: money
  rq_total :: money
  rq_payments :: "payment list"
  rq_userId :: docid
  rq_date :: string

section \<open>Operations\<close>

text \<open>\<open>`INV-${dateStr}-${String(count + 1).padStart(4, '0')}`\<close>\<close>

definition invoice_number :: "string \<Rightarrow> nat \<Rightarrow> string" where
  "invoice_number dateStr cnt =
     ''INV-'' @ dateStr @ ''-'' @ pad_start 4 CHR ''0'' (dec_string (cnt + 1))"

text \<open>"Record credit if not fully paid": \<open>if (remaining > 0 && customerId)\<close>.\<close>

definition post_sale_credit :: "checkout_req \<Rightarrow> sale \<Rightarrow> db \<Rightarrow> db" where
  "post_sale_credit rq s d =
     (case rq_customerId rq of
        None \<Rightarrow> d
      | Some cid \<Rightarrow>
          if 0 < s_remaining s then
            (case fresh_id d of (crid, d1) \<Rightarrow>
               d1\<lparr>credits := credits d1 @
                    [\<lparr>cr_id = crid, cr_saleId = s_id s, cr_invoiceNumber = s_invoiceNumber s,
                      cr_customerId = cid, cr_amount = s_remaining s, cr_paidAmount = 0,
                      cr_status = CrPending, cr_createdAt = clock d\<rparr>]\<rparr>)
          else d)"

text \<open>
  \<open>settings?.enableLoyalty ? Math.floor(total * (settings?.loyaltyPointsPerUnit || 1)) : 0\<close>
\<close>

definition loyalty_earned :: "settings option \<Rightarrow> money \<Rightarrow> int" where
  "loyalty_earned so tot =
     (case so of
        None \<Rightarrow> 0
      | Some st \<Rightarrow> if enableLoyalty st then \<lfloor>tot * js_or (loyaltyPointsPerUnit st) 1\<rfloor> else 0)"

text \<open>"Update customer": totals and points of an attached customer that exists.\<close>

definition update_customer_after_sale :: "checkout_req \<Rightarrow> db \<Rightarrow> db" where
  "update_customer_after_sale rq d =
     (case rq_customerId rq of
        None \<Rightarrow> d
      | Some cid \<Rightarrow>
          (case customers d cid of
             None \<Rightarrow> d
           | Some c \<Rightarrow>
               (let lp = loyalty_earned (settings d) (rq_total rq)
                in d\<lparr>customers := (customers d)(cid \<mapsto>
                       c\<lparr>c_totalPurchases := c_totalPurchases c + rq_total rq,
                         c_loyaltyPoints := c_loyaltyPoints c + lp,
                         c_lastPurchase := Some (clock d), c_updatedAt := Some (clock d)\<rparr>)\<rparr>)))"

text \<open>The sale document the handler inserts, with \<open>_id\<close> \<open>sid\<close>.\<close>

definition sale_doc :: "checkout_req \<Rightarrow> docid \<Rightarrow> string \<Rightarrow> time \<Rightarrow> sale" where
  "sale_doc rq sid invno now =
     (let paid = total_paid (rq_payments rq);
          rem = remaining_due paid (rq_total rq)
      in \<lparr>s_id = sid, s_invoiceNumber = invno, s_items = rq_items rq,
          s_customerId = rq_customerId rq, s_subtotal = rq_subtotal rq,
          s_discount = rq_discount rq, s_discountType = rq_discountType rq,
          s_tax = rq_tax rq, s_total = rq_total rq, s_payments = rq_payments rq,
          s_totalPaid = paid, s_change = change_due paid (rq_total rq), s_remaining = rem,
          s_status = status_of_remaining rem, s_hasReturns = False,
          s_userId = rq_userId rq, s_createdAt = now\<rparr>)"

definition create_sale :: "checkout_req \<Rightarrow> db \<Rightarrow> sale \<times> db" where
  "create_sale rq d0 =
     (let invno = invoice_number (rq_date rq) (length (sales d0));
          d1 = sell_items d0 (rq_items rq)
      in case fresh_id d1 of (sid, d2) \<Rightarrow>
           (let s = sale_doc rq sid invno (clock d0);
                d3 = d2\<lparr>sales := sales d2 @ [s]\<rparr>;
                d4 = post_sale_credit rq s d3
            in (s, update_customer_after_sale rq d4)))"

text \<open>A checkout of 8 teas (5 in stock) for 800, of which 500 is paid in cash, by customer 7.\<close>

definition ex_request :: checkout_req where
  "ex_request = \<lparr>rq_items = [ex_line 1 100 8], rq_customerId = Some 7, rq_subtotal = 800,
     rq_discount = 0, rq_discountType = Fixed, rq_tax = 0, rq_total = 800,
     rq_payments = [\<lparr>pay_method = Cash, pay_amount = 500\<rparr>], rq_userId = 0,
     rq_date = ''20260101''\<rparr>"

lemmas checkout_defs [pos_simps] =
  invoice_number_def post_sale_credit_def loyalty_earned_def update_customer_after_sale_def
  sale_doc_def create_sale_def

section \<open>Shape of the result\<close>

lemma post_sale_credit_frame [simp]:
  "products (post_sale_credit rq s d) = products d"
  "variants (post_sale_credit rq s d) = variants d"
  "customers (post_sale_credit rq s d) = customers d"
  "sales (post_sale_credit rq s d) = sales d"
  "returns (post_sale_credit rq s d) = returns d"
  "heldSales (post_sale_credit rq s d) = heldSales d"
  "inventory (post_sale_credit rq s d) = inventory d"
  "settings (post_sale_credit rq s d) = settings d"
  "clock (post_sale_credit rq s d) = clock d"
  by (simp_all add: post_sale_credit_def fresh_id_def split: option.splits)

lemma update_customer_frame [simp]:
  "products (update_customer_after_sale rq d) = products d"
  "variants (update_customer_after_sale rq d) = variants d"
  "sales (update_customer_after_sale rq d) = sales d"
  "credits (update_customer_after_sale rq d) = credits d"
  "returns (update_customer_after_sale rq d) = returns d"
  "heldSales (update_customer_after_sale rq d) = heldSales d"
  "inventory (update_customer_after_sale rq d) = inventory d"
  "settings (update_customer_after_sale rq d) = settings d"
  "next_id (update_customer_after_sale rq d) = next_id d"
  "clock (update_customer_after_sale rq d) = clock d"
  by (simp_all add: update_customer_after_sale_def Let_def split: option.splits)

lemma post_sale_credit_credits:
  "credits (post_sale_credit rq s d) =
     credits d @
       (case rq_customerId rq of
          None \<Rightarrow> []
        | Some cid \<Rightarrow>
            if 0 < s_remaining s then
              [\<lparr>cr_id = next_id d, cr_saleId = s_id s, cr_invoiceNumber = s_invoiceNumber s,
                cr_customerId = cid, cr_amount = s_remaining s, cr_paidAmount = 0,
                cr_status = CrPending, cr_createdAt = clock d\<rparr>]
            else [])"
  by (simp add: post_sale_credit_def fresh_id_def split: option.splits)

text \<open>The sale the handler answers with, computed from the request and the old store.\<close>

lemma create_sale_fst:
  "fst (create_sale rq d) =
     sale_doc rq (next_id d) (invoice_number (rq_date rq) (length (sales d))) (clock d)"
  by (simp add: create_sale_def fresh_id_def Let_def)

lemma create_sale_stock:
  "products (snd (create_sale rq d)) = products (sell_items d (rq_items rq))"
  "variants (snd (create_sale rq d)) = variants (sell_items d (rq_items rq))"
  by (simp_all add: create_sale_def fresh_id_def Let_def)

lemma create_sale_sales:
  "sales (snd (create_sale rq d)) = sales d @ [fst (create_sale rq d)]"
  by (simp add: create_sale_def fresh_id_def Let_def)

lemma create_sale_inventory:
  "inventory (snd (create_sale rq d)) = inventory d"
  by (simp add: create_sale_def fresh_id_def Let_def)

lemma create_sale_settings [simp]:
  "settings (snd (create_sale rq d)) = settings d"
  "returns (snd (create_sale rq d)) = returns d"
  "heldSales (snd (create_sale rq d)) = heldSales d"
  "clock (snd (create_sale rq d)) = clock d"
  by (simp_all add: create_sale_def fresh_id_def Let_def)

lemma create_sale_credits:
  "credits (snd (create_sale rq d)) =
     credits d @
       (case rq_customerId rq of
          None \<Rightarrow> []
        | Some cid \<Rightarrow>
            if total_paid (rq_payments rq) < rq_total rq then
              [\<lparr>cr_id = Suc (next_id d), cr_saleId = next_id d,
                cr_invoiceNumber = invoice_number (rq_date rq) (length (sales d)),
                cr_customerId = cid, cr_amount = rq_total rq - total_paid (rq_payments rq),
                cr_paidAmount = 0, cr_status = CrPending, cr_createdAt = clock d\<rparr>]
            else [])"
  by (simp add: create_sale_def fresh_id_def Let_def post_sale_credit_credits sale_doc_def
      remaining_pos_iff remaining_due_def split: option.splits)

lemma create_sale_customers:
  "customers (snd (create_sale rq d)) =
     (case rq_customerId rq of
        None \<Rightarrow> customers d
      | Some cid \<Rightarrow>
          (case customers d cid of
             None \<Rightarrow> customers d
           | Some c \<Rightarrow> (customers d)(cid \<mapsto>
               c\<lparr>c_totalPurchases := c_totalPurchases c + rq_total rq,
                 c_loyaltyPoints := c_loyaltyPoints c + loyalty_earned (settings d) (rq_total rq),
                 c_lastPurchase := Some (clock d), c_updatedAt := Some (clock d)\<rparr>)))"
  by (simp add: create_sale_def fresh_id_def Let_def update_customer_after_sale_def
      split: option.splits)

lemma loyalty_earned_nonneg:
  "0 \<le> tot \<Longrightarrow> (\<forall>st. so = Some st \<longrightarrow> 0 \<le> loyaltyPointsPerUnit st) \<Longrightarrow>
     0 \<le> loyalty_earned so tot"
  by (auto simp: loyalty_earned_def js_or_def split: option.splits)

section \<open>Invoice numbers\<close>

lemma length_pad_start: "length (pad_start w c s) = max w (length s)"
  by (simp add: pad_start_def)

lemma dec_value_pad_start [simp]: "dec_value (pad_start w CHR ''0'' s) = dec_value s"
  by (simp add: pad_start_def)

lemma invoice_split:
  "take (length dateStr + 5) (invoice_number dateStr cnt) = ''INV-'' @ dateStr @ ''-'' \<and>
   drop (length dateStr + 5) (invoice_number dateStr cnt) = pad_start 4 CHR ''0'' (dec_string (cnt + 1))"
proof -
  let ?pre = "''INV-'' @ dateStr @ ''-''"
  have "?pre @ pad_start 4 CHR ''0'' (dec_string (cnt + 1)) = invoice_number dateStr cnt"
    by (simp add: invoice_number_def)
  moreover have "length ?pre = length dateStr + 5" by simp
  ultimately show ?thesis by (metis append_eq_conv_conj)
qed

section \<open>Properties of checkout\<close>

text \<open>
  C1: Payment classification.  The sale checkout records has \<open>totalPaid\<close> the sum of
  the tendered amounts, \<open>change = max(0, totalPaid - total)\<close>,
  \<open>remaining = max(0, total - totalPaid)\<close>, status \<open>credit\<close> exactly when less than
  the total was tendered and \<open>paid\<close> otherwise; it is inserted as the last sale.
  Checkout writes no inventory-log entry (the log is left exactly as it was), although
  its stock loop changes quantities and the specification has every stock adjustment
  append one.
\<close>

theorem checkout_payment_classification:
  "let s = fst (create_sale rq d) in
     s_totalPaid s = (\<Sum>p\<leftarrow>rq_payments rq. pay_amount p) \<and>
     s_change s = max 0 (s_totalPaid s - rq_total rq) \<and>
     s_remaining s = max 0 (rq_total rq - s_totalPaid s) \<and>
     s_status s = (if s_totalPaid s < rq_total rq then Credit else Paid) \<and>
     s_change s - s_remaining s = s_totalPaid s - rq_total rq \<and>
     sales (snd (create_sale rq d)) = sales d @ [s] \<and>
     inventory (snd (create_sale rq d)) = inventory d"
  unfolding Let_def create_sale_sales create_sale_fst create_sale_inventory
  by (simp add: sale_doc_def Let_def total_paid_sum status_of_remaining_due
      change_minus_remaining, simp add: change_due_def remaining_due_def)

text \<open>
  C2: Credit posting.  Checkout appends exactly one credit, for the remaining amount
  with nothing paid and status \<open>pending\<close>, referencing the new sale, when a customer is
  attached and less than the total was tendered; otherwise the credits are unchanged.
\<close>

theorem checkout_posts_credit:
  "credits (snd (create_sale rq d)) =
     credits d @
       (if rq_customerId rq \<noteq> None \<and> total_paid (rq_payments rq) < rq_total rq then
          [\<lparr>cr_id = Suc (next_id d), cr_saleId = s_id (fst (create_sale rq d)),
            cr_invoiceNumber = s_invoiceNumber (fst (create_sale rq d)),
            cr_customerId = the (rq_customerId rq),
            cr_amount = s_remaining (fst (create_sale rq d)),
            cr_paidAmount = 0, cr_status = CrPending, cr_createdAt = clock d\<rparr>]
        else [])"
  by (simp add: create_sale_credits create_sale_fst sale_doc_def Let_def remaining_due_def
      split: option.splits)

text \<open>
  C3: Checkout keeps every product and variant quantity at or above 0, whatever the
  cart asks for (the decrements clamp at 0).
\<close>

theorem checkout_stock_nonneg:
  "stock_nonneg d \<Longrightarrow> stock_nonneg (snd (create_sale rq d))"
  using sell_items_nonneg_gen [of d "rq_items rq"]
  by (simp add: stock_nonneg_def create_sale_stock sell_items_def)

theorem checkout_stock_nonneg_witness:
  "stock_nonneg (snd (create_sale ex_request ex_store)) \<and>
   products (snd (create_sale ex_request ex_store)) 1 = Some (ex_tea\<lparr>p_quantity := 0\<rparr>)"
  using checkout_stock_nonneg [OF stock_nonneg_ex_store, of ex_request]
  by (simp add: create_sale_stock sell_items_def sell_item_def ex_request_def ex_defs)

text \<open>
  C4: Loyalty accrual.  Checkout with an existing customer adds the total to the
  customer's \<open>totalPurchases\<close>, sets \<open>lastPurchase\<close> and \<open>updatedAt\<close> to now whatever the
  settings, and adds
  \<open>floor(total * (loyaltyPointsPerUnit || 1))\<close> points only when the store settings
  enable loyalty; other customers are untouched.
\<close>

theorem checkout_loyalty_accrual:
  "rq_customerId rq = Some cid \<Longrightarrow> customers d cid = Some c \<Longrightarrow>
     customers (snd (create_sale rq d)) = (customers d)(cid \<mapsto>
       c\<lparr>c_totalPurchases := c_totalPurchases c + rq_total rq,
         c_loyaltyPoints := c_loyaltyPoints c +
           (case settings d of
              Some st \<Rightarrow> if enableLoyalty st
                         then \<lfloor>rq_total rq * js_or (loyaltyPointsPerUnit st) 1\<rfloor> else 0
            | None \<Rightarrow> 0),
         c_lastPurchase := Some (clock d), c_updatedAt := Some (clock d)\<rparr>)"
  by (simp add: create_sale_customers loyalty_earned_def split: option.splits)

theorem checkout_loyalty_accrual_witness:
  "map_option (\<lambda>c. (c_totalPurchases c, c_loyaltyPoints c))
     (customers (snd (create_sale ex_request ex_store)) 7) = Some (800, 800)"
proof -
  have "rq_customerId ex_request = Some 7" "customers ex_store 7 = Some ex_customer"
    by (simp_all add: ex_request_def ex_defs)
  from checkout_loyalty_accrual [OF this] show ?thesis
    by (simp add: ex_request_def ex_defs)
qed

text \<open>
  C5: Checkout is not idempotent.  Submitting the same checkout twice records two sales,
  decrements the stock twice and credits the customer's points twice.
\<close>

theorem checkout_not_idempotent:
  assumes "rq_customerId rq = Some cid" "customers d cid = Some c"
  shows "length (sales (snd (create_sale rq (snd (create_sale rq d))))) = length (sales d) + 2 \<and>
         map_option c_loyaltyPoints (customers (snd (create_sale rq (snd (create_sale rq d)))) cid) =
           Some (c_loyaltyPoints c + 2 * loyalty_earned (settings d) (rq_total rq))"
  using assms by (simp add: create_sale_sales create_sale_customers)

theorem checkout_not_idempotent_witness:
  "length (sales (snd (create_sale ex_request (snd (create_sale ex_request ex_store))))) = 3 \<and>
   map_option c_loyaltyPoints
     (customers (snd (create_sale ex_request (snd (create_sale ex_request ex_store)))) 7) = Some 1600"
proof -
  have "rq_customerId ex_request = Some 7" "customers ex_store 7 = Some ex_customer"
    by (simp_all add: ex_request_def ex_defs)
  from checkout_not_idempotent [OF this] show ?thesis
    by (simp add: ex_request_def ex_defs loyalty_earned_def)
qed

text \<open>
  C6: Invoice numbering.  The invoice number is \<open>INV-\<close>, the date, \<open>-\<close> and the count of
  all sales before the insert plus one, zero-padded to four digits: below 9999 earlier
  sales the suffix has four decimal digits and reads back as that count plus one (the
  first sale gets \<open>0001\<close>); it is not a per-day counter.
\<close>

theorem checkout_invoice_suffix:
  assumes "length (sales d) < 9999"
  shows "let sfx = drop (length (rq_date rq) + 5) (s_invoiceNumber (fst (create_sale rq d))) in
           take (length (rq_date rq) + 5) (s_invoiceNumber (fst (create_sale rq d))) =
             ''INV-'' @ rq_date rq @ ''-'' \<and>
           length sfx = 4 \<and> (\<forall>c\<in>set sfx. is_digit c) \<and> dec_value sfx = length (sales d) + 1"
proof -
  let ?n = "length (sales d) + 1"
  have len: "length (dec_string ?n) \<le> 4"
    using assms by (intro length_dec_string_le) simp_all
  have inv: "s_invoiceNumber (fst (create_sale rq d)) = invoice_number (rq_date rq) (length (sales d))"
    by (simp add: create_sale_fst sale_doc_def Let_def)
  note split = invoice_split [of "rq_date rq" "length (sales d)"]
  have digits: "\<forall>c\<in>set (pad_start 4 CHR ''0'' (dec_string ?n)). is_digit c"
    using dec_string_digits [of ?n] by (auto simp: pad_start_def is_digit_def)
  show ?thesis
    using len split digits
    by (simp add: inv length_pad_start dec_string_value Let_def)
qed

theorem checkout_invoice_suffix_witness:
  "s_invoiceNumber (fst (create_sale ex_request ex_store)) = ''INV-20260101-0002'' \<and>
   dec_value (drop 13 (s_invoiceNumber (fst (create_sale ex_request ex_store)))) = 2"
proof -
  have "length (sales ex_store) < 9999" by (simp add: ex_defs)
  from checkout_invoice_suffix [OF this, of ex_request] show ?thesis
    by (simp add: Let_def create_sale_fst sale_doc_def invoice_number_def pad_start_def
        dec_string.simps numeral_3_eq_3 digit_chars ex_request_def ex_defs)
qed

end
