(* ===== verification/Returns.thy ===== *)
theory Returns
  imports Stock Examples
begin

text \<open>
  The return handler, \<^verbatim>\<open>src/server/routes/sales.js\<close> \<open>router.post('/:id/return')\<close>:
  404 when the sale is absent; otherwise, for each returned line whose product occurs
  in the sale, add the snapshotted price times the returned quantity to the refund and
  put the quantity back on the variant or the product; insert a return record; mark the
  sale \<open>refunded\<close> when the request returns every line in full, else \<open>hasReturns\<close>.
\<close>

section \<open>Operations\<close>

text \<open>"Return to stock": no clamp, no check against the quantity sold.\<close>

definition restock_item :: "db \<Rightarrow> return_item \<Rightarrow> db" where
  "restock_item d item =
     (case ri_variantId item of
        Some vid \<Rightarrow>
          (case variants d vid of
             None \<Rightarrow> d
           | Some v \<Rightarrow> set_variant_qty vid (v_quantity v + ri_quantity item) d)
      | None \<Rightarrow>
          (case products d (ri_productId item) of
             None \<Rightarrow> d
           | Some p \<Rightarrow> set_product_qty (ri_productId item) (p_quantity p + ri_quantity item) d))"

text \<open>\<open>sale.items.find(i => i.productId === item.productId)\<close>\<close>

definition sale_line :: "sale \<Rightarrow> docid \<Rightarrow> cart_item option" where
  "sale_line s pid = find (\<lambda>i. ci_productId i = pid) (s_items s)"

text \<open>The loop body, threading \<open>returnTotal\<close> and the store.\<close>

definition return_line :: "sale \<Rightarrow> money \<times> db \<Rightarrow> return_item \<Rightarrow> money \<times> db" where
  "return_line s acc item =
     (case sale_line s (ri_productId item) of
        None \<Rightarrow> acc
      | Some si \<Rightarrow> (fst acc + ci_price si * of_int (ri_quantity item), restock_item (snd acc) item))"

text \<open>\<open>items.length === sale.items.length && items.every(i => si && si.quantity === i.quantity)\<close>\<close>

definition full_return :: "sale \<Rightarrow> return_item list \<Rightarrow> bool" where
  "full_return s items \<longleftrightarrow>
     length items = length (s_items s) \<and>
     list_all (\<lambda>i. case sale_line s (ri_productId i) of
                       None \<Rightarrow> False
                     | Some si \<Rightarrow> ci_quantity si = ri_quantity i) items"

definition mark_sale :: "docid \<Rightarrow> bool \<Rightarrow> db \<Rightarrow> db" where
  "mark_sale sid full d =
     d\<lparr>sales := update_first (\<lambda>s. s_id s = sid)
        (\<lambda>s. if full then s\<lparr>s_status := Refunded\<rparr> else s\<lparr>s_hasReturns := True\<rparr>) (sales d)\<rparr>"

text \<open>The answer \<open>{success, returnNumber, returnTotal}\<close> carries the refund total.\<close>

definition return_sale :: "docid \<Rightarrow> return_item list \<Rightarrow> db \<Rightarrow> error + (money \<times> db)" where
  "return_sale sid items d =
     (case find_sale sid d of
        None \<Rightarrow> Inl NotFound
      | Some s \<Rightarrow>
          (let r = foldl (return_line s) (0, d) items;
               returnTotal = fst r;
               d1 = snd r;
               d2 = d1\<lparr>returns := returns d1 @
                      [\<lparr>rt_saleId = sid, rt_invoiceNumber = s_invoiceNumber s,
                        rt_items = items, rt_total = returnTotal, rt_createdAt = clock d\<rparr>]\<rparr>
           in Inr (returnTotal, mark_sale sid (full_return s items) d2)))"

lemmas returns_defs [pos_simps] =
  restock_item_def sale_line_def return_line_def full_return_def mark_sale_def return_sale_def

section \<open>Lemmas\<close>

lemma restock_item_frame [simp]:
  "bundles (restock_item d item) = bundles d"
  "customers (restock_item d item) = customers d"
  "sales (restock_item d item) = sales d"
  "credits (restock_item d item) = credits d"
  "returns (restock_item d item) = returns d"
  "inventory (restock_item d item) = inventory d"
  "next_id (restock_item d item) = next_id d"
  "clock (restock_item d item) = clock d"
  by (simp_all add: restock_item_def split: option.splits)

lemma foldl_return_line_frame [simp]:
  "sales (snd (foldl (return_line s) acc items)) = sales (snd acc)"
  "credits (snd (foldl (return_line s) acc items)) = credits (snd acc)"
  "returns (snd (foldl (return_line s) acc items)) = returns (snd acc)"
  "customers (snd (foldl (return_line s) acc items)) = customers (snd acc)"
  "inventory (snd (foldl (return_line s) acc items)) = inventory (snd acc)"
  "clock (snd (foldl (return_line s) acc items)) = clock (snd acc)"
  by (induction items arbitrary: acc) (simp_all add: return_line_def split: option.splits)

text \<open>The refund is the sum, over the returned lines found in the sale, of the sale's price
  times the returned quantity.\<close>

lemma foldl_return_line_total:
  "fst (foldl (return_line s) acc items) =
     fst acc + (\<Sum>i\<leftarrow>items. case sale_line s (ri_productId i) of
                               None \<Rightarrow> 0
                             | Some si \<Rightarrow> ci_price si * of_int (ri_quantity i))"
  by (induction items arbitrary: acc) (simp_all add: return_line_def add.assoc split: option.splits)

lemma restock_item_nonneg:
  "stock_nonneg d \<Longrightarrow> 0 \<le> ri_quantity item \<Longrightarrow> stock_nonneg (restock_item d item)"
  by (auto simp: restock_item_def intro!: stock_nonneg_set_product_qty stock_nonneg_set_variant_qty
           dest: stock_nonneg_products stock_nonneg_variants split: option.splits)

lemma foldl_return_line_nonneg:
  "stock_nonneg (snd acc) \<Longrightarrow> \<forall>i\<in>set items. 0 \<le> ri_quantity i \<Longrightarrow>
     stock_nonneg (snd (foldl (return_line s) acc items))"
  by (induction items arbitrary: acc) (auto simp: return_line_def restock_item_nonneg split: option.splits)

lemma mark_sale_frame [simp]:
  "products (mark_sale sid full d) = products d"
  "variants (mark_sale sid full d) = variants d"
  "credits (mark_sale sid full d) = credits d"
  "returns (mark_sale sid full d) = returns d"
  "customers (mark_sale sid full d) = customers d"
  "inventory (mark_sale sid full d) = inventory d"
  by (simp_all add: mark_sale_def)

lemma stock_nonneg_mark_sale [simp]: "stock_nonneg (mark_sale sid full d) = stock_nonneg d"
  by (simp add: stock_nonneg_def)

lemma stock_nonneg_returns_upd [simp]: "stock_nonneg (d\<lparr>returns := r\<rparr>) = stock_nonneg d"
  by (simp add: stock_nonneg_def)

lemma return_sale_Inr:
  assumes "return_sale sid items d = Inr (t, d')"
  shows "\<exists>s. find_sale sid d = Some s \<and>
           t = (\<Sum>i\<leftarrow>items. case sale_line s (ri_productId i) of
                               None \<Rightarrow> 0
                             | Some si \<Rightarrow> ci_price si * of_int (ri_quantity i)) \<and>
           d' = mark_sale sid (full_return s items)
                  ((snd (foldl (return_line s) (0, d) items))\<lparr>returns :=
                     returns (snd (foldl (return_line s) (0, d) items)) @
                     [\<lparr>rt_saleId = sid, rt_invoiceNumber = s_invoiceNumber s, rt_items = items,
                       rt_total = t, rt_createdAt = clock d\<rparr>]\<rparr>)"
  using assms
  by (auto simp: return_sale_def Let_def foldl_return_line_total split: option.splits)

lemma find_sale_mark_sale:
  "find_sale sid (mark_sale sid full d) =
     map_option (\<lambda>s. if full then s\<lparr>s_status := Refunded\<rparr> else s\<lparr>s_hasReturns := True\<rparr>) (find_sale sid d)"
  by (simp add: find_sale_def mark_sale_def find_update_first)

lemma find_sale_upd_returns [simp]: "find_sale sid (d\<lparr>returns := r\<rparr>) = find_sale sid d"
  by (simp add: find_sale_def)

lemma find_sale_foldl_return_line [simp]:
  "find_sale sid (snd (foldl (return_line s) acc items)) = find_sale sid (snd acc)"
  by (simp add: find_sale_def)

section \<open>Properties of returns\<close>

text \<open>
  C11: Refund total.  A return of a sale that exists refunds, over the returned lines
  whose product occurs in the sale, the price snapshotted in the sale times the returned
  quantity (the current product price plays no part), and appends one return record
  carrying that total; a return against an absent sale is answered 404 and writes nothing.
\<close>

theorem return_refund_total:
  "(find_sale sid d = None \<longrightarrow> return_sale sid items d = Inl NotFound) \<and>
   (\<forall>t d'. return_sale sid items d = Inr (t, d') \<longrightarrow>
      (\<exists>s. find_sale sid d = Some s \<and>
          t = (\<Sum>i\<leftarrow>items. case sale_line s (ri_productId i) of
                              None \<Rightarrow> 0
                            | Some si \<Rightarrow> ci_price si * of_int (ri_quantity i)) \<and>
          returns d' = returns d @ [\<lparr>rt_saleId = sid, rt_invoiceNumber = s_invoiceNumber s,
                                    rt_items = items, rt_total = t, rt_createdAt = clock d\<rparr>]))"
  by (auto simp: return_sale_def Let_def foldl_return_line_total return_line_def split: option.splits)

theorem return_refund_total_witness:
  "fst (projr (return_sale 20 [\<lparr>ri_productId = 1, ri_quantity = 2, ri_variantId = None\<rparr>]
      (ex_store\<lparr>products := (products ex_store)(1 \<mapsto> ex_tea\<lparr>p_price := 150\<rparr>)\<rparr>))) = 200"
proof -
  let ?items = "[\<lparr>ri_productId = 1, ri_quantity = 2, ri_variantId = None\<rparr>]"
  let ?d = "ex_store\<lparr>products := (products ex_store)(1 \<mapsto> ex_tea\<lparr>p_price := 150\<rparr>)\<rparr>"
  have eq: "return_sale 20 ?items ?d = Inr (fst (projr (return_sale 20 ?items ?d)), snd (projr (return_sale 20 ?items ?d)))"
    by (simp add: return_sale_def find_sale_def Let_def ex_defs)
  from return_refund_total [of 20 ?d ?items] eq
  obtain s where "find_sale 20 ?d = Some s"
    and t: "fst (projr (return_sale 20 ?items ?d)) = (\<Sum>i\<leftarrow>?items. case sale_line s (ri_productId i) of
          None \<Rightarrow> 0 | Some si \<Rightarrow> ci_price si * of_int (ri_quantity i))"
    by blast
  then have "s = ex_sale" by (simp add: find_sale_def ex_defs)
  with t show ?thesis by (simp add: sale_line_def ex_defs)
qed

text \<open>
  C12: Full versus partial return.  After a return the sale is marked \<open>refunded\<close> exactly
  when the request has as many lines as the sale and every requested line names a product
  of the sale whose first sale line has exactly the requested quantity; otherwise it keeps
  its status and gets \<open>hasReturns = true\<close>.  So the request is compared line by line
  with the first matching sale line, not as a multiset: two request lines for the same
  product count against one sale line.
\<close>

theorem return_marks_sale:
  "return_sale sid items d = Inr (t, d') \<Longrightarrow>
     \<exists>s. find_sale sid d = Some s \<and>
         find_sale sid d' =
           Some (if length items = length (s_items s) \<and>
                    list_all (\<lambda>i. list_ex (\<lambda>l. ci_productId l = ri_productId i) (s_items s) \<and>
                                  ci_quantity (the (find (\<lambda>l. ci_productId l = ri_productId i) (s_items s))) =
                                    ri_quantity i) items
                 then s\<lparr>s_status := Refunded\<rparr> else s\<lparr>s_hasReturns := True\<rparr>)"
proof -
  have fr: "full_return s items \<longleftrightarrow>
      length items = length (s_items s) \<and>
      list_all (\<lambda>i. list_ex (\<lambda>l. ci_productId l = ri_productId i) (s_items s) \<and>
                    ci_quantity (the (find (\<lambda>l. ci_productId l = ri_productId i) (s_items s))) = ri_quantity i) items"
    for s :: sale
    by (auto simp: full_return_def sale_line_def list_all_iff list_ex_iff find_None_iff
             split: option.splits dest: find_Some_iff [THEN iffD1])
  assume "return_sale sid items d = Inr (t, d')"
  then show ?thesis by (auto dest!: return_sale_Inr simp: find_sale_mark_sale fr [symmetric])
qed

theorem return_marks_sale_witness:
  "map_option s_status (find_sale 20 (snd (projr (return_sale 20
      [\<lparr>ri_productId = 1, ri_quantity = 2, ri_variantId = None\<rparr>,
       \<lparr>ri_productId = 2, ri_quantity = 1, ri_variantId = None\<rparr>] ex_store)))) = Some Refunded \<and>
   map_option (\<lambda>s. (s_status s, s_hasReturns s)) (find_sale 20 (snd (projr (return_sale 20
      [\<lparr>ri_productId = 1, ri_quantity = 1, ri_variantId = None\<rparr>] ex_store)))) = Some (Paid, True)"
proof -
  let ?full = "[\<lparr>ri_productId = 1, ri_quantity = 2, ri_variantId = None\<rparr>,
                \<lparr>ri_productId = 2, ri_quantity = 1, ri_variantId = None\<rparr>]"
  let ?part = "[\<lparr>ri_productId = 1, ri_quantity = 1, ri_variantId = None\<rparr>]"
  have f: "return_sale 20 ?full ex_store = Inr (fst (projr (return_sale 20 ?full ex_store)),
                                              snd (projr (return_sale 20 ?full ex_store)))"
    and p: "return_sale 20 ?part ex_store = Inr (fst (projr (return_sale 20 ?part ex_store)),
                                               snd (projr (return_sale 20 ?part ex_store)))"
    by (simp_all add: return_sale_def find_sale_def Let_def ex_defs split: prod.splits)
  show ?thesis
    using return_marks_sale [OF f] return_marks_sale [OF p]
    by (auto simp: find_sale_def full_return_def sale_line_def ex_defs)
qed

text \<open>
  C13: Returns are not bounded by the sale.  Any quantity of a product that occurs in the
  sale is accepted, refunded at the sale's price and added back to stock, even beyond
  the quantity sold and even when the sale was already refunded.
\<close>

theorem return_unbounded:
  assumes "find_sale sid d = Some s" "sale_line s pid = Some si" "products d pid = Some p"
  shows "\<exists>d'. return_sale sid [\<lparr>ri_productId = pid, ri_quantity = k, ri_variantId = None\<rparr>] d =
                Inr (ci_price si * of_int k, d') \<and>
              products d' pid = Some (p\<lparr>p_quantity := p_quantity p + k\<rparr>)"
  using assms
  by (simp add: return_sale_def return_line_def restock_item_def Let_def mark_sale_def)

theorem return_unbounded_witness:
  "return_sale 20 [\<lparr>ri_productId = 1, ri_quantity = 5, ri_variantId = None\<rparr>] ex_store =
     Inr (500, snd (projr (return_sale 20 [\<lparr>ri_productId = 1, ri_quantity = 5, ri_variantId = None\<rparr>] ex_store))) \<and>
   products (snd (projr (return_sale 20 [\<lparr>ri_productId = 1, ri_quantity = 5, ri_variantId = None\<rparr>] ex_store))) 1 =
     Some (ex_tea\<lparr>p_quantity := 10\<rparr>)"
proof -
  have "find_sale 20 ex_store = Some ex_sale" "sale_line ex_sale 1 = Some (ex_line 1 100 2)"
    "products ex_store 1 = Some ex_tea"
    by (simp_all add: find_sale_def sale_line_def ex_defs)
  from return_unbounded [OF this, of 5] show ?thesis
    by (auto simp: ex_defs)
qed

text \<open>
  C14: Sell and return.  For a plain product with enough stock, selling \<open>n\<close> units and
  returning the same \<open>n\<close> units gives back the quantities the store had.
\<close>

theorem sell_return_roundtrip:
  assumes "products d pid = Some p" "\<not> p_isBundle p" "0 \<le> n" "n \<le> p_quantity p"
  shows "products (restock_item (sell_item d (ex_line pid price n))
                     \<lparr>ri_productId = pid, ri_quantity = n, ri_variantId = None\<rparr>) = products d"
  using assms by (auto simp: sell_item_def restock_item_def ex_line_def)

theorem sell_return_roundtrip_witness:
  "products (restock_item (sell_item ex_store (ex_line 1 100 2))
      \<lparr>ri_productId = 1, ri_quantity = 2, ri_variantId = None\<rparr>) = products ex_store"
proof -
  have "products ex_store 1 = Some ex_tea" "\<not> p_isBundle ex_tea" "0 \<le> (2::int)" "2 \<le> p_quantity ex_tea"
    by (simp_all add: ex_defs)
  from sell_return_roundtrip [OF this] show ?thesis .
qed

text \<open>
  C15: Bundle returns do not restore components.  Returning a bundle line adds the
  quantity to the bundle product's own (otherwise unused) stock and leaves every
  component as it is, so a sold-and-returned bundle leaves its components decremented.
\<close>

theorem return_bundle_asymmetry:
  assumes "products d pid = Some bp" "p_isBundle bp" "c \<noteq> pid"
  shows "products (restock_item d \<lparr>ri_productId = pid, ri_quantity = n, ri_variantId = None\<rparr>) pid =
           Some (bp\<lparr>p_quantity := p_quantity bp + n\<rparr>) \<and>
         products (restock_item d \<lparr>ri_productId = pid, ri_quantity = n, ri_variantId = None\<rparr>) c =
           products d c"
  using assms by (simp add: restock_item_def)

theorem return_bundle_asymmetry_witness:
  "products (restock_item (sell_item ex_store (ex_line 4 100 2))
      \<lparr>ri_productId = 4, ri_quantity = 2, ri_variantId = None\<rparr>) 2 = Some (ex_compA\<lparr>p_quantity := 4\<rparr>) \<and>
   products (restock_item (sell_item ex_store (ex_line 4 100 2))
      \<lparr>ri_productId = 4, ri_quantity = 2, ri_variantId = None\<rparr>) 4 = Some (ex_bundle\<lparr>p_quantity := 2\<rparr>)"
proof -
  let ?d = "sell_item ex_store (ex_line 4 100 2)"
  have b: "products ?d 4 = Some ex_bundle" "p_isBundle ex_bundle" "(2::docid) \<noteq> 4"
    by (simp_all add: sell_item_def sell_bundle_def bundle_rows_def sell_component_def ex_defs)
  have a: "products ?d 2 = Some (ex_compA\<lparr>p_quantity := 4\<rparr>)"
    by (simp add: sell_item_def sell_bundle_def bundle_rows_def sell_component_def ex_defs)
  from return_bundle_asymmetry [OF b, of 2] a show ?thesis by (simp add: ex_defs)
qed

end
