(* ===== verification/Ledger.thy ===== *)
theory Ledger
  imports Store Examples
begin

text \<open>
  The Ledger Poster's payment side, \<^verbatim>\<open>src/server/routes/customers.js\<close>
  \<open>router.post('/:id/payment')\<close>: 404 for an absent customer; otherwise record the payment,
  then either add the amount to the one credit named by \<open>creditId\<close>, or walk the
  customer's open credits oldest first and settle each with what is left of the amount.
  The FIFO loop is related to an abstract allocation (\<open>allocate\<close>): which credit
  receives how much.  The customer's outstanding balance is the sum that the customer
  list and the receivables report compute (\<open>totalCredit\<close>).
\<close>

section \<open>Operations\<close>

definition owed :: "credit \<Rightarrow> money" where
  "owed c = cr_amount c - cr_paidAmount c"

text \<open>\<open>status: newPaidAmount >= credit.amount ? 'paid' : 'partial'\<close>\<close>

definition settle :: "credit \<Rightarrow> money \<Rightarrow> credit \<Rightarrow> credit" where
  "settle c np x = x\<lparr>cr_paidAmount := np, cr_status := (if cr_amount c \<le> np then CrPaid else CrPartial)\<rparr>"

text \<open>"Update credit if specified": the named credit, whoever it belongs to.\<close>

definition pay_credit :: "docid \<Rightarrow> money \<Rightarrow> db \<Rightarrow> db" where
  "pay_credit crid amt d =
     (case find_credit crid d of
        None \<Rightarrow> d
      | Some c \<Rightarrow> d\<lparr>credits := update_first (\<lambda>x. cr_id x = crid)
                      (settle c (cr_paidAmount c + amt)) (credits d)\<rparr>)"

text \<open>\<open>db.credits.find({customerId, status: {$ne: 'paid'}})\<close> sorted by \<open>createdAt\<close>
  (\<open>Array.prototype.sort\<close> is stable, as \<open>sort_key\<close> is).\<close>

definition open_credits :: "docid \<Rightarrow> credit list \<Rightarrow> credit list" where
  "open_credits cid cs = sort_key cr_createdAt (filter (\<lambda>c. cr_customerId c = cid \<and> cr_status c \<noteq> CrPaid) cs)"

text \<open>"Apply to oldest credits": the loop over the snapshot \<open>ws\<close>, updating the store's \<open>cs\<close>.\<close>

fun fifo_apply :: "money \<Rightarrow> credit list \<Rightarrow> credit list \<Rightarrow> credit list" where
  "fifo_apply r [] cs = cs"
| "fifo_apply r (c # ws) cs =
     (if r \<le> 0 then cs
      else (let ap = min r (owed c)
            in fifo_apply (r - ap) ws
                 (update_first (\<lambda>x. cr_id x = cr_id c) (settle c (cr_paidAmount c + ap)) cs)))"

definition pay_fifo :: "docid \<Rightarrow> money \<Rightarrow> db \<Rightarrow> db" where
  "pay_fifo cid amt d = d\<lparr>credits := fifo_apply amt (open_credits cid (credits d)) (credits d)\<rparr>"

definition record_payment ::
  "docid \<Rightarrow> money \<Rightarrow> pay_method \<Rightarrow> docid option \<Rightarrow> db \<Rightarrow> error + (payment_rec \<times> db)" where
  "record_payment cid amt method creditId d =
     (case customers d cid of
        None \<Rightarrow> Inl NotFound
      | Some c \<Rightarrow>
          (let pr = \<lparr>pr_customerId = cid, pr_amount = amt, pr_method = method,
                     pr_creditId = creditId, pr_createdAt = clock d\<rparr>;
               d1 = d\<lparr>payments := payments d @ [pr]\<rparr>
           in Inr (pr, case creditId of
                         Some crid \<Rightarrow> pay_credit crid amt d1
                       | None \<Rightarrow> pay_fifo cid amt d1)))"

text \<open>\<open>credits.filter(c => c.status !== 'paid').reduce((sum, c) => sum + (c.amount - c.paidAmount), 0)\<close>\<close>

definition total_credit :: "docid \<Rightarrow> credit list \<Rightarrow> money" where
  "total_credit cid cs = (\<Sum>c\<leftarrow>filter (\<lambda>c. cr_customerId c = cid \<and> cr_status c \<noteq> CrPaid) cs. owed c)"

lemmas ledger_defs [pos_simps] =
  owed_def settle_def pay_credit_def open_credits_def pay_fifo_def record_payment_def total_credit_def

section \<open>The abstract allocation\<close>

text \<open>Which credit the loop pays and how much: the first credits in full, the last one
  with what is left, none after the amount is used up.\<close>

fun allocate :: "money \<Rightarrow> credit list \<Rightarrow> (docid \<times> money) list" where
  "allocate r [] = []"
| "allocate r (c # ws) =
     (if r \<le> 0 then [] else (cr_id c, min r (owed c)) # allocate (r - min r (owed c)) ws)"

definition alloc_of :: "(docid \<times> money) list \<Rightarrow> docid \<Rightarrow> money" where
  "alloc_of as k = (case map_of as k of None \<Rightarrow> 0 | Some a \<Rightarrow> a)"

lemma map_update_first_unique:
  assumes "distinct (map cr_id cs)" "w \<in> set cs"
  shows "map F (update_first (\<lambda>x. cr_id x = cr_id w) f cs) =
           map (\<lambda>x. if cr_id x = cr_id w then F (f x) else F x) cs"
  using assms
proof (induction cs)
  case Nil
  then show ?case by simp
next
  case (Cons x xs)
  show ?case
  proof (cases "cr_id x = cr_id w")
    case True
    with Cons.prems(1) have "\<forall>y\<in>set xs. cr_id y \<noteq> cr_id w" by (auto simp: image_iff)
    then have "map (\<lambda>y. if cr_id y = cr_id w then F (f y) else F y) xs = map F xs" by simp
    with True show ?thesis by simp
  next
    case False
    with Cons.prems have "w \<in> set xs" by auto
    with Cons.prems(1) Cons.IH False show ?thesis by simp
  qed
qed

lemma update_first_keeps_other:
  "y \<in> set cs \<Longrightarrow> \<not> P y \<Longrightarrow> y \<in> set (update_first P f cs)"
  by (induction cs) auto

lemma map_cr_id_update_first [simp]:
  "map cr_id (update_first P (settle c np) cs) = map cr_id cs"
  by (rule map_update_first_frame) (simp add: settle_def)

lemma alloc_of_allocate_notin:
  "k \<notin> cr_id ` set ws \<Longrightarrow> alloc_of (allocate r ws) k = 0"
  by (induction r ws rule: allocate.induct) (auto simp: alloc_of_def)

text \<open>The abstract effect of an allocation on one credit of the store.\<close>

definition apply_alloc :: "(docid \<times> money) list \<Rightarrow> credit \<Rightarrow> credit" where
  "apply_alloc as x =
     (case map_of as (cr_id x) of None \<Rightarrow> x | Some a \<Rightarrow> settle x (cr_paidAmount x + a) x)"

lemma cr_id_settle [simp]: "cr_id (settle c np x) = cr_id x"
  by (simp add: settle_def)

lemma cr_customerId_settle [simp]: "cr_customerId (settle c np x) = cr_customerId x"
  by (simp add: settle_def)

lemma map_of_allocate_notin:
  "k \<notin> cr_id ` set ws \<Longrightarrow> map_of (allocate r ws) k = None"
  by (induction r ws rule: allocate.induct) auto

text \<open>Refinement: the loop applies to each credit of the store exactly its allocation.\<close>

lemma fifo_apply_alloc:
  assumes "distinct (map cr_id cs)" "set ws \<subseteq> set cs" "distinct (map cr_id ws)"
  shows "fifo_apply r ws cs = map (apply_alloc (allocate r ws)) cs"
  using assms
proof (induction r ws cs rule: fifo_apply.induct)
  case (1 r cs)
  then show ?case by (simp add: apply_alloc_def map_idI)
next
  case (2 r c ws cs)
  show ?case
  proof (cases "r \<le> 0")
    case True
    then show ?thesis by (simp add: apply_alloc_def map_idI)
  next
    case False
    define ap where "ap = min r (owed c)"
    define cs' where "cs' = update_first (\<lambda>x. cr_id x = cr_id c) (settle c (cr_paidAmount c + ap)) cs"
    have c_in: "c \<in> set cs" using "2.prems"(2) by simp
    have dist': "distinct (map cr_id cs')" using "2.prems"(1) by (simp add: cs'_def)
    have sub': "set ws \<subseteq> set cs'"
    proof
      fix y assume "y \<in> set ws"
      with "2.prems"(2,3) have "y \<in> set cs" "cr_id y \<noteq> cr_id c" by (auto simp: image_iff)
      then show "y \<in> set cs'" unfolding cs'_def by (rule update_first_keeps_other)
    qed
    have IH: "fifo_apply (r - ap) ws cs' = map (apply_alloc (allocate (r - ap) ws)) cs'"
      using "2.IH" False dist' sub' "2.prems"(3) by (simp add: ap_def cs'_def)
    have notin: "cr_id c \<notin> cr_id ` set ws" using "2.prems"(3) by simp
    have "map (apply_alloc (allocate (r - ap) ws)) cs' =
        map (\<lambda>x. if cr_id x = cr_id c then apply_alloc (allocate (r - ap) ws) (settle c (cr_paidAmount c + ap) x)
                 else apply_alloc (allocate (r - ap) ws) x) cs"
      unfolding cs'_def by (rule map_update_first_unique [OF "2.prems"(1) c_in])
    also have "\<dots> = map (apply_alloc (allocate r (c # ws))) cs"
    proof (rule map_cong [OF refl])
      fix x assume x: "x \<in> set cs"
      show "(if cr_id x = cr_id c then apply_alloc (allocate (r - ap) ws) (settle c (cr_paidAmount c + ap) x)
             else apply_alloc (allocate (r - ap) ws) x) = apply_alloc (allocate r (c # ws)) x"
      proof (cases "cr_id x = cr_id c")
        case True
        with x c_in "2.prems"(1) have "x = c" by (metis distinct_map inj_onD)
        have "map_of (allocate (r - ap) ws) (cr_id c) = None"
          using notin by (rule map_of_allocate_notin)
        with True \<open>x = c\<close> \<open>\<not> r \<le> 0\<close> show ?thesis by (simp add: apply_alloc_def ap_def)
      next
        case False
        with \<open>\<not> r \<le> 0\<close> show ?thesis by (simp add: apply_alloc_def ap_def)
      qed
    qed
    finally show ?thesis using IH False by (simp add: ap_def cs'_def Let_def)
  qed
qed

section \<open>Properties of the allocation\<close>

lemma allocate_keys: "set (map fst (allocate r ws)) \<subseteq> cr_id ` set ws"
  by (induction r ws rule: allocate.induct) auto

lemma allocate_keys_distinct: "distinct (map cr_id ws) \<Longrightarrow> distinct (map fst (allocate r ws))"
proof (induction r ws rule: allocate.induct)
  case (1 r)
  then show ?case by simp
next
  case (2 r c ws)
  have "cr_id c \<notin> set (map fst (allocate (r - min r (owed c)) ws))"
    using allocate_keys "2.prems" by fastforce
  with 2 show ?case by simp
qed

text \<open>Conservation: the loop hands out the smaller of the amount and what is owed.\<close>

lemma allocate_sum:
  "\<forall>c\<in>set ws. 0 \<le> owed c \<Longrightarrow>
     (\<Sum>p\<leftarrow>allocate r ws. snd p) = min (max 0 r) (\<Sum>c\<leftarrow>ws. owed c)"
proof (induction r ws rule: allocate.induct)
  case (1 r)
  then show ?case by simp
next
  case (2 r c ws)
  have rest: "0 \<le> (\<Sum>c\<leftarrow>ws. owed c)" using "2.prems" by (auto intro!: sum_list_nonneg)
  show ?case
  proof (cases "r \<le> 0")
    case True
    with rest "2.prems" show ?thesis by simp
  next
    case False
    with 2 have "(\<Sum>p\<leftarrow>allocate (r - min r (owed c)) ws. snd p) =
        min (max 0 (r - min r (owed c))) (\<Sum>c\<leftarrow>ws. owed c)" by simp
    with False rest "2.prems" show ?thesis by (simp add: min_def max_def)
  qed
qed

text \<open>No credit is paid beyond what it owes.\<close>

lemma allocate_bounds:
  "\<forall>c\<in>set ws. 0 \<le> owed c \<Longrightarrow> (k, a) \<in> set (allocate r ws) \<Longrightarrow>
     \<exists>c\<in>set ws. cr_id c = k \<and> 0 \<le> a \<and> a \<le> owed c"
  by (induction r ws rule: allocate.induct) (auto split: if_splits)

text \<open>Oldest first: every allocation but the last settles its credit in full.\<close>

lemma allocate_fifo:
  "k + 1 < length (allocate r ws) \<Longrightarrow> snd (allocate r ws ! k) = owed (ws ! k)"
proof (induction r ws arbitrary: k rule: allocate.induct)
  case (1 r)
  then show ?case by simp
next
  case (2 r c ws)
  show ?case
  proof (cases k)
    case 0
    with "2.prems" have "\<not> r \<le> 0" and "allocate (r - min r (owed c)) ws \<noteq> []"
      by (auto split: if_splits)
    then have "\<not> r - min r (owed c) \<le> 0" by (cases ws) (auto split: if_splits)
    with 0 \<open>\<not> r \<le> 0\<close> show ?thesis by (simp add: min_def split: if_splits)
  next
    case (Suc j)
    with "2.prems" have "\<not> r \<le> 0" by (auto split: if_splits)
    with "2.prems" Suc "2.IH" show ?thesis by simp
  qed
qed

section \<open>Credit status invariant\<close>

text \<open>A credit's status agrees with its amounts: \<open>paid\<close> exactly when settled.\<close>

definition credit_ok :: "credit \<Rightarrow> bool" where
  "credit_ok c \<longleftrightarrow> (cr_status c = CrPaid \<longleftrightarrow> cr_amount c \<le> cr_paidAmount c)"

lemma credit_ok_open_owed: "credit_ok c \<Longrightarrow> cr_status c \<noteq> CrPaid \<Longrightarrow> 0 < owed c"
  by (simp add: credit_ok_def owed_def)

lemma credit_ok_settle_self [simp]: "credit_ok (settle x np x)"
  by (simp add: credit_ok_def settle_def)

lemma credit_ok_apply_alloc: "credit_ok x \<Longrightarrow> credit_ok (apply_alloc as x)"
  by (simp add: apply_alloc_def split: option.splits)

lemma update_first_find:
  "find P xs = Some c \<Longrightarrow> y \<in> set (update_first P f xs) \<Longrightarrow> y \<in> set xs \<or> y = f c"
  by (induction xs) (auto split: if_splits)

section \<open>The customer's balance\<close>

definition open_of :: "docid \<Rightarrow> credit \<Rightarrow> bool" where
  "open_of cid c \<longleftrightarrow> cr_customerId c = cid \<and> cr_status c \<noteq> CrPaid"

lemma total_credit_pointwise:
  "total_credit cid cs = (\<Sum>c\<leftarrow>cs. if open_of cid c then owed c else 0)"
  by (simp add: total_credit_def open_of_def sum_list_map_filter')

lemma distinct_map_sort_key: "distinct (map g (sort_key k xs)) = distinct (map g xs)"
  by (rule mset_eq_imp_distinct_iff) simp

lemma open_owed_nonneg:
  "set ws \<subseteq> set cs \<Longrightarrow> \<forall>c\<in>set cs. credit_ok c \<Longrightarrow> \<forall>c\<in>set ws. open_of cid c \<Longrightarrow>
     \<forall>c\<in>set ws. 0 \<le> owed c"
  by (fastforce simp: open_of_def credit_ok_def owed_def)

lemma open_credits_sub: "set (open_credits cid cs) \<subseteq> set cs"
  by (auto simp: open_credits_def)

lemma open_credits_distinct: "distinct (map cr_id cs) \<Longrightarrow> distinct (map cr_id (open_credits cid cs))"
  by (simp add: open_credits_def distinct_map_sort_key distinct_map_filter)

lemma open_credits_owed: "(\<Sum>c\<leftarrow>open_credits cid cs. owed c) = total_credit cid cs"
  by (simp add: open_credits_def total_credit_def sum_list_map_sort_key)

lemma open_credits_open: "c \<in> set (open_credits cid cs) \<Longrightarrow> open_of cid c"
  by (simp add: open_credits_def open_of_def)

lemma sum_alloc_of_keys:
  "distinct (map fst as) \<Longrightarrow> sum (alloc_of as) (set (map fst as)) = (\<Sum>p\<leftarrow>as. snd p)"
proof (induction as)
  case Nil
  then show ?case by simp
next
  case (Cons p as)
  obtain k a where p: "p = (k, a)" by fastforce
  with Cons.prems have k: "k \<notin> set (map fst as)" by simp
  have "sum (alloc_of (p # as)) (set (map fst as)) = sum (alloc_of as) (set (map fst as))"
    using k p by (intro sum.cong) (auto simp: alloc_of_def)
  with Cons k p show ?case by (simp add: alloc_of_def)
qed

lemma sum_list_alloc_of:
  assumes "distinct (map cr_id cs)" "set (map fst as) \<subseteq> cr_id ` set cs" "distinct (map fst as)"
  shows "(\<Sum>x\<leftarrow>cs. alloc_of as (cr_id x)) = (\<Sum>p\<leftarrow>as. snd p)"
proof -
  have "(\<Sum>x\<leftarrow>cs. alloc_of as (cr_id x)) = (\<Sum>k\<leftarrow>map cr_id cs. alloc_of as k)"
    by (simp add: o_def)
  also have "\<dots> = sum (alloc_of as) (set (map cr_id cs))"
    using assms(1) by (rule sum_list_distinct_conv_sum_set)
  also have "\<dots> = sum (alloc_of as) (set (map fst as))"
    using assms(2) by (intro sum.mono_neutral_right) (auto simp: alloc_of_def split: option.splits
        dest: map_of_SomeD intro: rev_image_eqI)
  also have "\<dots> = (\<Sum>p\<leftarrow>as. snd p)"
    using assms(3) by (rule sum_alloc_of_keys)
  finally show ?thesis .
qed

text \<open>One credit's contribution to the balance drops by exactly its allocation.\<close>

lemma contrib_apply_alloc:
  assumes "distinct (map cr_id cs)" "\<forall>c\<in>set cs. credit_ok c" "x \<in> set cs"
    and ws: "set ws \<subseteq> set cs" "\<forall>c\<in>set ws. open_of cid c"
  shows "(if open_of cid (apply_alloc (allocate r ws) x) then owed (apply_alloc (allocate r ws) x) else 0) =
         (if open_of cid x then owed x else 0) - alloc_of (allocate r ws) (cr_id x)"
proof (cases "map_of (allocate r ws) (cr_id x)")
  case None
  then show ?thesis by (simp add: apply_alloc_def alloc_of_def)
next
  case (Some a)
  have pos: "\<forall>c\<in>set ws. 0 \<le> owed c"
    using ws(1) assms(2) ws(2) by (rule open_owed_nonneg)
  from Some have "(cr_id x, a) \<in> set (allocate r ws)" by (rule map_of_SomeD)
  with pos obtain c where c: "c \<in> set ws" "cr_id c = cr_id x" "0 \<le> a" "a \<le> owed c"
    using allocate_bounds by blast
  with ws(1) assms(1,3) have "c = x" by (metis distinct_map inj_onD subsetD)
  with c ws(2) have "open_of cid x" by simp
  with Some c \<open>c = x\<close> show ?thesis
    by (auto simp: apply_alloc_def alloc_of_def settle_def open_of_def owed_def)
qed

theorem total_credit_fifo:
  assumes "distinct (map cr_id cs)" "\<forall>c\<in>set cs. credit_ok c"
  shows "total_credit cid (fifo_apply amt (open_credits cid cs) cs) =
           total_credit cid cs - min (max 0 amt) (total_credit cid cs)"
proof -
  let ?ws = "open_credits cid cs"
  let ?as = "allocate amt ?ws"
  have sub: "set ?ws \<subseteq> set cs" by (rule open_credits_sub)
  have dws: "distinct (map cr_id ?ws)" using assms(1) by (rule open_credits_distinct)
  have opn: "\<forall>c\<in>set ?ws. open_of cid c" by (auto dest: open_credits_open)
  have pos: "\<forall>c\<in>set ?ws. 0 \<le> owed c"
    using sub assms(2) opn by (rule open_owed_nonneg)
  have "total_credit cid (fifo_apply amt ?ws cs) = total_credit cid (map (apply_alloc ?as) cs)"
    using fifo_apply_alloc [OF assms(1) sub dws] by simp
  also have "\<dots> = (\<Sum>x\<leftarrow>cs. (if open_of cid x then owed x else 0) - alloc_of ?as (cr_id x))"
    unfolding total_credit_pointwise using contrib_apply_alloc [OF assms _ sub opn]
    by (simp add: o_def cong: map_cong)
  also have "\<dots> = total_credit cid cs - (\<Sum>x\<leftarrow>cs. alloc_of ?as (cr_id x))"
    by (simp add: total_credit_pointwise sum_list_subtractf)
  also have "(\<Sum>x\<leftarrow>cs. alloc_of ?as (cr_id x)) = (\<Sum>p\<leftarrow>?as. snd p)"
  proof (rule sum_list_alloc_of [OF assms(1)])
    show "set (map fst ?as) \<subseteq> cr_id ` set cs"
      using allocate_keys [of amt ?ws] image_mono [OF sub, of cr_id] by (rule order_trans)
    show "distinct (map fst ?as)" using dws by (rule allocate_keys_distinct)
  qed
  also have "\<dots> = min (max 0 amt) (total_credit cid cs)"
    using pos by (simp add: allocate_sum open_credits_owed)
  finally show ?thesis .
qed

section \<open>The payment handler\<close>

lemma cr_id_apply_alloc [simp]: "cr_id (apply_alloc as x) = cr_id x"
  by (simp add: apply_alloc_def split: option.splits)

lemma pay_fifo_alloc:
  "distinct (map cr_id (credits d)) \<Longrightarrow>
     credits (pay_fifo cid amt d) = map (apply_alloc (allocate amt (open_credits cid (credits d)))) (credits d)"
  by (simp add: pay_fifo_def fifo_apply_alloc open_credits_sub open_credits_distinct)

lemma pay_fifo_ok:
  assumes "distinct (map cr_id (credits d))" "\<forall>c\<in>set (credits d). credit_ok c"
  shows "distinct (map cr_id (credits (pay_fifo cid amt d))) \<and> (\<forall>c\<in>set (credits (pay_fifo cid amt d)). credit_ok c)"
  using assms by (simp add: pay_fifo_alloc o_def credit_ok_apply_alloc)

lemma pay_credit_ok:
  assumes "distinct (map cr_id (credits d))" "\<forall>c\<in>set (credits d). credit_ok c"
  shows "distinct (map cr_id (credits (pay_credit crid amt d))) \<and> (\<forall>c\<in>set (credits (pay_credit crid amt d)). credit_ok c)"
  using assms by (auto simp: pay_credit_def find_credit_def dest: update_first_find split: option.splits)

lemma record_payment_Inr:
  "record_payment cid amt method copt d = Inr (pr, d') \<Longrightarrow>
     customers d cid \<noteq> None \<and>
     pr = \<lparr>pr_customerId = cid, pr_amount = amt, pr_method = method, pr_creditId = copt,
           pr_createdAt = clock d\<rparr> \<and>
     d' = (case copt of
             Some crid \<Rightarrow> pay_credit crid amt (d\<lparr>payments := payments d @ [pr]\<rparr>)
           | None \<Rightarrow> pay_fifo cid amt (d\<lparr>payments := payments d @ [pr]\<rparr>))"
  by (auto simp: record_payment_def Let_def split: option.splits)

lemma pay_frame [simp]:
  "payments (pay_fifo cid amt d) = payments d" "payments (pay_credit crid amt d) = payments d"
  "customers (pay_fifo cid amt d) = customers d" "customers (pay_credit crid amt d) = customers d"
  by (simp_all add: pay_fifo_def pay_credit_def split: option.splits)

lemma allocate_prefix:
  "map fst (allocate r ws) = map cr_id (take (length (allocate r ws)) ws)"
  by (induction r ws rule: allocate.induct) auto

lemma ex_store_credits_ok:
  "distinct (map cr_id (credits ex_store)) \<and> (\<forall>c\<in>set (credits ex_store). credit_ok c)"
  by (simp add: credit_ok_def ex_defs)

section \<open>Properties of the ledger\<close>

text \<open>
  C16: Outstanding balance after a payment.  When no credit is named, a payment of
  \<open>amt\<close> lowers the customer's outstanding balance (\<open>totalCredit\<close>) by exactly
  \<open>min (max 0 amt) balance\<close>: all of it while debts remain, never below 0, and the
  overpaid part is not carried anywhere.  The payment itself is recorded as given.
  Credits have distinct ids and each one's status agrees with its paid amount.
\<close>

theorem record_payment_balance:
  assumes "distinct (map cr_id (credits d))" "\<forall>c\<in>set (credits d). credit_ok c"
    and "record_payment cid amt method None d = Inr (pr, d')"
  shows "total_credit cid (credits d') =
           total_credit cid (credits d) - min (max 0 amt) (total_credit cid (credits d)) \<and>
         payments d' = payments d @ [pr] \<and> pr_amount pr = amt \<and> pr_customerId pr = cid"
  using assms record_payment_Inr [OF assms(3)]
  by (simp add: pay_fifo_def total_credit_fifo)

theorem record_payment_balance_witness:
  "total_credit 7 (credits (snd (projr (record_payment 7 120 Cash None ex_store)))) = 30"
proof -
  have r: "record_payment 7 120 Cash None ex_store =
      Inr (fst (projr (record_payment 7 120 Cash None ex_store)), snd (projr (record_payment 7 120 Cash None ex_store)))"
    by (simp add: record_payment_def Let_def ex_defs)
  have "total_credit 7 (credits ex_store) = 150"
    by (simp add: total_credit_def owed_def ex_defs)
  with record_payment_balance [OF conjunct1 [OF ex_store_credits_ok] conjunct2 [OF ex_store_credits_ok] r]
  show ?thesis by simp
qed

text \<open>
  C17: The oldest-first loop refines the allocation.  Without a named credit, the
  payment changes the credits exactly as the abstract allocation says: the open
  credits of the customer, oldest first, receive in turn what they owe until the
  amount is used up; every allocation but the last settles its credit in full, and the
  credits allocated to are a prefix of the oldest-first order.
\<close>

theorem pay_fifo_refines:
  assumes "distinct (map cr_id (credits d))"
  shows "credits (pay_fifo cid amt d) =
           map (apply_alloc (allocate amt (open_credits cid (credits d)))) (credits d) \<and>
         (\<forall>k. k + 1 < length (allocate amt (open_credits cid (credits d))) \<longrightarrow>
            snd (allocate amt (open_credits cid (credits d)) ! k) = owed (open_credits cid (credits d) ! k)) \<and>
         map fst (allocate amt (open_credits cid (credits d))) =
           map cr_id (take (length (allocate amt (open_credits cid (credits d)))) (open_credits cid (credits d)))"
  using assms by (simp add: pay_fifo_alloc allocate_fifo allocate_prefix [symmetric])

theorem pay_fifo_refines_witness:
  "allocate 120 (open_credits 7 (credits ex_store)) = [(10, 100), (11, 20)] \<and>
   credits (pay_fifo 7 120 ex_store) =
     [ex_credit 10 100 1\<lparr>cr_paidAmount := 100, cr_status := CrPaid\<rparr>,
      ex_credit 11 50 2\<lparr>cr_paidAmount := 20, cr_status := CrPartial\<rparr>]"
proof -
  have a: "allocate 120 (open_credits 7 (credits ex_store)) = [(10, 100), (11, 20)]"
    by (simp add: open_credits_def owed_def ex_defs)
  show ?thesis
    using pay_fifo_refines [OF conjunct1 [OF ex_store_credits_ok], of 7 120] a
    by (simp add: apply_alloc_def settle_def ex_defs)
qed

text \<open>
  C18: Consistent credits.  On both paths of the payment handler, credits keep distinct
  ids and each credit's status stays \<open>paid\<close> exactly when its paid amount reaches its
  amount.
\<close>

theorem record_payment_credit_ok:
  assumes "distinct (map cr_id (credits d))" "\<forall>c\<in>set (credits d). credit_ok c"
    and "record_payment cid amt method copt d = Inr (pr, d')"
  shows "distinct (map cr_id (credits d')) \<and> (\<forall>c\<in>set (credits d'). credit_ok c)"
proof -
  let ?d1 = "d\<lparr>payments := payments d @ [pr]\<rparr>"
  have h: "distinct (map cr_id (credits ?d1))" "\<forall>c\<in>set (credits ?d1). credit_ok c"
    using assms(1,2) by simp_all
  show ?thesis
  proof (cases copt)
    case None
    with record_payment_Inr [OF assms(3)] pay_fifo_ok [OF h, of cid amt] show ?thesis by simp
  next
    case (Some crid)
    with record_payment_Inr [OF assms(3)] pay_credit_ok [OF h, of crid amt] show ?thesis by simp
  qed
qed

theorem record_payment_credit_ok_witness:
  "distinct (map cr_id (credits (snd (projr (record_payment 7 30 Cash (Some 11) ex_store))))) \<and>
   list_all credit_ok (credits (snd (projr (record_payment 7 30 Cash (Some 11) ex_store))))"
proof -
  have r: "record_payment 7 30 Cash (Some 11) ex_store =
      Inr (fst (projr (record_payment 7 30 Cash (Some 11) ex_store)),
           snd (projr (record_payment 7 30 Cash (Some 11) ex_store)))"
    by (simp add: record_payment_def Let_def ex_defs)
  from record_payment_credit_ok [OF conjunct1 [OF ex_store_credits_ok] conjunct2 [OF ex_store_credits_ok] r]
  show ?thesis by (simp add: list_all_iff)
qed

text \<open>
  C19: A named credit is paid unchecked.  When the request names a credit, the whole
  amount is added to that credit's paid amount whichever customer it belongs to and
  however little it still owes: there is no ownership check and no cap at the amount
  owed.
\<close>

theorem record_payment_named_credit:
  assumes "customers d cid = Some c" "find_credit crid d = Some x"
  shows "\<exists>d'. record_payment cid amt method (Some crid) d =
                Inr (\<lparr>pr_customerId = cid, pr_amount = amt, pr_method = method,
                      pr_creditId = Some crid, pr_createdAt = clock d\<rparr>, d') \<and>
              find_credit crid d' =
                Some (x\<lparr>cr_paidAmount := cr_paidAmount x + amt,
                        cr_status := (if cr_amount x \<le> cr_paidAmount x + amt then CrPaid else CrPartial)\<rparr>)"
  using assms
  by (simp add: record_payment_def pay_credit_def Let_def find_update_first settle_def)
     (simp add: find_credit_def find_update_first settle_def)

theorem record_payment_named_credit_witness:
  "map_option (\<lambda>x. (cr_customerId x, cr_amount x, cr_paidAmount x, cr_status x))
     (find_credit 10 (snd (projr (record_payment 7 500 Cash (Some 10)
        (ex_store\<lparr>credits := [ex_credit 10 100 1\<lparr>cr_customerId := 8\<rparr>]\<rparr>))))) =
   Some (8, 100, 500, CrPaid)"
proof -
  let ?d = "ex_store\<lparr>credits := [ex_credit 10 100 1\<lparr>cr_customerId := 8\<rparr>]\<rparr>"
  have "customers ?d 7 = Some ex_customer" "find_credit 10 ?d = Some (ex_credit 10 100 1\<lparr>cr_customerId := 8\<rparr>)"
    by (simp_all add: find_credit_def ex_defs)
  from record_payment_named_credit [OF this, of 500 Cash] show ?thesis
    by (auto simp: ex_defs)
qed

end
