(* ===== verification/Loyalty.thy ===== *)
theory Loyalty
  imports Store Examples
begin

text \<open>
  Loyalty redemption, \<^verbatim>\<open>src/server/routes/customers.js\<close>
  \<open>router.post('/:id/redeem-points')\<close>: 404 for an absent customer, 400 when the balance
  is below the requested points; otherwise the points are taken off the balance, added
  to \<open>redeemedPoints\<close>, and their value (\<open>settings.loyaltyPointValue || 0.1\<close> each) is
  returned to the caller, which applies it (or not) to a later sale.  Accrual is part of
  checkout (\<open>Checkout.loyalty_earned\<close>).
\<close>

definition point_value :: "settings option \<Rightarrow> money" where
  "point_value so = (case so of None \<Rightarrow> 1 / 10 | Some st \<Rightarrow> js_or (loyaltyPointValue st) (1 / 10))"

text \<open>The answer \<open>{success, discountValue, remainingPoints}\<close>.\<close>

definition redeem_points :: "docid \<Rightarrow> int \<Rightarrow> db \<Rightarrow> error + ((money \<times> int) \<times> db)" where
  "redeem_points cid points d =
     (case customers d cid of
        None \<Rightarrow> Inl NotFound
      | Some c \<Rightarrow>
          if c_loyaltyPoints c < points then Inl InsufficientPoints
          else
            (let discountValue = of_int points * point_value (settings d)
             in Inr ((discountValue, c_loyaltyPoints c - points),
                     d\<lparr>customers := (customers d)(cid \<mapsto>
                        c\<lparr>c_loyaltyPoints := c_loyaltyPoints c - points,
                          c_redeemedPoints := c_redeemedPoints c + points\<rparr>)\<rparr>)))"

lemmas loyalty_defs [pos_simps] = point_value_def redeem_points_def

text \<open>Every customer's point balance is at least 0.\<close>

definition loyalty_nonneg :: "db \<Rightarrow> bool" where
  "loyalty_nonneg d \<longleftrightarrow> (\<forall>c\<in>ran (customers d). 0 \<le> c_loyaltyPoints c)"

lemma loyalty_nonneg_upd:
  "loyalty_nonneg d \<Longrightarrow> 0 \<le> c_loyaltyPoints c \<Longrightarrow>
     loyalty_nonneg (d\<lparr>customers := (customers d)(cid \<mapsto> c)\<rparr>)"
  using ran_upd_subset by (fastforce simp: loyalty_nonneg_def)

lemma loyalty_nonneg_lookup:
  "loyalty_nonneg d \<Longrightarrow> customers d cid = Some c \<Longrightarrow> 0 \<le> c_loyaltyPoints c"
  by (auto simp: loyalty_nonneg_def ran_def)

lemma point_value_pos:
  "(\<forall>st. so = Some st \<longrightarrow> 0 \<le> loyaltyPointValue st) \<Longrightarrow> 0 < point_value so"
  by (auto simp: point_value_def js_or_def split: option.splits)

lemma redeem_points_Inr:
  "redeem_points cid points d = Inr (r, d') \<Longrightarrow>
     \<exists>c. customers d cid = Some c \<and> points \<le> c_loyaltyPoints c \<and>
         r = (of_int points * point_value (settings d), c_loyaltyPoints c - points) \<and>
         customers d' = (customers d)(cid \<mapsto>
           c\<lparr>c_loyaltyPoints := c_loyaltyPoints c - points,
             c_redeemedPoints := c_redeemedPoints c + points\<rparr>) \<and>
         products d' = products d \<and> sales d' = sales d \<and> credits d' = credits d \<and>
         settings d' = settings d"
  by (auto simp: redeem_points_def Let_def split: option.splits if_splits)

lemma loyalty_nonneg_ex_store: "loyalty_nonneg ex_store"
  by (simp add: loyalty_nonneg_def ex_defs)

section \<open>Properties of redemption\<close>

text \<open>
  C20: Redemption conserves points.  A successful redemption keeps every point balance
  non-negative, moves exactly the redeemed points from the balance to
  \<open>redeemedPoints\<close> (their sum is unchanged), answers the new balance, and values the
  points at \<open>loyaltyPointValue || 0.1\<close> each.  An absent customer is answered 404 and a
  balance below the request 400.
\<close>

theorem redeem_points_conserves:
  "(customers d cid = None \<longrightarrow> redeem_points cid points d = Inl NotFound) \<and>
   (\<forall>c. customers d cid = Some c \<longrightarrow> c_loyaltyPoints c < points \<longrightarrow>
      redeem_points cid points d = Inl InsufficientPoints) \<and>
   (\<forall>v rem d'. loyalty_nonneg d \<longrightarrow> redeem_points cid points d = Inr ((v, rem), d') \<longrightarrow>
      loyalty_nonneg d' \<and>
      (\<exists>c c'. customers d cid = Some c \<and> customers d' cid = Some c' \<and>
         c_loyaltyPoints c' + c_redeemedPoints c' = c_loyaltyPoints c + c_redeemedPoints c \<and>
         rem = c_loyaltyPoints c' \<and> c_loyaltyPoints c' = c_loyaltyPoints c - points \<and>
         v = of_int points * point_value (settings d)))"
proof -
  have ok: "loyalty_nonneg d' \<and>
      (\<exists>c c'. customers d cid = Some c \<and> customers d' cid = Some c' \<and>
         c_loyaltyPoints c' + c_redeemedPoints c' = c_loyaltyPoints c + c_redeemedPoints c \<and>
         rem = c_loyaltyPoints c' \<and> c_loyaltyPoints c' = c_loyaltyPoints c - points \<and>
         v = of_int points * point_value (settings d))"
    if n: "loyalty_nonneg d" and r: "redeem_points cid points d = Inr ((v, rem), d')" for v rem d'
  proof -
    from redeem_points_Inr [OF r] obtain c where c: "customers d cid = Some c"
      "points \<le> c_loyaltyPoints c" "(v, rem) = (of_int points * point_value (settings d), c_loyaltyPoints c - points)"
      "customers d' = (customers d)(cid \<mapsto> c\<lparr>c_loyaltyPoints := c_loyaltyPoints c - points,
          c_redeemedPoints := c_redeemedPoints c + points\<rparr>)"
      by blast
    have "loyalty_nonneg (d\<lparr>customers := customers d'\<rparr>)"
      unfolding c(4) by (rule loyalty_nonneg_upd [OF n]) (simp add: c(2))
    then have "loyalty_nonneg d'" by (simp add: loyalty_nonneg_def)
    with c show ?thesis by simp
  qed
  then show ?thesis by (simp add: redeem_points_def)
qed

theorem redeem_points_conserves_witness:
  "redeem_points 8 10 ex_store = Inl NotFound \<and>
   redeem_points 7 10 ex_store = Inl InsufficientPoints \<and>
   loyalty_nonneg (snd (projr (redeem_points 7 40 (ex_store\<lparr>customers := [7 \<mapsto> ex_customer\<lparr>c_loyaltyPoints := 100\<rparr>]\<rparr>)))) \<and>
   fst (projr (redeem_points 7 40 (ex_store\<lparr>customers := [7 \<mapsto> ex_customer\<lparr>c_loyaltyPoints := 100\<rparr>]\<rparr>))) = (4, 60)"
proof -
  let ?d = "ex_store\<lparr>customers := [7 \<mapsto> ex_customer\<lparr>c_loyaltyPoints := 100\<rparr>]\<rparr>"
  have n: "loyalty_nonneg ?d" by (simp add: loyalty_nonneg_def ex_defs)
  have r: "redeem_points 7 40 ?d = Inr ((4, 60), snd (projr (redeem_points 7 40 ?d)))"
    by (simp add: redeem_points_def point_value_def Let_def ex_defs)
  have a: "customers ex_store 8 = None" "customers ex_store 7 = Some ex_customer"
    "c_loyaltyPoints ex_customer < 10"
    by (simp_all add: ex_defs)
  have e1: "redeem_points 8 10 ex_store = Inl NotFound"
    using redeem_points_conserves [of ex_store 8 10] a(1) by blast
  have e2: "redeem_points 7 10 ex_store = Inl InsufficientPoints"
    using redeem_points_conserves [of ex_store 7 10] a(2,3) by blast
  have "loyalty_nonneg (snd (projr (redeem_points 7 40 ?d)))"
    using redeem_points_conserves [of ?d 7 40] n r by blast
  moreover have "fst (projr (redeem_points 7 40 ?d)) = (4, 60)"
    by (simp add: redeem_points_def point_value_def Let_def ex_defs)
  ultimately show ?thesis using e1 e2 by simp
qed

text \<open>
  C21: The requested points are not validated.  A negative request passes the balance
  check, raises the balance by its magnitude and lowers \<open>redeemedPoints\<close>; the answered
  discount is the (negative) request times the point value.
\<close>

theorem redeem_negative_points:
  assumes "customers d cid = Some c" "0 \<le> c_loyaltyPoints c" "points < 0"
  shows "\<exists>d'. redeem_points cid points d =
                Inr ((of_int points * point_value (settings d), c_loyaltyPoints c - points), d') \<and>
              customers d' cid = Some (c\<lparr>c_loyaltyPoints := c_loyaltyPoints c - points,
                                         c_redeemedPoints := c_redeemedPoints c + points\<rparr>) \<and>
              c_loyaltyPoints c < c_loyaltyPoints c - points \<and>
              c_redeemedPoints c + points < c_redeemedPoints c"
  using assms by (simp add: redeem_points_def Let_def)

theorem redeem_negative_points_witness:
  "fst (projr (redeem_points 7 (-100) ex_store)) = (-10, 100) \<and>
   map_option c_loyaltyPoints (customers (snd (projr (redeem_points 7 (-100) ex_store))) 7) = Some 100"
proof -
  have "customers ex_store 7 = Some ex_customer" "0 \<le> c_loyaltyPoints ex_customer" "(-100::int) < 0"
    by (simp_all add: ex_defs)
  from redeem_negative_points [OF this] show ?thesis
    by (auto simp: point_value_def ex_defs)
qed

end
