(* ===== verification/Shifts.thy ===== *)
theory Shifts
  imports Store Examples
begin

text \<open>
  Cashier shifts, \<^verbatim>\<open>src/server/routes/shifts.js\<close>: \<open>POST /start\<close> opens a shift for a
  user unless that user already has an active one, \<open>POST /:id/close\<close> closes a shift
  and stores the cash reconciliation (opening cash plus the cash tendered in the user's
  sales since the shift started, minus every return since then), \<open>GET /current\<close> finds
  the user's active shift, \<open>GET /\<close> lists shifts by filter, newest first.  The shifts
  collection is a list in insertion order; the state machine of a shift is
  \<open>active \<rightarrow> closed\<close>.  Served one request at a time (\<open>shift_step\<close>) a user has at most
  one active shift; served as the server runs them, with \<open>POST /start\<close> split at the
  await between its check and its insert (\<open>shift_conc_step\<close>), two starts of one user
  can both insert.
\<close>

section \<open>Operations\<close>

text \<open>\<open>db.shifts.findOne({ userId, status: 'active' })\<close>\<close>

definition active_shift :: "docid \<Rightarrow> db \<Rightarrow> shift option" where
  "active_shift uid d = find (\<lambda>x. sh_userId x = uid \<and> sh_status x = ShiftActive) (shifts d)"

definition find_shift :: "docid \<Rightarrow> db \<Rightarrow> shift option" where
  "find_shift sid d = find (\<lambda>x. sh_id x = sid) (shifts d)"

text \<open>\<open>parseFloat(openingCash) || 0\<close>: an unparsable (NaN) or absent amount reads as 0.\<close>

definition parse_cash :: "money option \<Rightarrow> money" where
  "parse_cash x = (case x of None \<Rightarrow> 0 | Some v \<Rightarrow> js_or v 0)"

text \<open>The insert of \<open>POST /start\<close>: a new active shift of the user, appended.\<close>

definition start_insert :: "docid \<Rightarrow> money option \<Rightarrow> db \<Rightarrow> shift \<times> db" where
  "start_insert uid openingCash d =
     (case fresh_id d of (sid, d1) \<Rightarrow>
        (let sh = \<lparr>sh_id = sid, sh_userId = uid, sh_openingCash = parse_cash openingCash,
                   sh_closingCash = 0, sh_expectedCash = parse_cash openingCash,
                   sh_difference = 0, sh_totalSales = 0, sh_salesCount = 0,
                   sh_totalReturns = 0, sh_returnsCount = 0, sh_totalCash = 0,
                   sh_status = ShiftActive, sh_startedAt = clock d, sh_endedAt = None\<rparr>
         in (sh, d1\<lparr>shifts := shifts d1 @ [sh]\<rparr>)))"

text \<open>\<open>POST /start\<close> run to completion: the \<open>findOne\<close> check, 400 when the user has an
  active shift, then the insert.\<close>

definition start_shift :: "docid \<Rightarrow> money option \<Rightarrow> db \<Rightarrow> error + (shift \<times> db)" where
  "start_shift uid openingCash d =
     (case active_shift uid d of
        Some _ \<Rightarrow> Inl ActiveShiftExists
      | None \<Rightarrow> Inr (start_insert uid openingCash d))"

text \<open>The sales of the shift's user and the returns of anyone between the start and now.\<close>

definition shift_sales :: "shift \<Rightarrow> time \<Rightarrow> db \<Rightarrow> sale list" where
  "shift_sales sh now d =
     filter (\<lambda>s. s_userId s = sh_userId sh \<and> sh_startedAt sh \<le> s_createdAt s \<and> s_createdAt s \<le> now)
       (sales d)"

definition shift_returns :: "shift \<Rightarrow> time \<Rightarrow> db \<Rightarrow> return_rec list" where
  "shift_returns sh now d =
     filter (\<lambda>r. sh_startedAt sh \<le> rt_createdAt r \<and> rt_createdAt r \<le> now) (returns d)"

text \<open>\<open>(s.payments || []).filter(p => p.method === 'cash').reduce((cs, p) => cs + p.amount, 0)\<close>\<close>

definition cash_of :: "sale \<Rightarrow> money" where
  "cash_of s = foldl (\<lambda>cs p. cs + pay_amount p) 0 (filter (\<lambda>p. pay_method p = Cash) (s_payments s))"

definition close_shift :: "docid \<Rightarrow> money \<Rightarrow> db \<Rightarrow> error + (shift option \<times> db)" where
  "close_shift sid closingCash d =
     (case find_shift sid d of
        None \<Rightarrow> Inl NotFound
      | Some sh \<Rightarrow>
          (let now = clock d;
               ss = shift_sales sh now d;
               rs = shift_returns sh now d;
               totalSales = foldl (\<lambda>acc s. acc + s_total s) 0 ss;
               totalCash = foldl (\<lambda>acc s. acc + cash_of s) 0 ss;
               totalReturns = foldl (\<lambda>acc r. acc + rt_total r) 0 rs;
               expectedCash = sh_openingCash sh + totalCash - totalReturns;
               d1 = d\<lparr>shifts := update_first (\<lambda>x. sh_id x = sid)
                      (\<lambda>x. x\<lparr>sh_closingCash := closingCash, sh_expectedCash := expectedCash,
                            sh_difference := closingCash - expectedCash, sh_totalSales := totalSales,
                            sh_salesCount := length ss, sh_totalReturns := totalReturns,
                            sh_returnsCount := length rs, sh_totalCash := totalCash,
                            sh_status := ShiftClosed, sh_endedAt := Some now\<rparr>) (shifts d)\<rparr>
           in Inr (find_shift sid d1, d1)))"

text \<open>\<open>GET /\<close>: the filters that are given, then newest \<open>startedAt\<close> first.\<close>

definition list_shifts :: "docid option \<Rightarrow> shift_status option \<Rightarrow> time option \<Rightarrow> time option \<Rightarrow> db \<Rightarrow> shift list" where
  "list_shifts uid st from to d =
     rev (sort_key sh_startedAt (rev (filter (\<lambda>x.
        (case uid of None \<Rightarrow> True | Some u \<Rightarrow> sh_userId x = u) \<and>
        (case st of None \<Rightarrow> True | Some s \<Rightarrow> sh_status x = s) \<and>
        (case from of None \<Rightarrow> True | Some f \<Rightarrow> f \<le> sh_startedAt x) \<and>
        (case to of None \<Rightarrow> True | Some t \<Rightarrow> sh_startedAt x \<le> t)) (shifts d))))"

text \<open>\<open>GET /:id/details\<close>: the shift, and the user's sales and expenses between its start
  and its end (now while it is open); an expense's \<open>userId\<close> is what its request carried.\<close>

definition shift_details :: "docid \<Rightarrow> db \<Rightarrow> error + (shift \<times> sale list \<times> expense list)" where
  "shift_details sid d =
     (case find_shift sid d of
        None \<Rightarrow> Inl NotFound
      | Some sh \<Rightarrow>
          (let e = (case sh_endedAt sh of None \<Rightarrow> clock d | Some t \<Rightarrow> t)
           in Inr (sh, filter (\<lambda>s. s_userId s = sh_userId sh \<and> sh_startedAt sh \<le> s_createdAt s \<and> s_createdAt s \<le> e) (sales d),
                   filter (\<lambda>x. xp_userId x = Some (sh_userId sh) \<and> sh_startedAt sh \<le> xp_createdAt x \<and> xp_createdAt x \<le> e)
                     (expenses d))))"

lemmas shifts_defs [pos_simps] =
  active_shift_def find_shift_def parse_cash_def start_insert_def start_shift_def shift_sales_def shift_returns_def
  cash_of_def close_shift_def list_shifts_def shift_details_def

text \<open>At most one active shift per user.\<close>

definition one_active :: "db \<Rightarrow> bool" where
  "one_active d \<longleftrightarrow> distinct (map sh_userId (filter (\<lambda>x. sh_status x = ShiftActive) (shifts d)))"

text \<open>Shift ids are distinct and below the next fresh id.\<close>

definition shift_ids_ok :: "db \<Rightarrow> bool" where
  "shift_ids_ok d \<longleftrightarrow> distinct (map sh_id (shifts d)) \<and> list_all (\<lambda>x. sh_id x < next_id d) (shifts d)"

text \<open>The shift state machine: the two handlers that write the shifts collection, and the
  passing of time between requests.\<close>

inductive shift_step :: "db \<Rightarrow> db \<Rightarrow> bool" where
  start: "start_shift uid c d = Inr (sh, d') \<Longrightarrow> shift_step d d'"
| close: "close_shift sid cc d = Inr (r, d') \<Longrightarrow> shift_step d d'"
| tick: "clock d \<le> t \<Longrightarrow> shift_step d (d\<lparr>clock := t\<rparr>)"

text \<open>The same handlers as the server runs them: \<open>POST /start\<close> awaits the \<open>findOne\<close>
  and then the \<open>insert\<close>, and another request can run in between.  The state is the
  store with the start requests that passed their check and have not inserted yet; a
  request refused by the check changes nothing and is left out.\<close>

type_synonym shift_conc = "db \<times> (docid \<times> money option) list"

inductive shift_conc_step :: "shift_conc \<Rightarrow> shift_conc \<Rightarrow> bool" where
  check: "active_shift uid d = None \<Longrightarrow> shift_conc_step (d, ps) (d, ps @ [(uid, c)])"
| insert: "shift_conc_step (d, ps1 @ (uid, c) # ps2) (snd (start_insert uid c d), ps1 @ ps2)"
| close: "close_shift sid cc d = Inr (r, d') \<Longrightarrow> shift_conc_step (d, ps) (d', ps)"
| tick: "clock d \<le> t \<Longrightarrow> shift_conc_step (d, ps) (d\<lparr>clock := t\<rparr>, ps)"

text \<open>An active shift of user 0 (the seller of \<open>ex_sale\<close>) opened with 100 in the drawer.\<close>

definition ex_shift :: shift where
  "ex_shift = \<lparr>sh_id = 40, sh_userId = 0, sh_openingCash = 100, sh_closingCash = 0,
     sh_expectedCash = 100, sh_difference = 0, sh_totalSales = 0, sh_salesCount = 0,
     sh_totalReturns = 0, sh_returnsCount = 0, sh_totalCash = 0, sh_status = ShiftActive,
     sh_startedAt = 0, sh_endedAt = None\<rparr>"

section \<open>Lemmas\<close>

lemma set_filter_update_first_off:
  "(\<And>x. \<not> Q (f x)) \<Longrightarrow> set (filter Q (update_first P f xs)) \<subseteq> set (filter Q xs)"
  by (induction xs) auto

lemma distinct_filter_update_first_off:
  assumes "\<And>x. \<not> Q (f x)"
  shows "distinct (map g (filter Q xs)) \<Longrightarrow> distinct (map g (filter Q (update_first P f xs)))"
proof (induction xs)
  case Nil
  then show ?case by simp
next
  case (Cons x xs)
  have sub: "set (filter Q (update_first P f xs)) \<subseteq> set (filter Q xs)"
    using assms by (rule set_filter_update_first_off)
  from Cons.prems have tl: "distinct (map g (filter Q xs))" by (cases "Q x") simp_all
  show ?case
  proof (cases "P x")
    case True
    with assms tl show ?thesis by simp
  next
    case False
    with Cons.IH Cons.prems tl sub show ?thesis by (cases "Q x") auto
  qed
qed

lemma active_shift_None:
  "active_shift uid d = None \<longleftrightarrow> uid \<notin> set (map sh_userId (filter (\<lambda>x. sh_status x = ShiftActive) (shifts d)))"
  by (auto simp: active_shift_def find_None_iff)

lemma start_shift_Inr:
  "start_shift uid c d = Inr (sh, d') \<Longrightarrow>
     active_shift uid d = None \<and> sh_userId sh = uid \<and> sh_status sh = ShiftActive \<and>
     shifts d' = shifts d @ [sh]"
  by (auto simp: start_shift_def start_insert_def fresh_id_def Let_def split: option.splits)

lemma close_shift_shifts:
  "close_shift sid cc d = Inr (r, d') \<Longrightarrow>
     \<exists>f. shifts d' = update_first (\<lambda>x. sh_id x = sid) f (shifts d) \<and>
         (\<forall>x. sh_status (f x) = ShiftClosed \<and> sh_id (f x) = sh_id x)"
  unfolding close_shift_def Let_def
  by (auto split: option.splits intro!: exI conjI refl)

lemma one_active_start: "one_active d \<Longrightarrow> start_shift uid c d = Inr (sh, d') \<Longrightarrow> one_active d'"
  by (auto simp: one_active_def dest!: start_shift_Inr simp: active_shift_None)

lemma one_active_close: "one_active d \<Longrightarrow> close_shift sid cc d = Inr (r, d') \<Longrightarrow> one_active d'"
  unfolding one_active_def
  by (auto dest!: close_shift_shifts intro!: distinct_filter_update_first_off)

lemma one_active_step: "shift_step d d' \<Longrightarrow> one_active d \<Longrightarrow> one_active d'"
proof (induction rule: shift_step.induct)
  case (start uid c d sh d')
  then show ?case by (rule one_active_start [rotated])
next
  case (close sid cc d r d')
  then show ?case by (rule one_active_close [rotated])
next
  case (tick d t)
  then show ?case by (simp add: one_active_def)
qed

lemma one_active_empty [simp]: "one_active empty_db"
  by (simp add: one_active_def empty_db_def)

lemma shift_ids_ok_step: "shift_step d d' \<Longrightarrow> shift_ids_ok d \<Longrightarrow> shift_ids_ok d'"
proof (induction rule: shift_step.induct)
  case (start uid c d sh d')
  then have "sh_id sh = next_id d \<and> next_id d' = Suc (next_id d) \<and> shifts d' = shifts d @ [sh]"
    by (auto simp: start_shift_def start_insert_def fresh_id_def Let_def split: option.splits)
  with start.prems show ?case by (auto simp: shift_ids_ok_def list_all_iff)
next
  case (close sid cc d r d')
  then obtain f where f: "shifts d' = update_first (\<lambda>x. sh_id x = sid) f (shifts d)"
      "\<forall>x. sh_status (f x) = ShiftClosed \<and> sh_id (f x) = sh_id x"
    by (blast dest: close_shift_shifts)
  moreover from close.hyps have "next_id d' = next_id d"
    by (auto simp: close_shift_def Let_def split: option.splits)
  moreover have "map sh_id (update_first (\<lambda>x. sh_id x = sid) f (shifts d)) = map sh_id (shifts d)"
    using f(2) by (simp add: map_update_first_frame)
  ultimately have "sh_id ` set (shifts d') = sh_id ` set (shifts d)" "next_id d' = next_id d"
      "distinct (map sh_id (shifts d')) = distinct (map sh_id (shifts d))"
    by (metis set_map)+
  then show ?case using close.prems unfolding shift_ids_ok_def list_all_iff by (metis imageE image_eqI)
next
  case (tick d t)
  then show ?case by (simp add: shift_ids_ok_def)
qed

lemma reachable_shift_inv:
  "shift_step\<^sup>*\<^sup>* empty_db d \<Longrightarrow> one_active d \<and> shift_ids_ok d"
proof (induction rule: rtranclp_induct)
  case base
  show ?case by (simp add: one_active_def shift_ids_ok_def empty_db_def)
next
  case (step y z)
  then show ?case using one_active_step shift_ids_ok_step by blast
qed

text \<open>Closing the user's active shift, when ids are distinct and the user has one active
  shift, leaves the user none.\<close>

lemma close_own_shift_clears:
  assumes "distinct (map sh_id xs)" "distinct (map sh_userId (filter (\<lambda>x. sh_status x = ShiftActive) xs))"
    "find (\<lambda>x. sh_userId x = uid \<and> sh_status x = ShiftActive) xs = Some sh" "\<And>x. sh_status (f x) = ShiftClosed"
  shows "find (\<lambda>x. sh_userId x = uid \<and> sh_status x = ShiftActive) (update_first (\<lambda>x. sh_id x = sh_id sh) f xs) = None"
  using assms(1-3)
proof (induction xs)
  case Nil
  then show ?case by simp
next
  case (Cons x xs)
  show ?case
  proof (cases "sh_userId x = uid \<and> sh_status x = ShiftActive")
    case True
    with Cons.prems(3) have "x = sh" by simp
    with True Cons.prems(2) have "uid \<notin> set (map sh_userId (filter (\<lambda>x. sh_status x = ShiftActive) xs))"
      by simp
    then have "find (\<lambda>x. sh_userId x = uid \<and> sh_status x = ShiftActive) xs = None"
      by (auto simp: find_None_iff)
    with \<open>x = sh\<close> assms(4) show ?thesis by simp
  next
    case False
    with Cons.prems(3) have inxs: "sh \<in> set xs" by (auto dest: find_Some_iff [THEN iffD1] simp: in_set_conv_nth)
    with Cons.prems(1) have "sh_id x \<noteq> sh_id sh" by auto
    with False Cons.IH Cons.prems show ?thesis by (auto split: if_splits)
  qed
qed

section \<open>Properties of shifts\<close>

text \<open>When the handlers run one request at a time, as \<open>shift_step\<close> has them, no
  reachable state gives a user two active shifts.\<close>

lemma one_active_reachable: "shift_step\<^sup>*\<^sup>* empty_db d \<Longrightarrow> one_active d"
  by (induction rule: rtranclp_induct) (auto intro: one_active_step)

lemma one_active_reachable_witness:
  "one_active (snd (projr (start_shift 0 (Some 100) empty_db))) \<and>
   map sh_userId (shifts (snd (projr (start_shift 0 (Some 100) empty_db)))) = [0]"
proof -
  have r: "start_shift 0 (Some 100) empty_db = Inr (fst (projr (start_shift 0 (Some 100) empty_db)),
                                                   snd (projr (start_shift 0 (Some 100) empty_db)))"
    by (simp add: start_shift_def start_insert_def active_shift_def fresh_id_def Let_def empty_db_def)
  have "shift_step\<^sup>*\<^sup>* empty_db (snd (projr (start_shift 0 (Some 100) empty_db)))"
    using shift_step.start [OF r] by blast
  from one_active_reachable [OF this] show ?thesis
    by (simp add: start_shift_def start_insert_def active_shift_def fresh_id_def Let_def empty_db_def)
qed

text \<open>Every run of the handlers one at a time is a run of the interleaved handlers in
  which no request is pending between steps.\<close>

lemma shift_step_conc: "shift_step d d' \<Longrightarrow> shift_conc_step\<^sup>*\<^sup>* (d, []) (d', [])"
proof (induction rule: shift_step.induct)
  case (start uid c d sh d')
  then have a: "active_shift uid d = None" and i: "start_insert uid c d = (sh, d')"
    by (simp_all add: start_shift_def split: option.splits)
  have "shift_conc_step (d, []) (d, [(uid, c)])"
    using shift_conc_step.check [OF a, of "[]" c] by simp
  moreover have "shift_conc_step (d, [(uid, c)]) (d', [])"
    using shift_conc_step.insert [of d "[]" uid c "[]"] i by simp
  ultimately show ?case by (meson rtranclp.rtrancl_into_rtrancl rtranclp.rtrancl_refl)
next
  case (close sid cc d r d')
  then show ?case by (blast intro: shift_conc_step.close)
next
  case (tick d t)
  then show ?case by (blast intro: shift_conc_step.tick)
qed

lemma active_shift_snoc:
  "active_shift uid d = None \<Longrightarrow> sh_userId sh = uid \<Longrightarrow> sh_status sh = ShiftActive \<Longrightarrow>
     active_shift uid (d'\<lparr>shifts := shifts d @ [sh]\<rparr>) = Some sh"
  by (simp add: active_shift_def)

text \<open>
  C22: The one-active-shift check races with the insert.  \<open>POST /start\<close> awaits
  \<open>findOne({userId, status: 'active'})\<close> and then awaits the insert, with nothing that
  makes the two one step.  From any state in which a user has no active shift, two start
  requests of that user whose checks both run before either insert reach a state with
  no request pending in which the user has two active shifts: the one-active-shift
  invariant of the serial runs does not hold of the server.
\<close>

theorem start_race:
  assumes "active_shift uid d = None"
  shows "\<exists>d'. shift_conc_step\<^sup>*\<^sup>* (d, []) (d', []) \<and>
           length (filter (\<lambda>x. sh_userId x = uid \<and> sh_status x = ShiftActive) (shifts d')) = 2 \<and>
           \<not> one_active d'"
proof -
  define d1 where "d1 = snd (start_insert uid c d)"
  define d2 where "d2 = snd (start_insert uid c d1)"
  have "shift_conc_step (d, []) (d, [(uid, c)])"
    using shift_conc_step.check [OF assms, of "[]" c] by simp
  moreover have "shift_conc_step (d, [(uid, c)]) (d, [(uid, c), (uid, c)])"
    using shift_conc_step.check [OF assms, of "[(uid, c)]" c] by simp
  moreover have "shift_conc_step (d, [(uid, c), (uid, c)]) (d1, [(uid, c)])"
    using shift_conc_step.insert [of d "[]" uid c "[(uid, c)]"] by (simp add: d1_def)
  moreover have "shift_conc_step (d1, [(uid, c)]) (d2, [])"
    using shift_conc_step.insert [of d1 "[]" uid c "[]"] by (simp add: d2_def)
  ultimately have run: "shift_conc_step\<^sup>*\<^sup>* (d, []) (d2, [])"
    by (meson rtranclp.rtrancl_into_rtrancl rtranclp.rtrancl_refl)
  from assms have none: "filter (\<lambda>x. sh_userId x = uid \<and> sh_status x = ShiftActive) (shifts d) = []"
    by (simp add: active_shift_def find_None_iff filter_empty_conv)
  have ins: "shifts (snd (start_insert uid c x)) = shifts x @ [fst (start_insert uid c x)] \<and>
      sh_userId (fst (start_insert uid c x)) = uid \<and> sh_status (fst (start_insert uid c x)) = ShiftActive" for x
    by (simp add: start_insert_def fresh_id_def Let_def)
  obtain sh1 sh2 where sh: "shifts d2 = shifts d @ [sh1, sh2]" "sh_userId sh1 = uid" "sh_userId sh2 = uid"
      "sh_status sh1 = ShiftActive" "sh_status sh2 = ShiftActive"
    using ins [of d] ins [of d1] by (simp add: d1_def d2_def)
  then have two: "length (filter (\<lambda>x. sh_userId x = uid \<and> sh_status x = ShiftActive) (shifts d2)) = 2"
    using none by simp
  have "\<not> one_active d2"
    using sh by (simp add: one_active_def)
  with run two show ?thesis by blast
qed

theorem start_race_witness:
  "active_shift 0 empty_db = None \<and>
   (\<exists>d'. shift_conc_step\<^sup>*\<^sup>* (empty_db, []) (d', []) \<and>
      length (filter (\<lambda>x. sh_userId x = 0 \<and> sh_status x = ShiftActive) (shifts d')) = 2 \<and>
      \<not> one_active d')"
proof -
  have a: "active_shift 0 empty_db = None" by (simp add: active_shift_def empty_db_def)
  from start_race [OF a] a show ?thesis by blast
qed

text \<open>
  Starting a shift.  A user who has an active shift is refused (400); otherwise a
  new active shift is appended with the opening cash (0 when absent or unparsable) as
  both opening and expected cash, and it is the user's current shift afterwards.
\<close>

theorem start_shift_guard:
  "(active_shift uid d \<noteq> None \<longrightarrow> start_shift uid c d = Inl ActiveShiftExists) \<and>
   (active_shift uid d = None \<longrightarrow>
      (\<exists>sh d'. start_shift uid c d = Inr (sh, d') \<and> sh_status sh = ShiftActive \<and>
         sh_userId sh = uid \<and> sh_openingCash sh = parse_cash c \<and>
         sh_expectedCash sh = parse_cash c \<and> sh_startedAt sh = clock d \<and>
         shifts d' = shifts d @ [sh] \<and> active_shift uid d' = Some sh))"
  by (auto simp: start_shift_def start_insert_def fresh_id_def Let_def active_shift_snoc [simplified]
           split: option.splits)

theorem start_shift_guard_witness:
  "start_shift 0 (Some 50) (ex_store\<lparr>shifts := [ex_shift]\<rparr>) = Inl ActiveShiftExists \<and>
   map_option sh_openingCash (active_shift 1 (snd (projr (start_shift 1 (Some 50) (ex_store\<lparr>shifts := [ex_shift]\<rparr>))))) =
     Some 50"
proof -
  let ?d = "ex_store\<lparr>shifts := [ex_shift]\<rparr>"
  have a0: "active_shift 0 ?d \<noteq> None" and a1: "active_shift 1 ?d = None"
    by (simp_all add: active_shift_def ex_shift_def)
  from start_shift_guard [of 0 ?d "Some 50"] a0 have e: "start_shift 0 (Some 50) ?d = Inl ActiveShiftExists"
    by blast
  from start_shift_guard [of 1 ?d "Some 50"] a1 obtain sh d' where
    "start_shift 1 (Some 50) ?d = Inr (sh, d')" "sh_openingCash sh = parse_cash (Some 50)"
    "active_shift 1 d' = Some sh"
    by blast
  with e show ?thesis by (simp add: parse_cash_def)
qed

lemma find_distinct_id:
  "distinct (map sh_id xs) \<Longrightarrow> x \<in> set xs \<Longrightarrow> find (\<lambda>y. sh_id y = sh_id x) xs = Some x"
  by (induction xs) (auto simp: image_iff)

lemma close_shift_keeps_clock: "close_shift sid cc d = Inr (r, d') \<Longrightarrow> clock d' = clock d"
  by (auto simp: close_shift_def Let_def split: option.splits)

text \<open>In a reachable state a user can always be brought to having no active shift, by
  closing the one it has.\<close>

lemma reachable_can_clear:
  assumes "shift_step\<^sup>*\<^sup>* empty_db d"
  shows "\<exists>d1. shift_step\<^sup>*\<^sup>* d d1 \<and> active_shift uid d1 = None \<and> clock d1 = clock d"
proof (cases "active_shift uid d")
  case None
  then show ?thesis by blast
next
  case (Some sh)
  from reachable_shift_inv [OF assms] have oa: "one_active d" and ids: "shift_ids_ok d" by auto
  from Some have "sh \<in> set (shifts d)" by (auto simp: active_shift_def dest: find_Some_iff [THEN iffD1] simp: in_set_conv_nth)
  with ids have "find_shift (sh_id sh) d = Some sh"
    by (simp add: find_shift_def shift_ids_ok_def find_distinct_id)
  then obtain r d1 where c: "close_shift (sh_id sh) 0 d = Inr (r, d1)"
    by (simp add: close_shift_def Let_def)
  from close_shift_shifts [OF c] obtain f where f: "shifts d1 = update_first (\<lambda>x. sh_id x = sh_id sh) f (shifts d)"
      "\<forall>x. sh_status (f x) = ShiftClosed \<and> sh_id (f x) = sh_id x"
    by blast
  have "active_shift uid d1 = None"
    using close_own_shift_clears [of "shifts d" uid sh f] ids oa Some f
    by (simp add: active_shift_def shift_ids_ok_def one_active_def)
  moreover have "shift_step d d1" using c by (rule shift_step.close)
  ultimately show ?thesis using close_shift_keeps_clock [OF c] by blast
qed

text \<open>
  C23: No user is locked out of shifts.  From every state reachable from the empty store,
  any user can, by closing the active shift it may have and starting a new one, reach a
  state where its current shift is a fresh one opened now with the cash it brings.
\<close>

theorem shift_never_locked_out:
  assumes "shift_step\<^sup>*\<^sup>* empty_db d"
  shows "\<exists>d' sh. shift_step\<^sup>*\<^sup>* d d' \<and> active_shift uid d' = Some sh \<and>
           sh_openingCash sh = parse_cash c \<and> sh_startedAt sh = clock d"
proof -
  from reachable_can_clear [OF assms] obtain d1 where
    d1: "shift_step\<^sup>*\<^sup>* d d1" "active_shift uid d1 = None" "clock d1 = clock d"
    by blast
  from conjunct2 [OF start_shift_guard [of uid d1 c]] d1(2) obtain sh d2 where
    s: "start_shift uid c d1 = Inr (sh, d2)" "sh_openingCash sh = parse_cash c" "sh_startedAt sh = clock d1"
      "active_shift uid d2 = Some sh"
    by blast
  have "shift_step\<^sup>*\<^sup>* d d2" using d1(1) shift_step.start [OF s(1)] by simp
  with s d1(3) show ?thesis by auto
qed

theorem shift_never_locked_out_witness:
  "\<exists>d' sh. shift_step\<^sup>*\<^sup>* empty_db d' \<and> active_shift 0 d' = Some sh \<and> sh_openingCash sh = 5 \<and> sh_startedAt sh = 0"
  using shift_never_locked_out [of empty_db 0 "Some 5", OF rtranclp.rtrancl_refl]
  by (simp add: parse_cash_def empty_db_def)

text \<open>
  C24: Closing a shift.  Closing any shift that exists, active or already closed (there
  is no status check, so a second close recomputes over a longer window), stores
  \<open>expectedCash\<close> = opening cash + the cash tendered in the user's sales since the start
  \<open>-\<close> the total of every return since the start, whoever made it (returns carry no
  user), and \<open>difference\<close> = counted cash \<open>-\<close> expected cash; it answers the updated
  shift.  An absent shift is answered 404.
\<close>

theorem close_shift_reconciliation:
  "(find_shift sid d = None \<longrightarrow> close_shift sid cc d = Inl NotFound) \<and>
   (\<forall>sh. find_shift sid d = Some sh \<longrightarrow>
      (let ss = shift_sales sh (clock d) d; rs = shift_returns sh (clock d) d;
           E = sh_openingCash sh + (\<Sum>s\<leftarrow>ss. cash_of s) - (\<Sum>r\<leftarrow>rs. rt_total r)
       in \<exists>d'. close_shift sid cc d =
            Inr (Some (sh\<lparr>sh_closingCash := cc, sh_expectedCash := E, sh_difference := cc - E,
                         sh_totalSales := (\<Sum>s\<leftarrow>ss. s_total s), sh_salesCount := length ss,
                         sh_totalReturns := (\<Sum>r\<leftarrow>rs. rt_total r), sh_returnsCount := length rs,
                         sh_totalCash := (\<Sum>s\<leftarrow>ss. cash_of s), sh_status := ShiftClosed,
                         sh_endedAt := Some (clock d)\<rparr>), d')))"
  by (auto simp: close_shift_def Let_def foldl_add_sum_list find_shift_def find_update_first)

theorem close_shift_reconciliation_witness:
  "map_option (\<lambda>x. (sh_expectedCash x, sh_difference x, sh_salesCount x, sh_status x))
     (fst (projr (close_shift 40 300 (ex_store\<lparr>shifts := [ex_shift]\<rparr>)))) = Some (330, -30, 1, ShiftClosed)"
proof -
  let ?d = "ex_store\<lparr>shifts := [ex_shift]\<rparr>"
  have f: "find_shift 40 ?d = Some ex_shift" by (simp add: find_shift_def ex_shift_def)
  have ss: "shift_sales ex_shift (clock ?d) ?d = [ex_sale]" and rs: "shift_returns ex_shift (clock ?d) ?d = []"
    by (simp_all add: shift_sales_def shift_returns_def ex_shift_def ex_defs)
  have c: "cash_of ex_sale = 230" by (simp add: cash_of_def ex_defs)
  from conjunct2 [OF close_shift_reconciliation [of 40 ?d 300]] f ss rs c
  obtain d' where "close_shift 40 300 ?d = Inr (Some (ex_shift\<lparr>sh_closingCash := 300, sh_expectedCash := 330,
      sh_difference := -30, sh_totalSales := s_total ex_sale, sh_salesCount := 1, sh_totalReturns := 0,
      sh_returnsCount := 0, sh_totalCash := 230, sh_status := ShiftClosed, sh_endedAt := Some (clock ?d)\<rparr>), d')"
    by (auto simp: Let_def ex_shift_def)
  then show ?thesis by simp
qed

end
