(* ===== verification/Access.thy ===== *)
theory Access
  imports Prelude
begin

text \<open>
  Authentication and authorisation: the role permission table \<open>ROLE_PERMISSIONS\<close> of
  \<^verbatim>\<open>src/server/database/index.js\<close>, and the middleware of \<^verbatim>\<open>src/server/middleware.js\<close>:
  \<open>authenticate\<close> (token to user, 401/403) and \<open>checkPermission(module, action)\<close> (403
  unless the user is an admin or its permission object grants the action).  A user's
  \<open>permissions\<close> field is an object \<open>{module: {action: bool}}\<close> (an association list
  here), absent, or a legacy array.  The users collection and the audit log are the
  state of this part, a record of its own (\<open>auth_db\<close>).  JWT signing and verification
  are library calls: a request's token is modelled by the user id it decodes to, or
  nothing when it is missing, malformed or expired (all answered 401).
\<close>

section \<open>Data\<close>

type_synonym perms = "(string \<times> (string \<times> bool) list) list"

text \<open>\<open>user.permissions\<close>: missing (\<open>undefined\<close>/\<open>null\<close>), a legacy array, or an object.\<close>

datatype perm_field = PermMissing | PermArray "string list" | PermObj perms

record user =
  u_id :: docid
  u_username :: string
  u_password :: string
  u_name :: "string option"
  u_role :: "string option"
  u_permissions :: perm_field
  u_isActive :: "bool option"

text \<open>\<open>req.user\<close> as \<open>authenticate\<close> builds it.\<close>

record req_user =
  ru_id :: docid
  ru_username :: string
  ru_name :: "string option"
  ru_role :: "string option"
  ru_permissions :: perm_field

text \<open>The audit-log entries the server writes, by their \<open>action\<close> (Arabic strings in the code).\<close>

datatype audit_action = AuLogin | AuCreateUser | AuUpdateUser | AuDeleteUser | AuUpdatePerms
  | AuClearLogs | AuRoute string

record audit_entry =
  al_action :: audit_action
  al_module :: string
  al_userId :: "docid option"
  al_userName :: "string option"
  al_timestamp :: time

record auth_db =
  users :: "user list"
  auditLog :: "audit_entry list"
  a_next_id :: docid
  a_clock :: time

datatype auth_error = Unauthorized | Forbidden | UserNotFound | UsernameTaken | AdminUndeletable
  | MissingPermissions | MissingDate | WrongPassword | ServerError

section \<open>The role permission table\<close>

definition admin_perms :: perms where
  "admin_perms =
     [(''dashboard'', [(''view'', True)]),
      (''pos'', [(''view'', True), (''sell'', True), (''return'', True), (''discount'', True), (''hold'', True), (''void'', True)]),
      (''products'', [(''view'', True), (''add'', True), (''edit'', True), (''delete'', True), (''import'', True), (''export'', True)]),
      (''categories'', [(''view'', True), (''add'', True), (''edit'', True), (''delete'', True)]),
      (''inventory'', [(''view'', True), (''adjust'', True), (''count'', True), (''transfer'', True)]),
      (''warehouses'', [(''view'', True), (''add'', True), (''edit'', True), (''delete'', True), (''transfer'', True)]),
      (''purchases'', [(''view'', True), (''add'', True), (''edit'', True), (''delete'', True)]),
      (''customers'', [(''view'', True), (''add'', True), (''edit'', True), (''delete'', True), (''loyalty'', True)]),
      (''suppliers'', [(''view'', True), (''add'', True), (''edit'', True), (''delete'', True)]),
      (''contracts'', [(''view'', True), (''add'', True), (''edit'', True), (''delete'', True)]),
      (''reports'', [(''view'', True), (''sales'', True), (''products'', True), (''financial'', True), (''employees'', True), (''export'', True)]),
      (''shifts'', [(''view'', True), (''open'', True), (''close'', True)]),
      (''expenses'', [(''view'', True), (''add'', True), (''edit'', True), (''delete'', True)]),
      (''hr'', [(''view'', True), (''attendance'', True), (''salaries'', True), (''manage'', True)]),
      (''settings'', [(''view'', True), (''edit'', True), (''users'', True), (''backup'', True)]),
      (''audit'', [(''view'', True), (''export'', True)])]"

definition manager_perms :: perms where
  "manager_perms =
     [(''dashboard'', [(''view'', True)]),
      (''pos'', [(''view'', True), (''sell'', True), (''return'', True), (''discount'', True), (''hold'', True), (''void'', True)]),
      (''products'', [(''view'', True), (''add'', True), (''edit'', True), (''delete'', True), (''import'', True), (''export'', True)]),
      (''categories'', [(''view'', True), (''add'', True), (''edit'', True), (''delete'', True)]),
      (''inventory'', [(''view'', True), (''adjust'', True), (''count'', True), (''transfer'', True)]),
      (''warehouses'', [(''view'', True), (''add'', True), (''edit'', True), (''delete'', False), (''transfer'', True)]),
      (''purchases'', [(''view'', True), (''add'', True), (''edit'', True), (''delete'', False)]),
      (''customers'', [(''view'', True), (''add'', True), (''edit'', True), (''delete'', False), (''loyalty'', True)]),
      (''suppliers'', [(''view'', True), (''add'', True), (''edit'', True), (''delete'', False)]),
      (''contracts'', [(''view'', True), (''add'', False), (''edit'', False), (''delete'', False)]),
      (''reports'', [(''view'', True), (''sales'', True), (''products'', True), (''financial'', True), (''employees'', True), (''export'', True)]),
      (''shifts'', [(''view'', True), (''open'', True), (''close'', True)]),
      (''expenses'', [(''view'', True), (''add'', True), (''edit'', True), (''delete'', False)]),
      (''hr'', [(''view'', True), (''attendance'', True), (''salaries'', False), (''manage'', False)]),
      (''settings'', [(''view'', True), (''edit'', False), (''users'', False), (''backup'', False)]),
      (''audit'', [(''view'', True), (''export'', False)])]"

definition cashier_perms :: perms where
  "cashier_perms =
     [(''dashboard'', [(''view'', True)]),
      (''pos'', [(''view'', True), (''sell'', True), (''return'', False), (''discount'', False), (''hold'', True), (''void'', False)]),
      (''products'', [(''view'', True), (''add'', False), (''edit'', False), (''delete'', False), (''import'', False), (''export'', False)]),
      (''categories'', [(''view'', True), (''add'', False), (''edit'', False), (''delete'', False)]),
      (''inventory'', [(''view'', False), (''adjust'', False), (''count'', False), (''transfer'', False)]),
      (''warehouses'', [(''view'', False), (''add'', False), (''edit'', False), (''delete'', False), (''transfer'', False)]),
      (''purchases'', [(''view'', False), (''add'', False), (''edit'', False), (''delete'', False)]),
      (''customers'', [(''view'', True), (''add'', True), (''edit'', False), (''delete'', False), (''loyalty'', False)]),
      (''suppliers'', [(''view'', False), (''add'', False), (''edit'', False), (''delete'', False)]),
      (''contracts'', [(''view'', False), (''add'', False), (''edit'', False), (''delete'', False)]),
      (''reports'', [(''view'', False), (''sales'', False), (''products'', False), (''financial'', False), (''employees'', False), (''export'', False)]),
      (''shifts'', [(''view'', True), (''open'', True), (''close'', True)]),
      (''expenses'', [(''view'', False), (''add'', False), (''edit'', False), (''delete'', False)]),
      (''hr'', [(''view'', False), (''attendance'', False), (''salaries'', False), (''manage'', False)]),
      (''settings'', [(''view'', False), (''edit'', False), (''users'', False), (''backup'', False)]),
      (''audit'', [(''view'', False), (''export'', False)])]"

definition warehouse_perms :: perms where
  "warehouse_perms =
     [(''dashboard'', [(''view'', True)]),
      (''pos'', [(''view'', False), (''sell'', False), (''return'', False), (''discount'', False), (''hold'', False), (''void'', False)]),
      (''products'', [(''view'', True), (''add'', True), (''edit'', True), (''delete'', False), (''import'', True), (''export'', True)]),
      (''categories'', [(''view'', True), (''add'', True), (''edit'', True), (''delete'', False)]),
      (''inventory'', [(''view'', True), (''adjust'', True), (''count'', True), (''transfer'', True)]),
      (''warehouses'', [(''view'', True), (''add'', False), (''edit'', False), (''delete'', False), (''transfer'', True)]),
      (''purchases'', [(''view'', True), (''add'', True), (''edit'', True), (''delete'', False)]),
      (''customers'', [(''view'', False), (''add'', False), (''edit'', False), (''delete'', False), (''loyalty'', False)]),
      (''suppliers'', [(''view'', True), (''add'', True), (''edit'', True), (''delete'', False)]),
      (''contracts'', [(''view'', False), (''add'', False), (''edit'', False), (''delete'', False)]),
      (''reports'', [(''view'', True), (''sales'', False), (''products'', True), (''financial'', False), (''employees'', False), (''export'', True)]),
      (''shifts'', [(''view'', False), (''open'', False), (''close'', False)]),
      (''expenses'', [(''view'', False), (''add'', False), (''edit'', False), (''delete'', False)]),
      (''hr'', [(''view'', False), (''attendance'', False), (''salaries'', False), (''manage'', False)]),
      (''settings'', [(''view'', False), (''edit'', False), (''users'', False), (''backup'', False)]),
      (''audit'', [(''view'', False), (''export'', False)])]"

definition accountant_perms :: perms where
  "accountant_perms =
     [(''dashboard'', [(''view'', True)]),
      (''pos'', [(''view'', False), (''sell'', False), (''return'', False), (''discount'', False), (''hold'', False), (''void'', False)]),
      (''products'', [(''view'', True), (''add'', False), (''edit'', False), (''delete'', False), (''import'', False), (''export'', True)]),
      (''categories'', [(''view'', True), (''add'', False), (''edit'', False), (''delete'', False)]),
      (''inventory'', [(''view'', True), (''adjust'', False), (''count'', False), (''transfer'', False)]),
      (''warehouses'', [(''view'', True), (''add'', False), (''edit'', False), (''delete'', False), (''transfer'', False)]),
      (''purchases'', [(''view'', True), (''add'', False), (''edit'', False), (''delete'', False)]),
      (''customers'', [(''view'', True), (''add'', False), (''edit'', False), (''delete'', False), (''loyalty'', False)]),
      (''suppliers'', [(''view'', True), (''add'', False), (''edit'', False), (''delete'', False)]),
      (''contracts'', [(''view'', True), (''add'', False), (''edit'', False), (''delete'', False)]),
      (''reports'', [(''view'', True), (''sales'', True), (''products'', True), (''financial'', True), (''employees'', True), (''export'', True)]),
      (''shifts'', [(''view'', True), (''open'', False), (''close'', False)]),
      (''expenses'', [(''view'', True), (''add'', True), (''edit'', True), (''delete'', False)]),
      (''hr'', [(''view'', True), (''attendance'', False), (''salaries'', True), (''manage'', False)]),
      (''settings'', [(''view'', False), (''edit'', False), (''users'', False), (''backup'', False)]),
      (''audit'', [(''view'', True), (''export'', True)])]"

definition role_permissions :: "(string \<times> perms) list" where
  "role_permissions =
     [(''admin'', admin_perms), (''manager'', manager_perms), (''cashier'', cashier_perms),
      (''warehouse'', warehouse_perms), (''accountant'', accountant_perms)]"

text \<open>\<open>ROLE_PERMISSIONS[role]\<close>: undefined for an absent or unknown role.\<close>

definition role_perms :: "string option \<Rightarrow> perms option" where
  "role_perms r = (case r of None \<Rightarrow> None | Some x \<Rightarrow> map_of role_permissions x)"

text \<open>\<open>permissions[module]\<close> and then \<open>[action]\<close>, each falsy when undefined; an array
  has no module keys.\<close>

definition perm_allows :: "perm_field \<Rightarrow> string \<Rightarrow> string \<Rightarrow> bool" where
  "perm_allows p m a =
     (case p of
        PermObj q \<Rightarrow> (case map_of q m of None \<Rightarrow> False | Some acts \<Rightarrow> (case map_of acts a of None \<Rightarrow> False | Some b \<Rightarrow> b))
      | _ \<Rightarrow> False)"

section \<open>Middleware\<close>

definition find_user_id :: "docid \<Rightarrow> auth_db \<Rightarrow> user option" where
  "find_user_id uid adb = find (\<lambda>u. u_id u = uid) (users adb)"

text \<open>\<open>authenticate\<close>: 401 without a valid token or for an unknown user, 403 for a user
  with \<open>isActive === false\<close>; otherwise \<open>req.user\<close> with \<open>permissions: user.permissions || {}\<close>.\<close>

definition authenticate :: "docid option \<Rightarrow> auth_db \<Rightarrow> auth_error + req_user" where
  "authenticate tok adb =
     (case tok of
        None \<Rightarrow> Inl Unauthorized
      | Some uid \<Rightarrow>
          (case find_user_id uid adb of
             None \<Rightarrow> Inl Unauthorized
           | Some u \<Rightarrow>
               if u_isActive u = Some False then Inl Forbidden
               else Inr \<lparr>ru_id = u_id u, ru_username = u_username u, ru_name = u_name u,
                         ru_role = u_role u,
                         ru_permissions = (case u_permissions u of PermMissing \<Rightarrow> PermObj [] | p \<Rightarrow> p)\<rparr>))"

text \<open>\<open>checkPermission(module, action)\<close>\<close>

definition check_permission :: "string \<Rightarrow> string \<Rightarrow> req_user option \<Rightarrow> auth_error + unit" where
  "check_permission m a ru =
     (case ru of
        None \<Rightarrow> Inl Forbidden
      | Some u \<Rightarrow>
          if ru_role u = Some ''admin'' then Inr ()
          else (case ru_permissions u of
                  PermMissing \<Rightarrow> Inl Forbidden
                | p \<Rightarrow> if perm_allows p m a then Inr () else Inl Forbidden))"

text \<open>A route guarded by \<open>authenticate, checkPermission(m, a)\<close>.\<close>

definition guard :: "string \<Rightarrow> string \<Rightarrow> docid option \<Rightarrow> auth_db \<Rightarrow> auth_error + req_user" where
  "guard m a tok adb =
     (case authenticate tok adb of
        Inl e \<Rightarrow> Inl e
      | Inr u \<Rightarrow> (case check_permission m a (Some u) of Inl e \<Rightarrow> Inl e | Inr _ \<Rightarrow> Inr u))"

text \<open>\<open>auditLog(action, module)\<close>: the wrapped \<open>res.json\<close> inserts an entry only for a 2xx
  status.  (No route of the repository mounts this middleware.)\<close>

definition audit_mw :: "string \<Rightarrow> string \<Rightarrow> req_user option \<Rightarrow> nat \<Rightarrow> auth_db \<Rightarrow> auth_db" where
  "audit_mw action m ru status adb =
     (if 200 \<le> status \<and> status < 300 then
        adb\<lparr>auditLog := auditLog adb @
          [\<lparr>al_action = AuRoute action, al_module = m, al_userId = map_option ru_id ru, al_userName = Option.bind ru ru_name,
            al_timestamp = a_clock adb\<rparr>]\<rparr>
      else adb)"

lemmas access_defs [pos_simps] =
  role_permissions_def role_perms_def perm_allows_def find_user_id_def authenticate_def
  check_permission_def guard_def audit_mw_def

section \<open>Example\<close>

text \<open>Users: the admin (id 1), a cashier with its role's template (id 2), a manager
  whose permissions were never stored (id 3), and a deactivated cashier (id 4).\<close>

definition ex_user :: "docid \<Rightarrow> string \<Rightarrow> string \<Rightarrow> perm_field \<Rightarrow> bool \<Rightarrow> user" where
  "ex_user i n r p act = \<lparr>u_id = i, u_username = n, u_password = ''h'', u_name = Some n,
     u_role = Some r, u_permissions = p, u_isActive = Some act\<rparr>"

definition ex_auth :: auth_db where
  "ex_auth = \<lparr>users = [ex_user 1 ''admin'' ''admin'' (PermObj admin_perms) True,
                       ex_user 2 ''sara'' ''cashier'' (PermObj cashier_perms) True,
                       ex_user 3 ''omar'' ''manager'' PermMissing True,
                       ex_user 4 ''ali'' ''cashier'' (PermObj cashier_perms) False],
              auditLog = [], a_next_id = 5, a_clock = 0\<rparr>"

definition ex_admin :: req_user where
  "ex_admin = \<lparr>ru_id = 1, ru_username = ''admin'', ru_name = Some ''admin'', ru_role = Some ''admin'',
     ru_permissions = PermObj admin_perms\<rparr>"

section \<open>Lemmas\<close>

lemma perm_allows_missing [simp]: "\<not> perm_allows PermMissing m a"
  by (simp add: perm_allows_def)

lemma check_permission_Some:
  "check_permission m a (Some u) =
     (if ru_role u = Some ''admin'' \<or> perm_allows (ru_permissions u) m a then Inr () else Inl Forbidden)"
  by (auto simp: check_permission_def split: perm_field.splits)

lemma guard_Inr_iff:
  "(\<exists>v. guard m a tok adb = Inr v) \<longleftrightarrow>
     (\<exists>uid x. tok = Some uid \<and> find_user_id uid adb = Some x \<and> u_isActive x \<noteq> Some False \<and>
        (u_role x = Some ''admin'' \<or> perm_allows (u_permissions x) m a))"
proof -
  have perms: "perm_allows (case p of PermMissing \<Rightarrow> PermObj [] | q \<Rightarrow> q) m a = perm_allows p m a" for p
    by (cases p) (simp_all add: perm_allows_def)
  show ?thesis
    by (auto simp: guard_def authenticate_def perms check_permission_Some
             split: option.splits sum.splits if_splits)
qed

section \<open>Properties of the middleware\<close>

text \<open>
  C25: Authorisation.  A route guarded by \<open>authenticate, checkPermission(m, a)\<close> lets a
  request through exactly when its token names an existing user that is not
  deactivated and that is an admin or whose stored permission object grants \<open>a\<close> on
  \<open>m\<close>; the role's template is not consulted, so a user without stored permissions
  (or with legacy array permissions) is refused everything but by role admin.
\<close>

theorem guard_iff:
  "(\<exists>v. guard m a tok adb = Inr v) \<longleftrightarrow>
     (\<exists>uid x. tok = Some uid \<and> find_user_id uid adb = Some x \<and> u_isActive x \<noteq> Some False \<and>
        (u_role x = Some ''admin'' \<or> perm_allows (u_permissions x) m a))"
  by (rule guard_Inr_iff)

theorem guard_iff_witness:
  "(\<exists>v. guard ''pos'' ''sell'' (Some 2) ex_auth = Inr v) \<and>
   \<not> (\<exists>v. guard ''pos'' ''return'' (Some 2) ex_auth = Inr v) \<and>
   \<not> (\<exists>v. guard ''products'' ''view'' (Some 3) ex_auth = Inr v) \<and>
   \<not> (\<exists>v. guard ''pos'' ''sell'' (Some 4) ex_auth = Inr v) \<and>
   (\<exists>v. guard ''settings'' ''users'' (Some 1) ex_auth = Inr v)"
  using guard_iff [of "''pos''" "''sell''" "Some 2" ex_auth] guard_iff [of "''pos''" "''return''" "Some 2" ex_auth]
    guard_iff [of "''products''" "''view''" "Some 3" ex_auth] guard_iff [of "''pos''" "''sell''" "Some 4" ex_auth]
    guard_iff [of "''settings''" "''users''" "Some 1" ex_auth]
  by (simp add: find_user_id_def ex_auth_def ex_user_def perm_allows_def cashier_perms_def)

end
