(* ===== verification/Users.thy ===== *)
theory Users
  imports Access
begin

text \<open>
  User management, \<^verbatim>\<open>src/server/routes/auth.js\<close>, and the start-up migration of the users
  collection in \<open>initializeDatabase\<close> (\<^verbatim>\<open>src/server/database/index.js\<close>).  Password
  hashing (\<open>bcrypt\<close>) is a parameter \<open>hash\<close> of the handlers: \<open>bcrypt.compare(p, h)\<close> holds
  when \<open>hash p = h\<close>.  Each writing handler runs after its \<open>guard\<close> (Access) and receives
  the authenticated \<open>req.user\<close>; the audit entries it writes carry that user's id.
\<close>

section \<open>Operations\<close>

definition find_username :: "string \<Rightarrow> auth_db \<Rightarrow> user option" where
  "find_username n adb = find (\<lambda>u. u_username u = n) (users adb)"

text \<open>\<open>permissions || ROLE_PERMISSIONS[role] || ROLE_PERMISSIONS.cashier\<close>\<close>

definition default_perms :: "perm_field \<Rightarrow> string option \<Rightarrow> perm_field" where
  "default_perms p r =
     (case p of
        PermMissing \<Rightarrow> PermObj (case role_perms r of None \<Rightarrow> cashier_perms | Some q \<Rightarrow> q)
      | _ \<Rightarrow> p)"

definition audit_entry_of ::
    "audit_action \<Rightarrow> string \<Rightarrow> docid option \<Rightarrow> string option \<Rightarrow> auth_db \<Rightarrow> auth_db" where
  "audit_entry_of act m uid un adb =
     adb\<lparr>auditLog := auditLog adb @
        [\<lparr>al_action = act, al_module = m, al_userId = uid, al_userName = un,
          al_timestamp = a_clock adb\<rparr>]\<rparr>"

text \<open>\<open>POST /login\<close>: the answer is the token (the user id it signs) and the permissions
  shown to the client.\<close>

definition login :: "(string \<Rightarrow> string) \<Rightarrow> string \<Rightarrow> string \<Rightarrow> auth_db \<Rightarrow>
    auth_error + ((docid \<times> perm_field) \<times> auth_db)" where
  "login hash username password adb =
     (case find_username username adb of
        None \<Rightarrow> Inl Unauthorized
      | Some u \<Rightarrow>
          if u_isActive u = Some False then Inl Forbidden
          else if hash password \<noteq> u_password u then Inl Unauthorized
          else Inr ((u_id u, default_perms (u_permissions u) (u_role u)),
                    audit_entry_of AuLogin ''auth'' (Some (u_id u)) (u_name u) adb))"

text \<open>\<open>GET /me\<close>: 401 without a valid token, 404 for an unknown user (a deactivated user
  is answered).\<close>

definition me :: "docid option \<Rightarrow> auth_db \<Rightarrow> auth_error + (docid \<times> perm_field)" where
  "me tok adb =
     (case tok of
        None \<Rightarrow> Inl Unauthorized
      | Some uid \<Rightarrow>
          (case find_user_id uid adb of
             None \<Rightarrow> Inl UserNotFound
           | Some u \<Rightarrow> Inr (u_id u, default_perms (u_permissions u) (u_role u))))"

text \<open>\<open>role || 'cashier'\<close>: an absent or empty role.\<close>

definition role_or_cashier :: "string option \<Rightarrow> string" where
  "role_or_cashier r = (case r of None \<Rightarrow> ''cashier'' | Some x \<Rightarrow> if x = [] then ''cashier'' else x)"

text \<open>\<open>POST /users\<close> (guarded by \<open>settings.users\<close>).\<close>

definition create_user :: "(string \<Rightarrow> string) \<Rightarrow> req_user \<Rightarrow> string \<Rightarrow> string \<Rightarrow> string option \<Rightarrow>
    string option \<Rightarrow> perm_field \<Rightarrow> bool option \<Rightarrow> auth_db \<Rightarrow> auth_error + (user \<times> auth_db)" where
  "create_user hash ru username password name role permissions isActive adb =
     (case find_username username adb of
        Some _ \<Rightarrow> Inl UsernameTaken
      | None \<Rightarrow>
          (let u = \<lparr>u_id = a_next_id adb, u_username = username, u_password = hash password,
                    u_name = name, u_role = Some (role_or_cashier role),
                    u_permissions = default_perms permissions role,
                    u_isActive = Some (isActive \<noteq> Some False)\<rparr>;
               adb1 = adb\<lparr>users := users adb @ [u], a_next_id := Suc (a_next_id adb)\<rparr>
           in Inr (u, audit_entry_of AuCreateUser ''users'' (Some (ru_id ru)) (ru_name ru) adb1)))"

text \<open>\<open>PUT /users/:id\<close>: \<open>$set: {name, role, ...}\<close> writes \<open>name\<close> and \<open>role\<close> as sent, absent
  ones included; the permissions follow an explicit object, else a given role's template.\<close>

definition user_update :: "(string \<Rightarrow> string) \<Rightarrow> string option \<Rightarrow> string option \<Rightarrow> string option \<Rightarrow>
    perm_field \<Rightarrow> bool option \<Rightarrow> user \<Rightarrow> user" where
  "user_update hash name role password permissions isActive u =
     u\<lparr>u_name := name, u_role := role,
       u_password := (case password of None \<Rightarrow> u_password u | Some pw \<Rightarrow> if pw = [] then u_password u else hash pw),
       u_permissions :=
         (case permissions of
            PermMissing \<Rightarrow>
              (case role of
                 None \<Rightarrow> u_permissions u
               | Some r \<Rightarrow> if r = [] then u_permissions u
                          else PermObj (case map_of role_permissions r of None \<Rightarrow> cashier_perms | Some q \<Rightarrow> q))
          | p \<Rightarrow> p),
       u_isActive := (case isActive of None \<Rightarrow> u_isActive u | Some b \<Rightarrow> Some b)\<rparr>"

definition update_user :: "(string \<Rightarrow> string) \<Rightarrow> req_user \<Rightarrow> docid \<Rightarrow> string option \<Rightarrow> string option \<Rightarrow>
    string option \<Rightarrow> perm_field \<Rightarrow> bool option \<Rightarrow> auth_db \<Rightarrow> auth_db" where
  "update_user hash ru target name role password permissions isActive adb =
     audit_entry_of AuUpdateUser ''users'' (Some (ru_id ru)) (ru_name ru)
       (adb\<lparr>users := update_first (\<lambda>u. u_id u = target)
                         (user_update hash name role password permissions isActive) (users adb)\<rparr>)"

text \<open>\<open>DELETE /users/:id\<close>: refused for the user named \<open>admin\<close>.\<close>

definition delete_user :: "req_user \<Rightarrow> docid \<Rightarrow> auth_db \<Rightarrow> auth_error + auth_db" where
  "delete_user ru target adb =
     (case find_user_id target adb of
        Some u \<Rightarrow> if u_username u = ''admin'' then Inl AdminUndeletable
                  else Inr (audit_entry_of AuDeleteUser ''users'' (Some (ru_id ru)) (ru_name ru)
                             (adb\<lparr>users := remove_first (\<lambda>x. u_id x = target) (users adb)\<rparr>))
      | None \<Rightarrow> Inr (audit_entry_of AuDeleteUser ''users'' (Some (ru_id ru)) (ru_name ru)
                             (adb\<lparr>users := remove_first (\<lambda>x. u_id x = target) (users adb)\<rparr>)))"

text \<open>\<open>PUT /users/:id/permissions\<close>\<close>

definition update_permissions :: "req_user \<Rightarrow> docid \<Rightarrow> perm_field \<Rightarrow> auth_db \<Rightarrow> auth_error + auth_db" where
  "update_permissions ru target permissions adb =
     (case permissions of
        PermMissing \<Rightarrow> Inl MissingPermissions
      | _ \<Rightarrow> Inr (audit_entry_of AuUpdatePerms ''users'' (Some (ru_id ru)) (ru_name ru)
                 (adb\<lparr>users := update_first (\<lambda>u. u_id u = target)
                                  (\<lambda>u. u\<lparr>u_permissions := permissions\<rparr>) (users adb)\<rparr>)))"

text \<open>\<open>POST /change-password\<close>: an invalid token or a vanished user throws (500).\<close>

definition change_password :: "(string \<Rightarrow> string) \<Rightarrow> docid option \<Rightarrow> string \<Rightarrow> string \<Rightarrow> auth_db \<Rightarrow>
    auth_error + auth_db" where
  "change_password hash tok current new adb =
     (case tok of
        None \<Rightarrow> Inl ServerError
      | Some uid \<Rightarrow>
          (case find_user_id uid adb of
             None \<Rightarrow> Inl ServerError
           | Some u \<Rightarrow>
               if hash current \<noteq> u_password u then Inl WrongPassword
               else Inr (adb\<lparr>users := update_first (\<lambda>x. u_id x = uid)
                                         (\<lambda>x. x\<lparr>u_password := hash new\<rparr>) (users adb)\<rparr>)))"

text \<open>\<open>GET /users\<close> (authenticated only): \<open>permissions: u.permissions || ROLE_PERMISSIONS[u.role] || {}\<close>.\<close>

definition list_users :: "auth_db \<Rightarrow> (docid \<times> string \<times> string option \<times> perm_field \<times> bool) list" where
  "list_users adb =
     map (\<lambda>u. (u_id u, u_username u, u_role u,
               (case u_permissions u of
                  PermMissing \<Rightarrow> PermObj (case role_perms (u_role u) of None \<Rightarrow> [] | Some q \<Rightarrow> q)
                | p \<Rightarrow> p),
               u_isActive u \<noteq> Some False)) (users adb)"

section \<open>Start-up migration\<close>

text \<open>\<open>!user.permissions || Array.isArray(user.permissions)\<close>\<close>

definition legacy_perms :: "perm_field \<Rightarrow> bool" where
  "legacy_perms p = (case p of PermObj _ \<Rightarrow> False | _ \<Rightarrow> True)"

text \<open>The default admin (password \<open>admin123\<close>), or the migration of an existing one.\<close>

definition init_admin :: "(string \<Rightarrow> string) \<Rightarrow> auth_db \<Rightarrow> auth_db" where
  "init_admin hash adb =
     (case find_username ''admin'' adb of
        None \<Rightarrow> adb\<lparr>users := users adb @
                  [\<lparr>u_id = a_next_id adb, u_username = ''admin'', u_password = hash ''admin123'',
                    u_name = Some ''admin'', u_role = Some ''admin'', u_permissions = PermObj admin_perms,
                    u_isActive = Some True\<rparr>], a_next_id := Suc (a_next_id adb)\<rparr>
      | Some a \<Rightarrow>
          if legacy_perms (u_permissions a) then
            adb\<lparr>users := update_first (\<lambda>u. u_id u = u_id a)
                   (\<lambda>u. u\<lparr>u_permissions := PermObj admin_perms, u_isActive := Some True\<rparr>) (users adb)\<rparr>
          else adb)"

text \<open>The loop over the snapshot \<open>allUsers\<close>, updating the collection by id.\<close>

definition migrate_user :: "auth_db \<Rightarrow> user \<Rightarrow> auth_db" where
  "migrate_user adb u =
     (if legacy_perms (u_permissions u) then
        adb\<lparr>users := update_first (\<lambda>x. u_id x = u_id u)
               (\<lambda>x. x\<lparr>u_permissions := PermObj (case role_perms (u_role u) of None \<Rightarrow> cashier_perms | Some q \<Rightarrow> q),
                      u_isActive := Some (u_isActive u \<noteq> Some False)\<rparr>) (users adb)\<rparr>
      else adb)"

definition init_users :: "(string \<Rightarrow> string) \<Rightarrow> auth_db \<Rightarrow> auth_db" where
  "init_users hash adb = (let adb1 = init_admin hash adb in foldl migrate_user adb1 (users adb1))"

lemmas users_defs [pos_simps] =
  find_username_def default_perms_def audit_entry_of_def login_def me_def role_or_cashier_def
  create_user_def user_update_def update_user_def delete_user_def update_permissions_def
  change_password_def list_users_def legacy_perms_def init_admin_def migrate_user_def init_users_def

section \<open>Lemmas\<close>

lemma users_audit [simp]: "users (audit_entry_of act m uid un adb) = users adb"
  by (simp add: audit_entry_of_def)

lemma find_user_id_audit [simp]: "find_user_id k (audit_entry_of act m uid un adb) = find_user_id k adb"
  by (simp add: audit_entry_of_def find_user_id_def)

lemma authenticate_audit [simp]: "authenticate tok (audit_entry_of act m uid un adb) = authenticate tok adb"
  by (simp add: authenticate_def split: option.splits)

lemma guard_audit [simp]: "guard m a tok (audit_entry_of act mo uid un adb) = guard m a tok adb"
  by (simp add: guard_def)

lemma u_id_user_update [simp]: "u_id (user_update hash n r pw p act u) = u_id u"
  by (simp add: user_update_def)

lemma find_fresh_user:
  "\<forall>x\<in>set (users adb). u_id x < a_next_id adb \<Longrightarrow> u_id u = a_next_id adb \<Longrightarrow>
     find (\<lambda>x. u_id x = a_next_id adb) (users adb @ [u]) = Some u"
proof -
  assume "\<forall>x\<in>set (users adb). u_id x < a_next_id adb" "u_id u = a_next_id adb"
  then have "find (\<lambda>x. u_id x = a_next_id adb) (users adb) = None" by (auto simp: find_None_iff)
  with \<open>u_id u = a_next_id adb\<close> show ?thesis by simp
qed

lemma create_user_Inr:
  "create_user hash ru n pw name role p act adb = Inr (u, adb') \<Longrightarrow>
     find_username n adb = None \<and>
     u = \<lparr>u_id = a_next_id adb, u_username = n, u_password = hash pw, u_name = name,
          u_role = Some (role_or_cashier role), u_permissions = default_perms p role,
          u_isActive = Some (act \<noteq> Some False)\<rparr> \<and>
     adb' = audit_entry_of AuCreateUser ''users'' (Some (ru_id ru)) (ru_name ru)
              (adb\<lparr>users := users adb @ [u], a_next_id := Suc (a_next_id adb)\<rparr>)"
  by (auto simp: create_user_def Let_def split: option.splits)

lemma role_or_cashier_admin: "role_or_cashier r = ''admin'' \<longleftrightarrow> r = Some ''admin''"
  by (auto simp: role_or_cashier_def split: option.splits)

section \<open>Properties of user management\<close>

text \<open>
  C27: A new user gets its role's rights.  A user created through \<open>POST /users\<close> without
  an explicit permission object, and not created deactivated, passes exactly the guards
  that its role's template grants (the cashier template for an absent or unknown role),
  and every guard when its role is admin.  User ids are drawn fresh.
\<close>

theorem create_user_rights:
  assumes "create_user hash ru n pw name role PermMissing act adb = Inr (u, adb')"
    and "act \<noteq> Some False" and "\<forall>x\<in>set (users adb). u_id x < a_next_id adb"
  shows "(\<exists>v. guard m a (Some (u_id u)) adb' = Inr v) \<longleftrightarrow>
           (role = Some ''admin'' \<or>
            perm_allows (PermObj (case role_perms role of None \<Rightarrow> cashier_perms | Some q \<Rightarrow> q)) m a)"
proof -
  note c = create_user_Inr [OF assms(1)]
  have f: "find_user_id (u_id u) adb' = Some u"
    using c find_fresh_user [OF assms(3)] by (simp add: find_user_id_def)
  show ?thesis
    unfolding guard_Inr_iff using f c assms(2)
    by (auto simp: default_perms_def role_or_cashier_admin)
qed

theorem create_user_rights_witness:
  "(\<exists>v. guard ''pos'' ''return'' (Some 5)
      (snd (projr (create_user id ex_admin ''lina'' ''pw'' None
         (Some ''manager'') PermMissing None ex_auth))) = Inr v) \<and>
   \<not> (\<exists>v. guard ''pos'' ''return'' (Some 5)
      (snd (projr (create_user id ex_admin ''lina'' ''pw'' None
         (Some ''intern'') PermMissing None ex_auth))) = Inr v)"
proof -
  let ?ru = "ex_admin"
  have fresh: "\<forall>x\<in>set (users ex_auth). u_id x < a_next_id ex_auth"
    by (simp add: ex_auth_def ex_user_def)
  have c1: "create_user id ?ru ''lina'' ''pw'' None (Some ''manager'') PermMissing None ex_auth =
      Inr (fst (projr (create_user id ?ru ''lina'' ''pw'' None (Some ''manager'') PermMissing None ex_auth)),
           snd (projr (create_user id ?ru ''lina'' ''pw'' None (Some ''manager'') PermMissing None ex_auth)))"
    and c2: "create_user id ?ru ''lina'' ''pw'' None (Some ''intern'') PermMissing None ex_auth =
      Inr (fst (projr (create_user id ?ru ''lina'' ''pw'' None (Some ''intern'') PermMissing None ex_auth)),
           snd (projr (create_user id ?ru ''lina'' ''pw'' None (Some ''intern'') PermMissing None ex_auth)))"
    by (simp_all add: create_user_def find_username_def Let_def ex_auth_def ex_user_def)
  have i1: "u_id (fst (projr (create_user id ?ru ''lina'' ''pw'' None (Some ''manager'') PermMissing None ex_auth))) = 5"
    and i2: "u_id (fst (projr (create_user id ?ru ''lina'' ''pw'' None (Some ''intern'') PermMissing None ex_auth))) = 5"
    by (simp_all add: create_user_def find_username_def Let_def ex_auth_def ex_user_def)
  show ?thesis
    using create_user_rights [OF c1 _ fresh, of "''pos''" "''return''"]
      create_user_rights [OF c2 _ fresh, of "''pos''" "''return''"] i1 i2
    by (simp add: role_perms_def role_permissions_def perm_allows_def manager_perms_def cashier_perms_def
        admin_perms_def warehouse_perms_def accountant_perms_def)
qed

text \<open>
  Updating a user overwrites what the request leaves out.  \<open>PUT /users/:id\<close> with only
  \<open>isActive: false\<close> erases the user's name and role and deactivates it, after which every
  request with its token is refused (403).  The user named \<open>admin\<close>, which
  \<open>DELETE /users/:id\<close> refuses to delete, is not protected from this.
\<close>

theorem update_user_overwrites:
  assumes "find_user_id t adb = Some x"
  shows "find_user_id t (update_user hash ru t None None None PermMissing (Some False) adb) =
           Some (x\<lparr>u_name := None, u_role := None, u_isActive := Some False\<rparr>) \<and>
         authenticate (Some t) (update_user hash ru t None None None PermMissing (Some False) adb) =
           Inl Forbidden \<and>
         (u_username x = ''admin'' \<longrightarrow> delete_user ru t adb = Inl AdminUndeletable)"
proof -
  have f: "find_user_id t (update_user hash ru t None None None PermMissing (Some False) adb) =
      Some (x\<lparr>u_name := None, u_role := None, u_isActive := Some False\<rparr>)"
    using assms
    by (simp add: update_user_def find_user_id_def find_update_first user_update_def)
  then show ?thesis
    using assms by (simp add: authenticate_def delete_user_def)
qed

theorem update_user_overwrites_witness:
  "authenticate (Some 1) (update_user id ex_admin 1 None None None PermMissing (Some False) ex_auth) = Inl Forbidden \<and>
   delete_user ex_admin 1 ex_auth = Inl AdminUndeletable"
proof -
  have "find_user_id 1 ex_auth = Some (ex_user 1 ''admin'' ''admin'' (PermObj admin_perms) True)"
    by (simp add: find_user_id_def ex_auth_def ex_user_def)
  from update_user_overwrites [OF this, of id ex_admin] show ?thesis
    by (simp add: ex_user_def)
qed

end
