(* ===== verification/AuditLog.thy ===== *)
theory AuditLog
  imports Users
begin

text \<open>
  The audit-log routes, \<^verbatim>\<open>src/server/routes/audit.js\<close>, each behind
  \<open>authenticate, checkPermission('audit', ...)\<close>: \<open>GET /\<close> filters the log, sorts it newest
  first and answers one page of it with the page count, \<open>GET /stats\<close> counts entries by
  module and by user name, \<open>DELETE /clear\<close> removes the entries before a date and logs
  that it did.  Query parameters are parsed integers (\<open>parseInt\<close>); \<open>page\<close> and \<open>limit\<close>
  default to 1 and 50.
\<close>

section \<open>Operations\<close>

definition audit_filter :: "time option \<Rightarrow> time option \<Rightarrow> docid option \<Rightarrow> string option \<Rightarrow>
    audit_action option \<Rightarrow> audit_entry \<Rightarrow> bool" where
  "audit_filter from to uid m act l \<longleftrightarrow>
     (case from of None \<Rightarrow> True | Some f \<Rightarrow> f \<le> al_timestamp l) \<and>
     (case to of None \<Rightarrow> True | Some t \<Rightarrow> al_timestamp l \<le> t) \<and>
     (case uid of None \<Rightarrow> True | Some u \<Rightarrow> al_userId l = Some u) \<and>
     (case m of None \<Rightarrow> True | Some x \<Rightarrow> al_module l = x) \<and>
     (case act of None \<Rightarrow> True | Some a \<Rightarrow> al_action l = a)"

text \<open>\<open>logs.sort((a, b) => new Date(b.timestamp) - new Date(a.timestamp))\<close>: stable, newest first.\<close>

definition newest_first :: "audit_entry list \<Rightarrow> audit_entry list" where
  "newest_first ls = rev (sort_key al_timestamp (rev ls))"

text \<open>\<open>skip = (page - 1) * limit; logs.slice(skip, skip + limit)\<close>\<close>

definition audit_page :: "audit_entry list \<Rightarrow> int \<Rightarrow> int \<Rightarrow> audit_entry list" where
  "audit_page ls page limit = js_slice ls ((page - 1) * limit) ((page - 1) * limit + limit)"

text \<open>\<open>Math.ceil(total / limit)\<close>; a zero limit gives \<open>Infinity\<close> (or \<open>NaN\<close>), here \<open>None\<close>.\<close>

definition total_pages :: "nat \<Rightarrow> int \<Rightarrow> int option" where
  "total_pages tot limit = (if limit = 0 then None else Some \<lceil>(of_nat tot :: rat) / of_int limit\<rceil>)"

definition list_audit :: "time option \<Rightarrow> time option \<Rightarrow> docid option \<Rightarrow> string option \<Rightarrow>
    audit_action option \<Rightarrow> int option \<Rightarrow> int option \<Rightarrow> auth_db \<Rightarrow>
    audit_entry list \<times> nat \<times> int \<times> int option" where
  "list_audit from to uid m act page limit adb =
     (let q = filter (audit_filter from to uid m act) (auditLog adb);
          tot = length q;
          logs = newest_first q;
          pg = (case page of None \<Rightarrow> 1 | Some p \<Rightarrow> p);
          lmt = (case limit of None \<Rightarrow> 50 | Some l \<Rightarrow> l)
      in (audit_page logs pg lmt, tot, pg, total_pages tot lmt))"

text \<open>\<open>if (!moduleStats[k]) moduleStats[k] = 0; moduleStats[k]++\<close> over all entries.\<close>

definition count_by :: "('a \<Rightarrow> 'k) \<Rightarrow> 'a list \<Rightarrow> 'k \<rightharpoonup> nat" where
  "count_by key ls =
     foldl (\<lambda>mp l. mp(key l \<mapsto> (case mp (key l) of None \<Rightarrow> 1 | Some n \<Rightarrow> Suc n))) Map.empty ls"

definition audit_stats :: "time \<Rightarrow> auth_db \<Rightarrow> nat \<times> nat \<times> (string \<rightharpoonup> nat) \<times> (string option \<rightharpoonup> nat)" where
  "audit_stats today adb =
     (length (filter (\<lambda>l. today \<le> al_timestamp l) (auditLog adb)), length (auditLog adb),
      count_by al_module (auditLog adb), count_by al_userName (auditLog adb))"

text \<open>\<open>DELETE /clear\<close>: 400 without \<open>before\<close>; the answer is the number removed.\<close>

definition clear_logs :: "req_user \<Rightarrow> time option \<Rightarrow> auth_db \<Rightarrow> auth_error + (nat \<times> auth_db)" where
  "clear_logs ru before adb =
     (case before of
        None \<Rightarrow> Inl MissingDate
      | Some b \<Rightarrow>
          (let kept = filter (\<lambda>l. \<not> al_timestamp l < b) (auditLog adb);
               removed = length (auditLog adb) - length kept
           in Inr (removed, audit_entry_of AuClearLogs ''audit'' (Some (ru_id ru)) (ru_name ru)
                              (adb\<lparr>auditLog := kept\<rparr>))))"

text \<open>A login entry of the admin at time \<open>t\<close>.\<close>

definition ex_entry :: "time \<Rightarrow> audit_entry" where
  "ex_entry t = \<lparr>al_action = AuLogin, al_module = ''auth'', al_userId = Some 1, al_userName = Some ''admin'',
     al_timestamp = t\<rparr>"

lemmas audit_defs [pos_simps] =
  audit_filter_def newest_first_def audit_page_def total_pages_def list_audit_def count_by_def
  audit_stats_def clear_logs_def

section \<open>Lemmas\<close>

lemma audit_page_pos:
  "1 \<le> p \<Longrightarrow> 0 < l \<Longrightarrow> audit_page ls p l = take (nat l) (drop (nat ((p - 1) * l)) ls)"
proof -
  assume a: "1 \<le> p" "0 < l"
  then have "0 \<le> (p - 1) * l" by simp
  moreover have "nat ((p - 1) * l + l) - nat ((p - 1) * l) = nat l"
    using a \<open>0 \<le> (p - 1) * l\<close> by (simp add: nat_add_distrib)
  ultimately show ?thesis
    using a by (simp add: audit_page_def js_slice_nonneg)
qed

lemma concat_take_drop_blocks:
  "concat (map (\<lambda>k. take n (drop (k * n) xs)) [0..<m]) = take (m * n) xs"
proof (induction m)
  case 0
  then show ?case by simp
next
  case (Suc m)
  have "take (Suc m * n) xs = take (m * n) xs @ take n (drop (m * n) xs)"
    by (metis add.commute mult_Suc take_add)
  with Suc.IH show ?case by simp
qed

lemma ceiling_blocks:
  assumes "0 < l"
  shows "length xs \<le> nat \<lceil>(of_nat (length xs) :: rat) / of_int l\<rceil> * nat l"
proof -
  let ?c = "\<lceil>(of_nat (length xs) :: rat) / of_int l\<rceil>"
  have h: "(of_nat (length xs) :: rat) / of_int l \<le> of_int ?c" by (rule le_of_int_ceiling)
  have pos: "(0::rat) < of_int l" using assms by simp
  have "(of_nat (length xs) :: rat) = (of_nat (length xs) / of_int l) * of_int l" using pos by simp
  also have "\<dots> \<le> of_int ?c * of_int l" by (rule mult_right_mono [OF h]) (use pos in simp)
  finally have "(of_nat (length xs) :: rat) \<le> of_int ?c * of_int l" .
  then have "(of_int (int (length xs)) :: rat) \<le> of_int (?c * l)" by simp
  then have i: "int (length xs) \<le> ?c * l" by (simp only: of_int_le_iff)
  moreover have "0 \<le> ?c"
  proof -
    have "(0::rat) \<le> of_nat (length xs) / of_int l" using pos by simp
    then have "\<lceil>0::rat\<rceil> \<le> ?c" by (rule ceiling_mono)
    then show ?thesis by simp
  qed
  then have "nat (?c * l) = nat ?c * nat l" using assms by (simp add: nat_mult_distrib)
  with i show ?thesis by linarith
qed

lemma pages_concat:
  assumes "0 < limit"
  shows "concat (map (\<lambda>p. audit_page ls (int p) limit) [1..<nat (the (total_pages (length ls) limit)) + 1]) = ls"
proof -
  let ?P = "nat \<lceil>(of_nat (length ls) :: rat) / of_int limit\<rceil>"
  have "[1..<?P + 1] = map Suc [0..<?P]" by (simp add: map_Suc_upt)
  then have "map (\<lambda>p. audit_page ls (int p) limit) [1..<?P + 1] =
      map (\<lambda>k. take (nat limit) (drop (k * nat limit) ls)) [0..<?P]"
    using assms by (simp add: audit_page_pos nat_mult_distrib)
  then have "concat (map (\<lambda>p. audit_page ls (int p) limit) [1..<?P + 1]) = take (?P * nat limit) ls"
    by (simp add: concat_take_drop_blocks)
  also have "\<dots> = ls" using ceiling_blocks [OF assms, of ls] by simp
  finally show ?thesis using assms by (simp add: total_pages_def)
qed

lemma length_newest_first [simp]: "length (newest_first ls) = length ls"
  by (simp add: newest_first_def)

section \<open>Properties of the audit routes\<close>

text \<open>
  C29: Pagination.  For a positive \<open>limit\<close>, the pages \<open>1 .. totalPages\<close> that
  \<open>GET /audit\<close> answers, concatenated, are exactly the filtered log newest first: no
  entry is skipped or repeated.
\<close>

theorem audit_pagination:
  assumes "0 < lm"
  shows "let P = nat (the (snd (snd (snd (list_audit from to uid m act (Some 1) (Some lm) adb)))))
         in concat (map (\<lambda>p. fst (list_audit from to uid m act (Some (int p)) (Some lm) adb)) [1..<P + 1]) =
            newest_first (filter (audit_filter from to uid m act) (auditLog adb))"
  using pages_concat [OF assms, of "newest_first (filter (audit_filter from to uid m act) (auditLog adb))"]
  by (simp add: list_audit_def Let_def)

theorem audit_pagination_witness:
  "let adb = ex_auth\<lparr>auditLog := [ex_entry 1, ex_entry 2, ex_entry 3]\<rparr>;
       P = nat (the (snd (snd (snd (list_audit None None None None None (Some 1) (Some 2) adb)))))
   in concat (map (\<lambda>p. fst (list_audit None None None None None (Some (int p)) (Some 2) adb)) [1..<P + 1]) =
      [ex_entry 3, ex_entry 2, ex_entry 1]"
proof -
  have "newest_first (filter (audit_filter None None None None None) [ex_entry 1, ex_entry 2, ex_entry 3]) =
      [ex_entry 3, ex_entry 2, ex_entry 1]"
    by (simp add: newest_first_def audit_filter_def ex_entry_def)
  with audit_pagination [of 2 None None None None None "ex_auth\<lparr>auditLog := [ex_entry 1, ex_entry 2, ex_entry 3]\<rparr>"]
  show ?thesis by (simp add: Let_def)
qed

end
