(* ===== verification/Products.thy ===== *)
theory Products
  imports Stock Examples "HOL-Library.Sublist"
begin

text \<open>
  The product catalogue, \<^verbatim>\<open>src/server/routes/products.js\<close>: listing with filters, lookup
  by id and by barcode, create, update and delete (with the product's variants and
  bundle rows), the inventory count, and the low-stock and expiry alerts.  The stock
  route \<open>PATCH /:id/stock\<close> is \<open>Stock.adjust_stock\<close>.  The order in which NeDB returns the
  documents of a collection is the insertion order kept in \<open>product_ids\<close> and
  \<open>variant_ids\<close>.  Numbers in a request are parsed (\<open>parseFloat\<close>, \<open>parseInt\<close>); an absent
  or unparsable one is \<open>None\<close>.  Times are milliseconds.
\<close>

section \<open>Requests\<close>

record variant_req =
  vr_barcode :: string
  vr_price :: "money option"
  vr_cost :: "money option"
  vr_quantity :: "qty option"

record bundle_req =
  br_productId :: docid
  br_quantity :: "qty option"

record product_req =
  rp_name :: string
  rp_barcode :: string
  rp_sku :: string
  rp_categoryId :: "docid option"
  rp_supplierId :: "docid option"
  rp_price :: "money option"
  rp_cost :: "money option"
  rp_quantity :: "qty option"
  rp_minStock :: "qty option"
  rp_taxRate :: "money option"
  rp_expiryDate :: "time option"
  rp_hasVariants :: bool
  rp_isBundle :: bool
  rp_variants :: "variant_req list"
  rp_bundleItems :: "bundle_req list"
  rp_wholesalePrice :: "money option"
  rp_wholesaleMinQty :: "qty option"

text \<open>A line of an inventory count: \<open>{productId, actualQuantity, variantId?}\<close>.\<close>

record count_item =
  ct_productId :: docid
  ct_actualQuantity :: qty
  ct_variantId :: "docid option"

section \<open>Reading the catalogue\<close>

text \<open>The documents of a collection in the order NeDB returns them.\<close>

definition product_docs :: "db \<Rightarrow> (docid \<times> product) list" where
  "product_docs d = List.map_filter (\<lambda>k. map_option (Pair k) (products d k)) (product_ids d)"

definition variant_docs :: "db \<Rightarrow> (docid \<times> variant) list" where
  "variant_docs d = List.map_filter (\<lambda>k. map_option (Pair k) (variants d k)) (variant_ids d)"

text \<open>\<open>db.variants.find({ productId })\<close>\<close>

definition variants_of :: "docid \<Rightarrow> db \<Rightarrow> (docid \<times> variant) list" where
  "variants_of pid d = filter (\<lambda>(k, v). v_productId v = pid) (variant_docs d)"

text \<open>\<open>new RegExp(search, 'i')\<close> for a search string without metacharacters: a substring,
  ASCII letters compared without case.\<close>

definition lower_char :: "char \<Rightarrow> char" where
  "lower_char c = (if 65 \<le> (of_char c :: nat) \<and> (of_char c :: nat) \<le> 90 then char_of (of_char c + (32::nat)) else c)"

definition ci_contains :: "string \<Rightarrow> string \<Rightarrow> bool" where
  "ci_contains pat s \<longleftrightarrow> sublist (map lower_char pat) (map lower_char s)"

text \<open>\<open>p.quantity <= (p.minStock || 5)\<close>\<close>

definition low_stock :: "product \<Rightarrow> bool" where
  "low_stock p \<longleftrightarrow> p_quantity p \<le> js_or (p_minStock p) 5"

text \<open>\<open>GET /\<close>: the filters in the handler's order; each product with variants is answered
  with them.  (The final \<open>localeCompare(..., 'ar')\<close> sort is not modelled.)\<close>

definition list_products :: "docid option \<Rightarrow> string option \<Rightarrow> bool \<Rightarrow> bool \<Rightarrow> db \<Rightarrow>
    (docid \<times> product \<times> (docid \<times> variant) list) list" where
  "list_products category search lowStock expiringSoon d =
     (let ps = filter (\<lambda>(k, p).
                 (case category of None \<Rightarrow> True | Some c \<Rightarrow> p_categoryId p = Some c) \<and>
                 (case search of None \<Rightarrow> True
                  | Some s \<Rightarrow> ci_contains s (p_name p) \<or> ci_contains s (p_barcode p) \<or> ci_contains s (p_sku p)))
               (product_docs d);
          ps1 = (if lowStock then filter (\<lambda>(k, p). low_stock p) ps else ps);
          ps2 = (if expiringSoon
                 then filter (\<lambda>(k, p). case p_expiryDate p of None \<Rightarrow> False
                                       | Some e \<Rightarrow> e \<le> clock d + 30 * day_ms) ps1
                 else ps1)
      in map (\<lambda>(k, p). (k, p, if p_hasVariants p then variants_of k d else [])) ps2)"

text \<open>\<open>GET /:id\<close>\<close>

definition get_product :: "docid \<Rightarrow> db \<Rightarrow> error + (product \<times> (docid \<times> variant) list \<times> bundle_item list)" where
  "get_product pid d =
     (case products d pid of
        None \<Rightarrow> Inl NotFound
      | Some p \<Rightarrow> Inr (p, if p_hasVariants p then variants_of pid d else [],
                        if p_isBundle p then bundle_rows pid d else []))"

text \<open>\<open>GET /barcode/:barcode\<close>: a product with the barcode, else the product of a variant
  with the barcode, answered with that variant as \<open>selectedVariant\<close>.\<close>

definition find_barcode :: "string \<Rightarrow> db \<Rightarrow> error + (docid \<times> product \<times> variant option)" where
  "find_barcode bc d =
     (case find (\<lambda>(k, p). p_barcode p = bc) (product_docs d) of
        Some (k, p) \<Rightarrow> Inr (k, p, None)
      | None \<Rightarrow>
          (case find (\<lambda>(k, v). v_barcode v = bc) (variant_docs d) of
             None \<Rightarrow> Inl NotFound
           | Some (vk, v) \<Rightarrow>
               (case products d (v_productId v) of
                  None \<Rightarrow> Inl NotFound
                | Some p \<Rightarrow> Inr (v_productId v, p, Some v))))"

text \<open>\<open>'2' + Date.now().toString().slice(-12)\<close>\<close>

definition gen_barcode :: "time \<Rightarrow> string" where
  "gen_barcode now = ''2'' @ slice_last 12 (dec_string now)"

section \<open>Writing the catalogue\<close>

definition insert_product :: "product \<Rightarrow> db \<Rightarrow> docid \<times> db" where
  "insert_product p d =
     (next_id d, d\<lparr>products := (products d)(next_id d \<mapsto> p), product_ids := product_ids d @ [next_id d],
                   next_id := Suc (next_id d)\<rparr>)"

definition insert_variant :: "variant \<Rightarrow> db \<Rightarrow> db" where
  "insert_variant v d =
     d\<lparr>variants := (variants d)(next_id d \<mapsto> v), variant_ids := variant_ids d @ [next_id d],
       next_id := Suc (next_id d)\<rparr>"

text \<open>\<open>db.variants.remove({ productId }, { multi: true })\<close>\<close>

definition remove_variants_of :: "docid \<Rightarrow> db \<Rightarrow> db" where
  "remove_variants_of pid d =
     (let gone = map fst (variants_of pid d)
      in d\<lparr>variants := (\<lambda>k. if k \<in> set gone then None else variants d k),
           variant_ids := filter (\<lambda>k. k \<notin> set gone) (variant_ids d)\<rparr>)"

text \<open>\<open>db.bundles.remove({ bundleId }, { multi: true })\<close>\<close>

definition remove_bundle_rows :: "docid \<Rightarrow> db \<Rightarrow> db" where
  "remove_bundle_rows pid d = d\<lparr>bundles := filter (\<lambda>bi. bi_bundleId bi \<noteq> pid) (bundles d)\<rparr>"

definition add_bundle_rows :: "docid \<Rightarrow> bundle_req list \<Rightarrow> db \<Rightarrow> db" where
  "add_bundle_rows pid items d =
     d\<lparr>bundles := bundles d @ map (\<lambda>it. \<lparr>bi_bundleId = pid, bi_productId = br_productId it,
                                        bi_quantity = js_num (br_quantity it) 1\<rparr>) items\<rparr>"

text \<open>A barcode in use by another product (\<open>findOne({ barcode, _id: { $ne: id } })\<close>).\<close>

definition barcode_taken :: "string \<Rightarrow> docid option \<Rightarrow> db \<Rightarrow> bool" where
  "barcode_taken bc self d \<longleftrightarrow> (\<exists>(k, p)\<in>set (product_docs d). p_barcode p = bc \<and> Some k \<noteq> self)"

text \<open>\<open>POST /\<close>\<close>

definition create_product :: "product_req \<Rightarrow> db \<Rightarrow> error + ((docid \<times> product) \<times> db)" where
  "create_product rq d =
     (if rp_barcode rq \<noteq> [] \<and> barcode_taken (rp_barcode rq) None d then Inl DuplicateBarcode
      else
        (let p = \<lparr>p_name = rp_name rq,
                  p_barcode = (if rp_barcode rq = [] then gen_barcode (clock d) else rp_barcode rq),
                  p_sku = rp_sku rq, p_categoryId = rp_categoryId rq, p_supplierId = rp_supplierId rq,
                  p_price = js_num (rp_price rq) 0, p_cost = js_num (rp_cost rq) 0,
                  p_quantity = js_num (rp_quantity rq) 0, p_minStock = js_num (rp_minStock rq) 5,
                  p_taxRate = js_num (rp_taxRate rq) 0, p_expiryDate = rp_expiryDate rq,
                  p_hasVariants = rp_hasVariants rq, p_isBundle = rp_isBundle rq,
                  p_wholesalePrice = js_num (rp_wholesalePrice rq) 0,
                  p_wholesaleMinQty = js_num (rp_wholesaleMinQty rq) 10\<rparr>;
             (pid, d1) = insert_product p d;
             d2 = (if rp_hasVariants rq \<and> rp_variants rq \<noteq> [] then
                     foldl (\<lambda>dd v. insert_variant \<lparr>v_productId = pid, v_barcode = vr_barcode v,
                                     v_price = js_num (vr_price v) (p_price p),
                                     v_cost = js_num (vr_cost v) (p_cost p),
                                     v_quantity = js_num (vr_quantity v) 0\<rparr> dd) d1 (rp_variants rq)
                   else d1);
             d3 = (if rp_isBundle rq \<and> rp_bundleItems rq \<noteq> [] then add_bundle_rows pid (rp_bundleItems rq) d2
                   else d2)
         in Inr ((pid, p), d3)))"

text \<open>\<open>PUT /:id\<close>: \<open>$set\<close> of every field (no existence check), then the variants and the
  bundle rows are replaced when the flags say so; the answer is the document read back.\<close>

definition update_product :: "docid \<Rightarrow> product_req \<Rightarrow> db \<Rightarrow> error + (product option \<times> db)" where
  "update_product pid rq d =
     (if rp_barcode rq \<noteq> [] \<and> barcode_taken (rp_barcode rq) (Some pid) d then Inl DuplicateBarcode
      else
        (let upd = (\<lambda>p. p\<lparr>p_name := rp_name rq, p_barcode := rp_barcode rq, p_sku := rp_sku rq,
                         p_categoryId := rp_categoryId rq, p_supplierId := rp_supplierId rq,
                         p_price := js_num (rp_price rq) 0, p_cost := js_num (rp_cost rq) 0,
                         p_quantity := js_num (rp_quantity rq) 0, p_minStock := js_num (rp_minStock rq) 5,
                         p_taxRate := js_num (rp_taxRate rq) 0, p_expiryDate := rp_expiryDate rq,
                         p_hasVariants := rp_hasVariants rq, p_isBundle := rp_isBundle rq,
                         p_wholesalePrice := js_num (rp_wholesalePrice rq) 0,
                         p_wholesaleMinQty := js_num (rp_wholesaleMinQty rq) 10\<rparr>);
             d1 = d\<lparr>products := (case products d pid of None \<Rightarrow> products d
                                   | Some p \<Rightarrow> (products d)(pid \<mapsto> upd p))\<rparr>;
             d2 = (if rp_hasVariants rq then
                     foldl (\<lambda>dd v. insert_variant \<lparr>v_productId = pid, v_barcode = vr_barcode v,
                                     v_price = js_num (vr_price v) 0, v_cost = js_num (vr_cost v) 0,
                                     v_quantity = js_num (vr_quantity v) 0\<rparr> dd)
                       (remove_variants_of pid d1) (rp_variants rq)
                   else d1);
             d3 = (if rp_isBundle rq then add_bundle_rows pid (rp_bundleItems rq) (remove_bundle_rows pid d2)
                   else d2)
         in Inr (products d3 pid, d3)))"

text \<open>\<open>DELETE /:id\<close>\<close>

definition delete_product :: "docid \<Rightarrow> db \<Rightarrow> db" where
  "delete_product pid d =
     (let d1 = remove_bundle_rows pid (remove_variants_of pid d)
      in d1\<lparr>products := (products d1)(pid := None), product_ids := remove_first (\<lambda>k. k = pid) (product_ids d1)\<rparr>)"

text \<open>\<open>POST /inventory/count\<close>: each counted line sets the quantity as counted and logs it;
  the answer lists \<open>(systemQty, actualQty, diff)\<close> per line found.\<close>

definition count_line :: "(qty \<times> qty \<times> qty) list \<times> db \<Rightarrow> count_item \<Rightarrow> (qty \<times> qty \<times> qty) list \<times> db" where
  "count_line acc it =
     (let (rs, d) = acc; a = ct_actualQuantity it
      in case ct_variantId it of
           Some vid \<Rightarrow>
             (case variants d vid of
                None \<Rightarrow> acc
              | Some v \<Rightarrow>
                  (rs @ [(v_quantity v, a, a - v_quantity v)],
                   log_entry (v_productId v) (Some vid) (v_quantity v) a (a - v_quantity v) OpInventoryCount
                     (set_variant_qty vid a d)))
         | None \<Rightarrow>
             (case products d (ct_productId it) of
                None \<Rightarrow> acc
              | Some p \<Rightarrow>
                  (rs @ [(p_quantity p, a, a - p_quantity p)],
                   log_entry (ct_productId it) None (p_quantity p) a (a - p_quantity p) OpInventoryCount
                     (set_product_qty (ct_productId it) a d))))"

definition inventory_count :: "count_item list \<Rightarrow> db \<Rightarrow> (qty \<times> qty \<times> qty) list \<times> db" where
  "inventory_count items d = foldl count_line ([], d) items"

text \<open>\<open>GET /alerts/lowstock\<close> and \<open>GET /alerts/expiring?days\<close> (default 30).\<close>

definition low_stock_alert :: "db \<Rightarrow> (docid \<times> product) list" where
  "low_stock_alert d = filter (\<lambda>(k, p). low_stock p) (product_docs d)"

definition expiring_alert :: "nat option \<Rightarrow> db \<Rightarrow> (docid \<times> product) list" where
  "expiring_alert days d =
     filter (\<lambda>(k, p). case p_expiryDate p of None \<Rightarrow> False
               | Some e \<Rightarrow> clock d \<le> e \<and> e \<le> clock d + (case days of None \<Rightarrow> 30 | Some n \<Rightarrow> n) * day_ms)
       (product_docs d)"

section \<open>The catalogue as a state\<close>

text \<open>The product and variant tables are well formed: each id list is duplicate-free and
  lists exactly the ids that have a document, and every id is below the next fresh id.\<close>

definition catalog_ok :: "db \<Rightarrow> bool" where
  "catalog_ok d \<longleftrightarrow>
     distinct (product_ids d) \<and> set (product_ids d) = dom (products d) \<and>
     distinct (variant_ids d) \<and> set (variant_ids d) = dom (variants d) \<and>
     list_all (\<lambda>k. k < next_id d) (product_ids d @ variant_ids d)"

text \<open>Referential integrity of the catalogue: every listed variant belongs to a product
  that exists, and every bundle row belongs to a bundle product that exists.  (The
  component a row names is not checked by any route and is not part of it.)\<close>

definition catalog_refs :: "db \<Rightarrow> bool" where
  "catalog_refs d \<longleftrightarrow>
     list_all (\<lambda>k. case variants d k of None \<Rightarrow> True | Some v \<Rightarrow> products d (v_productId v) \<noteq> None)
       (variant_ids d) \<and>
     list_all (\<lambda>b. products d (bi_bundleId b) \<noteq> None) (bundles d)"

text \<open>The catalogue routes as steps: create, update, delete, the inventory count and the
  stock route, each on whatever request it gets.\<close>

inductive catalog_step :: "db \<Rightarrow> db \<Rightarrow> bool" where
  create: "create_product rq d = Inr (r, d') \<Longrightarrow> catalog_step d d'"
| update: "update_product pid rq d = Inr (r', d') \<Longrightarrow> catalog_step d d'"
| delete: "catalog_step d (delete_product pid d)"
| count: "catalog_step d (snd (inventory_count items d))"
| stock: "adjust_stock pid n op vopt d = Inr (q, d') \<Longrightarrow> catalog_step d d'"

lemmas products_defs [pos_simps] =
  product_docs_def variant_docs_def variants_of_def lower_char_def ci_contains_def low_stock_def
  list_products_def get_product_def find_barcode_def gen_barcode_def insert_product_def
  insert_variant_def remove_variants_of_def remove_bundle_rows_def add_bundle_rows_def
  barcode_taken_def create_product_def update_product_def delete_product_def count_line_def
  inventory_count_def low_stock_alert_def expiring_alert_def

text \<open>A request for a plain product with barcode \<open>5000\<close>, an unparsable quantity and no
  minimum stock.\<close>

definition ex_product_req :: "string \<Rightarrow> product_req" where
  "ex_product_req bc = \<lparr>rp_name = ''Mug'', rp_barcode = bc, rp_sku = [], rp_categoryId = None,
     rp_supplierId = None, rp_price = Some 40, rp_cost = Some 25, rp_quantity = None, rp_minStock = None,
     rp_taxRate = None, rp_expiryDate = None, rp_hasVariants = False, rp_isBundle = False,
     rp_variants = [], rp_bundleItems = [], rp_wholesalePrice = None, rp_wholesaleMinQty = None\<rparr>"

section \<open>Lemmas\<close>

lemma product_docs_cong:
  "products d' = products d \<Longrightarrow> product_ids d' = product_ids d \<Longrightarrow> product_docs d' = product_docs d"
  by (simp add: product_docs_def)

lemma product_docs_insert_variant [simp]: "product_docs (insert_variant v d) = product_docs d"
  by (simp add: product_docs_def insert_variant_def)

lemma product_docs_foldl_insert_variant [simp]:
  "product_docs (foldl (\<lambda>dd v. insert_variant (f v dd) dd) d vs) = product_docs d"
  by (induction vs arbitrary: d) simp_all

lemma product_docs_add_bundle_rows [simp]: "product_docs (add_bundle_rows pid items d) = product_docs d"
  by (simp add: product_docs_def add_bundle_rows_def)

lemma product_docs_insert_product:
  assumes "\<forall>k\<in>set (product_ids d). k < next_id d"
  shows "product_docs (snd (insert_product p d)) = product_docs d @ [(next_id d, p)]"
proof -
  have "List.map_filter (\<lambda>k. map_option (Pair k) (((products d)(next_id d \<mapsto> p)) k)) (product_ids d) =
        List.map_filter (\<lambda>k. map_option (Pair k) (products d k)) (product_ids d)"
    using assms by (intro map_filter_cong_set) auto
  then show ?thesis by (simp add: product_docs_def insert_product_def map_filter_append_list map_filter_simps)
qed

lemma find_barcode_fresh:
  "find (\<lambda>(k, p). p_barcode p = bc) (product_docs d) = None \<longleftrightarrow> \<not> barcode_taken bc None d"
  by (auto simp: barcode_taken_def find_None_iff)

section \<open>Properties of the catalogue\<close>

text \<open>
  C30: The inventory count overrides the stock unchecked.  Counting a product sets its
  quantity to the counted figure and logs a consistent entry (previous quantity plus
  change is the new quantity), but a negative count is accepted as it is, so the count
  breaks the invariant that every quantity is at least 0, which the checkout and the
  stock route keep.
\<close>

theorem inventory_count_sets:
  assumes "products d pid = Some p"
  shows "inventory_count [\<lparr>ct_productId = pid, ct_actualQuantity = a, ct_variantId = None\<rparr>] d =
           ([(p_quantity p, a, a - p_quantity p)],
            (set_product_qty pid a d)\<lparr>inventory := inventory d @
              [\<lparr>ie_productId = pid, ie_variantId = None, ie_previousQuantity = p_quantity p,
                ie_newQuantity = a, ie_change = a - p_quantity p, ie_operation = OpInventoryCount,
                ie_createdAt = clock d\<rparr>]\<rparr>) \<and>
         (a < 0 \<longrightarrow> \<not> stock_nonneg (snd (inventory_count
            [\<lparr>ct_productId = pid, ct_actualQuantity = a, ct_variantId = None\<rparr>] d)))"
proof -
  have eq: "inventory_count [\<lparr>ct_productId = pid, ct_actualQuantity = a, ct_variantId = None\<rparr>] d =
           ([(p_quantity p, a, a - p_quantity p)],
            (set_product_qty pid a d)\<lparr>inventory := inventory d @
              [\<lparr>ie_productId = pid, ie_variantId = None, ie_previousQuantity = p_quantity p,
                ie_newQuantity = a, ie_change = a - p_quantity p, ie_operation = OpInventoryCount,
                ie_createdAt = clock d\<rparr>]\<rparr>)"
    using assms by (simp add: inventory_count_def count_line_def log_entry_def)
  moreover have "a < 0 \<longrightarrow> \<not> stock_nonneg ((set_product_qty pid a d)\<lparr>inventory := x\<rparr>)" for x
    using assms by (auto simp: stock_nonneg_def ran_def)
  ultimately show ?thesis by simp
qed

theorem inventory_count_sets_witness:
  "fst (inventory_count [\<lparr>ct_productId = 1, ct_actualQuantity = -3, ct_variantId = None\<rparr>] ex_store) = [(5, -3, -8)] \<and>
   \<not> stock_nonneg (snd (inventory_count [\<lparr>ct_productId = 1, ct_actualQuantity = -3, ct_variantId = None\<rparr>] ex_store))"
proof -
  have "products ex_store 1 = Some ex_tea" by (simp add: ex_defs)
  note i = inventory_count_sets [OF this, of "-3"]
  show ?thesis
    using conjunct2 [OF i] unfolding conjunct1 [OF i] by (simp add: ex_defs)
qed

text \<open>
  C31: Creating a product and finding it by barcode.  Creating a product with a barcode
  that another product already has is refused (400); otherwise the new product is
  stored with the request's barcode and the parsed quantity (0 when unparsable) and
  minimum stock (5 when unparsable or 0), and looking up that barcode afterwards finds
  exactly the new product.  Product ids are drawn fresh.
\<close>

theorem create_product_lookup:
  assumes "\<forall>k\<in>set (product_ids d). k < next_id d" and "rp_barcode rq \<noteq> []"
  shows "(barcode_taken (rp_barcode rq) None d \<longrightarrow> create_product rq d = Inl DuplicateBarcode) \<and>
         (\<not> barcode_taken (rp_barcode rq) None d \<longrightarrow>
            (\<exists>p d'. create_product rq d = Inr ((next_id d, p), d') \<and>
               p_barcode p = rp_barcode rq \<and> p_quantity p = js_num (rp_quantity rq) 0 \<and>
               p_minStock p = js_num (rp_minStock rq) 5 \<and>
               find_barcode (rp_barcode rq) d' = Inr (next_id d, p, None)))"
proof (intro conjI impI)
  assume "barcode_taken (rp_barcode rq) None d"
  with assms(2) show "create_product rq d = Inl DuplicateBarcode" by (simp add: create_product_def)
next
  assume free: "\<not> barcode_taken (rp_barcode rq) None d"
  have docs: "product_docs (snd (insert_product p d)) = product_docs d @ [(next_id d, p)]" for p
    using assms(1) by (rule product_docs_insert_product)
  have none: "find (\<lambda>(k, p). p_barcode p = rp_barcode rq) (product_docs d) = None"
    using free by (simp add: find_barcode_fresh)
  show "\<exists>p d'. create_product rq d = Inr ((next_id d, p), d') \<and>
          p_barcode p = rp_barcode rq \<and> p_quantity p = js_num (rp_quantity rq) 0 \<and>
          p_minStock p = js_num (rp_minStock rq) 5 \<and>
          find_barcode (rp_barcode rq) d' = Inr (next_id d, p, None)"
    using free assms(2) docs none
    by (simp add: create_product_def Let_def find_barcode_def insert_product_def split: prod.splits)
qed

theorem create_product_lookup_witness:
  "create_product (ex_product_req ''1001'') ex_store = Inl DuplicateBarcode \<and>
   (case find_barcode ''5000'' (snd (projr (create_product (ex_product_req ''5000'') ex_store))) of
      Inr (k, p, v) \<Rightarrow> k = 30 \<and> p_quantity p = 0 \<and> p_minStock p = 5 \<and> v = None
    | Inl _ \<Rightarrow> False)"
proof -
  have fresh: "\<forall>k\<in>set (product_ids ex_store). k < next_id ex_store" by (simp add: ex_defs)
  have t: "barcode_taken ''1001'' None ex_store" and f: "\<not> barcode_taken ''5000'' None ex_store"
    by (simp_all add: barcode_taken_def product_docs_def map_filter_simps ex_defs)
  have n: "next_id ex_store = 30" by (simp add: ex_defs)
  have e1: "create_product (ex_product_req ''1001'') ex_store = Inl DuplicateBarcode"
    using create_product_lookup [OF fresh, of "ex_product_req ''1001''"] t by (simp add: ex_product_req_def)
  from create_product_lookup [OF fresh, of "ex_product_req ''5000''"] f n
  obtain p d' where "create_product (ex_product_req ''5000'') ex_store = Inr ((30, p), d')"
    "p_quantity p = 0" "p_minStock p = 5" "find_barcode ''5000'' d' = Inr (30, p, None)"
    by (auto simp: ex_product_req_def js_num_def)
  with e1 show ?thesis by simp
qed

section \<open>Well-formedness of the catalogue\<close>

lemma remove_first_eq_distinct:
  "distinct xs \<Longrightarrow> distinct (remove_first (\<lambda>k. k = x) xs) \<and> set (remove_first (\<lambda>k. k = x) xs) = set xs - {x}"
  by (induction xs) auto

lemma list_all_less_mono: "list_all (\<lambda>k. k < (n::nat)) xs \<Longrightarrow> n \<le> m \<Longrightarrow> list_all (\<lambda>k. k < m) xs"
  by (induction xs) auto

lemma list_all_less_notin: "list_all (\<lambda>k. k < (n::nat)) xs \<Longrightarrow> n \<notin> set xs"
  by (induction xs) auto

lemma list_all_less_Suc: "list_all (\<lambda>k. k < n) xs \<Longrightarrow> list_all (\<lambda>k. k < Suc n) xs"
  by (induction xs) auto

lemma catalog_ok_tables:
  "product_ids d' = product_ids d \<Longrightarrow> products d' = products d \<Longrightarrow> variant_ids d' = variant_ids d \<Longrightarrow>
   variants d' = variants d \<Longrightarrow> next_id d \<le> next_id d' \<Longrightarrow> catalog_ok d \<Longrightarrow> catalog_ok d'"
  unfolding catalog_ok_def by (metis list_all_less_mono)

lemma insert_product_ok: "insert_product p d = (k, d1) \<Longrightarrow> catalog_ok d \<Longrightarrow> catalog_ok d1"
  unfolding catalog_ok_def insert_product_def
  by (auto dest: list_all_less_notin simp: list_all_less_Suc)

lemma insert_variant_ok: "catalog_ok d \<Longrightarrow> catalog_ok (insert_variant v d)"
  unfolding catalog_ok_def insert_variant_def
  by (auto dest: list_all_less_notin simp: list_all_less_Suc)

lemma foldl_insert_variant_ok:
  "catalog_ok d \<Longrightarrow> catalog_ok (foldl (\<lambda>dd v. insert_variant (f v) dd) d vs)"
  by (induction vs arbitrary: d) (simp_all add: insert_variant_ok)

lemma remove_variants_of_ok: "catalog_ok d \<Longrightarrow> catalog_ok (remove_variants_of pid d)"
proof -
  assume ok: "catalog_ok d"
  let ?g = "set (map fst (variants_of pid d))"
  have dm: "dom (\<lambda>k. if k \<in> ?g then None else variants d k) = dom (variants d) - ?g"
    by (auto simp: dom_def)
  have st: "set (filter (\<lambda>k. k \<notin> ?g) (variant_ids d)) = set (variant_ids d) - ?g"
    by auto
  have "list_all (\<lambda>k. k < next_id d) (filter (\<lambda>k. k \<notin> ?g) (variant_ids d))"
    using ok by (simp add: catalog_ok_def list_all_iff)
  with ok dm st show ?thesis
    unfolding catalog_ok_def remove_variants_of_def Let_def by simp
qed

lemma bundle_rows_ok [simp]:
  "catalog_ok (add_bundle_rows pid items d) = catalog_ok d"
  "catalog_ok (remove_bundle_rows pid d) = catalog_ok d"
  by (simp_all add: catalog_ok_def add_bundle_rows_def remove_bundle_rows_def)

lemma stock_setters_ok:
  "catalog_ok d \<Longrightarrow> catalog_ok (set_product_qty pid q d)"
  "catalog_ok d \<Longrightarrow> catalog_ok (set_variant_qty vid q d)"
  "catalog_ok (log_entry pid vopt prev new chg op d) = catalog_ok d"
  by (auto simp: catalog_ok_def set_product_qty_def set_variant_qty_def log_entry_def split: option.splits)

lemma list_all_remove_first: "list_all P xs \<Longrightarrow> list_all P (remove_first Q xs)"
  by (induction xs) auto

text \<open>Removing one product document from a store whose tables are well formed.\<close>

lemma drop_product_ok:
  "catalog_ok d1 \<Longrightarrow>
   catalog_ok (d1\<lparr>products := (products d1)(pid := None), product_ids := remove_first (\<lambda>k. k = pid) (product_ids d1)\<rparr>)"
proof -
  assume ok1: "catalog_ok d1"
  then have di: "distinct (product_ids d1)" and se: "set (product_ids d1) = dom (products d1)"
    and vs: "distinct (variant_ids d1)" "set (variant_ids d1) = dom (variants d1)"
    and lp: "list_all (\<lambda>k. k < next_id d1) (product_ids d1)" "list_all (\<lambda>k. k < next_id d1) (variant_ids d1)"
    by (simp_all add: catalog_ok_def)
  from remove_first_eq_distinct [OF di, of pid] se
  have "distinct (remove_first (\<lambda>k. k = pid) (product_ids d1))"
    "set (remove_first (\<lambda>k. k = pid) (product_ids d1)) = dom ((products d1)(pid := None))"
    by simp_all
  with vs lp list_all_remove_first [OF lp(1)] show ?thesis
    unfolding catalog_ok_def by simp
qed

lemma delete_product_ok: "catalog_ok d \<Longrightarrow> catalog_ok (delete_product pid d)"
  unfolding delete_product_def Let_def by (intro drop_product_ok) (simp add: remove_variants_of_ok)

lemma catalog_ok_products_upd:
  "catalog_ok d \<Longrightarrow>
   catalog_ok (d\<lparr>products := (case products d pid of None \<Rightarrow> products d | Some p \<Rightarrow> (products d)(pid \<mapsto> f p))\<rparr>)"
  by (auto simp: catalog_ok_def insert_absorb domI split: option.splits)

lemma update_product_ok:
  "update_product pid rq d = Inr (r, d') \<Longrightarrow> catalog_ok d \<Longrightarrow> catalog_ok d'"
  unfolding update_product_def Let_def
  by (auto split: if_splits intro!: foldl_insert_variant_ok remove_variants_of_ok catalog_ok_products_upd)

lemma create_product_ok:
  "create_product rq d = Inr (r, d') \<Longrightarrow> catalog_ok d \<Longrightarrow> catalog_ok d'"
  unfolding create_product_def Let_def
  by (auto split: if_splits prod.splits dest: insert_product_ok intro!: foldl_insert_variant_ok)

lemma count_line_ok: "catalog_ok (snd acc) \<Longrightarrow> catalog_ok (snd (count_line acc it))"
  by (auto simp: count_line_def Let_def stock_setters_ok split: prod.splits option.splits)

lemma inventory_count_ok: "catalog_ok d \<Longrightarrow> catalog_ok (snd (inventory_count items d))"
proof -
  have "catalog_ok (snd acc) \<Longrightarrow> catalog_ok (snd (foldl count_line acc items))" for acc
    by (induction items arbitrary: acc) (simp_all add: count_line_ok)
  then show "catalog_ok d \<Longrightarrow> catalog_ok (snd (inventory_count items d))"
    by (simp add: inventory_count_def)
qed

lemma adjust_stock_ok: "adjust_stock pid n op vopt d = Inr (q, d') \<Longrightarrow> catalog_ok d \<Longrightarrow> catalog_ok d'"
  by (auto simp: adjust_stock_def Let_def stock_setters_ok split: option.splits)

lemma catalog_step_ok: "catalog_step d d' \<Longrightarrow> catalog_ok d \<Longrightarrow> catalog_ok d'"
  by (induction rule: catalog_step.induct)
     (auto intro: create_product_ok update_product_ok delete_product_ok inventory_count_ok adjust_stock_ok)

text \<open>\<open>PUT /products/:id\<close> on an id with no product still inserts the variants it is
  sent, for a product that does not exist.\<close>

lemma update_absent_orphans:
  assumes "products d pid = None" "rp_barcode rq = []" "rp_hasVariants rq" "rp_variants rq = [vr]"
    "\<not> rp_isBundle rq"
  shows "\<exists>d'. update_product pid rq d = Inr (None, d') \<and> products d' pid = None \<and>
           map_option v_productId (variants d' (next_id d)) = Some pid"
  using assms by (simp add: update_product_def Let_def remove_variants_of_def insert_variant_def)

text \<open>Along any run of the catalogue routes from a store whose tables are well formed,
  the product and the variant id lists stay free of duplicates, list exactly the ids that
  have a document, and hold only ids below the next fresh id.\<close>

lemma catalog_reachable_ok:
  "catalog_step\<^sup>*\<^sup>* d0 d \<Longrightarrow> catalog_ok d0 \<Longrightarrow> catalog_ok d"
  by (induction rule: rtranclp_induct) (auto intro: catalog_step_ok)

lemma catalog_refs_grow:
  assumes "catalog_refs d" "dom (products d) \<subseteq> dom (products d')" "variants d' = variants d"
    "variant_ids d' = variant_ids d" "bundles d' = bundles d"
  shows "catalog_refs d'"
  using assms by (fastforce simp: catalog_refs_def list_all_iff subset_iff domIff split: option.splits)

lemma insert_variant_refs:
  "catalog_refs d \<Longrightarrow> products d (v_productId v) \<noteq> None \<Longrightarrow> catalog_refs (insert_variant v d)"
  by (auto simp: catalog_refs_def insert_variant_def list_all_iff split: option.splits)

lemma foldl_insert_variant_refs:
  "catalog_refs d \<Longrightarrow> (\<And>v. products d (v_productId (f v)) \<noteq> None) \<Longrightarrow>
   catalog_refs (foldl (\<lambda>dd v. insert_variant (f v) dd) d vs) \<and>
   products (foldl (\<lambda>dd v. insert_variant (f v) dd) d vs) = products d"
proof (induction vs arbitrary: d)
  case Nil
  then show ?case by simp
next
  case (Cons v vs)
  have "catalog_refs (insert_variant (f v) d)" using Cons.prems by (simp add: insert_variant_refs)
  moreover have "products (insert_variant (f v) d) = products d" by (simp add: insert_variant_def)
  ultimately show ?case using Cons.IH [of "insert_variant (f v) d"] Cons.prems by simp
qed

lemma add_bundle_rows_refs:
  "catalog_refs d \<Longrightarrow> products d pid \<noteq> None \<Longrightarrow> catalog_refs (add_bundle_rows pid items d)"
  by (auto simp: catalog_refs_def add_bundle_rows_def list_all_iff split: option.splits)

lemma remove_bundle_rows_refs: "catalog_refs d \<Longrightarrow> catalog_refs (remove_bundle_rows pid d)"
  by (auto simp: catalog_refs_def remove_bundle_rows_def list_all_iff split: option.splits)

text \<open>After the variants of a product are removed, none left names it.\<close>

lemma remove_variants_of_refs:
  assumes "catalog_refs d"
  shows "catalog_refs (remove_variants_of pid d) \<and>
    list_all (\<lambda>k. case variants (remove_variants_of pid d) k of None \<Rightarrow> True | Some v \<Rightarrow> v_productId v \<noteq> pid)
      (variant_ids (remove_variants_of pid d))"
proof -
  let ?g = "set (map fst (variants_of pid d))"
  have gone: "k \<in> ?g" if "k \<in> set (variant_ids d)" "variants d k = Some v" "v_productId v = pid" for k v
    using that by (force simp: variants_of_def variant_docs_def List.map_filter_def image_iff)
  show ?thesis
    using assms gone unfolding remove_variants_of_def Let_def catalog_refs_def list_all_iff
    by (auto split: option.splits)
qed

lemma remove_rows_products [simp]:
  "products (remove_variants_of pid d) = products d" "products (remove_bundle_rows pid d) = products d"
  by (simp_all add: remove_variants_of_def remove_bundle_rows_def Let_def)

text \<open>What \<open>DELETE /:id\<close> clears before it removes the document: no variant and no
  bundle row names the product any more.\<close>

lemma clear_product_refs:
  assumes "catalog_refs d"
  shows "catalog_refs (remove_bundle_rows pid (remove_variants_of pid d)) \<and>
    list_all (\<lambda>k. case variants (remove_bundle_rows pid (remove_variants_of pid d)) k of None \<Rightarrow> True
                  | Some v \<Rightarrow> v_productId v \<noteq> pid) (variant_ids (remove_bundle_rows pid (remove_variants_of pid d))) \<and>
    list_all (\<lambda>b. bi_bundleId b \<noteq> pid) (bundles (remove_bundle_rows pid (remove_variants_of pid d)))"
  using remove_variants_of_refs [OF assms, of pid]
  by (simp add: remove_bundle_rows_refs, simp add: remove_bundle_rows_def list_all_iff)

lemma drop_product_refs:
  "catalog_refs d1 \<Longrightarrow>
   list_all (\<lambda>k. case variants d1 k of None \<Rightarrow> True | Some v \<Rightarrow> v_productId v \<noteq> pid) (variant_ids d1) \<Longrightarrow>
   list_all (\<lambda>b. bi_bundleId b \<noteq> pid) (bundles d1) \<Longrightarrow>
   catalog_refs (d1\<lparr>products := (products d1)(pid := None), product_ids := xs\<rparr>)"
  unfolding catalog_refs_def list_all_iff by (auto split: option.splits)

lemma update_product_absent:
  "update_product pid rq d = Inr (r, d') \<Longrightarrow> products d pid = None \<Longrightarrow> products d' = products d"
proof -
  have f: "products (foldl (\<lambda>dd v. insert_variant (f v) dd) x vs) = products x" for f x vs
    by (induction vs arbitrary: x) (simp_all add: insert_variant_def)
  show "update_product pid rq d = Inr (r, d') \<Longrightarrow> products d pid = None \<Longrightarrow> products d' = products d"
    by (auto simp: update_product_def Let_def f add_bundle_rows_def remove_bundle_rows_def split: if_splits)
qed

lemma update_product_refs:
  "update_product pid rq d = Inr (r, d') \<Longrightarrow> products d pid \<noteq> None \<Longrightarrow> catalog_refs d \<Longrightarrow> catalog_refs d'"
proof -
  assume u: "update_product pid rq d = Inr (r, d')" and pr: "products d pid \<noteq> None" and rf: "catalog_refs d"
  then obtain p where p: "products d pid = Some p" by blast
  define d1 where "d1 = d\<lparr>products := (products d)(pid \<mapsto> p\<lparr>p_name := rp_name rq, p_barcode := rp_barcode rq, p_sku := rp_sku rq,
                         p_categoryId := rp_categoryId rq, p_supplierId := rp_supplierId rq,
                         p_price := js_num (rp_price rq) 0, p_cost := js_num (rp_cost rq) 0,
                         p_quantity := js_num (rp_quantity rq) 0, p_minStock := js_num (rp_minStock rq) 5,
                         p_taxRate := js_num (rp_taxRate rq) 0, p_expiryDate := rp_expiryDate rq,
                         p_hasVariants := rp_hasVariants rq, p_isBundle := rp_isBundle rq,
                         p_wholesalePrice := js_num (rp_wholesalePrice rq) 0,
                         p_wholesaleMinQty := js_num (rp_wholesaleMinQty rq) 10\<rparr>)\<rparr>"
  have r1: "catalog_refs d1" "products d1 pid \<noteq> None"
    using catalog_refs_grow [OF rf, of d1] p by (auto simp: d1_def)
  define f where "f = (\<lambda>v :: variant_req. \<lparr>v_productId = pid, v_barcode = vr_barcode v,
                                     v_price = js_num (vr_price v) 0, v_cost = js_num (vr_cost v) 0,
                                     v_quantity = js_num (vr_quantity v) 0\<rparr>)"
  define d2 where "d2 = (if rp_hasVariants rq then
                     foldl (\<lambda>dd v. insert_variant (f v) dd) (remove_variants_of pid d1) (rp_variants rq)
                   else d1)"
  have r2: "catalog_refs d2 \<and> products d2 = products d1"
    using foldl_insert_variant_refs [OF conjunct1 [OF remove_variants_of_refs [OF r1(1), of pid]], of f]
      r1 by (simp add: d2_def f_def)
  have e: "d' = (if rp_isBundle rq then add_bundle_rows pid (rp_bundleItems rq) (remove_bundle_rows pid d2) else d2)"
    using u p by (auto simp: update_product_def Let_def d1_def d2_def f_def split: if_splits)
  show ?thesis
    using r2 r1(2) unfolding e
    by (simp add: add_bundle_rows_refs remove_bundle_rows_refs)
qed

text \<open>The tail of create and update: the variants and the bundle rows of a product that
  exists name it.\<close>

lemma variants_rows_refs:
  assumes "catalog_refs d" "products d pid \<noteq> None" "\<And>v. v_productId (f v) = pid"
  shows "catalog_refs (let d2 = (if b1 then foldl (\<lambda>dd v. insert_variant (f v) dd) d vs else d)
                       in if b2 then add_bundle_rows pid its d2 else d2)"
proof -
  have "catalog_refs (foldl (\<lambda>dd v. insert_variant (f v) dd) d vs) \<and>
        products (foldl (\<lambda>dd v. insert_variant (f v) dd) d vs) = products d"
    using foldl_insert_variant_refs [of d f vs] assms by simp
  with assms show ?thesis by (simp add: Let_def add_bundle_rows_refs)
qed

lemma create_product_refs:
  assumes "create_product rq d = Inr (r, d')" "catalog_refs d"
  shows "catalog_refs d'"
proof -
  define p where "p = \<lparr>p_name = rp_name rq,
                  p_barcode = (if rp_barcode rq = [] then gen_barcode (clock d) else rp_barcode rq),
                  p_sku = rp_sku rq, p_categoryId = rp_categoryId rq, p_supplierId = rp_supplierId rq,
                  p_price = js_num (rp_price rq) 0, p_cost = js_num (rp_cost rq) 0,
                  p_quantity = js_num (rp_quantity rq) 0, p_minStock = js_num (rp_minStock rq) 5,
                  p_taxRate = js_num (rp_taxRate rq) 0, p_expiryDate = rp_expiryDate rq,
                  p_hasVariants = rp_hasVariants rq, p_isBundle = rp_isBundle rq,
                  p_wholesalePrice = js_num (rp_wholesalePrice rq) 0,
                  p_wholesaleMinQty = js_num (rp_wholesaleMinQty rq) 10\<rparr>"
  define f where "f = (\<lambda>v :: variant_req. \<lparr>v_productId = next_id d, v_barcode = vr_barcode v,
                                     v_price = js_num (vr_price v) (js_num (rp_price rq) 0),
                                     v_cost = js_num (vr_cost v) (js_num (rp_cost rq) 0),
                                     v_quantity = js_num (vr_quantity v) 0\<rparr>)"
  define d1 where "d1 = snd (insert_product p d)"
  have e: "d' = (let d2 = (if rp_hasVariants rq \<and> rp_variants rq \<noteq> [] then
                             foldl (\<lambda>dd v. insert_variant (f v) dd) d1 (rp_variants rq) else d1)
                 in if rp_isBundle rq \<and> rp_bundleItems rq \<noteq> [] then add_bundle_rows (next_id d) (rp_bundleItems rq) d2
                    else d2)"
    using assms(1) unfolding create_product_def Let_def
    by (auto simp add: p_def [symmetric] f_def d1_def insert_product_def split: if_split_asm)
  have "catalog_refs d1" "products d1 (next_id d) \<noteq> None"
    by (rule catalog_refs_grow [OF assms(2)]) (auto simp: d1_def insert_product_def)
  from variants_rows_refs [OF this, of f] show ?thesis unfolding e by (simp add: f_def)
qed

lemma stock_setters_refs:
  "catalog_refs d \<Longrightarrow> catalog_refs (set_product_qty pid q d)"
  "catalog_refs d \<Longrightarrow> catalog_refs (set_variant_qty vid q d)"
  "catalog_refs (log_entry pid vopt prev new chg op d) = catalog_refs d"
  by (auto simp: catalog_refs_def set_product_qty_def set_variant_qty_def log_entry_def list_all_iff
           split: option.splits)

lemma inventory_count_refs: "catalog_refs d \<Longrightarrow> catalog_refs (snd (inventory_count items d))"
proof -
  have "catalog_refs (snd acc) \<Longrightarrow> catalog_refs (snd (foldl count_line acc items))" for acc
  proof (induction items arbitrary: acc)
    case Nil
    then show ?case by simp
  next
    case (Cons it items)
    have "catalog_refs (snd (count_line acc it))"
      using Cons.prems by (auto simp: count_line_def Let_def stock_setters_refs split: prod.splits option.splits)
    with Cons.IH show ?case by simp
  qed
  then show "catalog_refs d \<Longrightarrow> catalog_refs (snd (inventory_count items d))"
    by (simp add: inventory_count_def)
qed

lemma adjust_stock_refs: "adjust_stock pid n op vopt d = Inr (q, d') \<Longrightarrow> catalog_refs d \<Longrightarrow> catalog_refs d'"
  by (auto simp: adjust_stock_def Let_def stock_setters_refs split: option.splits)

text \<open>
  C7: The catalogue keeps its references.  Every catalogue route (create, update,
  delete, the inventory count, the stock route), applied to a store whose tables are well
  formed and in which every variant and every bundle row belongs to an existing product,
  keeps the tables well formed, and keeps every variant and every bundle row belonging to
  an existing product, with one exception: \<open>PUT /:id\<close> on an id that has no product.
  In particular \<open>DELETE /:id\<close> removes the product's variants and its bundle rows with
  it.  (The exception is real: \<open>update_absent_orphans\<close>.)
\<close>

theorem catalog_step_refs:
  assumes "catalog_step d d'" "catalog_ok d" "catalog_refs d"
  shows "catalog_ok d' \<and>
    (catalog_refs d' \<or> (\<exists>pid rq r. products d pid = None \<and> update_product pid rq d = Inr (r, d')))"
  using assms
proof (induction rule: catalog_step.induct)
  case (create rq d r d')
  then show ?case by (blast intro: create_product_ok create_product_refs)
next
  case (update pid rq d r' d')
  show ?case
  proof (cases "products d pid")
    case None
    with update show ?thesis by (blast intro: update_product_ok)
  next
    case (Some p)
    with update show ?thesis by (blast intro: update_product_ok update_product_refs)
  qed
next
  case (delete d pid)
  have "catalog_refs (delete_product pid d)"
    unfolding delete_product_def Let_def using clear_product_refs [OF delete.prems(2), of pid]
    by (intro drop_product_refs) simp_all
  with delete.prems show ?case by (simp add: delete_product_ok)
next
  case (count d items)
  then show ?case by (simp add: inventory_count_ok inventory_count_refs)
next
  case (stock pid n op vopt d q d')
  then show ?case by (blast intro: adjust_stock_ok adjust_stock_refs)
qed

text \<open>Deleting a component of a bundle leaves the bundle's rows naming it: the component
  side of a bundle row is checked by no route.\<close>

lemma delete_component_dangling:
  "products (delete_product 2 ex_store) 2 = None \<and>
   2 \<in> set (map bi_productId (bundles (delete_product 2 ex_store)))"
  by (simp add: delete_product_def Let_def ex_defs remove_variants_of_def remove_bundle_rows_def
      variants_of_def variant_docs_def)

lemma ex_store_catalog: "catalog_ok ex_store \<and> catalog_refs ex_store"
  by (simp add: catalog_ok_def catalog_refs_def ex_defs insert_commute)

theorem catalog_step_refs_witness:
  "catalog_refs (delete_product 4 ex_store) \<and> bundles (delete_product 4 ex_store) = []"
proof -
  have s: "catalog_step ex_store (delete_product 4 ex_store)" by (rule catalog_step.delete)
  have p: "products (delete_product 4 ex_store) \<noteq> products ex_store"
    by (simp add: delete_product_def Let_def fun_eq_iff ex_defs remove_variants_of_def remove_bundle_rows_def)
  from catalog_step_refs [OF s] ex_store_catalog p update_product_absent
  have "catalog_refs (delete_product 4 ex_store)" by metis
  then show ?thesis
    by (simp add: delete_product_def Let_def ex_defs remove_variants_of_def remove_bundle_rows_def)
qed

end
