(* ===== verification/JsValue.thy ===== *)
theory JsValue
  imports Prelude
begin

text \<open>
  The JavaScript values that reach the money arithmetic: a number, or the string an
  \<open><input type="number">\<close> hands to its \<open>onChange\<close> handler.  \<open>+\<close> adds two numbers and
  concatenates as soon as one side is a string; \<open>-\<close>, \<open>>\<close> and \<open>Math.max\<close> convert a string
  to a number first (\<open>Number(s)\<close>, \<open>NaN\<close> for a non-numeric one); \<open>parseFloat\<close> reads the
  leading number.  Numbers are exact rationals (see the root theory).  Typed amounts are
  modelled as strings of decimal digits; a string of another shape converts to \<open>NaN\<close>,
  which is \<open>None\<close> here.
\<close>

datatype js_val = JNum money | JStr string

section \<open>Number to string\<close>

text \<open>The fraction digits of \<open>0 \<le> x < 1\<close>, at most \<open>n\<close> of them (a terminating decimal has
  fewer than 20 significant fraction digits at the magnitudes of a till).\<close>

primrec frac_digits :: "nat \<Rightarrow> money \<Rightarrow> string" where
  "frac_digits 0 x = []"
| "frac_digits (Suc n) x =
     (if x = 0 then [] else char_of (48 + nat \<lfloor>10 * x\<rfloor>) # frac_digits n (10 * x - of_int \<lfloor>10 * x\<rfloor>))"

text \<open>\<open>String(x)\<close> for a number: sign, integer digits, and the fraction after a point.\<close>

definition num_string :: "money \<Rightarrow> string" where
  "num_string x =
     (let a = \<bar>x\<bar>; i = \<lfloor>a\<rfloor>; f = a - of_int i
      in (if x < 0 then ''-'' else []) @ dec_string (nat i) @
         (if f = 0 then [] else ''.'' @ frac_digits 20 f))"

definition js_to_string :: "js_val \<Rightarrow> string" where
  "js_to_string v = (case v of JNum x \<Rightarrow> num_string x | JStr s \<Rightarrow> s)"

section \<open>Operators\<close>

text \<open>\<open>a + b\<close>\<close>

definition js_add :: "js_val \<Rightarrow> js_val \<Rightarrow> js_val" where
  "js_add a b =
     (case (a, b) of
        (JNum x, JNum y) \<Rightarrow> JNum (x + y)
      | _ \<Rightarrow> JStr (js_to_string a @ js_to_string b))"

text \<open>\<open>Number(v)\<close>: the empty string is 0, a digit string its value, anything else \<open>NaN\<close>.\<close>

definition js_to_number :: "js_val \<Rightarrow> money option" where
  "js_to_number v =
     (case v of
        JNum x \<Rightarrow> Some x
      | JStr s \<Rightarrow> if list_all is_digit s then Some (of_nat (dec_value s)) else None)"

text \<open>\<open>parseFloat(v)\<close>: the leading digits, \<open>NaN\<close> when there are none.\<close>

definition js_parse_float :: "js_val \<Rightarrow> money option" where
  "js_parse_float v =
     (case v of
        JNum x \<Rightarrow> Some x
      | JStr s \<Rightarrow> (let ds = takeWhile is_digit s in if ds = [] then None else Some (of_nat (dec_value ds))))"

text \<open>\<open>v > 0\<close> (\<open>NaN > 0\<close> is false).\<close>

definition js_pos :: "js_val \<Rightarrow> bool" where
  "js_pos v = (case js_to_number v of None \<Rightarrow> False | Some x \<Rightarrow> 0 < x)"

text \<open>\<open>Math.max(0, a - b)\<close> with a number \<open>b\<close>; \<open>NaN\<close> propagates.\<close>

definition js_max0_minus :: "js_val \<Rightarrow> money \<Rightarrow> money option" where
  "js_max0_minus a b = map_option (\<lambda>x. max 0 (x - b)) (js_to_number a)"

definition js_max0_minus_rev :: "money \<Rightarrow> js_val \<Rightarrow> money option" where
  "js_max0_minus_rev a b = map_option (\<lambda>y. max 0 (a - y)) (js_to_number b)"

lemmas js_defs [pos_simps] =
  num_string_def js_to_string_def js_add_def js_to_number_def js_parse_float_def js_pos_def
  js_max0_minus_def js_max0_minus_rev_def

section \<open>Lemmas\<close>

lemma js_add_num [simp]: "js_add (JNum x) (JNum y) = JNum (x + y)"
  by (simp add: js_add_def)

lemma js_add_str_right [simp]: "js_add a (JStr s) = JStr (js_to_string a @ s)"
  by (cases a) (simp_all add: js_add_def js_to_string_def)

lemma foldl_js_add_num:
  "foldl js_add (JNum a) (map JNum xs) = JNum (foldl (+) a xs)"
  by (induction xs arbitrary: a) simp_all

lemma num_string_nat [simp]: "num_string (of_nat n) = dec_string n"
  by (simp add: num_string_def Let_def)

lemma foldl_dec_acc:
  "foldl (\<lambda>acc c. 10 * acc + digit_value c) a ys =
     a * 10 ^ length ys + foldl (\<lambda>acc c. 10 * acc + digit_value c) 0 ys"
proof (induction ys arbitrary: a)
  case Nil
  then show ?case by simp
next
  case (Cons c ys)
  have "foldl (\<lambda>acc c. 10 * acc + digit_value c) (10 * a + digit_value c) ys =
      (10 * a + digit_value c) * 10 ^ length ys + foldl (\<lambda>acc c. 10 * acc + digit_value c) 0 ys"
    by (rule Cons.IH)
  moreover have "foldl (\<lambda>acc c. 10 * acc + digit_value c) (digit_value c) ys =
      digit_value c * 10 ^ length ys + foldl (\<lambda>acc c. 10 * acc + digit_value c) 0 ys"
    by (rule Cons.IH)
  ultimately show ?case by (simp add: algebra_simps)
qed

lemma dec_value_concat:
  "dec_value (xs @ ys) = dec_value xs * 10 ^ length ys + dec_value ys"
  by (simp add: dec_value_append foldl_dec_acc [of "dec_value xs"]) (simp add: dec_value_def)

end
