(* ===== verification/ClientPOS.thy ===== *)
theory ClientPOS
  imports Checkout Returns Access JsValue
begin

text \<open>
  The POS screen, \<^verbatim>\<open>src/src/pages/POS/index.jsx\<close>, as a state machine over its React
  state: the cart, the selected customer, the discount, the tendered payments and the
  search box.  Its handlers are the cart operations (\<open>addToCart\<close>, \<open>updateQuantity\<close>,
  \<open>removeFromCart\<close>, \<open>clearCart\<close>), the payment rows (\<open>setFullPayment\<close>, \<open>addPayment\<close>,
  \<open>updatePayment\<close>, \<open>removePayment\<close>), holding and resuming a cart, and \<open>handleCheckout\<close>,
  whose guard decides which requests reach \<open>POST /sales\<close> (\<open>Checkout.create_sale\<close>).
  A payment amount is a number (from a quick-pay button) or the string typed into the
  amount field (\<open>JsValue\<close>).  The permission test is \<open>hasPermission\<close> of
  \<^verbatim>\<open>src/src/context/AuthContext.jsx\<close> on the user that login answered.
\<close>

section \<open>State\<close>

text \<open>A cart line: the fields the server reads, and the stock seen when it was added.\<close>

record pos_line = cart_item +
  pl_maxQuantity :: qty

record pos_state =
  ps_cart :: "pos_line list"
  ps_customer :: "docid option"
  ps_discount :: money
  ps_discountType :: discount_type
  ps_payments :: "(pay_method \<times> js_val) list"
  ps_search :: string
  ps_held :: "(pos_line list \<times> docid option) list"

text \<open>The logged-in user as the client keeps it (\<open>res.data.user\<close> of login).\<close>

record client_user =
  cu_role :: "string option"
  cu_permissions :: perm_field

text \<open>The toasts and silent \<open>return\<close>s of the handlers.\<close>

datatype pos_error = OutOfStock | NotEnoughStock | NoPermission | Underpaid | NeedCustomer | EmptyCart
  | NoInvoice | InvoiceNotFound | ReturnPeriodOver | AlreadyReturned | NothingToReturn

text \<open>\<open>saleData\<close> of \<open>handleCheckout\<close>, the body of \<open>POST /sales\<close>.\<close>

record sale_data =
  sd_items :: "pos_line list"
  sd_customerId :: "docid option"
  sd_subtotal :: money
  sd_discount :: money
  sd_discountType :: discount_type
  sd_tax :: money
  sd_total :: money
  sd_payments :: "(pay_method \<times> js_val) list"
  sd_userId :: docid

section \<open>Operations\<close>

text \<open>\<open>hasPermission(module, action)\<close>\<close>

definition has_permission :: "client_user option \<Rightarrow> string \<Rightarrow> string \<Rightarrow> bool" where
  "has_permission u m a =
     (case u of
        None \<Rightarrow> False
      | Some x \<Rightarrow> if cu_role x = Some ''admin'' then True
                  else (case cu_permissions x of PermMissing \<Rightarrow> False | p \<Rightarrow> perm_allows p m a))"

text \<open>\<open>{ method: 'cash', amount: 0 }\<close>\<close>

definition initial_payments :: "(pay_method \<times> js_val) list" where
  "initial_payments = [(Cash, JNum 0)]"

definition new_line :: "docid \<Rightarrow> product \<Rightarrow> pos_line" where
  "new_line pid p = \<lparr>ci_productId = pid, ci_variantId = None, ci_price = p_price p,
     ci_cost = js_or (p_cost p) 0, ci_quantity = 1, pl_maxQuantity = p_quantity p\<rparr>"

text \<open>\<open>addToCart(product)\<close>, with the product list of the screen for the search reset.\<close>

definition add_to_cart :: "(docid \<times> product) list \<Rightarrow> docid \<times> product \<Rightarrow> pos_state \<Rightarrow> pos_error + pos_state" where
  "add_to_cart prods pp st =
     (let (pid, p) = pp;
          st1 = st\<lparr>ps_search := (if ps_search st \<noteq> [] \<and> list_ex (\<lambda>kq. p_barcode (snd kq) = ps_search st) prods
                                 then [] else ps_search st)\<rparr>
      in if p_quantity p \<le> 0 then Inl OutOfStock
         else (case find (\<lambda>i. ci_productId i = pid) (ps_cart st) of
                 Some ex \<Rightarrow>
                   if p_quantity p \<le> ci_quantity ex then Inl NotEnoughStock
                   else Inr (st1\<lparr>ps_cart := map (\<lambda>i. if ci_productId i = pid
                                                       then i\<lparr>ci_quantity := ci_quantity i + 1\<rparr> else i) (ps_cart st)\<rparr>)
               | None \<Rightarrow> Inr (st1\<lparr>ps_cart := ps_cart st @ [new_line pid p]\<rparr>)))"

text \<open>\<open>updateQuantity(productId, delta)\<close>: a line that would drop to 0 or below is removed,
  one that would exceed the stock seen is kept as it was.\<close>

definition update_quantity :: "docid \<Rightarrow> qty \<Rightarrow> pos_state \<Rightarrow> pos_state" where
  "update_quantity pid delta st =
     st\<lparr>ps_cart := List.map_filter (\<lambda>i.
        if ci_productId i \<noteq> pid then Some i
        else (let nq = ci_quantity i + delta
              in if nq \<le> 0 then None
                 else if pl_maxQuantity i < nq then Some i
                 else Some (i\<lparr>ci_quantity := nq\<rparr>))) (ps_cart st)\<rparr>"

definition remove_from_cart :: "docid \<Rightarrow> pos_state \<Rightarrow> pos_state" where
  "remove_from_cart pid st = st\<lparr>ps_cart := filter (\<lambda>i. ci_productId i \<noteq> pid) (ps_cart st)\<rparr>"

definition clear_cart :: "pos_state \<Rightarrow> pos_state" where
  "clear_cart st = st\<lparr>ps_cart := [], ps_customer := None, ps_discount := 0, ps_payments := initial_payments\<rparr>"

text \<open>The screen's totals: \<open>subtotal\<close>, \<open>discountAmount\<close>, \<open>total\<close> (Pricing), and
  \<open>payments.reduce((sum, p) => sum + (parseFloat(p.amount) || 0), 0)\<close>.\<close>

definition client_totals :: "pos_state \<Rightarrow> money \<times> money \<times> money" where
  "client_totals st = pos_totals (map cart_item.truncate (ps_cart st)) (ps_discountType st) (ps_discount st)"

definition client_total_paid :: "(pay_method \<times> js_val) list \<Rightarrow> money" where
  "client_total_paid ps = foldl (\<lambda>sum p. sum + js_num (js_parse_float (snd p)) 0) 0 ps"

text \<open>\<open>setFullPayment(method)\<close>: one row with the whole total.\<close>

definition set_full_payment :: "pay_method \<Rightarrow> pos_state \<Rightarrow> pos_state" where
  "set_full_payment m st = st\<lparr>ps_payments := [(m, JNum (snd (snd (client_totals st))))]\<rparr>"

definition add_payment :: "pos_state \<Rightarrow> pos_state" where
  "add_payment st = st\<lparr>ps_payments := ps_payments st @ [(Cash, JNum 0)]\<rparr>"

text \<open>\<open>updatePayment(i, 'method' | 'amount', e.target.value)\<close>: the amount is the input's
  string value.\<close>

definition update_payment_method :: "nat \<Rightarrow> pay_method \<Rightarrow> pos_state \<Rightarrow> pos_state" where
  "update_payment_method i m st =
     st\<lparr>ps_payments := (if i < length (ps_payments st)
                         then (ps_payments st)[i := (m, snd (ps_payments st ! i))] else ps_payments st)\<rparr>"

definition update_payment_amount :: "nat \<Rightarrow> string \<Rightarrow> pos_state \<Rightarrow> pos_state" where
  "update_payment_amount i v st =
     st\<lparr>ps_payments := (if i < length (ps_payments st)
                         then (ps_payments st)[i := (fst (ps_payments st ! i), JStr v)] else ps_payments st)\<rparr>"

definition remove_payment :: "nat \<Rightarrow> pos_state \<Rightarrow> pos_state" where
  "remove_payment i st = st\<lparr>ps_payments := map snd (filter (\<lambda>(j, p). j \<noteq> i) (enumerate 0 (ps_payments st)))\<rparr>"

text \<open>\<open>handleHold\<close>: the cart is stored on the server (\<open>POST /sales/hold\<close>) and cleared;
  \<open>resumeHeld\<close> puts a held cart back and deletes it.\<close>

definition hold_cart :: "client_user option \<Rightarrow> pos_state \<Rightarrow> pos_error + pos_state" where
  "hold_cart u st =
     (if ps_cart st = [] then Inl EmptyCart
      else if \<not> has_permission u ''pos'' ''hold'' then Inl NoPermission
      else Inr (clear_cart (st\<lparr>ps_held := ps_held st @ [(ps_cart st, ps_customer st)]\<rparr>)))"

definition resume_held :: "nat \<Rightarrow> pos_state \<Rightarrow> pos_state" where
  "resume_held i st =
     (if i < length (ps_held st) then
        st\<lparr>ps_cart := fst (ps_held st ! i),
           ps_customer := (case snd (ps_held st ! i) of None \<Rightarrow> ps_customer st | Some c \<Rightarrow> Some c),
           ps_held := map snd (filter (\<lambda>(j, h). j \<noteq> i) (enumerate 0 (ps_held st)))\<rparr>
      else st)"

text \<open>\<open>handleCheckout\<close>: the guard, then the request body.\<close>

definition handle_checkout :: "client_user option \<Rightarrow> docid \<Rightarrow> pos_state \<Rightarrow> pos_error + sale_data" where
  "handle_checkout u uid st =
     (let (subtotal, discountAmt, tot) = client_totals st;
          paid = client_total_paid (ps_payments st);
          hasCredit = list_ex (\<lambda>p. fst p = CreditMethod) (ps_payments st)
      in if ps_cart st = [] then Inl EmptyCart
         else if \<not> has_permission u ''pos'' ''sell'' then Inl NoPermission
         else if \<not> hasCredit \<and> paid < tot then Inl Underpaid
         else if hasCredit \<and> ps_customer st = None then Inl NeedCustomer
         else Inr \<lparr>sd_items = ps_cart st, sd_customerId = ps_customer st, sd_subtotal = subtotal,
                   sd_discount = discountAmt, sd_discountType = ps_discountType st, sd_tax = 0,
                   sd_total = tot, sd_payments = filter (\<lambda>p. js_pos (snd p)) (ps_payments st),
                   sd_userId = uid\<rparr>)"

section \<open>The request at the server\<close>

text \<open>\<open>payments.reduce((sum, p) => sum + p.amount, 0)\<close> of \<open>POST /sales\<close> on the amounts as sent.\<close>

definition server_total_paid :: "(pay_method \<times> js_val) list \<Rightarrow> js_val" where
  "server_total_paid ps = foldl (\<lambda>sum p. js_add sum (snd p)) (JNum 0) ps"

text \<open>The request \<open>create_sale\<close> receives when every amount is a number; \<open>None\<close> when a
  typed (string) amount is among them, which \<open>create_sale\<close>'s numeric model does not cover.\<close>

definition numeric_request :: "string \<Rightarrow> sale_data \<Rightarrow> checkout_req option" where
  "numeric_request date sd =
     (if list_all (\<lambda>p. case snd p of JNum _ \<Rightarrow> True | JStr _ \<Rightarrow> False) (sd_payments sd) then
        Some \<lparr>rq_items = map cart_item.truncate (sd_items sd), rq_customerId = sd_customerId sd,
              rq_subtotal = sd_subtotal sd, rq_discount = sd_discount sd,
              rq_discountType = sd_discountType sd, rq_tax = sd_tax sd, rq_total = sd_total sd,
              rq_payments = map (\<lambda>p. \<lparr>pay_method = fst p,
                                       pay_amount = (case snd p of JNum x \<Rightarrow> x | JStr _ \<Rightarrow> 0)\<rparr>) (sd_payments sd),
              rq_userId = sd_userId sd, rq_date = date\<rparr>
      else None)"

section \<open>Returns from the POS screen\<close>

text \<open>\<open>searchReturn\<close>: the sale with the typed invoice number among \<open>GET /sales\<close>, refused
  after \<open>storeSettings?.returnPeriodDays || 14\<close> whole days, or when its status is
  \<open>'returned'\<close>; the answer carries \<open>daysSincePurchase\<close>.\<close>

definition return_period :: "settings option \<Rightarrow> nat" where
  "return_period sts = (case sts of None \<Rightarrow> 14 | Some x \<Rightarrow> js_or (returnPeriodDays x) 14)"

definition search_return :: "settings option \<Rightarrow> time \<Rightarrow> string \<Rightarrow> sale list \<Rightarrow> pos_error + (sale \<times> int)" where
  "search_return sts now invno ss =
     (if invno = [] then Inl NoInvoice
      else case find (\<lambda>s. s_invoiceNumber s = invno) ss of
        None \<Rightarrow> Inl InvoiceNotFound
      | Some s \<Rightarrow>
          (let period = return_period sts;
               daysDiff = (int now - int (s_createdAt s)) div int day_ms
           in if int period < daysDiff then Inl ReturnPeriodOver
              else if sale_status_str (s_status s) = ''returned'' then Inl AlreadyReturned
              else Inr (s, daysDiff)))"

text \<open>\<open>processReturn\<close>: the lines with a positive \<open>returnQty\<close>, as \<open>{productId, quantity}\<close>,
  become the body of \<open>POST /sales/:id/return\<close>.\<close>

definition process_return :: "client_user option \<Rightarrow> (cart_item \<times> qty) list \<Rightarrow> pos_error + return_item list" where
  "process_return u lines =
     (if \<not> has_permission u ''pos'' ''return'' then Inl NoPermission
      else (let items = map (\<lambda>l. \<lparr>ri_productId = ci_productId (fst l), ri_quantity = snd l, ri_variantId = None\<rparr>)
                          (filter (\<lambda>l. 0 < snd l) lines)
            in if items = [] then Inl NothingToReturn else Inr items))"

lemmas client_defs [pos_simps] =
  has_permission_def initial_payments_def new_line_def add_to_cart_def update_quantity_def
  remove_from_cart_def clear_cart_def client_totals_def client_total_paid_def set_full_payment_def
  add_payment_def update_payment_method_def update_payment_amount_def remove_payment_def
  hold_cart_def resume_held_def handle_checkout_def server_total_paid_def numeric_request_def
  return_period_def search_return_def process_return_def

section \<open>The screen as a state machine\<close>

text \<open>A cart is well formed when no product appears on two lines and every line has a
  positive quantity; the screen is, when its cart and every held cart are.\<close>

definition cart_ok :: "pos_line list \<Rightarrow> bool" where
  "cart_ok c \<longleftrightarrow> distinct (map ci_productId c) \<and> list_all (\<lambda>i. 0 < ci_quantity i) c"

definition screen_ok :: "pos_state \<Rightarrow> bool" where
  "screen_ok st \<longleftrightarrow> cart_ok (ps_cart st) \<and> list_all (\<lambda>h. cart_ok (fst h)) (ps_held st)"

text \<open>One event of the screen for the logged-in user \<open>u\<close>: a handler that succeeds (an
  \<open>Inl\<close> answer is a toast and leaves the state as it was), a payment-row edit, a search,
  a customer pick or a discount entry (\<open>parseFloat(e.target.value) || 0\<close>, any number).
  The product list \<open>prods\<close> of an \<open>addToCart\<close> is whatever \<open>fetchData\<close> last loaded.\<close>

inductive pos_step :: "client_user option \<Rightarrow> pos_state \<Rightarrow> pos_state \<Rightarrow> bool" for u where
  add: "add_to_cart prods pp st = Inr st' \<Longrightarrow> pos_step u st st'"
| quantity: "pos_step u st (update_quantity pid delta st)"
| remove: "pos_step u st (remove_from_cart pid st)"
| clear: "pos_step u st (clear_cart st)"
| full_pay: "pos_step u st (set_full_payment m st)"
| add_pay: "pos_step u st (add_payment st)"
| pay_method: "pos_step u st (update_payment_method i m st)"
| pay_amount: "pos_step u st (update_payment_amount i v st)"
| remove_pay: "pos_step u st (remove_payment i st)"
| hold: "hold_cart u st = Inr st' \<Longrightarrow> pos_step u st st'"
| resume: "pos_step u st (resume_held i st)"
| checkout: "handle_checkout u uid st = Inr sd \<Longrightarrow> pos_step u st (clear_cart st)"
| search: "pos_step u st (st\<lparr>ps_search := q\<rparr>)"
| customer: "pos_step u st (st\<lparr>ps_customer := c\<rparr>)"
| discount: "pos_step u st (st\<lparr>ps_discount := x, ps_discountType := ty\<rparr>)"

text \<open>The screen after login: empty cart, one zero cash row, the held sales the server has.\<close>

definition pos_init :: "(pos_line list \<times> docid option) list \<Rightarrow> pos_state" where
  "pos_init hs = \<lparr>ps_cart = [], ps_customer = None, ps_discount = 0, ps_discountType = Fixed,
     ps_payments = initial_payments, ps_search = [], ps_held = hs\<rparr>"

text \<open>A screen with one tea in the cart for customer 7, and a cashier.\<close>

definition ex_pos :: pos_state where
  "ex_pos = \<lparr>ps_cart = [new_line 1 ex_tea], ps_customer = Some 7, ps_discount = 0,
     ps_discountType = Fixed, ps_payments = initial_payments, ps_search = [], ps_held = []\<rparr>"

definition ex_pos_admin :: "client_user option" where
  "ex_pos_admin = Some \<lparr>cu_role = Some ''admin'', cu_permissions = PermMissing\<rparr>"

definition ex_cashier :: "client_user option" where
  "ex_cashier = Some \<lparr>cu_role = Some ''cashier'', cu_permissions = PermObj cashier_perms\<rparr>"

section \<open>Lemmas\<close>

lemma js_or_zero_default [simp]: "js_or x 0 = x"
  by (simp add: js_or_def)

lemma client_totals_payments [simp]:
  "client_totals (st\<lparr>ps_payments := ps\<rparr>) = client_totals st"
  by (simp add: client_totals_def)

lemma client_total_nonneg: "0 \<le> snd (snd (client_totals st))"
  by (simp add: client_totals_def pos_totals_def Let_def)

lemma client_total_paid_single [simp]: "client_total_paid [(m, JNum x)] = x"
  by (simp add: client_total_paid_def js_parse_float_def js_num_def)

lemma server_total_paid_acc:
  "foldl (\<lambda>sum p. js_add sum (snd p)) (JNum a) (map (\<lambda>p. (pay_method p, JNum (pay_amount p))) ps) =
     JNum (foldl (\<lambda>sum p. sum + pay_amount p) a ps)"
  by (induction ps arbitrary: a) simp_all

lemma client_total_paid_acc:
  "foldl (\<lambda>sum p. sum + js_num (js_parse_float (snd p)) 0) a (map (\<lambda>p. (pay_method p, JNum (pay_amount p))) ps) =
     foldl (\<lambda>sum p. sum + pay_amount p) a ps"
  by (induction ps arbitrary: a) (simp_all add: js_parse_float_def js_num_def)

lemma parse_digits [simp]:
  assumes "list_all is_digit s"
  shows "js_num (js_parse_float (JStr s)) 0 = of_nat (dec_value s)"
proof -
  have "takeWhile is_digit s = s" using assms by (simp add: takeWhile_eq_all_conv list_all_iff)
  then show ?thesis
    by (simp add: js_parse_float_def js_num_def Let_def dec_value_def del: takeWhile_eq_all_conv)
qed

lemma dec_value_zero_cons [simp]: "dec_value (CHR ''0'' # s) = dec_value s"
  using dec_value_zero_prefix [of 1 s] by simp

lemma num_string_zero [simp]: "num_string 0 = ''0''"
  using num_string_nat [of 0] by (simp add: dec_string.simps digit_chars)

text \<open>The request a one-row quick payment of the total becomes.\<close>

lemma quick_pay_request:
  assumes "ps_cart st \<noteq> []" "has_permission u ''pos'' ''sell''"
    "m = CreditMethod \<longrightarrow> ps_customer st \<noteq> None"
  obtains sd rq where
    "handle_checkout u uid (set_full_payment m st) = Inr sd"
    "numeric_request date sd = Some rq"
    "rq_customerId rq = ps_customer st" "rq_total rq = snd (snd (client_totals st))"
    "total_paid (rq_payments rq) = snd (snd (client_totals st))"
proof -
  obtain a b t where tt: "client_totals st = (a, b, t)" by (cases "client_totals st") auto
  have t0: "0 \<le> t" using client_total_nonneg [of st] tt by simp
  let ?ps = "filter (\<lambda>p. js_pos (snd p)) [(m, JNum t)]"
  let ?sd = "\<lparr>sd_items = ps_cart st, sd_customerId = ps_customer st, sd_subtotal = a,
     sd_discount = b, sd_discountType = ps_discountType st, sd_tax = 0, sd_total = t,
     sd_payments = ?ps, sd_userId = uid\<rparr>"
  have h: "handle_checkout u uid (set_full_payment m st) = Inr ?sd"
    using assms tt by (auto simp: handle_checkout_def set_full_payment_def)
  have ps: "?ps = (if 0 < t then [(m, JNum t)] else [])"
    by (simp add: js_pos_def js_to_number_def)
  let ?rq = "the (numeric_request date ?sd)"
  have n: "numeric_request date ?sd = Some ?rq"
    using ps by (simp add: numeric_request_def)
  have "total_paid (rq_payments ?rq) = t"
    using ps t0 by (simp add: numeric_request_def total_paid_def)
  moreover have "rq_customerId ?rq = ps_customer st" "rq_total ?rq = t"
    by (simp_all add: numeric_request_def)
  ultimately show ?thesis using that [OF h n] tt by simp
qed

subsection \<open>The cart invariant\<close>

lemma cart_ok_add:
  assumes "add_to_cart prods pp st = Inr st'" "cart_ok (ps_cart st)"
  shows "cart_ok (ps_cart st') \<and> ps_held st' = ps_held st"
proof -
  obtain pid p where pp: "pp = (pid, p)" by (cases pp)
  show ?thesis
  proof (cases "find (\<lambda>i. ci_productId i = pid) (ps_cart st)")
    case None
    then have "pid \<notin> set (map ci_productId (ps_cart st))" by (auto simp: find_None_iff)
    then show ?thesis using assms None pp
      by (auto simp: add_to_cart_def cart_ok_def new_line_def Let_def split: if_splits)
  next
    case (Some ex)
    let ?f = "\<lambda>i. if ci_productId i = pid then i\<lparr>ci_quantity := ci_quantity i + 1\<rparr> else i"
    have st': "ps_cart st' = map ?f (ps_cart st) \<and> ps_held st' = ps_held st"
      using assms(1) Some pp by (auto simp: add_to_cart_def Let_def split: if_splits)
    have "map ci_productId (map ?f c) = map ci_productId c" for c :: "pos_line list"
      by (induction c) simp_all
    moreover have "list_all (\<lambda>i. 0 < ci_quantity i) (map ?f (ps_cart st))"
      using assms(2) by (auto simp: cart_ok_def list_all_iff)
    ultimately show ?thesis using st' assms(2) by (simp only: cart_ok_def)
  qed
qed

lemma cart_ok_update_quantity:
  "cart_ok (ps_cart st) \<Longrightarrow> cart_ok (ps_cart (update_quantity pid delta st))"
  unfolding cart_ok_def update_quantity_def
  by (auto intro!: distinct_map_filter_key list_all_map_filter simp: Let_def split: if_splits)

lemma cart_ok_filter: "cart_ok c \<Longrightarrow> cart_ok (filter P c)"
  by (auto simp: cart_ok_def distinct_map_filter list_all_iff)

lemma cart_ok_Nil [simp]: "cart_ok []"
  by (simp add: cart_ok_def)

lemma screen_ok_payments [simp]:
  "screen_ok (st\<lparr>ps_payments := ps\<rparr>) = screen_ok st"
  by (simp add: screen_ok_def)

lemma screen_ok_clear [simp]: "screen_ok (clear_cart st) = list_all (\<lambda>h. cart_ok (fst h)) (ps_held st)"
  by (simp add: screen_ok_def clear_cart_def)

lemma screen_ok_resume:
  assumes "screen_ok st"
  shows "screen_ok (resume_held i st)"
proof (cases "i < length (ps_held st)")
  case True
  then have "cart_ok (fst (ps_held st ! i))" using assms by (simp add: screen_ok_def list_all_length)
  then show ?thesis using assms True by (simp add: screen_ok_def resume_held_def list_all_filter_enumerate)
next
  case False
  then show ?thesis using assms by (simp add: resume_held_def)
qed

lemma screen_ok_step:
  assumes "pos_step u st st'" "screen_ok st"
  shows "screen_ok st'"
  using assms
proof (induction rule: pos_step.induct)
  case (add prods pp st st')
  then show ?case using cart_ok_add [OF add.hyps] by (simp add: screen_ok_def)
next
  case (quantity st pid delta)
  then show ?case using cart_ok_update_quantity [of st pid delta]
    by (simp add: screen_ok_def) (simp add: update_quantity_def)
next
  case (remove st pid)
  then show ?case by (simp add: screen_ok_def remove_from_cart_def cart_ok_filter)
next
  case (hold st st')
  then show ?case by (auto simp: hold_cart_def screen_ok_def clear_cart_def split: if_splits)
next
  case (resume st i)
  then show ?case by (rule screen_ok_resume)
qed (simp_all add: screen_ok_def clear_cart_def set_full_payment_def add_payment_def update_payment_method_def
       update_payment_amount_def remove_payment_def)

section \<open>Properties of the POS screen\<close>

text \<open>
  C32: A credit quick-pay posts no receivable.  On a non-empty cart, a user allowed to
  sell, and a selected customer, the \<open>Credit\<close> quick-pay button (\<open>setFullPayment('credit')\<close>)
  followed by checkout sends a request that the server records as a \<open>paid\<close> sale with
  nothing remaining, and no credit is posted for the customer: the sale on credit leaves
  no trace in the receivables.
\<close>

theorem credit_quick_pay_no_receivable:
  assumes "ps_cart st \<noteq> []" "has_permission u ''pos'' ''sell''" "ps_customer st \<noteq> None"
  shows "\<exists>sd rq. handle_checkout u uid (set_full_payment CreditMethod st) = Inr sd \<and>
           numeric_request date sd = Some rq \<and> rq_customerId rq = ps_customer st \<and>
           s_status (fst (create_sale rq d)) = Paid \<and> s_remaining (fst (create_sale rq d)) = 0 \<and>
           credits (snd (create_sale rq d)) = credits d"
proof -
  obtain sd rq where h: "handle_checkout u uid (set_full_payment CreditMethod st) = Inr sd"
    and n: "numeric_request date sd = Some rq" and c: "rq_customerId rq = ps_customer st"
    and t: "total_paid (rq_payments rq) = rq_total rq"
    using quick_pay_request [OF assms(1,2), of CreditMethod] assms(3) by metis
  have "s_status (fst (create_sale rq d)) = Paid" "s_remaining (fst (create_sale rq d)) = 0"
    using t by (simp_all add: create_sale_fst sale_doc_def Let_def status_of_remaining_def remaining_due_def)
  moreover have "credits (snd (create_sale rq d)) = credits d"
    using t by (simp add: create_sale_credits split: option.splits)
  ultimately show ?thesis using h n c by blast
qed

theorem credit_quick_pay_no_receivable_witness:
  "\<exists>sd rq. handle_checkout ex_cashier 2 (set_full_payment CreditMethod ex_pos) = Inr sd \<and>
     numeric_request ''20260101'' sd = Some rq \<and> rq_customerId rq = Some 7 \<and>
     s_status (fst (create_sale rq ex_store)) = Paid \<and> s_remaining (fst (create_sale rq ex_store)) = 0 \<and>
     credits (snd (create_sale rq ex_store)) = credits ex_store"
proof -
  have "ps_cart ex_pos \<noteq> []" "ps_customer ex_pos = Some 7" by (simp_all add: ex_pos_def)
  moreover have "has_permission ex_cashier ''pos'' ''sell''"
    by (simp add: ex_cashier_def has_permission_def cashier_perms_def perm_allows_def)
  ultimately show ?thesis
    using credit_quick_pay_no_receivable [of ex_pos ex_cashier 2 "''20260101''" ex_store] by simp
qed

text \<open>
  Client and server agree on numeric amounts.  When every tendered amount is a
  number (the quick-pay buttons), the screen's \<open>totalPaid\<close> (\<open>parseFloat\<close> per row) and
  the server's \<open>payments.reduce((sum, p) => sum + p.amount, 0)\<close> are both the sum the
  pricing model uses (\<open>Pricing.total_paid\<close>).
\<close>

lemma numeric_amounts_agree:
  "client_total_paid (map (\<lambda>p. (pay_method p, JNum (pay_amount p))) ps) = total_paid ps \<and>
   server_total_paid (map (\<lambda>p. (pay_method p, JNum (pay_amount p))) ps) = JNum (total_paid ps)"
  by (simp add: client_total_paid_def server_total_paid_def total_paid_def
      client_total_paid_acc server_total_paid_acc)

text \<open>
  C34: Typed amounts are concatenated.  Two amounts typed into the payment fields reach
  the server as digit strings \<open>s1\<close>, \<open>s2\<close>; the server's sum is the string \<open>"0" + s1 + s2\<close>,
  which \<open>Math.max(0, total - totalPaid)\<close> reads as the number \<open>s1 * 10^|s2| + s2\<close>, while
  the screen, which checked the payment, counted \<open>s1 + s2\<close>.
\<close>

theorem typed_amounts_concatenate:
  assumes "list_all is_digit s1" "list_all is_digit s2"
  shows "server_total_paid [(m1, JStr s1), (m2, JStr s2)] = JStr (''0'' @ s1 @ s2) \<and>
         js_to_number (server_total_paid [(m1, JStr s1), (m2, JStr s2)]) =
           Some (of_nat (dec_value s1 * 10 ^ length s2 + dec_value s2)) \<and>
         client_total_paid [(m1, JStr s1), (m2, JStr s2)] = of_nat (dec_value s1) + of_nat (dec_value s2)"
proof -
  have srv: "server_total_paid [(m1, JStr s1), (m2, JStr s2)] = JStr (''0'' @ s1 @ s2)"
    by (simp add: server_total_paid_def js_to_string_def)
  have "dec_value (''0'' @ s1 @ s2) = dec_value s1 * 10 ^ length s2 + dec_value s2"
    by (simp add: dec_value_concat)
  moreover have "list_all is_digit (''0'' @ s1 @ s2)"
    using assms by (simp add: is_digit_def)
  ultimately have "js_to_number (JStr (''0'' @ s1 @ s2)) = Some (of_nat (dec_value s1 * 10 ^ length s2 + dec_value s2))"
    by (simp add: js_to_number_def)
  moreover have "client_total_paid [(m1, JStr s1), (m2, JStr s2)] = of_nat (dec_value s1) + of_nat (dec_value s2)"
    using assms by (simp add: client_total_paid_def)
  ultimately show ?thesis using srv by simp
qed

theorem typed_amounts_concatenate_witness:
  "server_total_paid [(Cash, JStr ''50''), (Card, JStr ''30'')] = JStr ''05030'' \<and>
   js_to_number (server_total_paid [(Cash, JStr ''50''), (Card, JStr ''30'')]) = Some 5030 \<and>
   client_total_paid [(Cash, JStr ''50''), (Card, JStr ''30'')] = 80"
proof -
  have d: "list_all is_digit ''50''" "list_all is_digit ''30''" by (simp_all add: is_digit_def)
  have v: "dec_value ''50'' = 50" "dec_value ''30'' = 30" by (simp_all add: dec_value_def digit_value_def)
  note i = typed_amounts_concatenate [OF d, of Cash Card]
  have "server_total_paid [(Cash, JStr ''50''), (Card, JStr ''30'')] = JStr ''05030''"
    using conjunct1 [OF i] by simp
  moreover have "js_to_number (server_total_paid [(Cash, JStr ''50''), (Card, JStr ''30'')]) = Some 5030"
    using conjunct1 [OF conjunct2 [OF i]] v by simp
  moreover have "client_total_paid [(Cash, JStr ''50''), (Card, JStr ''30'')] = 80"
    using conjunct2 [OF conjunct2 [OF i]] v by simp
  ultimately show ?thesis by blast
qed

text \<open>
  C35: Cart well-formedness.  On every screen reachable from the screen after login by
  the handlers of the POS page (cart edits, payment rows, holding, resuming, checkout,
  search, customer and discount entry), no product occupies two cart lines and every
  line has a positive quantity, in the cart and in every held cart, provided the held
  carts loaded from the server were so.
\<close>

theorem pos_reachable_screen_ok:
  assumes "(pos_step u)\<^sup>*\<^sup>* (pos_init hs) st" "list_all (\<lambda>h. cart_ok (fst h)) hs"
  shows "screen_ok st"
  using assms(1)
proof (induction rule: rtranclp_induct)
  case base
  then show ?case using assms(2) by (simp add: screen_ok_def pos_init_def)
next
  case (step y z)
  then show ?case using screen_ok_step by blast
qed

theorem pos_reachable_screen_ok_witness:
  "(pos_step ex_cashier)\<^sup>*\<^sup>* (pos_init []) ((pos_init [])\<lparr>ps_cart := [(new_line 1 ex_tea)\<lparr>ci_quantity := 2\<rparr>]\<rparr>) \<and>
   screen_ok ((pos_init [])\<lparr>ps_cart := [(new_line 1 ex_tea)\<lparr>ci_quantity := 2\<rparr>]\<rparr>)"
proof -
  have "add_to_cart [(1, ex_tea)] (1, ex_tea) (pos_init []) = Inr ((pos_init [])\<lparr>ps_cart := [new_line 1 ex_tea]\<rparr>)"
    by (simp add: add_to_cart_def pos_init_def ex_tea_def)
  moreover have "add_to_cart [(1, ex_tea)] (1, ex_tea) ((pos_init [])\<lparr>ps_cart := [new_line 1 ex_tea]\<rparr>) =
      Inr ((pos_init [])\<lparr>ps_cart := [(new_line 1 ex_tea)\<lparr>ci_quantity := 2\<rparr>]\<rparr>)"
    by (simp add: add_to_cart_def pos_init_def ex_tea_def new_line_def)
  ultimately have r: "(pos_step ex_cashier)\<^sup>*\<^sup>* (pos_init []) ((pos_init [])\<lparr>ps_cart := [(new_line 1 ex_tea)\<lparr>ci_quantity := 2\<rparr>]\<rparr>)"
    by (meson pos_step.add rtranclp.rtrancl_into_rtrancl rtranclp.rtrancl_refl)
  then show ?thesis using pos_reachable_screen_ok [OF r] by simp
qed

text \<open>
  C36: A refunded sale can be returned again from the POS.  The screen refuses a sale
  whose status is \<open>'returned'\<close>, a status the server never writes: a sale the server
  has marked \<open>'refunded'\<close>, within the return period, is found by \<open>searchReturn\<close>, any
  positive return quantity is sent by \<open>processReturn\<close>, and \<open>POST /sales/:id/return\<close>
  accepts it and refunds again.
\<close>

theorem refunded_sale_reaccepted:
  assumes "set ss \<subseteq> set (sales d)" "find (\<lambda>s. s_invoiceNumber s = invno) ss = Some s" "invno \<noteq> []"
    "s_status s = Refunded"
    "(int now - int (s_createdAt s)) div int day_ms \<le> int (return_period sts)"
    "has_permission u ''pos'' ''return''" "list_ex (\<lambda>l. 0 < snd l) lines"
  shows "\<exists>dd items r d'. search_return sts now invno ss = Inr (s, dd) \<and>
           process_return u lines = Inr items \<and> return_sale (s_id s) items d = Inr (r, d')"
proof -
  have "search_return sts now invno ss = Inr (s, (int now - int (s_createdAt s)) div int day_ms)"
    using assms(2-5) by (simp add: search_return_def sale_status_str_def Let_def)
  moreover have "process_return u lines \<noteq> Inl NothingToReturn" "process_return u lines \<noteq> Inl NoPermission"
    using assms(6,7) by (auto simp: process_return_def Let_def list_ex_iff filter_empty_conv)
  then obtain items where "process_return u lines = Inr items"
    by (cases "process_return u lines") (auto simp: process_return_def Let_def split: if_splits)
  moreover have "s \<in> set (sales d)" using assms(1,2) by (auto simp: find_Some_iff)
  then have "find_sale (s_id s) d \<noteq> None" by (auto simp: find_sale_def find_None_iff)
  then have "\<exists>r d'. return_sale (s_id s) items d = Inr (r, d')"
    by (auto simp: return_sale_def Let_def)
  ultimately show ?thesis by blast
qed

theorem refunded_sale_reaccepted_witness:
  "\<exists>dd items r d'.
     search_return None 1000 ''INV-20260101-0001'' [ex_sale\<lparr>s_status := Refunded\<rparr>] = Inr (ex_sale\<lparr>s_status := Refunded\<rparr>, dd) \<and>
     process_return ex_pos_admin [(ex_line 1 100 2, 2)] = Inr items \<and>
     return_sale 20 items (ex_store\<lparr>sales := [ex_sale\<lparr>s_status := Refunded\<rparr>]\<rparr>) = Inr (r, d')"
proof -
  have "(int 1000 - int (s_createdAt (ex_sale\<lparr>s_status := Refunded\<rparr>))) div int day_ms \<le> int (return_period None)"
    by (simp add: ex_sale_def day_ms_def return_period_def)
  moreover have "has_permission ex_pos_admin ''pos'' ''return''"
    by (simp add: ex_pos_admin_def has_permission_def)
  moreover have "find (\<lambda>s. s_invoiceNumber s = ''INV-20260101-0001'') [ex_sale\<lparr>s_status := Refunded\<rparr>] =
      Some (ex_sale\<lparr>s_status := Refunded\<rparr>)"
    by (simp add: ex_sale_def)
  ultimately show ?thesis
    using refunded_sale_reaccepted [of "[ex_sale\<lparr>s_status := Refunded\<rparr>]" "ex_store\<lparr>sales := [ex_sale\<lparr>s_status := Refunded\<rparr>]\<rparr>"
        "''INV-20260101-0001''" "ex_sale\<lparr>s_status := Refunded\<rparr>" 1000 None ex_pos_admin "[(ex_line 1 100 2, 2)]"]
    by (simp add: ex_sale_def)
qed

end
