(* ===== verification/SalesQueries.thy ===== *)
theory SalesQueries
  imports Checkout Returns
begin

text \<open>
  The remaining routes of \<^verbatim>\<open>src/server/routes/sales.js\<close>: the sales listing with its
  filters (\<open>GET /\<close>), held carts (\<open>POST /hold\<close>, \<open>GET /held/list\<close>, \<open>GET /held/:id\<close>,
  \<open>DELETE /held/:id\<close>), the drawer-close summary (\<open>GET /drawer-summary\<close>), a single sale
  (\<open>GET /:id\<close>), the returns listing (\<open>GET /returns/list\<close>) and today's summary
  (\<open>GET /summary/today\<close>).  Dates in the query are the millisecond bounds they denote;
  "today" is the window \<open>[today, tomorrow)\<close> of the server's local day.
\<close>

section \<open>Operations\<close>

definition in_window :: "time \<Rightarrow> time \<Rightarrow> time \<Rightarrow> bool" where
  "in_window lo hi t \<longleftrightarrow> lo \<le> t \<and> t < hi"

text \<open>\<open>GET /\<close>: \<open>from\<close> and \<open>to\<close> bound \<open>createdAt\<close> (\<open>to\<close> at 23:59:59 of its day), the
  other filters compare for equality.\<close>

definition sale_query :: "time option \<Rightarrow> time option \<Rightarrow> docid option \<Rightarrow> string option \<Rightarrow>
    docid option \<Rightarrow> sale \<Rightarrow> bool" where
  "sale_query from to cid st uid s \<longleftrightarrow>
     (case from of None \<Rightarrow> True | Some f \<Rightarrow> f \<le> s_createdAt s) \<and>
     (case to of None \<Rightarrow> True | Some t \<Rightarrow> s_createdAt s \<le> t) \<and>
     (case cid of None \<Rightarrow> True | Some c \<Rightarrow> s_customerId s = Some c) \<and>
     (case st of None \<Rightarrow> True | Some x \<Rightarrow> sale_status_str (s_status s) = x) \<and>
     (case uid of None \<Rightarrow> True | Some u \<Rightarrow> s_userId s = u)"

definition list_sales :: "time option \<Rightarrow> time option \<Rightarrow> docid option \<Rightarrow> string option \<Rightarrow>
    docid option \<Rightarrow> db \<Rightarrow> sale list" where
  "list_sales from to cid st uid d = newest_by s_createdAt (filter (sale_query from to cid st uid) (sales d))"

text \<open>\<open>'HOLD-' + Date.now().toString().slice(-6)\<close>\<close>

definition hold_number :: "time \<Rightarrow> string" where
  "hold_number t = ''HOLD-'' @ slice_last 6 (dec_string t)"

definition hold_sale :: "cart_item list \<Rightarrow> docid option \<Rightarrow> string option \<Rightarrow> db \<Rightarrow> held_sale \<times> db" where
  "hold_sale items cid cname d =
     (case fresh_id d of (hid, d1) \<Rightarrow>
        (let h = \<lparr>h_id = hid, h_holdNumber = hold_number (clock d), h_items = items,
                  h_customerId = cid, h_customerName = cname, h_createdAt = clock d\<rparr>
         in (h, d1\<lparr>heldSales := heldSales d1 @ [h]\<rparr>)))"

definition held_list :: "db \<Rightarrow> held_sale list" where
  "held_list d = newest_by h_createdAt (heldSales d)"

definition get_held :: "docid \<Rightarrow> db \<Rightarrow> error + held_sale" where
  "get_held hid d = (case find (\<lambda>h. h_id h = hid) (heldSales d) of None \<Rightarrow> Inl NotFound | Some h \<Rightarrow> Inr h)"

text \<open>\<open>db.heldSales.remove({ _id })\<close>: no error when nothing matches.\<close>

definition delete_held :: "docid \<Rightarrow> db \<Rightarrow> db" where
  "delete_held hid d = d\<lparr>heldSales := remove_first (\<lambda>h. h_id h = hid) (heldSales d)\<rparr>"

text \<open>The drawer-close answer: count and totals of today's sales that are not refunded,
  today's returns, and the tendered amounts per method.\<close>

record drawer =
  dr_salesCount :: nat
  dr_totalSales :: money
  dr_totalReturns :: money
  dr_netSales :: money
  dr_breakdown :: "pay_method \<Rightarrow> money"

text \<open>\<open>paymentBreakdown[method] = (paymentBreakdown[method] || 0) + (parseFloat(payment.amount) || 0)\<close>
  over the payments of the sales, all six methods starting at 0.\<close>

definition add_payments :: "(pay_method \<Rightarrow> money) \<Rightarrow> sale \<Rightarrow> pay_method \<Rightarrow> money" where
  "add_payments b s = foldl (\<lambda>b p. b(pay_method p := b (pay_method p) + pay_amount p)) b (s_payments s)"

definition drawer_summary :: "time \<Rightarrow> time \<Rightarrow> db \<Rightarrow> drawer" where
  "drawer_summary today tomorrow d =
     (let ss = filter (\<lambda>s. in_window today tomorrow (s_createdAt s) \<and> s_status s \<noteq> Refunded) (sales d);
          rs = filter (\<lambda>r. in_window today tomorrow (rt_createdAt r)) (returns d);
          totalSales = foldl (\<lambda>sum s. sum + s_total s) 0 ss;
          totalReturns = foldl (\<lambda>sum r. sum + rt_total r) 0 rs
      in \<lparr>dr_salesCount = length ss, dr_totalSales = totalSales, dr_totalReturns = totalReturns,
          dr_netSales = totalSales - totalReturns, dr_breakdown = foldl add_payments (\<lambda>_. 0) ss\<rparr>)"

definition get_sale :: "docid \<Rightarrow> db \<Rightarrow> error + sale" where
  "get_sale sid d = (case find_sale sid d of None \<Rightarrow> Inl NotFound | Some s \<Rightarrow> Inr s)"

definition returns_list :: "db \<Rightarrow> return_rec list" where
  "returns_list d = newest_by rt_createdAt (returns d)"

text \<open>Today's summary counts every sale of the day, refunded ones included; the breakdown
  has a key only for the methods that occur, and \<open>credit\<close> sums what credit sales still owe.\<close>

record today_sum =
  ts_count :: nat
  ts_total :: money
  ts_cash :: money
  ts_card :: money
  ts_credit :: money
  ts_breakdown :: "pay_method \<rightharpoonup> money"

definition add_payments_map :: "(pay_method \<rightharpoonup> money) \<Rightarrow> sale \<Rightarrow> pay_method \<rightharpoonup> money" where
  "add_payments_map b s =
     foldl (\<lambda>b p. b(pay_method p \<mapsto> (case b (pay_method p) of None \<Rightarrow> 0 | Some x \<Rightarrow> js_or x 0) + pay_amount p))
       b (s_payments s)"

definition today_summary :: "time \<Rightarrow> time \<Rightarrow> db \<Rightarrow> today_sum" where
  "today_summary today tomorrow d =
     (let ss = filter (\<lambda>s. in_window today tomorrow (s_createdAt s)) (sales d);
          b = foldl add_payments_map Map.empty ss
      in \<lparr>ts_count = length ss, ts_total = foldl (\<lambda>sum s. sum + s_total s) 0 ss,
          ts_cash = js_num (b Cash) 0, ts_card = js_num (b Card) 0,
          ts_credit = foldl (\<lambda>sum s. sum + s_remaining s) 0 (filter (\<lambda>s. s_status s = Credit) ss),
          ts_breakdown = b\<rparr>)"

text \<open>Two teas at 100 paid in cash without a customer, and their return.\<close>

definition ex_cash_request :: checkout_req where
  "ex_cash_request = \<lparr>rq_items = [ex_line 1 100 2], rq_customerId = None, rq_subtotal = 200,
     rq_discount = 0, rq_discountType = Fixed, rq_tax = 0, rq_total = 200,
     rq_payments = [\<lparr>pay_method = Cash, pay_amount = 200\<rparr>], rq_userId = 0, rq_date = ''20260101''\<rparr>"

definition ex_return_items :: "return_item list" where
  "ex_return_items = [\<lparr>ri_productId = 1, ri_quantity = 2, ri_variantId = None\<rparr>]"

lemmas sales_query_defs [pos_simps] =
  in_window_def sale_query_def list_sales_def hold_number_def hold_sale_def held_list_def
  get_held_def delete_held_def add_payments_def drawer_summary_def get_sale_def returns_list_def
  add_payments_map_def today_summary_def

section \<open>Lemmas\<close>

lemma foldl_sum_append [simp]:
  "foldl (\<lambda>sum x. sum + f x) (a::money) (xs @ ys) = foldl (\<lambda>sum x. sum + f x) a xs + sum_list (map f ys)"
  by (simp add: foldl_add_sum_list)

text \<open>A sale checked out and then returned, with no earlier sale carrying the new id:
  the return finds it, and afterwards it is the last sale, marked, with the return record
  last among the returns.\<close>

lemma sell_then_return:
  assumes "list_all (\<lambda>s. s_id s \<noteq> next_id d) (sales d)"
  shows "\<exists>r d2. return_sale (next_id d) items (snd (create_sale rq d)) = Inr (r, d2) \<and>
           sales d2 = sales d @ [if full_return (fst (create_sale rq d)) items
                                 then (fst (create_sale rq d))\<lparr>s_status := Refunded\<rparr>
                                 else (fst (create_sale rq d))\<lparr>s_hasReturns := True\<rparr>] \<and>
           returns d2 = returns d @ [\<lparr>rt_saleId = next_id d,
              rt_invoiceNumber = s_invoiceNumber (fst (create_sale rq d)), rt_items = items,
              rt_total = r, rt_createdAt = clock d\<rparr>]"
proof -
  let ?s = "fst (create_sale rq d)" and ?d1 = "snd (create_sale rq d)"
  have sid: "s_id ?s = next_id d" by (simp add: create_sale_fst sale_doc_def Let_def)
  have none: "find (\<lambda>x. s_id x = next_id d) (sales d) = None"
    using assms by (simp add: find_None_iff list_all_iff)
  have f: "find_sale (next_id d) ?d1 = Some ?s"
    using none sid by (simp add: find_sale_def create_sale_sales)
  have nm: "\<not> (\<exists>x\<in>set (sales d). s_id x = next_id d)" using assms by (simp add: list_all_iff)
  show ?thesis
    using f sid nm by (simp add: return_sale_def Let_def mark_sale_def create_sale_sales update_first_append)
qed

lemma drawer_sales_append_refunded:
  "s_status s = Refunded \<Longrightarrow>
   dr_totalSales (drawer_summary lo hi (d\<lparr>sales := sales d @ [s], returns := rs\<rparr>)) = dr_totalSales (drawer_summary lo hi d)"
  by (simp add: drawer_summary_def Let_def)

lemma drawer_returns_append:
  "in_window lo hi (rt_createdAt r) \<Longrightarrow>
   dr_totalReturns (drawer_summary lo hi (d\<lparr>returns := returns d @ [r]\<rparr>)) =
     dr_totalReturns (drawer_summary lo hi d) + rt_total r"
  by (simp add: drawer_summary_def Let_def)

lemma hold_number_period:
  "10 ^ 6 \<le> t \<Longrightarrow> hold_number (t + j * 10 ^ 6) = hold_number t"
proof -
  assume t: "10 ^ 6 \<le> t"
  have "(t + j * 10 ^ 6) mod 10 ^ 6 = t mod (10 ^ 6 :: nat)" by simp
  moreover have "10 ^ 6 \<le> t + j * 10 ^ 6" using t by simp
  ultimately show ?thesis using dec_string_last_digits [of 6 "t + j * 10 ^ 6" t] t
    by (simp add: hold_number_def)
qed

lemma hold_sale_result:
  "hold_sale items cid cname d =
     (\<lparr>h_id = next_id d, h_holdNumber = hold_number (clock d), h_items = items, h_customerId = cid,
       h_customerName = cname, h_createdAt = clock d\<rparr>,
      d\<lparr>next_id := Suc (next_id d), heldSales := heldSales d @ [\<lparr>h_id = next_id d,
         h_holdNumber = hold_number (clock d), h_items = items, h_customerId = cid,
         h_customerName = cname, h_createdAt = clock d\<rparr>]\<rparr>)"
  by (simp add: hold_sale_def fresh_id_def Let_def)

section \<open>Properties of the sales queries\<close>

text \<open>
  C37: The drawer summary counts a refunded sale's return against the day.  A sale
  checked out today and fully returned today is left out of \<open>totalSales\<close> (it is now
  \<open>refunded\<close>), yet its refund is still subtracted as a return: the day's \<open>netSales\<close> drops
  by the refund although the sale and its return cancel out.
\<close>

theorem drawer_refund_double_count:
  assumes "list_all (\<lambda>s. s_id s \<noteq> next_id d) (sales d)" "in_window today tomorrow (clock d)"
    "full_return (fst (create_sale rq d)) items"
  shows "\<exists>r d2. return_sale (next_id d) items (snd (create_sale rq d)) = Inr (r, d2) \<and>
           dr_totalSales (drawer_summary today tomorrow d2) = dr_totalSales (drawer_summary today tomorrow d) \<and>
           dr_netSales (drawer_summary today tomorrow d2) = dr_netSales (drawer_summary today tomorrow d) - r"
proof -
  obtain r d2 where ret: "return_sale (next_id d) items (snd (create_sale rq d)) = Inr (r, d2)"
    and s2: "sales d2 = sales d @ [(fst (create_sale rq d))\<lparr>s_status := Refunded\<rparr>]"
    and r2: "returns d2 = returns d @ [\<lparr>rt_saleId = next_id d,
              rt_invoiceNumber = s_invoiceNumber (fst (create_sale rq d)), rt_items = items,
              rt_total = r, rt_createdAt = clock d\<rparr>]"
    using sell_then_return [OF assms(1), of items rq] assms(3) by auto
  have "dr_totalSales (drawer_summary today tomorrow d2) = dr_totalSales (drawer_summary today tomorrow d)"
    using s2 by (simp add: drawer_summary_def Let_def)
  moreover have "dr_netSales (drawer_summary today tomorrow d2) = dr_netSales (drawer_summary today tomorrow d) - r"
    using s2 r2 assms(2) by (simp add: drawer_summary_def Let_def)
  ultimately show ?thesis using ret by blast
qed

theorem drawer_refund_double_count_witness:
  "\<exists>r d2. return_sale 30 ex_return_items (snd (create_sale ex_cash_request ex_store)) = Inr (r, d2) \<and>
     dr_totalSales (drawer_summary 0 day_ms d2) = 230 \<and> dr_netSales (drawer_summary 0 day_ms d2) = 230 - r"
proof -
  have "full_return (fst (create_sale ex_cash_request ex_store)) ex_return_items"
    by (simp add: create_sale_fst sale_doc_def Let_def full_return_def sale_line_def ex_cash_request_def
        ex_return_items_def ex_line_def)
  moreover have "list_all (\<lambda>s. s_id s \<noteq> next_id ex_store) (sales ex_store)"
    "in_window 0 day_ms (clock ex_store)" "next_id ex_store = 30"
    by (simp_all add: ex_store_def ex_sale_def empty_db_def in_window_def day_ms_def)
  moreover have "dr_totalSales (drawer_summary 0 day_ms ex_store) = 230"
    "dr_netSales (drawer_summary 0 day_ms ex_store) = 230"
    by (simp_all add: drawer_summary_def Let_def ex_store_def ex_sale_def empty_db_def in_window_def day_ms_def)
  ultimately show ?thesis
    using drawer_refund_double_count [of ex_store 0 day_ms ex_cash_request ex_return_items] by simp
qed

text \<open>
  C38: Hold numbers wrap around.  \<open>POST /hold\<close> numbers a held cart by the last six
  digits of the millisecond clock, so two carts held \<open>j * 1000000\<close> ms apart (about
  every 16.7 minutes) get the same hold number although they are distinct held sales.
\<close>

theorem hold_number_collision:
  assumes "10 ^ 6 \<le> clock d"
  shows "let (h1, d1) = hold_sale items cid cname d;
             (h2, d2) = hold_sale items' cid' cname' (d1\<lparr>clock := clock d + j * 10 ^ 6\<rparr>)
         in h_holdNumber h1 = h_holdNumber h2 \<and> h_id h1 \<noteq> h_id h2 \<and> heldSales d2 = heldSales d @ [h1, h2]"
  using hold_number_period [OF assms, of j] by (simp add: hold_sale_result)

theorem hold_number_collision_witness:
  "let (h1, d1) = hold_sale [] None None (ex_store\<lparr>clock := 1234567\<rparr>);
       (h2, d2) = hold_sale [] None None (d1\<lparr>clock := 2234567\<rparr>)
   in h_holdNumber h1 = ''HOLD-234567'' \<and> h_holdNumber h2 = h_holdNumber h1 \<and> h_id h1 \<noteq> h_id h2"
proof -
  have c: "(10::nat) ^ 6 \<le> clock (ex_store\<lparr>clock := 1234567\<rparr>)" by simp
  have "hold_number 1234567 = ''HOLD-234567''"
    by (simp add: hold_number_def slice_last_def dec_string.simps digit_chars)
  then show ?thesis
    using hold_number_collision [OF c, of "[]" None None "[]" None None 1] by (simp add: hold_sale_result)
qed

end
