(* ===== verification/Customers.thy ===== *)
theory Customers
  imports Checkout Ledger Products
begin

text \<open>
  The customer routes of \<^verbatim>\<open>src/server/routes/customers.js\<close> other than the payment and
  redemption handlers (\<open>Ledger\<close>, \<open>Loyalty\<close>): the listing with each customer's open
  credit, a customer with its sales, credits and payments, create, update, delete, the
  account statement with its running balance, the SMS stub and the list of all open
  credits.  \<open>localeCompare(b.name, 'ar')\<close> is a collation the model takes as a parameter
  \<open>coll\<close>, a sort key on names.
\<close>

section \<open>Operations\<close>

text \<open>\<open>credits.filter(c => c.status !== 'paid').reduce((sum, c) => sum + (c.amount - c.paidAmount), 0)\<close>
  over the credits of the customer: \<open>Ledger.total_credit\<close>.\<close>

definition name_or_phone :: "string \<Rightarrow> customer \<Rightarrow> bool" where
  "name_or_phone search c \<longleftrightarrow>
     (case c_name c of None \<Rightarrow> False | Some n \<Rightarrow> ci_contains search n) \<or>
     (case c_phone c of None \<Rightarrow> False | Some p \<Rightarrow> ci_contains search p)"

definition customer_docs :: "db \<Rightarrow> (docid \<times> customer) list" where
  "customer_docs d = List.map_filter (\<lambda>k. map_option (Pair k) (customers d k)) (customer_ids d)"

text \<open>\<open>GET /\<close>: each customer with its \<open>totalCredit\<close>, those with a positive one when
  \<open>hasCredit === 'true'\<close>, sorted by name.\<close>

definition list_customers :: "(string option \<Rightarrow> 'k::linorder) \<Rightarrow> string option \<Rightarrow> bool \<Rightarrow> db \<Rightarrow>
    (docid \<times> customer \<times> money) list" where
  "list_customers coll search hasCredit d =
     (let cs = filter (\<lambda>kc. case search of None \<Rightarrow> True | Some s \<Rightarrow> s = [] \<or> name_or_phone s (snd kc))
                 (customer_docs d);
          ws = map (\<lambda>kc. (fst kc, snd kc, total_credit (fst kc) (credits d))) cs;
          ws' = (if hasCredit then filter (\<lambda>w. 0 < snd (snd w)) ws else ws)
      in sort_key (\<lambda>w. coll (c_name (fst (snd w)))) ws')"

record customer_view =
  cv_customer :: customer
  cv_totalCredit :: money
  cv_sales :: "sale list"
  cv_credits :: "credit list"
  cv_payments :: "payment_rec list"

definition get_customer :: "docid \<Rightarrow> db \<Rightarrow> error + customer_view" where
  "get_customer cid d =
     (case customers d cid of
        None \<Rightarrow> Inl NotFound
      | Some c \<Rightarrow> Inr \<lparr>cv_customer = c, cv_totalCredit = total_credit cid (credits d),
                       cv_sales = filter (\<lambda>s. s_customerId s = Some cid) (sales d),
                       cv_credits = filter (\<lambda>x. cr_customerId x = cid) (credits d),
                       cv_payments = filter (\<lambda>p. pr_customerId p = cid) (payments d)\<rparr>)"

record customer_req =
  cq_name :: "string option"
  cq_phone :: "string option"
  cq_email :: "string option"
  cq_address :: "string option"
  cq_notes :: "string option"
  cq_category :: "string option"
  cq_creditLimit :: "money option"

definition create_customer :: "customer_req \<Rightarrow> db \<Rightarrow> (docid \<times> customer) \<times> db" where
  "create_customer rq d =
     (case fresh_id d of (cid, d1) \<Rightarrow>
        (let c = \<lparr>c_name = cq_name rq, c_phone = Some (str_or (cq_phone rq) []),
                  c_email = Some (str_or (cq_email rq) []), c_address = Some (str_or (cq_address rq) []),
                  c_notes = Some (str_or (cq_notes rq) []), c_category = Some (str_or (cq_category rq) ''regular''),
                  c_creditLimit = js_num (cq_creditLimit rq) 0, c_totalPurchases = 0, c_loyaltyPoints = 0,
                  c_redeemedPoints = 0, c_lastPurchase = None, c_createdAt = clock d,
                  c_updatedAt = None, c_lastSmsSent = None\<rparr>
         in ((cid, c), d1\<lparr>customers := (customers d1)(cid \<mapsto> c), customer_ids := customer_ids d1 @ [cid]\<rparr>)))"

text \<open>\<open>PUT /:id\<close>: \<open>$set\<close> of every field of the body, so a field the body leaves out is
  erased; the answer is the document read back (\<open>null\<close> for an absent id).\<close>

definition update_customer :: "docid \<Rightarrow> customer_req \<Rightarrow> db \<Rightarrow> customer option \<times> db" where
  "update_customer cid rq d =
     (case customers d cid of
        None \<Rightarrow> (None, d)
      | Some c \<Rightarrow>
          (let c' = c\<lparr>c_name := cq_name rq, c_phone := cq_phone rq, c_email := cq_email rq,
                      c_address := cq_address rq, c_notes := cq_notes rq, c_category := cq_category rq,
                      c_creditLimit := js_num (cq_creditLimit rq) 0, c_updatedAt := Some (clock d)\<rparr>
           in (Some c', d\<lparr>customers := (customers d)(cid \<mapsto> c')\<rparr>)))"

text \<open>\<open>DELETE /:id\<close> removes the document only; its credits, sales and payments stay.\<close>

definition delete_customer :: "docid \<Rightarrow> db \<Rightarrow> db" where
  "delete_customer cid d =
     d\<lparr>customers := (customers d)(cid := None), customer_ids := remove_first (\<lambda>k. k = cid) (customer_ids d)\<rparr>"

section \<open>The account statement\<close>

datatype entry_type = EntryCredit | EntryPayment

record st_entry =
  se_type :: entry_type
  se_date :: time
  se_debit :: money
  se_credit :: money
  se_balance :: money

definition credit_entry :: "credit \<Rightarrow> st_entry" where
  "credit_entry c = \<lparr>se_type = EntryCredit, se_date = cr_createdAt c, se_debit = cr_amount c, se_credit = 0,
     se_balance = 0\<rparr>"

definition payment_entry :: "payment_rec \<Rightarrow> st_entry" where
  "payment_entry p = \<lparr>se_type = EntryPayment, se_date = pr_createdAt p, se_debit = 0, se_credit = pr_amount p,
     se_balance = 0\<rparr>"

text \<open>\<open>balance += item.debit - item.credit; item.balance = balance\<close>\<close>

fun running :: "money \<Rightarrow> st_entry list \<Rightarrow> st_entry list" where
  "running b [] = []"
| "running b (e # es) = (let b' = b + (se_debit e - se_credit e) in e\<lparr>se_balance := b'\<rparr> # running b' es)"

record statement =
  sm_customer :: customer
  sm_entries :: "st_entry list"
  sm_totalDebit :: money
  sm_totalCredit :: money
  sm_finalBalance :: money

definition customer_statement :: "docid \<Rightarrow> db \<Rightarrow> error + statement" where
  "customer_statement cid d =
     (case customers d cid of
        None \<Rightarrow> Inl NotFound
      | Some c \<Rightarrow>
          (let es = sort_key se_date (map credit_entry (filter (\<lambda>x. cr_customerId x = cid) (credits d)) @
                                      map payment_entry (filter (\<lambda>p. pr_customerId p = cid) (payments d)));
               bal = foldl (\<lambda>b e. b + (se_debit e - se_credit e)) 0 es
           in Inr \<lparr>sm_customer = c, sm_entries = running 0 es,
                   sm_totalDebit = foldl (\<lambda>sum e. sum + se_debit e) 0 es,
                   sm_totalCredit = foldl (\<lambda>sum e. sum + se_credit e) 0 es,
                   sm_finalBalance = bal\<rparr>))"

section \<open>Other routes\<close>

text \<open>\<open>POST /:id/sms\<close>: the message is only logged; the customer records the time.\<close>

definition send_sms :: "docid \<Rightarrow> db \<Rightarrow> error + db" where
  "send_sms cid d =
     (case customers d cid of
        None \<Rightarrow> Inl NotFound
      | Some c \<Rightarrow> Inr (d\<lparr>customers := (customers d)(cid \<mapsto> c\<lparr>c_lastSmsSent := Some (clock d)\<rparr>)\<rparr>))"

text \<open>\<open>GET /credits/all\<close>: the open credits of all customers, newest first, and what they owe.\<close>

definition credits_all :: "db \<Rightarrow> credit list \<times> money" where
  "credits_all d =
     (let cs = filter (\<lambda>c. cr_status c \<noteq> CrPaid) (credits d)
      in (rev (sort_key cr_createdAt (rev cs)), foldl (\<lambda>sum c. sum + (cr_amount c - cr_paidAmount c)) 0 cs))"

lemmas customers_defs [pos_simps] =
  name_or_phone_def customer_docs_def list_customers_def get_customer_def create_customer_def
  update_customer_def delete_customer_def credit_entry_def payment_entry_def customer_statement_def
  send_sms_def credits_all_def

section \<open>Lemmas\<close>

lemma amounts_update_first:
  assumes "\<And>x. cr_customerId (f x) = cr_customerId x" "\<And>x. cr_amount (f x) = cr_amount x"
  shows "map cr_amount (filter (\<lambda>x. cr_customerId x = cid) (update_first P f cs)) =
           map cr_amount (filter (\<lambda>x. cr_customerId x = cid) cs)"
  using assms by (induction cs) auto

text \<open>Paying credits changes what was paid, never what was owed in the first place.\<close>

lemma amounts_fifo_apply:
  "map cr_amount (filter (\<lambda>x. cr_customerId x = cid) (fifo_apply r ws cs)) =
     map cr_amount (filter (\<lambda>x. cr_customerId x = cid) cs)"
  by (induction r ws cs rule: fifo_apply.induct) (simp_all add: Let_def amounts_update_first settle_def)

lemma statement_final:
  assumes "customers d cid = Some c"
  shows "\<exists>s. customer_statement cid d = Inr s \<and>
           sm_finalBalance s = (\<Sum>x\<leftarrow>filter (\<lambda>x. cr_customerId x = cid) (credits d). cr_amount x) -
                               (\<Sum>p\<leftarrow>filter (\<lambda>p. pr_customerId p = cid) (payments d). pr_amount p)"
  using assms
  by (simp add: customer_statement_def Let_def foldl_add_sum_list sum_list_map_sort_key
      credit_entry_def payment_entry_def o_def sum_list_subtractf)

section \<open>Properties of the customer routes\<close>

text \<open>
  C39: The statement drifts from the outstanding balance by what a payment does not
  apply.  A payment without a named credit appends a payment line of the full amount to
  the customer's statement but settles only \<open>min(max 0 amount, outstanding)\<close> of the
  open credits, so the statement's \<open>finalBalance\<close> minus the outstanding \<open>totalCredit\<close>
  falls by the part of the amount that settled nothing (an overpayment, or a negative
  amount): the two figures the customer page shows stop agreeing.
\<close>

theorem statement_drift:
  assumes "distinct (map cr_id (credits d))" "list_all credit_ok (credits d)"
    "record_payment cid amt m None d = Inr (pr, d')"
  shows "\<exists>s s'. customer_statement cid d = Inr s \<and> customer_statement cid d' = Inr s' \<and>
           sm_finalBalance s' - total_credit cid (credits d') =
             sm_finalBalance s - total_credit cid (credits d) -
             (amt - min (max 0 amt) (total_credit cid (credits d)))"
proof -
  have r: "customers d cid \<noteq> None" "pr_amount pr = amt" "pr_customerId pr = cid"
    "d' = pay_fifo cid amt (d\<lparr>payments := payments d @ [pr]\<rparr>)"
    using record_payment_Inr [OF assms(3)] by auto
  then obtain c where c: "customers d cid = Some c" by blast
  have ok: "\<forall>c\<in>set (credits d). credit_ok c" using assms(2) by (simp add: list_all_iff)
  have tc: "total_credit cid (credits d') = total_credit cid (credits d) - min (max 0 amt) (total_credit cid (credits d))"
    using total_credit_fifo [OF assms(1) ok] r(4) by (simp add: pay_fifo_def)
  have am: "map cr_amount (filter (\<lambda>x. cr_customerId x = cid) (credits d')) =
      map cr_amount (filter (\<lambda>x. cr_customerId x = cid) (credits d))"
    using r(4) by (simp add: pay_fifo_def amounts_fifo_apply)
  obtain s where s: "customer_statement cid d = Inr s"
    "sm_finalBalance s = (\<Sum>x\<leftarrow>filter (\<lambda>x. cr_customerId x = cid) (credits d). cr_amount x) -
                         (\<Sum>p\<leftarrow>filter (\<lambda>p. pr_customerId p = cid) (payments d). pr_amount p)"
    using statement_final [OF c] by blast
  have c': "customers d' cid = Some c" using c r(4) by simp
  obtain s' where s': "customer_statement cid d' = Inr s'"
    "sm_finalBalance s' = (\<Sum>x\<leftarrow>filter (\<lambda>x. cr_customerId x = cid) (credits d'). cr_amount x) -
                          (\<Sum>p\<leftarrow>filter (\<lambda>p. pr_customerId p = cid) (payments d'). pr_amount p)"
    using statement_final [OF c'] by blast
  have "(\<Sum>x\<leftarrow>filter (\<lambda>x. cr_customerId x = cid) (credits d'). cr_amount x) =
      (\<Sum>x\<leftarrow>filter (\<lambda>x. cr_customerId x = cid) (credits d). cr_amount x)"
    by (simp only: am)
  then have "sm_finalBalance s' = sm_finalBalance s - amt"
    using s(2) s'(2) r(2,3,4) by simp
  then show ?thesis using s(1) s'(1) tc by simp
qed

theorem statement_drift_witness:
  "\<exists>s'. customer_statement 7 (snd (projr (record_payment 7 200 Cash None ex_store))) = Inr s' \<and>
     sm_finalBalance s' - total_credit 7 (credits (snd (projr (record_payment 7 200 Cash None ex_store)))) = -50"
proof -
  have r: "record_payment 7 200 Cash None ex_store =
      Inr (fst (projr (record_payment 7 200 Cash None ex_store)), snd (projr (record_payment 7 200 Cash None ex_store)))"
    by (simp add: record_payment_def Let_def ex_defs)
  have ok: "distinct (map cr_id (credits ex_store))" "list_all credit_ok (credits ex_store)"
    using ex_store_credits_ok by (simp_all add: list_all_iff)
  have fb: "customer_statement 7 ex_store = Inr s \<Longrightarrow> sm_finalBalance s = 150" for s
    by (auto simp: customer_statement_def Let_def ex_defs credit_entry_def)
  have tc: "total_credit 7 (credits ex_store) = 150"
    by (simp add: total_credit_def owed_def ex_defs)
  obtain s s' where "customer_statement 7 ex_store = Inr s"
    "customer_statement 7 (snd (projr (record_payment 7 200 Cash None ex_store))) = Inr s'"
    "sm_finalBalance s' - total_credit 7 (credits (snd (projr (record_payment 7 200 Cash None ex_store)))) =
       sm_finalBalance s - total_credit 7 (credits ex_store) - (200 - min (max 0 200) (total_credit 7 (credits ex_store)))"
    using statement_drift [OF ok r] by blast
  then show ?thesis using fb tc by auto
qed

end
