(* ===== verification/Purchases.thy ===== *)
theory Purchases
  imports Stock Examples
begin

text \<open>
  The purchase-order routes of \<^verbatim>\<open>src/server/routes/purchases.js\<close>: the filtered
  listing, one order with its lines, creating an order with its lines, receiving goods
  (which raises stock and logs it), cancelling, and the supplier statement.  The supplier
  return route is \<open>Stock.supplier_return\<close>.
\<close>

section \<open>Operations\<close>

definition po_status_str :: "po_status \<Rightarrow> string" where
  "po_status_str st =
     (case st of PoPending \<Rightarrow> ''pending'' | PoReceived \<Rightarrow> ''received'' | PoPartial \<Rightarrow> ''partial''
      | PoCancelled \<Rightarrow> ''cancelled'')"

definition po_query :: "docid option \<Rightarrow> string option \<Rightarrow> time option \<Rightarrow> time option \<Rightarrow> purchase \<Rightarrow> bool" where
  "po_query sid st from to po \<longleftrightarrow>
     (case sid of None \<Rightarrow> True | Some x \<Rightarrow> po_supplierId po = Some x) \<and>
     (case st of None \<Rightarrow> True | Some x \<Rightarrow> po_status_str (po_status po) = x) \<and>
     (case from of None \<Rightarrow> True | Some f \<Rightarrow> f \<le> po_createdAt po) \<and>
     (case to of None \<Rightarrow> True | Some t \<Rightarrow> po_createdAt po \<le> t)"

definition list_purchases :: "docid option \<Rightarrow> string option \<Rightarrow> time option \<Rightarrow> time option \<Rightarrow> db \<Rightarrow> purchase list" where
  "list_purchases sid st from to d = newest_by po_createdAt (filter (po_query sid st from to) (purchases d))"

definition find_purchase :: "docid \<Rightarrow> db \<Rightarrow> purchase option" where
  "find_purchase poid d = find (\<lambda>p. po_id p = poid) (purchases d)"

definition get_purchase :: "docid \<Rightarrow> db \<Rightarrow> error + (purchase \<times> purchase_item list)" where
  "get_purchase poid d =
     (case find_purchase poid d of
        None \<Rightarrow> Inl NotFound
      | Some po \<Rightarrow> Inr (po, filter (\<lambda>i. pi_purchaseId i = po_id po) (purchaseItems d)))"

text \<open>A line of the order request: \<open>{productId, productName, quantity, cost}\<close>.\<close>

record po_line_req =
  pq_productId :: docid
  pq_quantity :: qty
  pq_cost :: money

definition insert_po_line :: "docid \<Rightarrow> db \<Rightarrow> po_line_req \<Rightarrow> db" where
  "insert_po_line poid d l =
     (case fresh_id d of (iid, d1) \<Rightarrow>
        d1\<lparr>purchaseItems := purchaseItems d1 @
             [\<lparr>pi_id = iid, pi_purchaseId = poid, pi_productId = pq_productId l, pi_quantity = pq_quantity l,
               pi_receivedQty = 0, pi_cost = pq_cost l, pi_total = pq_cost l * of_int (pq_quantity l),
               pi_createdAt = clock d\<rparr>]\<rparr>)"

text \<open>\<open>POST /\<close>: \<open>total\<close> is the sum of cost times quantity, \<open>poNumber\<close> \<open>'PO-'\<close> and the last
  eight digits of the clock; the order is inserted, then its lines.\<close>

definition create_purchase :: "docid option \<Rightarrow> po_line_req list \<Rightarrow> db \<Rightarrow> purchase \<times> db" where
  "create_purchase sid items d =
     (let tot = foldl (\<lambda>sum i. sum + pq_cost i * of_int (pq_quantity i)) 0 items
      in case fresh_id d of (poid, d1) \<Rightarrow>
           (let po = \<lparr>po_id = poid, po_poNumber = ''PO-'' @ slice_last 8 (dec_string (clock d)),
                      po_supplierId = sid, po_total = tot, po_status = PoPending, po_paid = False,
                      po_paidAmount = 0, po_createdAt = clock d, po_receivedAt = None\<rparr>
            in (po, foldl (insert_po_line poid) (d1\<lparr>purchases := purchases d1 @ [po]\<rparr>) items)))"

text \<open>\<open>db.purchaseItems.findOne({ purchaseId, productId })\<close>\<close>

definition po_line_of :: "docid \<Rightarrow> docid \<Rightarrow> db \<Rightarrow> purchase_item option" where
  "po_line_of poid pid d = find (\<lambda>i. pi_purchaseId i = poid \<and> pi_productId i = pid) (purchaseItems d)"

text \<open>The body of the receiving loop, threading \<open>allReceived\<close> and the store; a line of the
  request for a product the order does not have is skipped.\<close>

definition receive_line :: "docid \<Rightarrow> bool \<times> db \<Rightarrow> docid \<times> qty \<Rightarrow> bool \<times> db" where
  "receive_line poid acc item =
     (let (allR, d) = acc; (pid, r) = item
      in case po_line_of poid pid d of
           None \<Rightarrow> (allR, d)
         | Some li \<Rightarrow>
             (let nr = pi_receivedQty li + r;
                  d1 = d\<lparr>purchaseItems := update_first (\<lambda>x. pi_id x = pi_id li)
                                            (\<lambda>x. x\<lparr>pi_receivedQty := nr\<rparr>) (purchaseItems d)\<rparr>;
                  allR' = (allR \<and> \<not> nr < pi_quantity li)
              in (allR', case products d1 pid of
                           None \<Rightarrow> d1
                         | Some p \<Rightarrow> log_entry pid None (p_quantity p) (p_quantity p + r) r OpPurchaseReceive
                                       (set_product_qty pid (p_quantity p + r) d1))))"

definition receive_purchase :: "docid \<Rightarrow> (docid \<times> qty) list \<Rightarrow> db \<Rightarrow> error + db" where
  "receive_purchase poid items d =
     (case find_purchase poid d of
        None \<Rightarrow> Inl NotFound
      | Some po \<Rightarrow>
          (let r = foldl (receive_line poid) (True, d) items;
               d1 = snd r
           in Inr (d1\<lparr>purchases := update_first (\<lambda>p. po_id p = poid)
                      (\<lambda>p. p\<lparr>po_status := (if fst r then PoReceived else PoPartial), po_receivedAt := Some (clock d)\<rparr>)
                      (purchases d1)\<rparr>)))"

text \<open>\<open>PATCH /:id/cancel\<close>: no check of the current status.\<close>

definition cancel_purchase :: "docid \<Rightarrow> db \<Rightarrow> db" where
  "cancel_purchase poid d =
     d\<lparr>purchases := update_first (\<lambda>p. po_id p = poid) (\<lambda>p. p\<lparr>po_status := PoCancelled\<rparr>) (purchases d)\<rparr>"

definition supplier_statement :: "docid \<Rightarrow> db \<Rightarrow> money \<times> money \<times> money \<times> purchase list" where
  "supplier_statement sid d =
     (let ps = filter (\<lambda>p. po_supplierId p = Some sid) (purchases d);
          tot = foldl (\<lambda>sum p. sum + po_total p) 0 ps;
          paid = foldl (\<lambda>sum p. sum + js_or (po_paidAmount p) 0) 0 (filter po_paid ps)
      in (tot, paid, tot - paid, ps))"

text \<open>An order of 10 teas at 60 from supplier 5.\<close>

definition ex_po_store :: db where
  "ex_po_store = snd (create_purchase (Some 5) [\<lparr>pq_productId = 1, pq_quantity = 10, pq_cost = 60\<rparr>] ex_store)"

lemmas purchases_defs [pos_simps] =
  po_status_str_def po_query_def list_purchases_def find_purchase_def get_purchase_def insert_po_line_def
  create_purchase_def po_line_of_def receive_line_def receive_purchase_def cancel_purchase_def
  supplier_statement_def

section \<open>Lemmas\<close>

lemma receive_lines_skipped:
  "list_all (\<lambda>it. po_line_of poid (fst it) d = None) items \<Longrightarrow>
     foldl (receive_line poid) (b, d) items = (b, d)"
  by (induction items) (auto simp: receive_line_def)

section \<open>Properties of the purchase routes\<close>

text \<open>
  C40: Receiving marks an order received without checking what was received.  The
  receiving route decides \<open>allReceived\<close> from the lines of the request only, and checks
  neither the order's status nor that its lines were covered: a request naming no line
  of the order (an empty one, say) marks any order, a cancelled one included,
  \<open>received\<close>, while no quantity was received and no stock changed.
\<close>

theorem receive_marks_received:
  assumes "find_purchase poid d = Some po" "list_all (\<lambda>it. po_line_of poid (fst it) d = None) items"
  shows "\<exists>d'. receive_purchase poid items d = Inr d' \<and>
           find_purchase poid d' = Some (po\<lparr>po_status := PoReceived, po_receivedAt := Some (clock d)\<rparr>) \<and>
           products d' = products d \<and> purchaseItems d' = purchaseItems d \<and> inventory d' = inventory d"
  using assms
  by (simp add: receive_purchase_def receive_lines_skipped find_purchase_def find_update_first)

theorem receive_marks_received_witness:
  "\<exists>d'. receive_purchase 30 [] (cancel_purchase 30 ex_po_store) = Inr d' \<and>
     map_option po_status (find_purchase 30 d') = Some PoReceived \<and> products d' = products ex_po_store"
proof -
  have "find_purchase 30 (cancel_purchase 30 ex_po_store) \<noteq> None"
    by (simp add: find_purchase_def cancel_purchase_def ex_po_store_def create_purchase_def fresh_id_def
        insert_po_line_def Let_def ex_store_def empty_db_def)
  then obtain po where po: "find_purchase 30 (cancel_purchase 30 ex_po_store) = Some po" by blast
  have pr: "products (cancel_purchase 30 ex_po_store) = products ex_po_store"
    by (simp add: cancel_purchase_def)
  obtain d' where "receive_purchase 30 [] (cancel_purchase 30 ex_po_store) = Inr d'"
    "find_purchase 30 d' = Some (po\<lparr>po_status := PoReceived, po_receivedAt := Some (clock (cancel_purchase 30 ex_po_store))\<rparr>)"
    "products d' = products (cancel_purchase 30 ex_po_store)"
    using receive_marks_received [OF po, of "[]"] by auto
  then show ?thesis using pr by simp
qed

end
