(* ===== verification/Warehouses.thy ===== *)
theory Warehouses
  imports Products
begin

text \<open>
  The routes of \<^verbatim>\<open>src/server/routes/warehouses.js\<close>: warehouse CRUD, inter-warehouse
  transfers, stock and expiry alerts, the movement report of one product and the
  stocktake.  A transfer document is inserted into \<open>db.inventory\<close> next to the log
  entries; \<open>GET /transfers/list\<close> reads it (by \<open>type: 'transfer'\<close>), the inventory report
  of \<^verbatim>\<open>reports.js\<close> lists it among the movements (\<open>Reports.movements_of\<close>), and it has no
  \<open>productId\<close>, so the model keeps transfer documents in their own list \<open>transfers\<close>.
  No route keeps a quantity per warehouse: products have one quantity.
\<close>

section \<open>Warehouses\<close>

text \<open>\<open>GET /\<close>: sorted by the collation \<open>coll\<close> of the name (\<open>localeCompare(b.name, 'ar')\<close>).\<close>

definition list_warehouses :: "(string option \<Rightarrow> 'k::linorder) \<Rightarrow> db \<Rightarrow> warehouse list" where
  "list_warehouses coll d = sort_key (\<lambda>w. coll (w_name w)) (warehouses d)"

text \<open>\<open>db.warehouses.update({}, { $set: { isDefault: false } }, { multi: true })\<close>\<close>

definition clear_default :: "db \<Rightarrow> db" where
  "clear_default d = d\<lparr>warehouses := map (\<lambda>w. w\<lparr>w_isDefault := Some False\<rparr>) (warehouses d)\<rparr>"

record warehouse_req =
  wq_name :: "string option"
  wq_address :: "string option"
  wq_phone :: "string option"
  wq_type :: "string option"
  wq_isDefault :: "bool option"
  wq_isActive :: "bool option"

definition create_warehouse :: "warehouse_req \<Rightarrow> db \<Rightarrow> error + (warehouse \<times> db)" where
  "create_warehouse rq d =
     (if wq_name rq = None \<or> wq_name rq = Some [] then Inl MissingField
      else (let d1 = (if wq_isDefault rq = Some True then clear_default d else d)
            in case fresh_id d1 of (wid, d2) \<Rightarrow>
                 (let w = \<lparr>w_id = wid, w_name = wq_name rq, w_address = Some (str_or (wq_address rq) []),
                           w_phone = Some (str_or (wq_phone rq) []), w_type = Some (str_or (wq_type rq) ''main''),
                           w_isDefault = Some (wq_isDefault rq = Some True), w_isActive = Some True,
                           w_createdAt = clock d, w_updatedAt = None\<rparr>
                  in Inr (w, d2\<lparr>warehouses := warehouses d2 @ [w]\<rparr>))))"

text \<open>\<open>PUT /:id\<close>: every field of the body is \<open>$set\<close>, an omitted one erased.\<close>

definition update_warehouse :: "docid \<Rightarrow> warehouse_req \<Rightarrow> db \<Rightarrow> warehouse option \<times> db" where
  "update_warehouse wid rq d =
     (let d1 = (if wq_isDefault rq = Some True then clear_default d else d);
          d2 = d1\<lparr>warehouses := update_first (\<lambda>w. w_id w = wid)
                  (\<lambda>w. w\<lparr>w_name := wq_name rq, w_address := wq_address rq, w_phone := wq_phone rq,
                         w_type := wq_type rq, w_isDefault := wq_isDefault rq, w_isActive := wq_isActive rq,
                         w_updatedAt := Some (clock d)\<rparr>) (warehouses d1)\<rparr>
      in (find (\<lambda>w. w_id w = wid) (warehouses d2), d2))"

definition delete_warehouse :: "docid \<Rightarrow> db \<Rightarrow> db" where
  "delete_warehouse wid d = d\<lparr>warehouses := remove_first (\<lambda>w. w_id w = wid) (warehouses d)\<rparr>"

section \<open>Transfers\<close>

definition transfer_log :: "docid \<times> qty \<Rightarrow> db \<Rightarrow> db" where
  "transfer_log it d = log_entry (fst it) None 0 (snd it) (snd it) OpTransfer d"

text \<open>\<open>POST /transfer\<close>: 400 without both warehouses or without items; a transfer document,
  then one log entry per item with previous quantity 0 and change the quantity moved.
  No product quantity is read or written.\<close>

definition create_transfer :: "docid option \<Rightarrow> docid option \<Rightarrow> (docid \<times> qty) list \<Rightarrow> db \<Rightarrow>
    error + (transfer_doc \<times> db)" where
  "create_transfer from to items d =
     (case (from, to) of
        (Some f, Some t) \<Rightarrow>
          if items = [] then Inl MissingField
          else (case fresh_id d of (tid, d1) \<Rightarrow>
                  (let tr = \<lparr>tr_id = tid, tr_number = ''TRF-'' @ slice_last 8 (dec_string (clock d)),
                             tr_from = f, tr_to = t, tr_items = items, tr_createdAt = clock d\<rparr>
                   in Inr (tr, foldl (\<lambda>d it. transfer_log it d) (d1\<lparr>transfers := transfers d1 @ [tr]\<rparr>) items)))
      | _ \<Rightarrow> Inl MissingField)"

definition list_transfers :: "db \<Rightarrow> transfer_doc list" where
  "list_transfers d = newest_by tr_createdAt (transfers d)"

section \<open>Alerts\<close>

text \<open>\<open>GET /alerts/low-stock\<close>: \<open>threshold = settings?.lowStockAlert || 5\<close>; low stock is
  \<open>0 < quantity \<le> (minStock || threshold)\<close>, out of stock \<open>quantity \<le> 0\<close>.\<close>

definition stock_threshold :: "db \<Rightarrow> qty" where
  "stock_threshold d = (case settings d of None \<Rightarrow> 5 | Some s \<Rightarrow> js_or (lowStockAlert s) 5)"

definition stock_alerts :: "db \<Rightarrow> (docid \<times> product \<times> qty) list \<times> (docid \<times> product) list \<times> nat" where
  "stock_alerts d =
     (let th = stock_threshold d;
          low = map (\<lambda>(k, p). (k, p, js_or (p_minStock p) th))
                  (filter (\<lambda>(k, p). p_quantity p \<le> js_or (p_minStock p) th \<and> 0 < p_quantity p) (product_docs d));
          out = filter (\<lambda>(k, p). p_quantity p \<le> 0) (product_docs d)
      in (low, out, length low + length out))"

text \<open>\<open>GET /alerts/expiry\<close>: \<open>alertDays = parseInt(days) || settings?.expiryAlertDays || 30\<close>;
  with \<open>from\<close> and \<open>to\<close> the window is theirs, else every product expiring before
  \<open>now + alertDays\<close>; \<open>daysLeft = Math.ceil((expiry - now) / day)\<close>, sorted ascending.\<close>

definition days_left :: "time \<Rightarrow> time \<Rightarrow> int" where
  "days_left now e = \<lceil>(of_int (int e - int now) :: rat) / of_nat day_ms\<rceil>"

definition expiry_alerts :: "int option \<Rightarrow> time option \<Rightarrow> time option \<Rightarrow> db \<Rightarrow>
    (docid \<times> product \<times> int) list \<times> (docid \<times> product \<times> int) list \<times> nat" where
  "expiry_alerts days from to d =
     (let alertDays = js_or (js_num days 0) (case settings d of None \<Rightarrow> 30 | Some s \<Rightarrow> js_or (int (expiryAlertDays s)) 30);
          now = clock d;
          sel = (\<lambda>e. case (from, to) of
                       (Some f, Some t) \<Rightarrow> f \<le> e \<and> e \<le> t
                     | _ \<Rightarrow> int e \<le> int now + alertDays * int day_ms);
          xs = List.map_filter (\<lambda>(k, p). case p_expiryDate p of
                                  None \<Rightarrow> None
                                | Some e \<Rightarrow> if sel e then Some (k, p, days_left now e) else None) (product_docs d);
          ys = sort_key (\<lambda>x. snd (snd x)) xs
      in (filter (\<lambda>x. snd (snd x) \<le> 0) ys, filter (\<lambda>x. \<not> snd (snd x) \<le> 0) ys, length ys))"

section \<open>Product movement\<close>

datatype mv_kind = MvSale | MvReturn | MvPurchase | MvLog inv_op

record movement =
  mv_kind :: mv_kind
  mv_date :: time
  mv_quantity :: qty

definition in_range :: "time option \<Rightarrow> time option \<Rightarrow> time \<Rightarrow> bool" where
  "in_range from to t \<longleftrightarrow>
     (case from of None \<Rightarrow> True | Some f \<Rightarrow> f \<le> t) \<and> (case to of None \<Rightarrow> True | Some u \<Rightarrow> t \<le> u)"

text \<open>The first line of each sale (not refunded) and of each return naming the product,
  and every log entry of the product.  Stored purchase orders have no \<open>items\<close> field
  (their lines are in \<open>purchaseItems\<close>), so \<open>p.items?.some(...)\<close> is never true and no
  purchase movement is produced.\<close>

definition sale_movements :: "docid \<Rightarrow> time option \<Rightarrow> time option \<Rightarrow> db \<Rightarrow> movement list" where
  "sale_movements pid from to d =
     List.map_filter (\<lambda>s. if in_range from to (s_createdAt s) \<and> s_status s \<noteq> Refunded
                          then map_option (\<lambda>i. \<lparr>mv_kind = MvSale, mv_date = s_createdAt s, mv_quantity = - ci_quantity i\<rparr>)
                                 (find (\<lambda>i. ci_productId i = pid) (s_items s))
                          else None) (sales d)"

definition return_movements :: "docid \<Rightarrow> time option \<Rightarrow> time option \<Rightarrow> db \<Rightarrow> movement list" where
  "return_movements pid from to d =
     List.map_filter (\<lambda>r. if in_range from to (rt_createdAt r)
                          then map_option (\<lambda>i. \<lparr>mv_kind = MvReturn, mv_date = rt_createdAt r, mv_quantity = ri_quantity i\<rparr>)
                                 (find (\<lambda>i. ri_productId i = pid) (rt_items r))
                          else None) (returns d)"

definition log_movements :: "docid \<Rightarrow> time option \<Rightarrow> time option \<Rightarrow> db \<Rightarrow> movement list" where
  "log_movements pid from to d =
     map (\<lambda>e. \<lparr>mv_kind = MvLog (ie_operation e), mv_date = ie_createdAt e, mv_quantity = ie_change e\<rparr>)
       (filter (\<lambda>e. ie_productId e = pid \<and> in_range from to (ie_createdAt e)) (inventory d))"

definition product_movement :: "docid \<Rightarrow> time option \<Rightarrow> time option \<Rightarrow> db \<Rightarrow>
    error + (product \<times> movement list \<times> qty \<times> qty)" where
  "product_movement pid from to d =
     (case products d pid of
        None \<Rightarrow> Inl NotFound
      | Some p \<Rightarrow>
          (let ms = newest_by mv_date (sale_movements pid from to d @ return_movements pid from to d @
                                        log_movements pid from to d)
           in Inr (p, ms, foldl (\<lambda>s m. s + mv_quantity m) 0 (filter (\<lambda>m. 0 < mv_quantity m) ms),
                   foldl (\<lambda>s m. s + \<bar>mv_quantity m\<bar>) 0 (filter (\<lambda>m. mv_quantity m < 0) ms))))"

section \<open>Stocktake\<close>

text \<open>One counted line: log the difference and set the quantity to the count; the result
  row is \<open>(productId, previous, counted, diff)\<close>.\<close>

definition stocktake_line :: "(docid \<times> qty \<times> qty \<times> qty) list \<times> db \<Rightarrow> docid \<times> qty \<Rightarrow>
    (docid \<times> qty \<times> qty \<times> qty) list \<times> db" where
  "stocktake_line acc it =
     (case products (snd acc) (fst it) of
        None \<Rightarrow> acc
      | Some p \<Rightarrow>
          (let diff = snd it - p_quantity p
           in (fst acc @ [(fst it, p_quantity p, snd it, diff)],
               set_product_qty (fst it) (snd it)
                 (log_entry (fst it) None (p_quantity p) (snd it) diff OpStocktake (snd acc)))))"

definition stocktake :: "(docid \<times> qty) list \<Rightarrow> db \<Rightarrow> error + ((string \<times> (docid \<times> qty \<times> qty \<times> qty) list \<times> qty) \<times> db)" where
  "stocktake items d =
     (if items = [] then Inl MissingField
      else (let r = foldl stocktake_line ([], d) items
            in Inr ((''STK-'' @ slice_last 8 (dec_string (clock d)), fst r,
                     foldl (\<lambda>s x. s + snd (snd (snd x))) 0 (fst r)), snd r)))"

lemmas warehouses_defs [pos_simps] =
  list_warehouses_def clear_default_def create_warehouse_def update_warehouse_def delete_warehouse_def
  transfer_log_def create_transfer_def list_transfers_def stock_threshold_def stock_alerts_def
  days_left_def expiry_alerts_def in_range_def sale_movements_def return_movements_def
  log_movements_def product_movement_def stocktake_line_def stocktake_def

section \<open>Lemmas\<close>

lemma foldl_transfer_log:
  "products (foldl (\<lambda>d it. transfer_log it d) d items) = products d \<and>
   variants (foldl (\<lambda>d it. transfer_log it d) d items) = variants d \<and>
   inventory (foldl (\<lambda>d it. transfer_log it d) d items) =
     inventory d @ map (\<lambda>it. \<lparr>ie_productId = fst it, ie_variantId = None, ie_previousQuantity = 0,
                               ie_newQuantity = snd it, ie_change = snd it, ie_operation = OpTransfer,
                               ie_createdAt = clock d\<rparr>) items"
  by (induction items arbitrary: d) (simp_all add: transfer_log_def log_entry_def)

text \<open>A transfer moves nothing: every product and variant keeps its quantity, while the
  log gains one entry per item recording the moved quantity as an increase.\<close>

lemma create_transfer_effect:
  assumes "create_transfer from to items d = Inr (tr, d')"
  shows "products d' = products d \<and> variants d' = variants d \<and>
         inventory d' = inventory d @ map (\<lambda>it. \<lparr>ie_productId = fst it, ie_variantId = None,
           ie_previousQuantity = 0, ie_newQuantity = snd it, ie_change = snd it,
           ie_operation = OpTransfer, ie_createdAt = clock d\<rparr>) items"
  using assms foldl_transfer_log [of "_\<lparr>transfers := _\<rparr>" items]
  by (auto simp: create_transfer_def fresh_id_def Let_def split: option.splits if_splits)

lemma stocktake_line_stock:
  "products (snd (stocktake_line acc it)) =
     (case products (snd acc) (fst it) of None \<Rightarrow> products (snd acc)
      | Some p \<Rightarrow> (products (snd acc))(fst it \<mapsto> p\<lparr>p_quantity := snd it\<rparr>))"
  by (simp add: stocktake_line_def Let_def set_product_qty_def split: option.splits)

end
