(* ===== verification/HR.thy ===== *)
theory HR
  imports Store Examples
begin

text \<open>
  The HR routes, \<^verbatim>\<open>src/server/routes/hr.js\<close>: employee CRUD, attendance check-in and
  check-out, the attendance listing, the hours report, the monthly salary calculation
  with sales commission (saved by upsert), the salary history and the performance
  report.  The free-text employee fields (phone, email, department, start date,
  national id, address) are stored and read by no route, and are left out.  A day or
  month is the millisecond window it denotes; \<open>toFixed(n)\<close> is the value it prints.
\<close>

section \<open>Employees\<close>

text \<open>\<open>GET /\<close>: sorted by the collation \<open>coll\<close> of the name.\<close>

definition list_employees :: "(string \<Rightarrow> 'k::linorder) \<Rightarrow> db \<Rightarrow> employee list" where
  "list_employees coll d = sort_key (\<lambda>e. coll (e_name e)) (employees d)"

definition create_employee :: "string option \<Rightarrow> string option \<Rightarrow> money option \<Rightarrow> money option \<Rightarrow> db \<Rightarrow>
    error + (employee \<times> db)" where
  "create_employee name position sal rate d =
     (case name of
        None \<Rightarrow> Inl MissingField
      | Some n \<Rightarrow>
          if n = [] then Inl MissingField
          else (case fresh_id d of (eid, d1) \<Rightarrow>
                  (let e = \<lparr>e_id = eid, e_employeeNumber = ''EMP-'' @ slice_last 6 (dec_string (clock d)),
                            e_name = n, e_position = str_or position [], e_salary = js_num sal 0,
                            e_commissionRate = js_num rate 0, e_isActive = True, e_createdAt = clock d,
                            e_updatedAt = clock d\<rparr>
                   in Inr (e, d1\<lparr>employees := employees d1 @ [e]\<rparr>))))"

text \<open>\<open>PUT /:id\<close>: \<open>$set\<close> of the body's own fields (\<open>{...req.body}\<close>), so only the fields the
  body carries change; the answer is the document read back.\<close>

record employee_patch =
  ep_name :: "string option"
  ep_position :: "string option"
  ep_salary :: "money option"
  ep_commissionRate :: "money option"
  ep_isActive :: "bool option"

definition patch_employee :: "employee_patch \<Rightarrow> time \<Rightarrow> employee \<Rightarrow> employee" where
  "patch_employee ep now e =
     e\<lparr>e_name := (case ep_name ep of None \<Rightarrow> e_name e | Some x \<Rightarrow> x),
       e_position := (case ep_position ep of None \<Rightarrow> e_position e | Some x \<Rightarrow> x),
       e_salary := (case ep_salary ep of None \<Rightarrow> e_salary e | Some x \<Rightarrow> x),
       e_commissionRate := (case ep_commissionRate ep of None \<Rightarrow> e_commissionRate e | Some x \<Rightarrow> x),
       e_isActive := (case ep_isActive ep of None \<Rightarrow> e_isActive e | Some x \<Rightarrow> x),
       e_updatedAt := now\<rparr>"

definition update_employee :: "docid \<Rightarrow> employee_patch \<Rightarrow> db \<Rightarrow> employee option \<times> db" where
  "update_employee eid ep d =
     (let d1 = d\<lparr>employees := update_first (\<lambda>e. e_id e = eid) (patch_employee ep (clock d)) (employees d)\<rparr>
      in (find (\<lambda>e. e_id e = eid) (employees d1), d1))"

definition delete_employee :: "docid \<Rightarrow> db \<Rightarrow> db" where
  "delete_employee eid d = d\<lparr>employees := remove_first (\<lambda>e. e_id e = eid) (employees d)\<rparr>"

section \<open>Attendance\<close>

text \<open>\<open>findOne({ employeeId, date: { $gte: today }, checkOut: null })\<close>\<close>

definition open_record :: "docid \<Rightarrow> time \<Rightarrow> db \<Rightarrow> attendance option" where
  "open_record eid today d =
     find (\<lambda>a. at_employeeId a = eid \<and> today \<le> at_date a \<and> at_checkOut a = None) (attendances d)"

definition check_in :: "docid option \<Rightarrow> time \<Rightarrow> db \<Rightarrow> error + (attendance \<times> db)" where
  "check_in eid today d =
     (case eid of
        None \<Rightarrow> Inl MissingField
      | Some e \<Rightarrow>
          (case find (\<lambda>x. e_id x = e) (employees d) of
             None \<Rightarrow> Inl NotFound
           | Some emp \<Rightarrow>
               (case open_record e today d of
                  Some _ \<Rightarrow> Inl AlreadyOpen
                | None \<Rightarrow>
                    (case fresh_id d of (aid, d1) \<Rightarrow>
                       (let a = \<lparr>at_id = aid, at_employeeId = e, at_checkIn = clock d, at_checkOut = None,
                                 at_date = clock d, at_hoursWorked = 0\<rparr>
                        in Inr (a, d1\<lparr>attendances := attendances d1 @ [a]\<rparr>))))))"

text \<open>\<open>hoursWorked = parseFloat(((checkOut - checkIn) / 3600000).toFixed(2))\<close>\<close>

definition hours_between :: "time \<Rightarrow> time \<Rightarrow> money" where
  "hours_between t0 t1 = to_fixed 2 (of_int (int t1 - int t0) / 3600000)"

definition check_out :: "docid \<Rightarrow> time \<Rightarrow> db \<Rightarrow> error + (attendance \<times> db)" where
  "check_out eid today d =
     (case open_record eid today d of
        None \<Rightarrow> Inl NotFound
      | Some a \<Rightarrow>
          (let a' = a\<lparr>at_checkOut := Some (clock d), at_hoursWorked := hours_between (at_checkIn a) (clock d)\<rparr>
           in Inr (a', d\<lparr>attendances := update_first (\<lambda>x. at_id x = at_id a) (\<lambda>_. a') (attendances d)\<rparr>)))"

definition date_in :: "time option \<Rightarrow> time option \<Rightarrow> time \<Rightarrow> bool" where
  "date_in from to t \<longleftrightarrow>
     (case from of None \<Rightarrow> True | Some f \<Rightarrow> f \<le> t) \<and> (case to of None \<Rightarrow> True | Some u \<Rightarrow> t \<le> u)"

definition list_attendance :: "time option \<Rightarrow> time option \<Rightarrow> docid option \<Rightarrow> db \<Rightarrow> attendance list" where
  "list_attendance from to eid d =
     newest_by at_date (filter (\<lambda>a. date_in from to (at_date a) \<and>
                                    (case eid of None \<Rightarrow> True | Some e \<Rightarrow> at_employeeId a = e)) (attendances d))"

section \<open>Reports and salaries\<close>

definition hours_of :: "attendance list \<Rightarrow> money" where
  "hours_of as = foldl (\<lambda>s a. s + js_or (at_hoursWorked a) 0) 0 as"

text \<open>\<open>GET /reports/hours\<close>: per employee, total hours, days present and average.\<close>

definition hours_report :: "time option \<Rightarrow> time option \<Rightarrow> db \<Rightarrow> (docid \<times> money \<times> nat \<times> money) list" where
  "hours_report from to d =
     (let rs = filter (\<lambda>a. date_in from to (at_date a)) (attendances d)
      in map (\<lambda>e. let er = filter (\<lambda>a. at_employeeId a = e_id e) rs; th = hours_of er; n = length er
                  in (e_id e, to_fixed 1 th, n, if 0 < n then to_fixed 1 (th / of_nat n) else 0)) (employees d))"

text \<open>One employee's salary for the month: commission on the sales whose \<open>userId\<close> is the
  employee's \<open>_id\<close>.\<close>

definition salary_of :: "int \<Rightarrow> int \<Rightarrow> time \<Rightarrow> attendance list \<Rightarrow> sale list \<Rightarrow> employee \<Rightarrow> salary" where
  "salary_of month year now atts ss e =
     (let ea = filter (\<lambda>a. at_employeeId a = e_id e) atts;
          es = filter (\<lambda>s. s_userId s = e_id e) ss;
          tot = foldl (\<lambda>s x. s + js_or (s_total x) 0) 0 es;
          commission = tot * (js_or (e_commissionRate e) 0 / 100);
          base = js_or (e_salary e) 0
      in \<lparr>sl_id = 0, sl_employeeId = e_id e, sl_month = month, sl_year = year, sl_baseSalary = base,
          sl_commission = to_fixed 2 commission, sl_totalSalary = to_fixed 2 (base + commission),
          sl_daysWorked = length ea, sl_totalHours = to_fixed 1 (hours_of ea), sl_salesCount = length es,
          sl_salesTotal = to_fixed 2 tot, sl_calculatedAt = now\<rparr>)"

text \<open>\<open>db.salaries.update({ employeeId, month, year }, { $set: ... }, { upsert: true })\<close>\<close>

definition upsert_salary :: "db \<Rightarrow> salary \<Rightarrow> db" where
  "upsert_salary d s =
     (if list_ex (\<lambda>x. sl_employeeId x = sl_employeeId s \<and> sl_month x = sl_month s \<and> sl_year x = sl_year s) (salaries d)
      then d\<lparr>salaries := update_first (\<lambda>x. sl_employeeId x = sl_employeeId s \<and> sl_month x = sl_month s \<and> sl_year x = sl_year s)
                          (\<lambda>x. s\<lparr>sl_id := sl_id x\<rparr>) (salaries d)\<rparr>
      else (case fresh_id d of (sid, d1) \<Rightarrow> d1\<lparr>salaries := salaries d1 @ [s\<lparr>sl_id := sid\<rparr>]\<rparr>))"

text \<open>\<open>POST /salaries/calculate\<close> for the month window \<open>[from, to]\<close>.\<close>

definition calculate_salaries :: "int \<Rightarrow> int \<Rightarrow> time \<Rightarrow> time \<Rightarrow> db \<Rightarrow> salary list \<times> db" where
  "calculate_salaries month year from to d =
     (let atts = filter (\<lambda>a. from \<le> at_date a \<and> at_date a \<le> to) (attendances d);
          ss = filter (\<lambda>s. from \<le> s_createdAt s \<and> s_createdAt s \<le> to) (sales d);
          sal = map (salary_of month year (clock d) atts ss) (filter e_isActive (employees d))
      in (sal, foldl upsert_salary d sal))"

definition list_salaries :: "int option \<Rightarrow> int option \<Rightarrow> db \<Rightarrow> salary list" where
  "list_salaries month year d =
     filter (\<lambda>s. (case month of None \<Rightarrow> True | Some m \<Rightarrow> sl_month s = m) \<and>
                 (case year of None \<Rightarrow> True | Some y \<Rightarrow> sl_year s = y)) (salaries d)"

text \<open>\<open>GET /reports/performance\<close>: per employee, sales count and total, days present,
  hours and the returns count, sorted by total sales descending (stable).\<close>

definition performance :: "time option \<Rightarrow> time option \<Rightarrow> db \<Rightarrow> (docid \<times> nat \<times> money \<times> nat \<times> money \<times> nat) list" where
  "performance from to d =
     (let ss = filter (\<lambda>s. date_in from to (s_createdAt s)) (sales d);
          atts = filter (\<lambda>a. date_in from to (at_date a)) (attendances d);
          rows = map (\<lambda>e. let es = filter (\<lambda>s. s_userId s = e_id e) ss;
                              ea = filter (\<lambda>a. at_employeeId a = e_id e) atts
                          in (e_id e, length es, foldl (\<lambda>s x. s + js_or (s_total x) 0) 0 es, length ea,
                              to_fixed 1 (hours_of ea),
                              length (filter (\<lambda>s. s_hasReturns s \<or> s_status s = Refunded) es))) (employees d)
      in rev (sort_key (\<lambda>r. fst (snd (snd r))) (rev rows)))"

lemmas hr_defs [pos_simps] =
  list_employees_def create_employee_def patch_employee_def update_employee_def
  delete_employee_def open_record_def check_in_def hours_between_def check_out_def date_in_def
  list_attendance_def hours_of_def hours_report_def salary_of_def upsert_salary_def
  calculate_salaries_def list_salaries_def performance_def

section \<open>Lemmas\<close>

text \<open>Commission is paid only on sales whose \<open>userId\<close> is an employee's \<open>_id\<close>; sales are
  made by users, a separate collection, so when no sale of the month carries an employee
  id every computed commission is 0.\<close>

lemma salary_no_commission:
  "list_all (\<lambda>s. s_userId s \<noteq> e_id e) ss \<Longrightarrow> sl_commission (salary_of month year now atts ss e) = 0"
proof -
  assume "list_all (\<lambda>s. s_userId s \<noteq> e_id e) ss"
  then have "filter (\<lambda>s. s_userId s = e_id e) ss = []" by (simp add: filter_empty_conv list_all_iff)
  then show ?thesis by (simp add: salary_of_def Let_def to_fixed_def)
qed

text \<open>A second check-in of the same employee on the same day, before check-out, is refused.\<close>

lemma check_in_twice:
  assumes "check_in (Some e) today d = Inr (a, d1)" "today \<le> clock d"
  shows "check_in (Some e) today d1 = Inl AlreadyOpen"
proof -
  have "find (\<lambda>x. e_id x = e) (employees d1) \<noteq> None"
    using assms(1) by (auto simp: check_in_def fresh_id_def Let_def split: option.splits)
  moreover have "a \<in> set (attendances d1) \<and> at_employeeId a = e \<and> today \<le> at_date a \<and> at_checkOut a = None"
    using assms by (auto simp: check_in_def fresh_id_def Let_def split: option.splits)
  then have "open_record e today d1 \<noteq> None"
    by (auto simp: open_record_def find_None_iff)
  ultimately show ?thesis by (auto simp: check_in_def split: option.splits)
qed

end
