(* ===== verification/Expenses.thy ===== *)
theory Expenses
  imports Store "HOL-Library.List_Lexorder" "HOL-Library.Char_ord"
begin

text \<open>
  The expense routes, \<^verbatim>\<open>src/server/routes/expenses.js\<close>: the filtered listing, the
  fixed category list, create, update, delete and the summary by category.  Dates are
  \<open>YYYY-MM-DD\<close> strings and the \<open>from\<close>/\<open>to\<close> filters compare them as strings
  (\<open>$gte\<close>, \<open>$lte\<close> on strings), which is the lexicographic order of \<open>List_Lexorder\<close>
  over character codes; for well-formed dates \<open>new Date(b.date) - new Date(a.date)\<close>
  orders them the same way.
\<close>

section \<open>Operations\<close>

definition date_filter :: "string option \<Rightarrow> string option \<Rightarrow> expense \<Rightarrow> bool" where
  "date_filter from to x \<longleftrightarrow>
     (case (from, to) of
        (None, None) \<Rightarrow> True
      | _ \<Rightarrow> (case xp_date x of
                None \<Rightarrow> False
              | Some dt \<Rightarrow> (case from of None \<Rightarrow> True | Some f \<Rightarrow> f \<le> dt) \<and>
                            (case to of None \<Rightarrow> True | Some t \<Rightarrow> dt \<le> t)))"

definition list_expenses :: "string option \<Rightarrow> string option \<Rightarrow> string option \<Rightarrow> db \<Rightarrow> expense list" where
  "list_expenses cat from to d =
     (let xs = filter (\<lambda>x. (case cat of None \<Rightarrow> True | Some c \<Rightarrow> c = [] \<or> xp_category x = Some c) \<and>
                            date_filter from to x) (expenses d)
      in rev (sort_key (\<lambda>x. case xp_date x of None \<Rightarrow> [] | Some dt \<Rightarrow> dt) (rev xs)))"

text \<open>\<open>GET /categories\<close>: the ids of the fixed list (names and icons are display text).\<close>

definition expense_categories :: "string list" where
  "expense_categories = [''rent'', ''utilities'', ''salaries'', ''inventory'', ''maintenance'', ''marketing'',
     ''transport'', ''other'']"

record expense_req =
  xq_title :: "string option"
  xq_amount :: "money option"
  xq_category :: "string option"
  xq_date :: "string option"
  xq_notes :: "string option"
  xq_userId :: "docid option"

text \<open>\<open>POST /\<close>: \<open>date || today\<close>, where \<open>today\<close> is \<open>new Date().toISOString().split('T')[0]\<close>.\<close>

definition create_expense :: "string \<Rightarrow> expense_req \<Rightarrow> db \<Rightarrow> expense \<times> db" where
  "create_expense today rq d =
     (case fresh_id d of (xid, d1) \<Rightarrow>
        (let x = \<lparr>xp_id = xid, xp_title = xq_title rq, xp_amount = js_num (xq_amount rq) 0,
                  xp_category = Some (str_or (xq_category rq) ''other''), xp_date = Some (str_or (xq_date rq) today),
                  xp_notes = Some (str_or (xq_notes rq) []), xp_userId = xq_userId rq, xp_createdAt = clock d,
                  xp_updatedAt = None\<rparr>
         in (x, d1\<lparr>expenses := expenses d1 @ [x]\<rparr>)))"

text \<open>\<open>PUT /:id\<close>: every named field is \<open>$set\<close>, an omitted one erased and the amount 0.\<close>

definition update_expense :: "docid \<Rightarrow> expense_req \<Rightarrow> db \<Rightarrow> expense option \<times> db" where
  "update_expense xid rq d =
     (let d1 = d\<lparr>expenses := update_first (\<lambda>x. xp_id x = xid)
                 (\<lambda>x. x\<lparr>xp_title := xq_title rq, xp_amount := js_num (xq_amount rq) 0, xp_category := xq_category rq,
                        xp_date := xq_date rq, xp_notes := xq_notes rq, xp_updatedAt := Some (clock d)\<rparr>) (expenses d)\<rparr>
      in (find (\<lambda>x. xp_id x = xid) (expenses d1), d1))"

definition delete_expense :: "docid \<Rightarrow> db \<Rightarrow> db" where
  "delete_expense xid d = d\<lparr>expenses := remove_first (\<lambda>x. xp_id x = xid) (expenses d)\<rparr>"

text \<open>\<open>GET /summary\<close>: the total, the total per category and the count.\<close>

definition by_category :: "expense list \<Rightarrow> string option \<rightharpoonup> money" where
  "by_category xs =
     foldl (\<lambda>m x. m(xp_category x \<mapsto> (case m (xp_category x) of None \<Rightarrow> 0 | Some v \<Rightarrow> v) + xp_amount x)) Map.empty xs"

definition expense_summary :: "string option \<Rightarrow> string option \<Rightarrow> db \<Rightarrow> money \<times> (string option \<rightharpoonup> money) \<times> nat" where
  "expense_summary from to d =
     (let xs = filter (date_filter from to) (expenses d)
      in (foldl (\<lambda>s x. s + xp_amount x) 0 xs, by_category xs, length xs))"

lemmas expenses_defs [pos_simps] =
  date_filter_def list_expenses_def expense_categories_def create_expense_def update_expense_def
  delete_expense_def by_category_def expense_summary_def

section \<open>Lemmas\<close>

lemma filter_key_absent: "c \<notin> f ` set xs \<Longrightarrow> filter (\<lambda>x. f x = c) xs = []"
  by (auto simp: filter_empty_conv)

lemma by_category_acc:
  "foldl (\<lambda>m x. m(xp_category x \<mapsto> (case m (xp_category x) of None \<Rightarrow> 0 | Some v \<Rightarrow> v) + xp_amount x)) m xs k =
     (if k \<in> set (map xp_category xs)
      then Some ((case m k of None \<Rightarrow> 0 | Some v \<Rightarrow> v) + (\<Sum>x\<leftarrow>filter (\<lambda>x. xp_category x = k) xs. xp_amount x))
      else m k)"
  by (induction xs arbitrary: m) (auto simp: add.assoc filter_key_absent split: option.splits)

text \<open>The summary's per-category figure is the sum of the amounts of that category.\<close>

lemma by_category_lookup:
  "by_category xs k =
     (if k \<in> set (map xp_category xs) then Some (\<Sum>x\<leftarrow>filter (\<lambda>x. xp_category x = k) xs. xp_amount x) else None)"
  by (simp add: by_category_def by_category_acc)

end
