(* ===== verification/Catalog.thy ===== *)
theory Catalog
  imports Products
begin

text \<open>
  The catalogue routes: categories (\<^verbatim>\<open>src/server/routes/categories.js\<close>), suppliers
  (\<^verbatim>\<open>src/server/routes/suppliers.js\<close>) and the store settings
  (\<^verbatim>\<open>src/server/routes/settings.js\<close>, \<open>GET\<close> and \<open>PUT\<close>; its backup and restore routes are the
  theory \<open>Backup\<close>).  Icons, colours, addresses and
  the other display fields the routes only store are left out where no route reads them.
\<close>

section \<open>Categories\<close>

text \<open>\<open>categories.sort((a, b) => (a.order || 0) - (b.order || 0))\<close>, a stable sort.\<close>

definition list_categories :: "db \<Rightarrow> category list" where
  "list_categories d = sort_key (\<lambda>c. js_num (cat_order c) 0) (categories d)"

definition get_category :: "docid \<Rightarrow> db \<Rightarrow> error + category" where
  "get_category cid d =
     (case find (\<lambda>c. cat_id c = cid) (categories d) of None \<Rightarrow> Inl NotFound | Some c \<Rightarrow> Inr c)"

text \<open>\<open>POST /\<close>: 400 when a category of the same name exists.\<close>

definition create_category :: "string option \<Rightarrow> int option \<Rightarrow> db \<Rightarrow> error + (category \<times> db)" where
  "create_category name order d =
     (if list_ex (\<lambda>c. cat_name c = name) (categories d) then Inl DuplicateName
      else (case fresh_id d of (cid, d1) \<Rightarrow>
              (let c = \<lparr>cat_id = cid, cat_name = name, cat_order = Some (js_num order 0),
                        cat_createdAt = clock d, cat_updatedAt = None\<rparr>
               in Inr (c, d1\<lparr>categories := categories d1 @ [c]\<rparr>))))"

text \<open>\<open>PUT /:id\<close>: \<open>name\<close> and \<open>order\<close> are \<open>$set\<close> as sent, no duplicate check.\<close>

definition update_category :: "docid \<Rightarrow> string option \<Rightarrow> int option \<Rightarrow> db \<Rightarrow> category option \<times> db" where
  "update_category cid name order d =
     (let d1 = d\<lparr>categories := update_first (\<lambda>c. cat_id c = cid)
                 (\<lambda>c. c\<lparr>cat_name := name, cat_order := order, cat_updatedAt := Some (clock d)\<rparr>) (categories d)\<rparr>
      in (find (\<lambda>c. cat_id c = cid) (categories d1), d1))"

text \<open>\<open>DELETE /:id\<close>: 400 while a product refers to the category.\<close>

definition delete_category :: "docid \<Rightarrow> db \<Rightarrow> error + db" where
  "delete_category cid d =
     (if 0 < length (filter (\<lambda>kp. p_categoryId (snd kp) = Some cid) (product_docs d)) then Inl InUse
      else Inr (d\<lparr>categories := remove_first (\<lambda>c. cat_id c = cid) (categories d)\<rparr>))"

text \<open>\<open>POST /reorder\<close>: the \<open>i\<close>-th id of the request gets \<open>order i\<close>.\<close>

definition reorder_categories :: "docid list \<Rightarrow> db \<Rightarrow> db" where
  "reorder_categories ids d =
     foldl (\<lambda>d ic. d\<lparr>categories := update_first (\<lambda>c. cat_id c = snd ic) (\<lambda>c. c\<lparr>cat_order := Some (int (fst ic))\<rparr>)
                                     (categories d)\<rparr>) d (enumerate 0 ids)"

section \<open>Suppliers\<close>

definition supplier_match :: "string \<Rightarrow> supplier \<Rightarrow> bool" where
  "supplier_match search s \<longleftrightarrow>
     (case sup_name s of None \<Rightarrow> False | Some x \<Rightarrow> ci_contains search x) \<or>
     (case sup_phone s of None \<Rightarrow> False | Some x \<Rightarrow> ci_contains search x) \<or>
     (case sup_company s of None \<Rightarrow> False | Some x \<Rightarrow> ci_contains search x)"

definition list_suppliers :: "(string option \<Rightarrow> 'k::linorder) \<Rightarrow> string option \<Rightarrow> db \<Rightarrow> supplier list" where
  "list_suppliers coll search d =
     sort_key (\<lambda>s. coll (sup_name s))
       (filter (\<lambda>s. case search of None \<Rightarrow> True | Some q \<Rightarrow> q = [] \<or> supplier_match q s) (suppliers d))"

definition get_supplier :: "docid \<Rightarrow> db \<Rightarrow> error + supplier" where
  "get_supplier sid d =
     (case find (\<lambda>s. sup_id s = sid) (suppliers d) of None \<Rightarrow> Inl NotFound | Some s \<Rightarrow> Inr s)"

record supplier_req =
  sq_name :: "string option"
  sq_company :: "string option"
  sq_phone :: "string option"
  sq_email :: "string option"
  sq_address :: "string option"
  sq_notes :: "string option"

definition create_supplier :: "supplier_req \<Rightarrow> db \<Rightarrow> supplier \<times> db" where
  "create_supplier rq d =
     (case fresh_id d of (sid, d1) \<Rightarrow>
        (let s = \<lparr>sup_id = sid, sup_name = sq_name rq, sup_company = Some (str_or (sq_company rq) []),
                  sup_phone = Some (str_or (sq_phone rq) []), sup_email = Some (str_or (sq_email rq) []),
                  sup_address = Some (str_or (sq_address rq) []), sup_notes = Some (str_or (sq_notes rq) []),
                  sup_totalOrders = 0, sup_createdAt = clock d, sup_updatedAt = None\<rparr>
         in (s, d1\<lparr>suppliers := suppliers d1 @ [s]\<rparr>)))"

definition update_supplier :: "docid \<Rightarrow> supplier_req \<Rightarrow> db \<Rightarrow> supplier option \<times> db" where
  "update_supplier sid rq d =
     (let d1 = d\<lparr>suppliers := update_first (\<lambda>s. sup_id s = sid)
                 (\<lambda>s. s\<lparr>sup_name := sq_name rq, sup_company := sq_company rq, sup_phone := sq_phone rq,
                        sup_email := sq_email rq, sup_address := sq_address rq, sup_notes := sq_notes rq,
                        sup_updatedAt := Some (clock d)\<rparr>) (suppliers d)\<rparr>
      in (find (\<lambda>s. sup_id s = sid) (suppliers d1), d1))"

definition delete_supplier :: "docid \<Rightarrow> db \<Rightarrow> db" where
  "delete_supplier sid d = d\<lparr>suppliers := remove_first (\<lambda>s. sup_id s = sid) (suppliers d)\<rparr>"

section \<open>Store settings\<close>

text \<open>\<open>PUT /settings\<close>: the named fields are \<open>$set\<close> on the \<open>{key: 'store'}\<close> document, or a
  new document with only these fields is inserted; a field absent from a new document
  (the loyalty and alert settings) reads as falsy.  \<open>None\<close> stands for the default
  currency of \<open>currency || ...\<close>.\<close>

record settings_req =
  sr_storeName :: "string option"
  sr_taxRate :: "money option"
  sr_currency :: "string option"
  sr_receiptFooter :: "string option"

definition update_settings :: "settings_req \<Rightarrow> db \<Rightarrow> settings \<times> db" where
  "update_settings rq d =
     (let cur = (case sr_currency rq of None \<Rightarrow> None | Some c \<Rightarrow> if c = [] then None else Some c);
          s = (case settings d of
                 Some s0 \<Rightarrow> s0\<lparr>storeName := sr_storeName rq, taxRate := js_num (sr_taxRate rq) 0,
                               currency := cur, receiptFooter := sr_receiptFooter rq, st_updatedAt := Some (clock d)\<rparr>
               | None \<Rightarrow> \<lparr>enableLoyalty = False, loyaltyPointsPerUnit = 0, loyaltyPointValue = 0,
                          returnPeriodDays = 0, lowStockAlert = 0, expiryAlertDays = 0,
                          storeName = sr_storeName rq, taxRate = js_num (sr_taxRate rq) 0, currency = cur,
                          receiptFooter = sr_receiptFooter rq, st_updatedAt = Some (clock d)\<rparr>)
      in (s, d\<lparr>settings := Some s\<rparr>))"

lemmas catalog_defs [pos_simps] =
  list_categories_def get_category_def create_category_def update_category_def delete_category_def
  reorder_categories_def supplier_match_def list_suppliers_def get_supplier_def create_supplier_def
  update_supplier_def delete_supplier_def update_settings_def

section \<open>Lemmas\<close>

text \<open>Creating a settings document from scratch leaves loyalty off, and no route writes the
  loyalty settings: checkout then earns no points.\<close>

lemma update_settings_fresh_no_loyalty:
  "settings d = None \<Longrightarrow> \<not> enableLoyalty (fst (update_settings rq d))"
  by (simp add: update_settings_def Let_def)

lemma delete_category_in_use:
  "list_ex (\<lambda>kp. p_categoryId (snd kp) = Some cid) (product_docs d) \<Longrightarrow> delete_category cid d = Inl InUse"
  by (auto simp: delete_category_def list_ex_iff filter_empty_conv)

end
