(* ===== verification/Analytics.thy ===== *)
theory Analytics
  imports Customers
begin

text \<open>
  The read-only aggregations of \<^verbatim>\<open>src/server/routes/dashboard.js\<close> (today's figures,
  the ten most recent sales, the last seven days) and \<^verbatim>\<open>src/server/routes/analytics.js\<close>
  (stock-out prediction, purchase suggestions, slow movers), all computed from the sales
  and the products.  The day windows of the weekly chart come from the local calendar
  (\<open>setDate\<close>, \<open>setHours\<close>) and are a parameter.
\<close>

section \<open>Dashboard\<close>

record dash_stats =
  ds_todaySales :: money
  ds_todayOrders :: nat
  ds_totalProducts :: nat
  ds_totalCustomers :: nat
  ds_lowStock :: nat

definition dashboard_stats :: "time \<Rightarrow> time \<Rightarrow> db \<Rightarrow> dash_stats" where
  "dashboard_stats today tomorrow d =
     (let ts = filter (\<lambda>s. today \<le> s_createdAt s \<and> s_createdAt s < tomorrow) (sales d)
      in \<lparr>ds_todaySales = foldl (\<lambda>sum s. sum + s_total s) 0 ts, ds_todayOrders = length ts,
          ds_totalProducts = length (product_docs d), ds_totalCustomers = length (customer_docs d),
          ds_lowStock = length (filter (\<lambda>kp. low_stock (snd kp)) (product_docs d))\<rparr>)"

definition recent_sales :: "db \<Rightarrow> sale list" where
  "recent_sales d = take 10 (newest_by s_createdAt (sales d))"

text \<open>\<open>GET /weekly\<close>.  One row of the chart: the day (its local midnight, which
  \<open>toISOString\<close> prints), the total and the count of the sales of the day window.\<close>

definition day_figures :: "db \<Rightarrow> time \<times> time \<Rightarrow> time \<times> money \<times> nat" where
  "day_figures d w =
     (let ss = filter (\<lambda>s. fst w \<le> s_createdAt s \<and> s_createdAt s < snd w) (sales d)
      in (fst w, foldl (\<lambda>sum s. sum + s_total s) 0 ss, length ss))"

text \<open>The chart over a given list of day windows, the reference the loop is checked against.\<close>

definition weekly :: "(time \<times> time) list \<Rightarrow> db \<Rightarrow> (time \<times> money \<times> nat) list" where
  "weekly days d = map (day_figures d) days"

text \<open>\<open>for (let i = 6; i >= 0; i--)\<close>: \<open>cal i\<close> is the window from local midnight \<open>i\<close> days
  before today to the next local midnight (\<open>setDate\<close>, \<open>setHours(0, 0, 0, 0)\<close>), a
  parameter because it depends on the local calendar.  The counter is an integer that
  decreases to \<open>-1\<close>, so the loop terminates by the measure \<open>i + 1\<close>.\<close>

function week_loop :: "(int \<Rightarrow> time \<times> time) \<Rightarrow> db \<Rightarrow> int \<Rightarrow> (time \<times> money \<times> nat) list \<Rightarrow>
    (time \<times> money \<times> nat) list" where
  "week_loop cal d i days = (if i < 0 then days else week_loop cal d (i - 1) (days @ [day_figures d (cal i)]))"
  by pat_completeness auto
termination by (relation "measure (\<lambda>(cal, d, i, days). nat (i + 1))") auto

declare week_loop.simps [simp del]

definition weekly_chart :: "(int \<Rightarrow> time \<times> time) \<Rightarrow> db \<Rightarrow> (time \<times> money \<times> nat) list" where
  "weekly_chart cal d = week_loop cal d 6 []"

section \<open>Analytics\<close>

text \<open>\<open>calculateDailyVelocity(sales, productId, days)\<close>: the quantity of the first line of the
  product in every sale of the last \<open>days\<close> days (refunded ones included), per day.\<close>

definition daily_velocity :: "time \<Rightarrow> sale list \<Rightarrow> docid \<Rightarrow> nat \<Rightarrow> money" where
  "daily_velocity now ss pid days =
     (let past = now - days * day_ms;
          qs = List.map_filter (\<lambda>s. if past \<le> s_createdAt s
                                    then map_option ci_quantity (find (\<lambda>i. ci_productId i = pid) (s_items s))
                                    else None) ss
      in of_int (foldl (+) 0 qs) / of_nat days)"

datatype stock_status = Critical | Warning | Safe

definition stock_status_of :: "int \<Rightarrow> stock_status" where
  "stock_status_of n = (if n < 7 then Critical else if n < 30 then Warning else Safe)"

text \<open>\<open>GET /stock-prediction\<close>: products in stock, days of stock left at the 30-day velocity
  (999 without sales), the critical and warning ones, fewest days first.\<close>

definition stock_prediction :: "db \<Rightarrow> (docid \<times> qty \<times> money \<times> int \<times> stock_status) list" where
  "stock_prediction d =
     (let rows = map (\<lambda>kp. let p = snd kp; v = daily_velocity (clock d) (sales d) (fst kp) 30;
                              n = (if 0 < v then \<lfloor>of_int (p_quantity p) / v\<rfloor> else 999)
                          in (fst kp, p_quantity p, to_fixed 2 v, n, stock_status_of n))
                 (filter (\<lambda>kp. 0 < p_quantity (snd kp)) (product_docs d))
      in sort_key (\<lambda>r. fst (snd (snd (snd r)))) (filter (\<lambda>r. snd (snd (snd (snd r))) \<noteq> Safe) rows))"

text \<open>\<open>GET /purchase-suggestions\<close>: 30 days of cover at the current velocity.\<close>

definition purchase_suggestions :: "db \<Rightarrow> (docid \<times> qty \<times> money \<times> int \<times> int) list" where
  "purchase_suggestions d =
     (let rows = map (\<lambda>kp. let p = snd kp; v = daily_velocity (clock d) (sales d) (fst kp) 30;
                              sug = \<lceil>v * 30\<rceil>
                          in (fst kp, p_quantity p, to_fixed 2 v, sug, max 0 (sug - p_quantity p))) (product_docs d)
      in rev (sort_key (\<lambda>r. snd (snd (snd (snd r)))) (rev (filter (\<lambda>r. 0 < snd (snd (snd (snd r)))) rows))))"

text \<open>\<open>GET /slow-movers\<close>: products in stock selling under one unit per ten days over 90
  days, largest stock value first.\<close>

definition slow_movers :: "db \<Rightarrow> (docid \<times> qty \<times> money \<times> money) list" where
  "slow_movers d =
     (let rows = map (\<lambda>kp. let p = snd kp; v = daily_velocity (clock d) (sales d) (fst kp) 90
                          in (fst kp, p_quantity p, of_int (p_quantity p) * p_cost p, to_fixed 3 v))
                 (filter (\<lambda>kp. 0 < p_quantity (snd kp)) (product_docs d))
      in rev (sort_key (\<lambda>r. fst (snd (snd r))) (rev (filter (\<lambda>r. snd (snd (snd r)) < 1 / 10) rows))))"

lemmas analytics_defs [pos_simps] =
  dashboard_stats_def recent_sales_def day_figures_def weekly_def weekly_chart_def daily_velocity_def stock_status_of_def
  stock_prediction_def purchase_suggestions_def slow_movers_def

section \<open>Lemmas\<close>

lemma recent_sales_length: "length (recent_sales d) = min 10 (length (sales d))"
  by (simp add: recent_sales_def newest_by_def)

text \<open>A suggested reorder brings the stock to at least 30 days of cover.\<close>

lemma purchase_suggestion_cover:
  "(k, q, v, sug, r) \<in> set (purchase_suggestions d) \<Longrightarrow> 0 < r \<and> q + r = sug"
  by (auto simp: purchase_suggestions_def Let_def max_def split: if_splits)

text \<open>The countdown loop of \<open>GET /weekly\<close>, which \<open>weekly_chart\<close> starts at 6, gives
  one row per day window, from \<open>i\<close> days ago to today in that order.\<close>

lemma week_loop_returns:
  "week_loop cal d i days = days @ weekly (map (\<lambda>j. cal (i - int j)) [0..<nat (i + 1)]) d"
proof (induction cal d i days rule: week_loop.induct)
  case (1 cal d i days)
  show ?case
  proof (cases "i < 0")
    case True
    then show ?thesis by (simp add: week_loop.simps weekly_def)
  next
    case False
    then have n: "nat (i + 1) = Suc (nat i)" "nat (i - 1 + 1) = nat i" by auto
    have "[0..<Suc k] = 0 # map Suc [0..<k]" for k by (simp only: upt_conv_Cons [OF zero_less_Suc] map_Suc_upt)
    with n have "[0..<nat (i + 1)] = 0 # map Suc [0..<nat (i - 1 + 1)]" by simp
    with False 1 show ?thesis
      by (simp add: week_loop.simps [of cal d i] weekly_def comp_def algebra_simps)
  qed
qed

end
