(* ===== verification/Reports.thy ===== *)
theory Reports
  imports Customers Expenses SalesQueries "HOL-Library.AList"
begin

text \<open>
  The reports of \<^verbatim>\<open>src/server/routes/reports.js\<close>: sales (totals, payment-method
  breakdown, per-day figures), products (best sellers, most profitable, unsold, low stock,
  expiring), inventory (stock value and the latest movements), the financial statement,
  tax, per-cashier sales and customers.  All are read-only.  \<open>from\<close> and \<open>to\<close> are taken as
  millisecond bounds, \<open>to\<close> already at 23:59:59 of its day; the day of a sale in the
  per-day figures is its UTC day number (\<open>toISOString().split('T')[0]\<close>), whose order is
  the order of the ISO strings \<open>localeCompare\<close> sorts for years 0 to 9999.  Display names
  are left out.
\<close>

section \<open>Shared pieces\<close>

definition in_report_window :: "time option \<Rightarrow> time option \<Rightarrow> time \<Rightarrow> bool" where
  "in_report_window from to t \<longleftrightarrow>
     (case from of None \<Rightarrow> True | Some f \<Rightarrow> f \<le> t) \<and> (case to of None \<Rightarrow> True | Some e \<Rightarrow> t \<le> e)"

definition line_profit :: "cart_item \<Rightarrow> money" where
  "line_profit i = (ci_price i - ci_cost i) * of_int (ci_quantity i)"

definition sale_profit :: "sale \<Rightarrow> money" where
  "sale_profit s = foldl (\<lambda>p i. p + line_profit i) 0 (s_items s)"

definition sum_totals :: "sale list \<Rightarrow> money" where
  "sum_totals ss = foldl (\<lambda>sum s. sum + s_total s) 0 ss"

definition sum_returns :: "return_rec list \<Rightarrow> money" where
  "sum_returns rs = foldl (\<lambda>sum r. sum + rt_total r) 0 rs"

section \<open>Sales report\<close>

text \<open>The payment breakdown adds each payment under its method and, for a sale with an
  unpaid remainder, the remainder under \<open>credit\<close>.\<close>

definition breakdown_step :: "(pay_method \<Rightarrow> money) \<Rightarrow> sale \<Rightarrow> pay_method \<Rightarrow> money" where
  "breakdown_step b s =
     (let b1 = add_payments b s
      in if 0 < s_remaining s then b1(CreditMethod := b1 CreditMethod + s_remaining s) else b1)"

definition method_breakdown :: "sale list \<Rightarrow> pay_method \<Rightarrow> money" where
  "method_breakdown ss = foldl breakdown_step (\<lambda>_. 0) ss"

record day_row =
  dd_day :: int
  dd_total :: money
  dd_count :: nat
  dd_profit :: money

definition add_day :: "(int \<times> day_row) list \<Rightarrow> sale \<Rightarrow> (int \<times> day_row) list" where
  "add_day dd s =
     (let k = int (s_createdAt s) div int day_ms;
          upd = (\<lambda>r. r\<lparr>dd_total := dd_total r + s_total s, dd_count := dd_count r + 1,
                        dd_profit := dd_profit r + sale_profit s\<rparr>)
      in AList.map_default k (upd \<lparr>dd_day = k, dd_total = 0, dd_count = 0, dd_profit = 0\<rparr>) upd dd)"

definition daily_data :: "sale list \<Rightarrow> day_row list" where
  "daily_data ss = sort_key dd_day (map snd (foldl add_day [] ss))"

record sales_summary =
  sm_totalSales :: money
  sm_totalReturns :: money
  sm_netSales :: money
  sm_totalProfit :: money
  sm_salesCount :: nat
  sm_returnsCount :: nat
  sm_averageSale :: money

definition sales_report :: "time option \<Rightarrow> time option \<Rightarrow> db \<Rightarrow>
    sales_summary \<times> day_row list \<times> (pay_method \<Rightarrow> money)" where
  "sales_report from to d =
     (let ss = filter (\<lambda>s. in_report_window from to (s_createdAt s)) (sales d);
          rs = filter (\<lambda>r. in_report_window from to (rt_createdAt r)) (returns d);
          ts = sum_totals ss; tr = sum_returns rs
      in (\<lparr>sm_totalSales = ts, sm_totalReturns = tr, sm_netSales = ts - tr,
           sm_totalProfit = foldl (\<lambda>sum s. sum + sale_profit s) 0 ss,
           sm_salesCount = length ss, sm_returnsCount = length rs,
           sm_averageSale = (if length ss = 0 then 0 else ts / of_nat (length ss))\<rparr>,
          daily_data ss, method_breakdown ss))"

text \<open>\<open>arr.sort((a, b) => b.x - a.x)\<close>: a stable sort, largest first, ties in their order.\<close>

definition sort_desc :: "('a \<Rightarrow> 'b::linorder) \<Rightarrow> 'a list \<Rightarrow> 'a list" where
  "sort_desc k xs = rev (sort_key k (rev xs))"

section \<open>Products report\<close>

text \<open>Per product id, in order of first appearance: quantity sold and revenue
  (\<open>productSales\<close>), and profit (\<open>productProfit\<close>).\<close>

definition add_line_sales :: "(docid \<times> qty \<times> money) list \<Rightarrow> cart_item \<Rightarrow> (docid \<times> qty \<times> money) list" where
  "add_line_sales ps i =
     (let upd = (\<lambda>(q, r). (q + ci_quantity i, r + ci_price i * of_int (ci_quantity i)))
      in AList.map_default (ci_productId i) (upd (0, 0)) upd ps)"

definition add_line_profit :: "(docid \<times> money) list \<Rightarrow> cart_item \<Rightarrow> (docid \<times> money) list" where
  "add_line_profit pp i =
     (let upd = (\<lambda>p. p + line_profit i) in AList.map_default (ci_productId i) (upd 0) upd pp)"

record products_rep =
  pr_totalProducts :: nat
  pr_outOfStock :: nat
  pr_lowStock :: "(docid \<times> product) list"
  pr_expiringSoon :: "(docid \<times> product) list"
  pr_bestSellers :: "(docid \<times> qty \<times> money) list"
  pr_mostProfitable :: "(docid \<times> money) list"
  pr_slowMoving :: "(docid \<times> product) list"

text \<open>\<open>alertDate\<close> is 30 days ahead of now (\<open>setDate(getDate() + 30)\<close>, taken as 30 days
  of milliseconds).\<close>

definition products_report :: "time option \<Rightarrow> time option \<Rightarrow> db \<Rightarrow> products_rep" where
  "products_report from to d =
     (let ps = product_docs d;
          ss = filter (\<lambda>s. in_report_window from to (s_createdAt s)) (sales d);
          lines = concat (map s_items ss);
          psales = foldl add_line_sales [] lines;
          pprofit = foldl add_line_profit [] lines;
          now = clock d
      in \<lparr>pr_totalProducts = length ps,
          pr_outOfStock = length (filter (\<lambda>kp. p_quantity (snd kp) = 0) ps),
          pr_lowStock = filter (\<lambda>kp. low_stock (snd kp)) ps,
          pr_expiringSoon = filter (\<lambda>kp. case p_expiryDate (snd kp) of None \<Rightarrow> False
                                      | Some e \<Rightarrow> e \<le> now + 30 * day_ms \<and> now \<le> e) ps,
          pr_bestSellers = take 10 (sort_desc (\<lambda>r. fst (snd r)) psales),
          pr_mostProfitable = take 10 (sort_desc snd pprofit),
          pr_slowMoving = take 10 (filter (\<lambda>kp. map_of psales (fst kp) = None) ps)\<rparr>)"

section \<open>Inventory report\<close>

text \<open>The movements are read from \<open>db.inventory\<close>, which also holds the transfer
  documents: without an \<open>operation\<close> filter they are listed with the log entries (they
  have no \<open>operation\<close> field, so a filter drops them).  The filter is an
  \<open>inv_op option\<close>; a string naming no operation, which matches nothing, is left out.\<close>

definition movements_of :: "time option \<Rightarrow> time option \<Rightarrow> inv_op option \<Rightarrow> db \<Rightarrow>
    (inv_entry + transfer_doc) list" where
  "movements_of from to op d =
     map Inl (filter (\<lambda>e. in_report_window from to (ie_createdAt e) \<and>
                          (case op of None \<Rightarrow> True | Some x \<Rightarrow> ie_operation e = x)) (inventory d)) @
     map Inr (filter (\<lambda>t. in_report_window from to (tr_createdAt t) \<and> op = None) (transfers d))"

definition movement_time :: "inv_entry + transfer_doc \<Rightarrow> time" where
  "movement_time m = (case m of Inl e \<Rightarrow> ie_createdAt e | Inr t \<Rightarrow> tr_createdAt t)"

record inventory_rep =
  ir_totalProducts :: nat
  ir_totalQuantity :: qty
  ir_totalCostValue :: money
  ir_totalRetailValue :: money
  ir_potentialProfit :: money
  ir_movements :: "(inv_entry + transfer_doc) list"

definition inventory_report :: "time option \<Rightarrow> time option \<Rightarrow> inv_op option \<Rightarrow> db \<Rightarrow> inventory_rep" where
  "inventory_report from to op d =
     (let ps = map snd (product_docs d);
          cv = foldl (\<lambda>sum p. sum + p_cost p * of_int (p_quantity p)) 0 ps;
          rv = foldl (\<lambda>sum p. sum + p_price p * of_int (p_quantity p)) 0 ps
      in \<lparr>ir_totalProducts = length ps, ir_totalQuantity = foldl (\<lambda>sum p. sum + p_quantity p) 0 ps,
          ir_totalCostValue = cv, ir_totalRetailValue = rv, ir_potentialProfit = rv - cv,
          ir_movements = take 100 (newest_by movement_time (movements_of from to op d))\<rparr>)"

section \<open>Financial report\<close>

text \<open>\<open>GET /financial\<close> builds \<open>dateQuery = {$gte, $lte}\<close> from \<open>from\<close> and \<open>to\<close> but then
  tests \<open>dateQuery.createdAt\<close> and \<open>dateQuery.date\<close>, which are never set: every sale,
  return and expense is read whatever the dates, so the report takes no dates.  The
  margins are \<open>toFixed(1)\<close> of the percentage, or 0 when the net revenue is 0.\<close>

record financial_rep =
  fr_totalSales :: money
  fr_returns :: money
  fr_netRevenue :: money
  fr_cogs :: money
  fr_grossProfit :: money
  fr_grossMargin :: money
  fr_totalExpenses :: money
  fr_byCategory :: "string option \<rightharpoonup> money"
  fr_netProfit :: money
  fr_profitMargin :: money

definition sale_cogs :: "sale \<Rightarrow> money" where
  "sale_cogs s = foldl (\<lambda>c i. c + ci_cost i * of_int (ci_quantity i)) 0 (s_items s)"

definition financial_report :: "db \<Rightarrow> financial_rep" where
  "financial_report d =
     (let revenue = sum_totals (sales d); ret = sum_returns (returns d); net = revenue - ret;
          cogs = foldl (\<lambda>sum s. sum + sale_cogs s) 0 (sales d);
          gross = net - cogs;
          te = foldl (\<lambda>sum x. sum + xp_amount x) 0 (expenses d);
          np = gross - te
      in \<lparr>fr_totalSales = revenue, fr_returns = ret, fr_netRevenue = net, fr_cogs = cogs,
          fr_grossProfit = gross,
          fr_grossMargin = (if net \<noteq> 0 then to_fixed 1 (gross / net * 100) else 0),
          fr_totalExpenses = te, fr_byCategory = by_category (expenses d),
          fr_netProfit = np,
          fr_profitMargin = (if net \<noteq> 0 then to_fixed 1 (np / net * 100) else 0)\<rparr>)"

section \<open>Tax, cashier and customer reports\<close>

record tax_rep =
  tx_totalSales :: money
  tx_taxableSalesTotal :: money
  tx_totalTaxCollected :: money
  tx_invoicesCount :: nat
  tx_taxableInvoices :: nat

definition tax_report :: "time option \<Rightarrow> time option \<Rightarrow> db \<Rightarrow> tax_rep" where
  "tax_report from to d =
     (let ss = filter (\<lambda>s. in_report_window from to (s_createdAt s)) (sales d);
          tx = filter (\<lambda>s. 0 < s_tax s) ss
      in \<lparr>tx_totalSales = sum_totals ss, tx_taxableSalesTotal = foldl (\<lambda>sum s. sum + s_subtotal s) 0 tx,
          tx_totalTaxCollected = foldl (\<lambda>sum s. sum + s_tax s) 0 ss,
          tx_invoicesCount = length ss, tx_taxableInvoices = length tx\<rparr>)"

text \<open>\<open>GET /employees\<close>: per \<open>userId\<close>, in order of first sale, the count and the total of
  its sales; the largest total first.\<close>

definition add_cashier :: "(docid \<times> nat \<times> money) list \<Rightarrow> sale \<Rightarrow> (docid \<times> nat \<times> money) list" where
  "add_cashier pf s =
     (let upd = (\<lambda>(n, t). (n + 1, t + s_total s)) in AList.map_default (s_userId s) (upd (0, 0)) upd pf)"

definition employees_report :: "time option \<Rightarrow> time option \<Rightarrow> db \<Rightarrow> (docid \<times> nat \<times> money) list" where
  "employees_report from to d =
     sort_desc (\<lambda>r. snd (snd r)) (foldl add_cashier [] (filter (\<lambda>s. in_report_window from to (s_createdAt s)) (sales d)))"

record customers_rep =
  cu_totalCustomers :: nat
  cu_topCustomers :: "(docid \<times> customer) list"
  cu_totalReceivables :: money
  cu_creditCustomers :: nat

definition customers_report :: "db \<Rightarrow> customers_rep" where
  "customers_report d =
     (let cs = customer_docs d; crs = filter (\<lambda>c. cr_status c \<noteq> CrPaid) (credits d)
      in \<lparr>cu_totalCustomers = length cs,
          cu_topCustomers = take 10 (sort_desc (\<lambda>kc. c_totalPurchases (snd kc)) cs),
          cu_totalReceivables = foldl (\<lambda>sum c. sum + (cr_amount c - cr_paidAmount c)) 0 crs,
          cu_creditCustomers = length crs\<rparr>)"


lemmas reports_defs [pos_simps] =
  in_report_window_def line_profit_def sale_profit_def sum_totals_def sum_returns_def
  breakdown_step_def method_breakdown_def add_day_def daily_data_def sales_report_def sort_desc_def add_line_sales_def
  add_line_profit_def products_report_def movements_of_def movement_time_def inventory_report_def
  sale_cogs_def financial_report_def tax_report_def add_cashier_def employees_report_def
  customers_report_def

section \<open>Lemmas\<close>

declare sum_list_map_sort_key [simp]

lemma sum_list_map_sort_desc [simp]: "sum_list (map (f :: _ \<Rightarrow> _::comm_monoid_add) (sort_desc k xs)) = sum_list (map f xs)"
  by (simp add: sort_desc_def rev_map [symmetric])

text \<open>Accumulating into an association list with \<open>map_default\<close> adds the same amount to
  the sum of a measure of the rows whether the key is new or present.\<close>

lemma sum_map_default:
  assumes "\<And>r. g (f r) = g r + c" "g v = c"
  shows "sum_list (map (g \<circ> snd) (AList.map_default k v f al)) = sum_list (map (g \<circ> snd) al) + (c::_::comm_monoid_add)"
  using assms by (induction al) (auto simp: ac_simps)

text \<open>A left fold whose step adds \<open>c x\<close> to a measure adds up \<open>c\<close> over the list.\<close>

lemma measure_foldl:
  assumes "\<And>a x. m (h a x) = m a + (c x::_::monoid_add)"
  shows "m (foldl h a xs) = m a + sum_list (map c xs)"
  using assms by (induction xs arbitrary: a) (simp_all add: add.assoc)

lemma add_day_total: "sum_list (map (dd_total \<circ> snd) (add_day dd s)) = sum_list (map (dd_total \<circ> snd) dd) + s_total s"
  unfolding add_day_def Let_def by (rule sum_map_default) simp_all

text \<open>The per-day rows of the sales report add up to its total.\<close>

lemma daily_data_total: "sum_list (map dd_total (daily_data ss)) = sum_totals ss"
  using measure_foldl [where m = "\<lambda>dd. sum_list (map (dd_total \<circ> snd) dd)" and h = add_day, OF add_day_total]
  by (simp add: daily_data_def sum_totals_def foldl_add_sum_list)

lemma add_day_count: "sum_list (map (dd_count \<circ> snd) (add_day dd s)) = sum_list (map (dd_count \<circ> snd) dd) + 1"
  unfolding add_day_def Let_def by (rule sum_map_default) simp_all

lemma daily_data_count: "sum_list (map dd_count (daily_data ss)) = length ss"
  using measure_foldl [where m = "\<lambda>dd. sum_list (map (dd_count \<circ> snd) dd)" and h = add_day, OF add_day_count]
  by (simp add: daily_data_def sum_list_triv)

text \<open>The cashier rows add up to the sales of the window: their count and their total.\<close>

lemma add_cashier_sums:
  "sum_list (map (fst \<circ> snd) (add_cashier pf s)) = sum_list (map (fst \<circ> snd) pf) + 1"
  "sum_list (map (snd \<circ> snd) (add_cashier pf s)) = sum_list (map (snd \<circ> snd) pf) + s_total s"
  unfolding add_cashier_def Let_def by (rule sum_map_default; simp split: prod.splits)+

lemma employees_report_sums:
  "sum_list (map (fst \<circ> snd) (employees_report from to d)) =
     length (filter (\<lambda>s. in_report_window from to (s_createdAt s)) (sales d))"
  "sum_list (map (snd \<circ> snd) (employees_report from to d)) =
     sum_totals (filter (\<lambda>s. in_report_window from to (s_createdAt s)) (sales d))"
  using measure_foldl [where m = "\<lambda>pf. sum_list (map (fst \<circ> snd) pf)" and h = add_cashier, OF add_cashier_sums(1)]
        measure_foldl [where m = "\<lambda>pf. sum_list (map (snd \<circ> snd) pf)" and h = add_cashier, OF add_cashier_sums(2)]
  by (simp_all add: employees_report_def sum_totals_def foldl_add_sum_list sum_list_triv)




lemma map_of_map_default_None:
  "(map_of (AList.map_default k v f al) x = None) \<longleftrightarrow> x \<noteq> k \<and> map_of al x = None"
  by (induction al) auto

lemma map_of_foldl_line_sales_None:
  "(map_of (foldl add_line_sales ps lines) x = None) \<longleftrightarrow>
     map_of ps x = None \<and> list_all (\<lambda>i. ci_productId i \<noteq> x) lines"
  by (induction lines arbitrary: ps) (auto simp: add_line_sales_def Let_def map_of_map_default_None)

text \<open>A product listed as slow moving has no line in any sale of the window.\<close>

lemma slow_moving_unsold:
  "kp \<in> set (pr_slowMoving (products_report from to d)) \<Longrightarrow>
   list_all (\<lambda>s. list_all (\<lambda>i. ci_productId i \<noteq> fst kp) (s_items s))
     (filter (\<lambda>s. in_report_window from to (s_createdAt s)) (sales d))"
  by (auto dest: in_set_takeD simp: products_report_def Let_def map_of_foldl_line_sales_None list_all_iff)

text \<open>The financial statement reads every sale and return whatever the requested dates:
  its revenue figures are those of the sales report over all time.\<close>

lemma financial_report_all_time:
  "fr_totalSales (financial_report d) = sm_totalSales (fst (sales_report None None d)) \<and>
   fr_returns (financial_report d) = sm_totalReturns (fst (sales_report None None d)) \<and>
   fr_netRevenue (financial_report d) = sm_netSales (fst (sales_report None None d))"
  by (simp add: financial_report_def sales_report_def in_report_window_def Let_def)

end
