(* ===== verification/Contracts.thy ===== *)
theory Contracts
  imports Reports Catalog
begin

text \<open>
  \<^verbatim>\<open>src/server/routes/contracts.js\<close>: the contracts CRUD, the supplier price comparison
  and the list of purchase orders due for payment.  The comparison reads
  \<open>purchase.items\<close> and the dues read \<open>paymentStatus\<close> and \<open>dueDate\<close> of an order; both
  are computed here for any reader of these fields, and the routes apply them to the
  orders as \<^verbatim>\<open>purchases.js\<close> stores them, which have none of the three fields (the lines
  go to \<open>purchaseItems\<close>).  Phone, e-mail, terms and notes are display text read by no
  route and are left out.
\<close>

section \<open>Contracts CRUD\<close>

definition list_contracts :: "db \<Rightarrow> contract list" where
  "list_contracts d = newest_by ct_createdAt (contracts d)"

definition get_contract :: "docid \<Rightarrow> db \<Rightarrow> error + contract" where
  "get_contract cid d =
     (case find (\<lambda>c. ct_id c = cid) (contracts d) of None \<Rightarrow> Inl NotFound | Some c \<Rightarrow> Inr c)"

text \<open>\<open>'CTR-' + Date.now().toString().slice(-8)\<close>\<close>

definition contract_number :: "time \<Rightarrow> string" where
  "contract_number t = ''CTR-'' @ slice_last 8 (dec_string t)"

record contract_req =
  cq_companyName :: "string option"
  cq_contactPerson :: "string option"
  cq_type :: "string option"
  cq_startDate :: "string option"
  cq_endDate :: "string option"
  cq_discountRate :: "money option"
  cq_linkedEmployees :: "docid list option"

text \<open>\<open>POST /\<close>: 400 without a company name, otherwise the defaults of \<open>x || d\<close>.\<close>

definition create_contract :: "contract_req \<Rightarrow> db \<Rightarrow> error + (contract \<times> db)" where
  "create_contract rq d =
     (if str_or (cq_companyName rq) [] = [] then Inl MissingField
      else (case fresh_id d of (cid, d1) \<Rightarrow>
        (let c = \<lparr>ct_id = cid, ct_contractNumber = contract_number (clock d),
                  ct_companyName = cq_companyName rq, ct_contactPerson = Some (str_or (cq_contactPerson rq) []),
                  ct_type = Some (str_or (cq_type rq) ''corporate''),
                  ct_startDate = cq_startDate rq, ct_endDate = cq_endDate rq,
                  ct_discountRate = js_num (cq_discountRate rq) 0,
                  ct_linkedEmployees = (case cq_linkedEmployees rq of None \<Rightarrow> [] | Some es \<Rightarrow> es),
                  ct_status = Some ''active'', ct_createdAt = clock d, ct_updatedAt = clock d\<rparr>
         in Inr (c, d1\<lparr>contracts := contracts d1 @ [c]\<rparr>))))"

text \<open>\<open>PUT /:id\<close>: \<open>$set\<close> of the body's own fields with a new \<open>updatedAt\<close>; a field the
  body carries is \<open>Some v\<close> (\<open>v = None\<close> for \<open>null\<close>), an absent one keeps its value.  No
  field is validated.\<close>

record contract_patch =
  cp_contractNumber :: "string option"
  cp_companyName :: "string option option"
  cp_contactPerson :: "string option option"
  cp_type :: "string option option"
  cp_startDate :: "string option option"
  cp_endDate :: "string option option"
  cp_discountRate :: "money option"
  cp_linkedEmployees :: "docid list option"
  cp_status :: "string option option"

definition patch_field :: "'a option \<Rightarrow> 'a \<Rightarrow> 'a" where
  "patch_field p x = (case p of None \<Rightarrow> x | Some y \<Rightarrow> y)"

definition patch_contract :: "contract_patch \<Rightarrow> time \<Rightarrow> contract \<Rightarrow> contract" where
  "patch_contract cp now c =
     c\<lparr>ct_contractNumber := patch_field (cp_contractNumber cp) (ct_contractNumber c),
       ct_companyName := patch_field (cp_companyName cp) (ct_companyName c),
       ct_contactPerson := patch_field (cp_contactPerson cp) (ct_contactPerson c),
       ct_type := patch_field (cp_type cp) (ct_type c),
       ct_startDate := patch_field (cp_startDate cp) (ct_startDate c),
       ct_endDate := patch_field (cp_endDate cp) (ct_endDate c),
       ct_discountRate := patch_field (cp_discountRate cp) (ct_discountRate c),
       ct_linkedEmployees := patch_field (cp_linkedEmployees cp) (ct_linkedEmployees c),
       ct_status := patch_field (cp_status cp) (ct_status c),
       ct_updatedAt := now\<rparr>"

definition update_contract :: "docid \<Rightarrow> contract_patch \<Rightarrow> db \<Rightarrow> contract option \<times> db" where
  "update_contract cid cp d =
     (let d1 = d\<lparr>contracts := update_first (\<lambda>c. ct_id c = cid) (patch_contract cp (clock d)) (contracts d)\<rparr>
      in (find (\<lambda>c. ct_id c = cid) (contracts d1), d1))"

definition delete_contract :: "docid \<Rightarrow> db \<Rightarrow> db" where
  "delete_contract cid d = d\<lparr>contracts := remove_first (\<lambda>c. ct_id c = cid) (contracts d)\<rparr>"

section \<open>Supplier price comparison\<close>

text \<open>A line of \<open>purchase.items\<close> as the comparison reads it: product id, \<open>cost\<close>, \<open>price\<close>.
  Per product (in order of first line) and per \<open>supplierId\<close> of the order, the prices
  \<open>item.cost || item.price\<close> in order.\<close>

definition add_price :: "docid option \<Rightarrow> (docid \<times> (docid option \<times> money list) list) list \<Rightarrow>
    docid \<times> money \<times> money \<Rightarrow> (docid \<times> (docid option \<times> money list) list) list" where
  "add_price sid cmp it =
     (let pr = js_or (fst (snd it)) (snd (snd it));
          upd = (\<lambda>sl. AList.map_default sid [pr] (\<lambda>ps. ps @ [pr]) sl)
      in AList.map_default (fst it) (upd []) upd cmp)"

definition compare_of :: "(purchase \<Rightarrow> (docid \<times> money \<times> money) list) \<Rightarrow> docid option \<Rightarrow> purchase list \<Rightarrow>
    (docid \<times> (docid option \<times> money list) list) list" where
  "compare_of items pid ps =
     foldl (\<lambda>cmp po. foldl (add_price (po_supplierId po)) cmp
                        (filter (\<lambda>it. case pid of None \<Rightarrow> True | Some q \<Rightarrow> fst it = q) (items po))) [] ps"

text \<open>The figures of one supplier: average, best price (\<open>Math.min\<close>) and count.\<close>

definition price_stats :: "money list \<Rightarrow> money \<times> money \<times> nat" where
  "price_stats ps = (sum_list ps / of_nat (length ps), fold min (tl ps) (hd ps), length ps)"

definition compare_suppliers_of :: "(purchase \<Rightarrow> (docid \<times> money \<times> money) list) \<Rightarrow> docid option \<Rightarrow> db \<Rightarrow>
    (docid \<times> (docid option \<times> money \<times> money \<times> nat) list) list" where
  "compare_suppliers_of items pid d =
     map (\<lambda>e. (fst e, map (\<lambda>sp. (fst sp, price_stats (snd sp))) (snd e))) (compare_of items pid (purchases d))"

text \<open>Stored orders have no \<open>items\<close> field: \<open>purchase.items || []\<close> is empty.\<close>

definition stored_items :: "purchase \<Rightarrow> (docid \<times> money \<times> money) list" where
  "stored_items po = []"

definition compare_suppliers :: "docid option \<Rightarrow> db \<Rightarrow> (docid \<times> (docid option \<times> money \<times> money \<times> nat) list) list" where
  "compare_suppliers pid d = compare_suppliers_of stored_items pid d"

section \<open>Payment dues\<close>

text \<open>\<open>GET /dues/pending\<close>: the orders whose \<open>paymentStatus\<close> is not \<open>'paid'\<close> (an absent
  field is not), each with \<open>isOverdue\<close> (a due date before now) and the whole days
  overdue, overdue ones first in a stable sort.\<close>

definition dues_of :: "(purchase \<Rightarrow> string option) \<Rightarrow> (purchase \<Rightarrow> time option) \<Rightarrow> time \<Rightarrow> purchase list \<Rightarrow>
    (purchase \<times> bool \<times> int) list" where
  "dues_of pst due now ps =
     sort_desc (\<lambda>r. if fst (snd r) then 1 else (0::nat))
       (map (\<lambda>po. case due po of
                     None \<Rightarrow> (po, False, 0)
                   | Some t \<Rightarrow> if t < now then (po, True, \<lceil>(of_nat (now - t) :: rat) / of_nat day_ms\<rceil>)
                               else (po, False, 0))
            (filter (\<lambda>po. pst po \<noteq> Some ''paid'') ps))"

text \<open>Stored orders have neither \<open>paymentStatus\<close> nor \<open>dueDate\<close>.\<close>

definition dues_pending :: "db \<Rightarrow> (purchase \<times> bool \<times> int) list" where
  "dues_pending d = dues_of (\<lambda>_. None) (\<lambda>_. None) (clock d) (purchases d)"

lemmas contracts_defs [pos_simps] =
  list_contracts_def get_contract_def contract_number_def create_contract_def patch_field_def
  patch_contract_def update_contract_def delete_contract_def add_price_def compare_of_def
  price_stats_def compare_suppliers_of_def stored_items_def compare_suppliers_def dues_of_def
  dues_pending_def

section \<open>Lemmas\<close>

text \<open>On the orders as they are stored the comparison is always empty and no order is
  ever overdue: the two routes read fields no route writes.\<close>

lemma compare_suppliers_empty: "compare_suppliers pid d = []"
proof -
  have "foldl (\<lambda>cmp po. foldl (add_price (po_supplierId po)) cmp []) cmp0 ps = cmp0" for cmp0 ps
    by (induction ps arbitrary: cmp0) simp_all
  then show ?thesis
    by (simp add: compare_suppliers_def compare_suppliers_of_def compare_of_def stored_items_def)
qed

lemma dues_pending_never_overdue: "dues_pending d = map (\<lambda>po. (po, False, 0)) (purchases d)"
proof -
  have "sorted (map (\<lambda>r. if fst (snd r) then 1 else (0::nat)) (rev (map (\<lambda>po. (po, False, 0::int)) ps)))" for ps
    by (simp add: rev_map comp_def map_replicate_const)
  from sort_key_id_if_sorted [OF this [of "purchases d"]] show ?thesis
    by (simp add: dues_pending_def dues_of_def sort_desc_def)
qed

text \<open>A product has a row of the comparison exactly when one of its priced lines was read.\<close>

lemma add_price_keys:
  "map_of (add_price sid cmp it) k = None \<longleftrightarrow> k \<noteq> fst it \<and> map_of cmp k = None"
  by (simp add: add_price_def Let_def map_of_map_default_None)

text \<open>The contract number repeats every \<open>10^8\<close> ms (about 27.8 hours).\<close>

lemma contract_number_period:
  "10 ^ 8 \<le> t \<Longrightarrow> contract_number (t + j * 10 ^ 8) = contract_number t"
proof -
  assume t: "10 ^ 8 \<le> t"
  have "(t + j * 10 ^ 8) mod 10 ^ 8 = t mod (10 ^ 8 :: nat)" by simp
  moreover have "10 ^ 8 \<le> t + j * 10 ^ 8" using t by simp
  ultimately show ?thesis using dec_string_last_digits [of 8 "t + j * 10 ^ 8" t] t
    by (simp add: contract_number_def)
qed

end
