(* ===== verification/Server.thy ===== *)
theory Server
  imports Checkout Access
begin

text \<open>
  The HTTP wiring of \<^verbatim>\<open>src/server/index.js\<close>: the route files mounted under their
  prefixes, and the middleware each route of a file declares.  Only \<^verbatim>\<open>auth.js\<close>,
  \<^verbatim>\<open>audit.js\<close> and \<^verbatim>\<open>backup.js\<close> import \<open>authenticate\<close> and \<open>checkPermission\<close>; every
  route of the other files is declared with its handler alone, and \<open>index.js\<close> mounts
  no middleware of its own but CORS and the body parsers.  The scheduled backup and the
  500 error handler are I/O and are not modelled.
\<close>

section \<open>Mounts and guards\<close>

datatype guard_spec = Open | AuthOnly | Perm string string

text \<open>\<open>app.use('/api/...', ...Routes)\<close>, each prefix with its route file.\<close>

definition api_mounts :: "(string \<times> string) list" where
  "api_mounts =
     [(''/api/auth'', ''auth''), (''/api/products'', ''products''), (''/api/categories'', ''categories''),
      (''/api/sales'', ''sales''), (''/api/customers'', ''customers''), (''/api/suppliers'', ''suppliers''),
      (''/api/purchases'', ''purchases''), (''/api/reports'', ''reports''), (''/api/settings'', ''settings''),
      (''/api/dashboard'', ''dashboard''), (''/api/shifts'', ''shifts''), (''/api/expenses'', ''expenses''),
      (''/api/audit'', ''audit''), (''/api/backup'', ''backup''), (''/api/warehouses'', ''warehouses''),
      (''/api/contracts'', ''contracts''), (''/api/hr'', ''hr''), (''/api/analytics'', ''analytics'')]"

text \<open>The routes declared with middleware: method, path and guard.\<close>

definition guarded_routes :: "string \<Rightarrow> (string \<times> string \<times> guard_spec) list" where
  "guarded_routes f =
     (if f = ''auth'' then
        [(''GET'', ''/users'', AuthOnly), (''GET'', ''/roles'', AuthOnly),
         (''POST'', ''/users'', Perm ''settings'' ''users''), (''PUT'', ''/users/:id'', Perm ''settings'' ''users''),
         (''DELETE'', ''/users/:id'', Perm ''settings'' ''users''),
         (''PUT'', ''/users/:id/permissions'', Perm ''settings'' ''users'')]
      else if f = ''audit'' then
        [(''GET'', ''/'', Perm ''audit'' ''view''), (''GET'', ''/stats'', Perm ''audit'' ''view''),
         (''DELETE'', ''/clear'', Perm ''audit'' ''export'')]
      else if f = ''backup'' then
        [(''POST'', ''/create'', Perm ''settings'' ''backup''), (''GET'', ''/list'', Perm ''settings'' ''backup''),
         (''POST'', ''/restore/:name'', Perm ''settings'' ''backup''), (''DELETE'', ''/:name'', Perm ''settings'' ''backup''),
         (''GET'', ''/export'', Perm ''settings'' ''backup''), (''POST'', ''/import'', Perm ''settings'' ''backup'')]
      else [])"

definition route_guard :: "string \<Rightarrow> string \<Rightarrow> string \<Rightarrow> guard_spec" where
  "route_guard f meth path =
     (case find (\<lambda>r. fst r = meth \<and> fst (snd r) = path) (guarded_routes f) of
        None \<Rightarrow> Open
      | Some r \<Rightarrow> snd (snd r))"

text \<open>The guard met by a request to a prefix, method and path (\<open>/api/health\<close> is open);
  \<open>None\<close> for a prefix nothing is mounted on.\<close>

definition endpoint_guard :: "string \<Rightarrow> string \<Rightarrow> string \<Rightarrow> guard_spec option" where
  "endpoint_guard prefix meth path =
     (if prefix = ''/api/health'' then Some Open
      else map_option (\<lambda>f. route_guard f meth path) (map_of api_mounts prefix))"

text \<open>Running the middleware chain: the user it attaches, if any, or its 401/403.\<close>

definition admit :: "guard_spec \<Rightarrow> docid option \<Rightarrow> auth_db \<Rightarrow> auth_error + req_user option" where
  "admit g tok adb =
     (case g of
        Open \<Rightarrow> Inr None
      | AuthOnly \<Rightarrow> (case authenticate tok adb of Inl e \<Rightarrow> Inl e | Inr u \<Rightarrow> Inr (Some u))
      | Perm m a \<Rightarrow> (case guard m a tok adb of Inl e \<Rightarrow> Inl e | Inr u \<Rightarrow> Inr (Some u)))"

text \<open>\<open>POST /api/sales\<close> as served: the middleware of the route, then \<open>create_sale\<close>.\<close>

definition serve_checkout :: "docid option \<Rightarrow> auth_db \<Rightarrow> checkout_req \<Rightarrow> db \<Rightarrow> auth_error + (sale \<times> db)" where
  "serve_checkout tok adb rq d =
     (case endpoint_guard ''/api/sales'' ''POST'' ''/'' of
        None \<Rightarrow> Inl ServerError
      | Some g \<Rightarrow> (case admit g tok adb of Inl e \<Rightarrow> Inl e | Inr _ \<Rightarrow> Inr (create_sale rq d)))"

lemmas server_defs [pos_simps] =
  api_mounts_def guarded_routes_def route_guard_def endpoint_guard_def admit_def serve_checkout_def

section \<open>Lemmas\<close>

text \<open>Only the auth, audit and backup mounts guard any route.\<close>

lemma guarded_prefixes:
  "endpoint_guard prefix meth path = Some g \<Longrightarrow> g \<noteq> Open \<Longrightarrow>
   prefix \<in> {''/api/auth'', ''/api/audit'', ''/api/backup''}"
  by (auto simp: endpoint_guard_def api_mounts_def route_guard_def guarded_routes_def split: if_splits)

lemma admit_open: "admit Open tok adb = Inr None"
  by (simp add: admit_def)

lemma backup_needs_permission:
  "path \<in> {''/create'', ''/list'', ''/export''} \<Longrightarrow>
   endpoint_guard ''/api/backup'' (if path = ''/list'' \<or> path = ''/export'' then ''GET'' else ''POST'') path =
     Some (Perm ''settings'' ''backup'')"
  by (auto simp: endpoint_guard_def api_mounts_def route_guard_def guarded_routes_def)

text \<open>
  The server does not authenticate checkout.  \<open>POST /api/sales\<close> is mounted without
  \<open>authenticate\<close> or \<open>checkPermission\<close>, so a request with any token or none, against
  any user table, runs \<open>create_sale\<close>: the \<open>pos.sell\<close> permission is enforced only by the
  POS page.  The same holds of every route outside the auth, audit and backup files.
\<close>

lemma unguarded_checkout:
  "serve_checkout tok adb rq d = Inr (create_sale rq d)"
  by (simp add: serve_checkout_def endpoint_guard_def api_mounts_def route_guard_def guarded_routes_def admit_open)

end
