(* ===== verification/Backup.thy ===== *)
theory Backup
  imports Catalog Customers
begin

text \<open>
  The JSON backup and restore of \<^verbatim>\<open>src/server/routes/settings.js\<close>
  (\<open>GET /backup\<close>, \<open>POST /restore\<close>).  The backup holds six collections: products,
  categories, customers, suppliers, sales and settings; restore empties each of them in
  that order and inserts the documents of the backup with their own \<open>_id\<close>.  NeDB refuses
  a second document with an \<open>_id\<close> already present (a unique-index violation): the insert
  throws, the handler answers 500, and what was removed and inserted before stays.  The
  result is the success flag and the store after the work done.  The file backups of
  \<^verbatim>\<open>backup.js\<close> copy the NeDB files and are not modelled.
\<close>

section \<open>Backup\<close>

record backup_data =
  bk_products :: "(docid \<times> product) list"
  bk_categories :: "category list"
  bk_customers :: "(docid \<times> customer) list"
  bk_suppliers :: "supplier list"
  bk_sales :: "sale list"
  bk_settings :: "settings list"

definition backup_of :: "db \<Rightarrow> backup_data" where
  "backup_of d =
     \<lparr>bk_products = product_docs d, bk_categories = categories d, bk_customers = customer_docs d,
      bk_suppliers = suppliers d, bk_sales = sales d,
      bk_settings = (case settings d of None \<Rightarrow> [] | Some s \<Rightarrow> [s])\<rparr>"

section \<open>Restore\<close>

text \<open>\<open>for (const item of data[key]) await db[key].insert(item)\<close> into an emptied
  collection: the documents in order, stopping at the first \<open>_id\<close> already inserted.\<close>

fun insert_all :: "('a \<Rightarrow> docid) \<Rightarrow> 'a list \<Rightarrow> 'a list \<Rightarrow> 'a list \<times> bool" where
  "insert_all key acc [] = (acc, True)"
| "insert_all key acc (x # xs) =
     (if list_ex (\<lambda>y. key y = key x) acc then (acc, False) else insert_all key (acc @ [x]) xs)"

text \<open>One collection of the loop, and the loop: a collection runs only when the ones before
  it succeeded.\<close>

definition restore_step :: "(db \<Rightarrow> bool \<times> db) \<Rightarrow> (db \<Rightarrow> bool \<times> db) \<Rightarrow> db \<Rightarrow> bool \<times> db" where
  "restore_step f g d = (case f d of (ok, d1) \<Rightarrow> if ok then g d1 else (False, d1))"

definition restore_products :: "backup_data \<Rightarrow> db \<Rightarrow> bool \<times> db" where
  "restore_products b d =
     (case insert_all fst [] (bk_products b) of
        (ps, ok) \<Rightarrow> (ok, d\<lparr>products := map_of ps, product_ids := map fst ps\<rparr>))"

definition restore_categories :: "backup_data \<Rightarrow> db \<Rightarrow> bool \<times> db" where
  "restore_categories b d =
     (case insert_all cat_id [] (bk_categories b) of (cs, ok) \<Rightarrow> (ok, d\<lparr>categories := cs\<rparr>))"

definition restore_customers :: "backup_data \<Rightarrow> db \<Rightarrow> bool \<times> db" where
  "restore_customers b d =
     (case insert_all fst [] (bk_customers b) of
        (cs, ok) \<Rightarrow> (ok, d\<lparr>customers := map_of cs, customer_ids := map fst cs\<rparr>))"

definition restore_suppliers :: "backup_data \<Rightarrow> db \<Rightarrow> bool \<times> db" where
  "restore_suppliers b d =
     (case insert_all sup_id [] (bk_suppliers b) of (ss, ok) \<Rightarrow> (ok, d\<lparr>suppliers := ss\<rparr>))"

definition restore_sales :: "backup_data \<Rightarrow> db \<Rightarrow> bool \<times> db" where
  "restore_sales b d =
     (case insert_all s_id [] (bk_sales b) of (ss, ok) \<Rightarrow> (ok, d\<lparr>sales := ss\<rparr>))"

text \<open>The model keeps one settings document; the first one restored is the one
  \<open>findOne({key: 'store'})\<close> reads.\<close>

definition restore_settings :: "backup_data \<Rightarrow> db \<Rightarrow> bool \<times> db" where
  "restore_settings b d =
     (True, d\<lparr>settings := (case bk_settings b of [] \<Rightarrow> None | s # _ \<Rightarrow> Some s)\<rparr>)"

text \<open>\<open>POST /restore\<close>: 400 without \<open>data\<close>.\<close>

definition restore :: "backup_data option \<Rightarrow> db \<Rightarrow> error + (bool \<times> db)" where
  "restore data d =
     (case data of
        None \<Rightarrow> Inl MissingField
      | Some b \<Rightarrow> Inr (restore_step (restore_products b)
                      (restore_step (restore_categories b)
                        (restore_step (restore_customers b)
                          (restore_step (restore_suppliers b)
                            (restore_step (restore_sales b) (restore_settings b))))) d))"


lemmas backup_defs [pos_simps] =
  backup_of_def restore_step_def restore_products_def restore_categories_def restore_customers_def
  restore_suppliers_def restore_sales_def restore_settings_def restore_def

section \<open>Lemmas\<close>

lemma list_ex_key: "list_ex (\<lambda>y. key y = k) acc \<longleftrightarrow> k \<in> set (map key acc)"
  by (induction acc) auto

lemma insert_all_distinct:
  "distinct (map key (acc @ xs)) \<Longrightarrow> insert_all key acc xs = (acc @ xs, True)"
proof (induction xs arbitrary: acc)
  case Nil
  then show ?case by simp
next
  case (Cons x xs)
  then have "\<not> list_ex (\<lambda>y. key y = key x) acc" by (simp add: list_ex_key)
  with Cons.IH [of "acc @ [x]"] Cons.prems show ?case by simp
qed

lemma insert_all_ok_iff:
  "distinct (map key acc) \<Longrightarrow> snd (insert_all key acc xs) \<longleftrightarrow> distinct (map key (acc @ xs))"
proof (induction xs arbitrary: acc)
  case Nil
  then show ?case by simp
next
  case (Cons x xs)
  show ?case
  proof (cases "key x \<in> set (map key acc)")
    case True
    then show ?thesis by (simp add: list_ex_key)
  next
    case False
    with Cons.prems have "distinct (map key (acc @ [x]))" by simp
    from Cons.IH [OF this] False show ?thesis by (simp add: list_ex_key)
  qed
qed

lemma insert_all_append_fail:
  "distinct (map key (acc @ xs)) \<Longrightarrow> key x \<in> set (map key (acc @ xs)) \<Longrightarrow>
   insert_all key acc (xs @ x # ys) = (acc @ xs, False)"
proof (induction xs arbitrary: acc)
  case Nil
  then show ?case by (simp add: list_ex_key)
next
  case (Cons y xs)
  then have "\<not> list_ex (\<lambda>z. key z = key y) acc" by (simp add: list_ex_key)
  with Cons.IH [of "acc @ [y]"] Cons.prems show ?case by simp
qed




lemma restore_step_ok: "f d = (True, d1) \<Longrightarrow> restore_step f g d = g d1"
  by (simp add: restore_step_def)



text \<open>A backup whose sales repeat an id stops the restore at the sales: the 500 answer
  comes after products, categories, customers and suppliers were replaced and the sales
  were emptied down to the ones before the repeat.\<close>

lemma restore_partial:
  assumes "bk_sales b = ss1 @ [s] @ ss2" "distinct (map s_id ss1)" "s_id s \<in> set (map s_id ss1)"
    "distinct (map fst (bk_products b))" "distinct (map cat_id (bk_categories b))"
    "distinct (map fst (bk_customers b))" "distinct (map sup_id (bk_suppliers b))"
  shows "\<exists>d''. restore (Some b) d = Inr (False, d'') \<and> sales d'' = ss1 \<and>
           categories d'' = bk_categories b \<and> settings d'' = settings d"
proof -
  have "insert_all s_id [] (ss1 @ s # ss2) = (ss1, False)"
    using assms(2,3) by (simp add: insert_all_distinct [of s_id "[]" ss1, simplified] insert_all_append_fail)
  then show ?thesis using assms
    by (simp add: restore_def restore_step_def restore_products_def restore_categories_def
        restore_customers_def restore_suppliers_def restore_sales_def insert_all_distinct)
qed

end
