(* ===== verification/StoreInit.thy ===== *)
theory StoreInit
  imports Store
begin

text \<open>
  The store part of \<open>initializeDatabase\<close> (\<^verbatim>\<open>src/server/database/index.js\<close>; its users
  part is \<open>Users.init_users\<close>): at every start it inserts the default \<open>{key: 'store'}\<close>
  settings when there are none, the five default categories when there is no category,
  and a default warehouse when there is no warehouse.  The Arabic display texts of these
  documents are a parameter.  The \<open>{key: 'payments'}\<close> document (the list of payment
  methods, read by no route) is left out.
\<close>

record seed_texts =
  sd_storeName :: string
  sd_currency :: string
  sd_receiptFooter :: string
  sd_categories :: "string list"
  sd_warehouse :: string

definition default_settings :: "seed_texts \<Rightarrow> time \<Rightarrow> settings" where
  "default_settings tx now =
     \<lparr>enableLoyalty = True, loyaltyPointsPerUnit = 1, loyaltyPointValue = 1 / 10,
      returnPeriodDays = 14, lowStockAlert = 5, expiryAlertDays = 30,
      storeName = Some (sd_storeName tx), taxRate = 15, currency = Some (sd_currency tx),
      receiptFooter = Some (sd_receiptFooter tx), st_updatedAt = None\<rparr>"

text \<open>\<open>for (const cat of defaultCategories) await db.categories.insert({...cat, createdAt})\<close>,
  with \<open>order\<close> 1 to 5.\<close>

definition insert_category :: "db \<Rightarrow> nat \<times> string \<Rightarrow> db" where
  "insert_category d oc =
     (case fresh_id d of (cid, d1) \<Rightarrow>
        d1\<lparr>categories := categories d1 @ [\<lparr>cat_id = cid, cat_name = Some (snd oc),
                                           cat_order = Some (int (fst oc)), cat_createdAt = clock d,
                                           cat_updatedAt = None\<rparr>]\<rparr>)"

definition init_store :: "seed_texts \<Rightarrow> db \<Rightarrow> db" where
  "init_store tx d =
     (let d1 = (case settings d of None \<Rightarrow> d\<lparr>settings := Some (default_settings tx (clock d))\<rparr> | Some _ \<Rightarrow> d);
          d2 = (if categories d1 = [] then foldl insert_category d1 (enumerate 1 (sd_categories tx)) else d1)
      in if warehouses d2 = [] then
           (case fresh_id d2 of (wid, d3) \<Rightarrow>
              d3\<lparr>warehouses := [\<lparr>w_id = wid, w_name = Some (sd_warehouse tx), w_address = None,
                                  w_phone = None, w_type = None, w_isDefault = Some True,
                                  w_isActive = Some True, w_createdAt = clock d, w_updatedAt = None\<rparr>]\<rparr>)
         else d2)"

lemmas store_init_defs [pos_simps] = default_settings_def insert_category_def init_store_def

section \<open>Lemmas\<close>






end
