(* ===== verification/Spec2Isabelle.thy ===== *)
theory Spec2Isabelle
  imports Checkout Returns Ledger Loyalty Shifts AuditLog Products ClientPOS SalesQueries Customers Purchases Warehouses HR Expenses Catalog Analytics Reports Contracts Server Backup StoreInit
begin

text \<open>
  \<^bold>\<open>A verification model of the point-of-sale system.\<close>

  The repository is a retail POS: an Express server (\<^verbatim>\<open>src/server\<close>) with one route
  file per entity over NeDB collections (\<^verbatim>\<open>src/server/database/index.js\<close>), behind the
  \<open>authenticate\<close>/\<open>checkPermission\<close> middleware (\<^verbatim>\<open>src/server/middleware.js\<close>), and a
  React client (\<^verbatim>\<open>src/src\<close>) whose POS page computes the totals and the payments and
  sends them to the server, which trusts them.  The parts interact only through the
  store: every route reads and writes collections, and the POS page reaches the server
  through the request bodies it builds.

  \<^bold>\<open>Library layout\<close> (each theory opens with what it holds).
  \<^item> \<open>Prelude\<close>: the number types (money as \<open>rat\<close>, stock and points as \<open>int\<close>, ids and
    millisecond times as \<open>nat\<close>), JavaScript idioms (\<open>x || d\<close> as \<open>js_or\<close>/\<open>js_num\<close>/\<open>str_or\<close>,
    \<open>Array.slice\<close>, \<open>String(n)\<close>, \<open>padStart\<close>, the stable newest-first sort), NeDB's update
    and removal of the first match, and shared list and digit lemmas.
  \<^item> \<open>Store\<close>: one record per document shape and the store \<open>db\<close>, a record of collections
    (maps where a collection is read by \<open>_id\<close> only, lists where order matters), fresh
    ids, the quantity setters and the stock invariant \<open>stock_nonneg\<close>.  \<open>StoreInit\<close>
    (C28): the defaults \<open>initializeDatabase\<close> inserts at every start, and that a second
    start changes nothing.  \<open>Examples\<close>: a small store the witnesses run on.
  \<^item> \<open>Pricing\<close>: the POS totals and the server's payment reconciliation.
  \<^item> \<open>Stock\<close> (C8--C10): the checkout stock loop with bundle expansion, \<open>PATCH
    /products/:id/stock\<close> and the supplier return.
  \<^item> \<open>Checkout\<close> (C1--C6): \<open>create_sale\<close>, the whole \<open>POST /sales\<close> handler.
  \<^item> \<open>Returns\<close> (C11--C15): \<open>POST /sales/:id/return\<close>.
  \<^item> \<open>Ledger\<close> (C16--C19): \<open>POST /customers/:id/payment\<close>; its FIFO loop is refined to an
    abstract allocation.  \<open>Loyalty\<close> (C20--C21): point redemption.
  \<^item> \<open>Shifts\<close> (C22--C24): \<^verbatim>\<open>shifts.js\<close>.  \<open>start_shift\<close> is the \<open>findOne\<close> check
    followed by \<open>start_insert\<close>.  Two step relations: \<open>shift_step\<close> serves one request at
    a time, and under it a user never has two active shifts and is never locked out of
    opening one; \<open>shift_conc_step\<close> splits \<open>POST /start\<close> at its awaits, keeping the
    starts that passed their check and have not inserted yet, and under it two starts of
    one user do end with two active shifts (C22).  Every serial run is an interleaved run
    (\<open>shift_step_conc\<close>).
  \<^item> \<open>Access\<close> (C25), \<open>Users\<close> (C27), \<open>AuditLog\<close> (C29): the role table, the
    middleware, \<^verbatim>\<open>auth.js\<close>, the users part of \<open>initializeDatabase\<close> and \<^verbatim>\<open>audit.js\<close>, over
    their own state \<open>auth_db\<close>.
  \<^item> \<open>Server\<close>: the mounts of \<^verbatim>\<open>src/server/index.js\<close> and the middleware each route
    declares; checkout served through them needs no token (\<open>unguarded_checkout\<close>).
  \<^item> \<open>Products\<close> (C7, C30--C31): every route of \<^verbatim>\<open>products.js\<close> but the stock route,
    and, under the step relation \<open>catalog_step\<close> of the catalogue routes, the
    well-formedness of the product and variant tables (\<open>catalog_ok\<close>) and the
    referential integrity of variants and bundle rows (\<open>catalog_refs\<close>), which every
    route keeps but an update of an absent product.
  \<^item> \<open>Analytics\<close>: \<^verbatim>\<open>dashboard.js\<close> and \<^verbatim>\<open>analytics.js\<close>; the countdown loop of the
    weekly chart (\<open>for (let i = 6; i >= 0; i--)\<close>) is a \<open>function\<close> of its counter with a
    termination proof (measure \<open>i + 1\<close>), which \<open>weekly_chart\<close> starts at 6.
  \<^item> \<open>JsValue\<close> and \<open>ClientPOS\<close> (C32, C34--C36): JavaScript values (number or typed string,
    \<open>+\<close>, \<open>Number\<close>, \<open>parseFloat\<close>) and the POS page (\<^verbatim>\<open>src/src/pages/POS/index.jsx\<close>) as
    functions on its React state, the inductive step relation \<open>pos_step\<close> of its
    handlers, and the request \<open>handleCheckout\<close> sends to \<open>create_sale\<close>.
  \<^item> \<open>SalesQueries\<close> (C37--C38): the other routes of \<^verbatim>\<open>sales.js\<close> (listing, held carts,
    drawer and daily summaries).  \<open>Customers\<close> (C39): the rest of \<^verbatim>\<open>customers.js\<close>,
    with the account statement.  \<open>Purchases\<close> (C40): \<^verbatim>\<open>purchases.js\<close>.
  \<^item> \<open>Backup\<close> (C26): the JSON backup and restore of \<^verbatim>\<open>settings.js\<close>; a backup
    restores exactly its six collections, and a duplicate id leaves a half-done restore.
    \<open>Reports\<close> (C33): \<^verbatim>\<open>reports.js\<close>; the payment breakdown accounts each payment and
    each unpaid remainder once, per-day and per-cashier sums add up to the totals, a slow
    mover has no sale in the window, the financial report ignores its dates.
  \<^item> \<open>Warehouses\<close>, \<open>HR\<close>, \<open>Expenses\<close>, \<open>Catalog\<close> (categories, suppliers, settings) and
    \<open>Contracts\<close>: the remaining route files, with lemmas but no claims of their own: a
    transfer moves no stock, commission needs an employee id on a sale, per-category sums
    add up to the totals, and the supplier comparison and payment dues read fields no
    route writes.

  \<^bold>\<open>What the claims show.\<close>  Functional behaviour of each handler on every branch
  (404/400 answers are \<open>Inl\<close> values that write nothing), invariants of the store
  (non-negative stock under checkout and the stock route, well-formed credits, a
  well-formed POS cart, well-formed and referentially intact catalogue tables) proved
  by rule induction over the step relations or per step, one liveness property (a
  user can always open a shift), one refinement (FIFO payment against the abstract
  allocation), round trips (invoice numbers, pagination, barcode lookup, backup and
  restore), idempotent seeding, a wrap-around bound (hold numbers), and the
  cross-component defects the findings list: two interleaved shift starts give a user
  two active shifts, a credit quick-pay posts no receivable,
  typed amounts are concatenated by the server, a refunded sale can be returned again,
  the drawer summary double-counts refunds, a customer statement drifts from the
  outstanding balance, and receiving marks an order received without goods.

  \<^bold>\<open>Modelling choices.\<close>  A handler is a function from the request and the store to the
  answer and the new store.  Store failures (500) are not modelled.  JavaScript numbers
  are exact rationals, so money claims hold of the intended arithmetic, not of IEEE
  doubles; \<open>toFixed\<close> is rounding to decimals.  A field a request leaves out is \<open>None\<close>
  where the code stores \<open>undefined\<close> (so \<open>$set\<close> of an omitted field erases it).  Dates in
  queries are the millisecond bounds they denote; locale collation (\<open>localeCompare(..,
  'ar')\<close>) is a sort-key parameter.  Requests are served one at a time except in
  \<open>shift_conc_step\<close>, where the await between the check and the insert of a shift start
  is a point where other requests run.  Every loop is a fold over a finite list except
  the weekly-chart countdown, a \<open>function\<close> on an integer counter with a termination
  proof; the only
  bound is \<open>frac_digits 20\<close> in \<open>String(x)\<close> of a number, enough for the terminating
  decimals of prices.  Display text (Arabic names, notes, icons) is left out.

  \<^bold>\<open>Not modelled.\<close>  The file backups (\<^verbatim>\<open>backup.js\<close> and the hourly auto-backup of
  \<^verbatim>\<open>index.js\<close>): they copy whole collections to and from JSON files on disk, which is
  file I/O with no logic beyond the copy.  The seed data of \<^verbatim>\<open>seed.js\<close> (constant sample documents), the Electron shell,
  CORS and body parsing, the test script, and the client pages other than the POS page
  (rendering; they call the routes modelled here).  JWT signing and bcrypt hashing are
  library calls: a token is the user id it decodes to and hashing is a parameter.
\<close>

end
